(* ===== verification/Watchdog_Prelude.thy ===== *)
theory Watchdog_Prelude
  imports Main "HOL-Library.Word" "HOL-Library.Char_ord" "HOL-Library.List_Lexorder"
    "HOL-Library.Product_Lexorder"
begin

text \<open>
  The vocabulary every component shares: the error type of \<^verbatim>\<open>error.rs\<close> and the
  \<^verbatim>\<open>Result\<close> combinators that stand for Rust's \<^verbatim>\<open>?\<close> operator, machine integers and
  their checked conversions, text as bytes, JSON values, the third-party functions the
  watchdog calls (one record of parameters), and the SQL operations on a table, which is
  the list of its rows in rowid order.
\<close>

section \<open>Integers and text\<close>

type_synonym u16 = "16 word"
type_synonym u32 = "32 word"
type_synonym u64 = "64 word"

text \<open>An SQLite INTEGER column or a Rust \<^verbatim>\<open>i64\<close>; the conversions below write the range out.\<close>

type_synonym i64 = int

definition i64_max :: int where
  "i64_max = 9223372036854775807"

definition i64_min :: int where
  "i64_min = - 9223372036854775808"

text \<open>Rust's saturating and checked arithmetic on unsigned words.\<close>

definition saturating_add :: "'a::len word \<Rightarrow> 'a word \<Rightarrow> 'a word" where
  "saturating_add a b = (if unat a + unat b < 2 ^ LENGTH('a) then a + b else - 1)"

definition saturating_sub :: "'a::len word \<Rightarrow> 'a word \<Rightarrow> 'a word" where
  "saturating_sub a b = (if b \<le> a then a - b else 0)"

definition saturating_mul :: "'a::len word \<Rightarrow> 'a word \<Rightarrow> 'a word" where
  "saturating_mul a b = (if unat a * unat b < 2 ^ LENGTH('a) then a * b else - 1)"

definition checked_add :: "'a::len word \<Rightarrow> 'a word \<Rightarrow> 'a word option" where
  "checked_add a b = (if unat a + unat b < 2 ^ LENGTH('a) then Some (a + b) else None)"

text \<open>\<^verbatim>\<open>u32::try_from(len).unwrap_or(u32::MAX)\<close>\<close>

definition u32_of_len :: "nat \<Rightarrow> u32" where
  "u32_of_len n = (if n < 2 ^ 32 then of_nat n else - 1)"

text \<open>
  Text is a list of bytes (UTF-8), so \<^const>\<open>length\<close> is \<^verbatim>\<open>str::len\<close>. A Unicode control
  character (class Cc) is U+0000 to U+001F, U+007F or U+0080 to U+009F; the last block is
  encoded as the byte C2 followed by 80 to 9F.
\<close>

definition byte :: "char \<Rightarrow> nat" where
  "byte c = of_char c"

fun has_control :: "string \<Rightarrow> bool" where
  "has_control [] = False"
| "has_control (c # cs) =
     (byte c < 32 \<or> byte c = 127
      \<or> (byte c = 194 \<and> (case cs of [] \<Rightarrow> False | d # _ \<Rightarrow> 128 \<le> byte d \<and> byte d \<le> 159))
      \<or> has_control cs)"

definition nul :: char where
  "nul = char_of (0 :: nat)"

definition contains_nul :: "string \<Rightarrow> bool" where
  "contains_nul s = (nul \<in> set s)"

text \<open>SQLite's \<^verbatim>\<open>substr(x, 1, n)\<close> on text: the first \<open>n\<close> characters, continuation bytes included.\<close>

definition is_continuation :: "char \<Rightarrow> bool" where
  "is_continuation c = (128 \<le> byte c \<and> byte c < 192)"

fun substr_chars :: "nat \<Rightarrow> string \<Rightarrow> string" where
  "substr_chars n [] = []"
| "substr_chars n (c # cs) =
     (if is_continuation c then c # substr_chars n cs
      else if n = 0 then [] else c # substr_chars (n - 1) cs)"

definition is_digit :: "char \<Rightarrow> bool" where
  "is_digit c = (48 \<le> byte c \<and> byte c \<le> 57)"

text \<open>\<^verbatim>\<open>u8::is_ascii_alphanumeric\<close>.\<close>

definition is_alphanumeric :: "char \<Rightarrow> bool" where
  "is_alphanumeric c \<longleftrightarrow> is_digit c \<or> (65 \<le> byte c \<and> byte c \<le> 90) \<or> (97 \<le> byte c \<and> byte c \<le> 122)"

definition digit_char :: "nat \<Rightarrow> char" where
  "digit_char d = char_of (48 + d)"

definition digit_value :: "char \<Rightarrow> nat" where
  "digit_value c = byte c - 48"

text \<open>Decimal rendering of \<^verbatim>\<open>to_string\<close> and \<^verbatim>\<open>format!\<close>, and \<^verbatim>\<open>str::parse\<close> for the integer types.\<close>

fun show_nat :: "nat \<Rightarrow> string" where
  "show_nat n = (if n < 10 then [digit_char n] else show_nat (n div 10) @ [digit_char (n mod 10)])"

definition show_u64 :: "u64 \<Rightarrow> string" where
  "show_u64 w = show_nat (unat w)"

definition show_u32 :: "u32 \<Rightarrow> string" where
  "show_u32 w = show_nat (unat w)"

definition show_int :: "int \<Rightarrow> string" where
  "show_int i = (if i < 0 then CHR ''-'' # show_nat (nat (- i)) else show_nat (nat i))"

fun digits_value :: "nat \<Rightarrow> string \<Rightarrow> nat" where
  "digits_value acc [] = acc"
| "digits_value acc (c # cs) = digits_value (10 * acc + digit_value c) cs"

definition parse_digits :: "string \<Rightarrow> nat option" where
  "parse_digits s = (if s \<noteq> [] \<and> list_all is_digit s then Some (digits_value 0 s) else None)"

definition parse_i64 :: "string \<Rightarrow> i64 option" where
  "parse_i64 s =
     (case s of
        [] \<Rightarrow> None
      | c # cs \<Rightarrow>
          (case (if c = CHR ''-'' then map_option (\<lambda>n. - int n) (parse_digits cs)
                 else if c = CHR ''+'' then map_option int (parse_digits cs)
                 else map_option int (parse_digits s)) of
             None \<Rightarrow> None
           | Some i \<Rightarrow> if i64_min \<le> i \<and> i \<le> i64_max then Some i else None))"

definition parse_u64 :: "string \<Rightarrow> u64 option" where
  "parse_u64 s =
     (case s of
        [] \<Rightarrow> None
      | c # cs \<Rightarrow>
          (case parse_digits (if c = CHR ''+'' then cs else s) of
             None \<Rightarrow> None
           | Some n \<Rightarrow> if n < 2 ^ 64 then Some (of_nat n) else None))"

definition hex_digit :: "nat \<Rightarrow> char" where
  "hex_digit d = (if d < 10 then char_of (48 + d) else char_of (87 + d))"

text \<open>\<^verbatim>\<open>format!("{byte:02x}")\<close>\<close>

definition hex_byte :: "char \<Rightarrow> string" where
  "hex_byte c = [hex_digit (byte c div 16), hex_digit (byte c mod 16)]"


section \<open>Errors and results\<close>

datatype sqlite_error =
    FromSqlConversionFailure string
  | IntegralValueOutOfRange nat int
  | ConstraintViolation string
  | QueryReturnedNoRows
  | InvalidColumnType nat

datatype watchdog_error =
    MissingState string
  | Busy string
  | InvalidInput string
  | NotFound string
  | Conflict string
  | Unauthorized string
  | IdentityMismatch string
  | Timeout string
  | Unsupported string
  | Sqlite sqlite_error
  | Io string
  | Json string
  | VerificationFailed string

type_synonym 'a result = "watchdog_error + 'a"
type_synonym 'a sqlite_result = "sqlite_error + 'a"

text \<open>\<^verbatim>\<open>m?\<close> followed by the rest of the function.\<close>

definition bindE :: "('e + 'a) \<Rightarrow> ('a \<Rightarrow> 'e + 'b) \<Rightarrow> 'e + 'b" where
  "bindE m f = (case m of Inl e \<Rightarrow> Inl e | Inr x \<Rightarrow> f x)"

text \<open>\<^verbatim>\<open>if !cond { return Err(e) }\<close>\<close>

definition ensure :: "bool \<Rightarrow> 'e \<Rightarrow> 'e + unit" where
  "ensure b e = (if b then Inr () else Inl e)"

definition map_err :: "('e \<Rightarrow> 'f) \<Rightarrow> 'e + 'a \<Rightarrow> 'f + 'a" where
  "map_err g m = (case m of Inl e \<Rightarrow> Inl (g e) | Inr x \<Rightarrow> Inr x)"

definition ok_or :: "'e \<Rightarrow> 'a option \<Rightarrow> 'e + 'a" where
  "ok_or e x = (case x of None \<Rightarrow> Inl e | Some y \<Rightarrow> Inr y)"

text \<open>\<^verbatim>\<open>Option::map(f).transpose()\<close> and \<^verbatim>\<open>collect::<Result<Vec<_>>>()\<close>.\<close>

definition transposeE :: "('a \<Rightarrow> 'e + 'b) \<Rightarrow> 'a option \<Rightarrow> 'e + 'b option" where
  "transposeE f x = (case x of None \<Rightarrow> Inr None | Some y \<Rightarrow> bindE (f y) (\<lambda>z. Inr (Some z)))"

fun mapE :: "('a \<Rightarrow> 'e + 'b) \<Rightarrow> 'a list \<Rightarrow> 'e + 'b list" where
  "mapE f [] = Inr []"
| "mapE f (x # xs) = bindE (f x) (\<lambda>y. bindE (mapE f xs) (\<lambda>ys. Inr (y # ys)))"

text \<open>\<^verbatim>\<open>for x in xs { f(x)?; }\<close>\<close>

fun forE :: "'a list \<Rightarrow> ('a \<Rightarrow> 'e + unit) \<Rightarrow> 'e + unit" where
  "forE [] f = Inr ()"
| "forE (x # xs) f = bindE (f x) (\<lambda>_. forE xs f)"

definition is_ok :: "'e + 'a \<Rightarrow> bool" where
  "is_ok m = (case m of Inl _ \<Rightarrow> False | Inr _ \<Rightarrow> True)"


section \<open>JSON values, identifiers and the third-party functions\<close>

text \<open>
  \<^verbatim>\<open>serde_json::Value\<close>: an object is its key/value list, a non-integer number is kept by
  its text.
\<close>

datatype json =
    JNull
  | JBool bool
  | JNumber int
  | JFloat string
  | JString string
  | JArray "json list"
  | JObject "(string \<times> json) list"

fun json_get :: "json \<Rightarrow> string \<Rightarrow> json option" where
  "json_get (JObject kvs) k = map_of kvs k"
| "json_get _ k = None"

fun json_as_object :: "json \<Rightarrow> (string \<times> json) list option" where
  "json_as_object (JObject kvs) = Some kvs"
| "json_as_object _ = None"

fun json_as_str :: "json \<Rightarrow> string option" where
  "json_as_str (JString s) = Some s"
| "json_as_str _ = None"

text \<open>\<^verbatim>\<open>Map::insert\<close>: replace the entry of the key or add one.\<close>

fun json_insert :: "string \<Rightarrow> json \<Rightarrow> (string \<times> json) list \<Rightarrow> (string \<times> json) list" where
  "json_insert k v [] = [(k, v)]"
| "json_insert k v ((k', v') # kvs) = (if k' = k then (k, v) # kvs else (k', v') # json_insert k v kvs)"

fun json_as_bool :: "json \<Rightarrow> bool option" where
  "json_as_bool (JBool b) = Some b"
| "json_as_bool _ = None"

text \<open>What the code reads of a parsed \<^verbatim>\<open>uuid::Uuid\<close>.\<close>

datatype uuid_variant = RFC4122 | OtherVariant

record uuid =
  uuid_version_num :: nat
  uuid_variant_of :: uuid_variant
  uuid_to_string :: string

text \<open>
  The functions of third-party crates the modelled code calls: \<^verbatim>\<open>sha2\<close>, \<^verbatim>\<open>serde_json\<close>,
  \<^verbatim>\<open>uuid\<close> and the rendering of a \<^verbatim>\<open>rusqlite\<close> error. They are parameters: every definition that
  uses one takes the record as its argument.
\<close>

record externals =
  sha256 :: "string \<Rightarrow> string"
  json_to_string :: "json \<Rightarrow> string"
  json_from_str :: "string \<Rightarrow> string + json"
  uuid_parse_str :: "string \<Rightarrow> string + uuid"
  sqlite_display :: "sqlite_error \<Rightarrow> string"

definition hex_digest :: "externals \<Rightarrow> string \<Rightarrow> string" where
  "hex_digest E bytes = concat (map hex_byte (sha256 E bytes))"

definition display_error :: "externals \<Rightarrow> watchdog_error \<Rightarrow> string" where
  "display_error E err =
     (case err of
        MissingState path \<Rightarrow> ''watchdog state is not initialized: '' @ path
      | Busy path \<Rightarrow> ''watchdog store is already owned: '' @ path
      | InvalidInput message \<Rightarrow> ''invalid input: '' @ message
      | NotFound name \<Rightarrow> ''not found: '' @ name
      | Conflict message \<Rightarrow> ''conflict: '' @ message
      | Unauthorized message \<Rightarrow> ''unauthorized: '' @ message
      | IdentityMismatch message \<Rightarrow> ''process identity mismatch: '' @ message
      | Timeout message \<Rightarrow> ''timed out: '' @ message
      | Unsupported message \<Rightarrow> ''unsupported: '' @ message
      | Sqlite error \<Rightarrow> ''sqlite error: '' @ sqlite_display E error
      | Io error \<Rightarrow> ''io error: '' @ error
      | Json error \<Rightarrow> ''json error: '' @ error
      | VerificationFailed report \<Rightarrow> report)"

definition is_missing_state :: "watchdog_error \<Rightarrow> bool" where
  "is_missing_state err = (case err of MissingState _ \<Rightarrow> True | _ \<Rightarrow> False)"

definition validate_digest :: "string \<Rightarrow> string + unit" where
  "validate_digest value =
     ensure (length value = 64
             \<and> list_all (\<lambda>c. is_digit c \<or> (97 \<le> byte c \<and> byte c \<le> 102)) value)
       ''digest must be 64 lowercase hexadecimal characters''"


section \<open>Tables\<close>

text \<open>
  \<^verbatim>\<open>SELECT ... WHERE p\<close> with \<^verbatim>\<open>optional()\<close> is \<^const>\<open>List.find\<close>; \<^verbatim>\<open>UPDATE ... SET f WHERE p\<close>
  rewrites the matching rows and reports how many there were.
\<close>

definition update_where :: "('r \<Rightarrow> bool) \<Rightarrow> ('r \<Rightarrow> 'r) \<Rightarrow> 'r list \<Rightarrow> 'r list" where
  "update_where p f t = map (\<lambda>r. if p r then f r else r) t"

definition matching :: "('r \<Rightarrow> bool) \<Rightarrow> 'r list \<Rightarrow> nat" where
  "matching p t = length (filter p t)"

text \<open>\<^verbatim>\<open>SELECT ... WHERE p ORDER BY k LIMIT n\<close>\<close>

definition select_ordered :: "('r \<Rightarrow> bool) \<Rightarrow> ('r \<Rightarrow> 'k::linorder) \<Rightarrow> 'r list \<Rightarrow> 'r list" where
  "select_ordered p k t = sort_key k (filter p t)"

definition select_first :: "('r \<Rightarrow> bool) \<Rightarrow> ('r \<Rightarrow> 'k::linorder) \<Rightarrow> 'r list \<Rightarrow> 'r option" where
  "select_first p k t = (case select_ordered p k t of [] \<Rightarrow> None | r # _ \<Rightarrow> Some r)"

text \<open>\<^verbatim>\<open>... ORDER BY k DESC LIMIT 1\<close>\<close>

definition select_last :: "('r \<Rightarrow> bool) \<Rightarrow> ('r \<Rightarrow> 'k::linorder) \<Rightarrow> 'r list \<Rightarrow> 'r option" where
  "select_last p k t = (case rev (select_ordered p k t) of [] \<Rightarrow> None | r # _ \<Rightarrow> Some r)"

text \<open>\<^verbatim>\<open>INSERT\<close> into a table with uniqueness constraint \<open>clash\<close> against a stored row.\<close>

definition insert_row :: "('r \<Rightarrow> 'r \<Rightarrow> bool) \<Rightarrow> string \<Rightarrow> 'r \<Rightarrow> 'r list \<Rightarrow> 'r list result" where
  "insert_row clash what r t =
     bindE (ensure (\<not> list_ex (clash r) t) (Sqlite (ConstraintViolation what))) (\<lambda>_. Inr (t @ [r]))"


section \<open>Library lemmas\<close>

text \<open>
  \<open>result_simps\<close> turns a chain of \<^const>\<open>bindE\<close> that succeeded into the conjunction of what
  every step checked; \<open>result_defs\<close> evaluates such a chain.
\<close>

named_theorems result_simps "inversion of successful result chains"
named_theorems result_defs "definitions of the result combinators"

lemmas [result_defs] = bindE_def ensure_def map_err_def ok_or_def transposeE_def

lemma is_ok_iff: "is_ok m \<longleftrightarrow> (\<exists>x. m = Inr x)"
  by (cases m) (auto simp: is_ok_def)

lemma bindE_simps [simp]: "bindE (Inr x) f = f x" "bindE (Inl e) f = Inl e"
  by (simp_all add: bindE_def)

lemma bindE_Inr [result_simps]: "bindE m f = Inr y \<longleftrightarrow> (\<exists>x. m = Inr x \<and> f x = Inr y)"
  by (cases m) auto

lemma bindE_InrE:
  assumes "bindE m f = Inr y"
  obtains x where "m = Inr x" "f x = Inr y"
  using assms by (auto simp: bindE_def split: sum.splits)

lemma bindE_Inl: "bindE m f = Inl e \<longleftrightarrow> m = Inl e \<or> (\<exists>x. m = Inr x \<and> f x = Inl e)"
  by (cases m) auto

lemma bindE_assoc: "bindE (bindE m f) g = bindE m (\<lambda>x. bindE (f x) g)"
  by (cases m) auto

lemma ensure_Inr [result_simps]: "ensure b e = Inr x \<longleftrightarrow> b"
  by (simp add: ensure_def)

lemma ensure_True [simp]: "ensure True e = Inr ()"
  by (simp add: ensure_def)

lemma ensure_False [simp]: "ensure False e = Inl e"
  by (simp add: ensure_def)

lemma map_err_Inr [result_simps]: "map_err g m = Inr x \<longleftrightarrow> m = Inr x"
  by (cases m) (auto simp: map_err_def)

lemma map_err_simps [simp]: "map_err g (Inr x) = Inr x" "map_err g (Inl e) = Inl (g e)"
  by (simp_all add: map_err_def)

lemma ok_or_Inr [result_simps]: "ok_or e x = Inr y \<longleftrightarrow> x = Some y"
  by (cases x) (auto simp: ok_or_def)

lemma ok_or_simps [simp]: "ok_or e (Some y) = Inr y" "ok_or e None = Inl e"
  by (simp_all add: ok_or_def)

lemma transposeE_Inr [result_simps]:
  "transposeE f x = Inr y \<longleftrightarrow>
     (x = None \<and> y = None) \<or> (\<exists>a b. x = Some a \<and> f a = Inr b \<and> y = Some b)"
  by (cases x) (auto simp: transposeE_def bindE_Inr)

lemma transposeE_simps [simp]:
  "transposeE f None = Inr None" "transposeE f (Some a) = bindE (f a) (\<lambda>b. Inr (Some b))"
  by (simp_all add: transposeE_def)

lemma forE_Inr [result_simps]: "forE xs f = Inr u \<longleftrightarrow> (\<forall>x \<in> set xs. f x = Inr ())"
  by (induction xs) (auto simp: bindE_Inr)

lemma mapE_Inr: "mapE f xs = Inr ys \<longleftrightarrow> list_all2 (\<lambda>x y. f x = Inr y) xs ys"
  by (induction xs arbitrary: ys) (auto simp: bindE_Inr list_all2_Cons1)

lemma mapE_total: "(\<And>x. x \<in> set xs \<Longrightarrow> f x = Inr (g x)) \<Longrightarrow> mapE f xs = Inr (map g xs)"
  by (induction xs) auto

text \<open>The simplifier leaves the text of an error message alone.\<close>

lemma Conflict_cong [cong]: "Conflict m = Conflict m"
  by (rule refl)

lemma InvalidInput_cong [cong]: "InvalidInput m = InvalidInput m"
  by (rule refl)

lemma NotFound_cong [cong]: "NotFound m = NotFound m"
  by (rule refl)

lemma Unauthorized_cong [cong]: "Unauthorized m = Unauthorized m"
  by (rule refl)

lemma Unsupported_cong [cong]: "Unsupported m = Unsupported m"
  by (rule refl)

lemma Busy_cong [cong]: "Busy m = Busy m"
  by (rule refl)

lemma Sqlite_cong [cong]: "Sqlite m = Sqlite m"
  by (rule refl)


subsection \<open>Integers\<close>

lemma unat_max_word: "unat (- 1 :: 'a::len word) = 2 ^ LENGTH('a) - 1"
proof -
  have "uint (- 1 :: 'a word) = 2 ^ LENGTH('a) - 1"
    by (simp add: uint_word_ariths zmod_minus1)
  then show ?thesis
    by (simp add: unat_eq_nat_uint nat_diff_distrib nat_power_eq)
qed

lemma uint_u64_bound: "uint (w :: u64) < 18446744073709551616"
  using uint_lt2p [of w] by simp

lemma unat_saturating_sub: "unat (saturating_sub a b) = unat a - unat b"
  by (auto simp: saturating_sub_def unat_sub word_le_nat_alt)

lemma unat_saturating_add:
  "unat (saturating_add a b) = min (unat a + unat b) (2 ^ LENGTH('a) - 1)"
  for a b :: "'a::len word"
proof (cases "unat a + unat b < 2 ^ LENGTH('a)")
  case True
  then show ?thesis
    by (simp add: saturating_add_def unat_word_ariths)
next
  case False
  then show ?thesis
    by (simp add: saturating_add_def unat_max_word)
qed

lemma unat_saturating_mul:
  "unat (saturating_mul a b) = min (unat a * unat b) (2 ^ LENGTH('a) - 1)"
  for a b :: "'a::len word"
proof (cases "unat a * unat b < 2 ^ LENGTH('a)")
  case True
  then show ?thesis
    by (simp add: saturating_mul_def unat_word_ariths)
next
  case False
  then show ?thesis
    by (simp add: saturating_mul_def unat_max_word)
qed

lemma checked_add_Some:
  "checked_add a b = Some c \<longleftrightarrow> unat a + unat b < 2 ^ LENGTH('a) \<and> c = a + b"
  for a b :: "'a::len word"
  by (auto simp: checked_add_def)

lemma checked_add_unat: "checked_add a b = Some c \<Longrightarrow> unat c = unat a + unat b"
  for a b :: "'a::len word"
  by (auto simp: checked_add_def unat_word_ariths split: if_splits)


subsection \<open>Tables\<close>

lemma length_update_where [simp]: "length (update_where p f t) = length t"
  by (simp add: update_where_def)

lemma update_where_Nil [simp]: "update_where p f [] = []"
  by (simp add: update_where_def)

lemma update_where_append [simp]: "update_where p f (t @ u) = update_where p f t @ update_where p f u"
  by (simp add: update_where_def)

lemma set_update_where: "set (update_where p f t) = (\<lambda>r. if p r then f r else r) ` set t"
  by (simp add: update_where_def)

lemma update_where_id: "(\<And>r. r \<in> set t \<Longrightarrow> \<not> p r) \<Longrightarrow> update_where p f t = t"
  by (simp add: update_where_def map_idI)

lemma map_update_where: "(\<And>r. p r \<Longrightarrow> k (f r) = k r) \<Longrightarrow> map k (update_where p f t) = map k t"
  by (simp add: update_where_def)

lemma matching_0: "matching p t = 0 \<longleftrightarrow> (\<forall>r \<in> set t. \<not> p r)"
  by (auto simp: matching_def filter_empty_conv)

lemma insert_row_Inr [result_simps]:
  "insert_row clash what r t = Inr u \<longleftrightarrow> (\<forall>x \<in> set t. \<not> clash r x) \<and> u = t @ [r]"
  by (auto simp: insert_row_def bindE_Inr ensure_Inr list_ex_iff)

lemma find_SomeD: "find p t = Some r \<Longrightarrow> r \<in> set t \<and> p r"
  by (induction t) (auto split: if_splits)

lemma select_ordered_set: "set (select_ordered p k t) = {r \<in> set t. p r}"
  by (simp add: select_ordered_def)

lemma select_first_None: "select_first p k t = None \<longleftrightarrow> (\<forall>r \<in> set t. \<not> p r)"
  using select_ordered_set [of p k t]
  by (auto simp: select_first_def split: list.splits)

lemma select_first_Some:
  assumes "select_first p k t = Some r"
  shows "r \<in> set t" and "p r" and "\<And>x. x \<in> set t \<Longrightarrow> p x \<Longrightarrow> k r \<le> k x"
proof -
  from assms obtain rs where rs: "select_ordered p k t = r # rs"
    by (auto simp: select_first_def split: list.splits)
  have mem: "x \<in> set (r # rs) \<longleftrightarrow> x \<in> set t \<and> p x" for x
    using select_ordered_set [of p k t] unfolding rs by auto
  show "r \<in> set t" and "p r" using mem [of r] by auto
  fix x assume "x \<in> set t" and "p x"
  with mem have "x \<in> set (r # rs)" by blast
  moreover have "sorted (map k (r # rs))"
    unfolding rs [symmetric] by (simp add: select_ordered_def)
  ultimately show "k r \<le> k x" by auto
qed

lemma select_last_Some:
  assumes "select_last p k t = Some r"
  shows "r \<in> set t" and "p r" and "\<And>x. x \<in> set t \<Longrightarrow> p x \<Longrightarrow> k x \<le> k r"
proof -
  from assms obtain rs where "rev (select_ordered p k t) = r # rs"
    by (auto simp: select_last_def split: list.splits)
  then have rs: "select_ordered p k t = rev rs @ [r]" by (simp add: rev_eq_Cons_iff)
  have mem: "x \<in> set (rev rs @ [r]) \<longleftrightarrow> x \<in> set t \<and> p x" for x
    using select_ordered_set [of p k t] unfolding rs by auto
  show "r \<in> set t" and "p r" using mem [of r] by auto
  fix x assume "x \<in> set t" and "p x"
  with mem have "x \<in> set (rev rs @ [r])" by blast
  moreover have "sorted (map k (rev rs @ [r]))"
    unfolding rs [symmetric] by (simp add: select_ordered_def)
  ultimately show "k x \<le> k r" by (auto simp: sorted_append)
qed

lemma select_last_unique:
  assumes "r \<in> set t" and "p r" and "\<And>x. x \<in> set t \<Longrightarrow> p x \<Longrightarrow> x = r"
  shows "select_last p k t = Some r"
proof -
  have "x \<in> set (rev (select_ordered p k t)) \<longleftrightarrow> x = r" for x
    using assms(1,2) assms(3) [of x] by (auto simp: select_ordered_set)
  note mem = this
  obtain x xs where xs: "rev (select_ordered p k t) = x # xs"
    using mem [of r] by (cases "rev (select_ordered p k t)") simp_all
  have "x = r" using mem [of x] unfolding xs by simp
  then show ?thesis by (simp add: select_last_def xs)
qed

lemma find_update_where:
  "(\<And>r. p r \<Longrightarrow> p (f r)) \<Longrightarrow> find p (update_where p f t) = map_option f (find p t)"
  by (induction t) (auto simp: update_where_def)

lemma find_append1: "find p (t @ [r]) = (case find p t of None \<Rightarrow> if p r then Some r else None | Some x \<Rightarrow> Some x)"
  by (induction t) auto

lemma find_None_list_ex: "find p t = None \<longleftrightarrow> \<not> list_ex p t"
  by (auto simp: find_None_iff list_ex_iff)

lemma fold_max_assoc: "fold max xs (max a b) = max (fold max xs a) (b :: 'a::linorder)"
  by (induction xs arbitrary: a) (simp_all add: max.assoc [symmetric])

lemma fold_max_upper: "\<forall>x \<in> set xs. x \<le> b \<Longrightarrow> a \<le> b \<Longrightarrow> fold max xs a \<le> (b :: 'a::linorder)"
  by (induction xs arbitrary: a) auto

lemma fold_max_ge: "a \<le> fold max xs a \<and> (\<forall>x \<in> set xs. x \<le> fold max xs (a :: 'a::linorder))"
proof (induction xs arbitrary: a)
  case (Cons x xs)
  show ?case using Cons.IH [of "max x a"] by auto
qed simp

text \<open>
  The interface of a table with a unique column: the constraint \<^verbatim>\<open>INSERT\<close> checks rejects a row
  whose key is present. The clients get that the key determines the row, and that a keyed
  update touches at most one row and leaves every other key as it was.
\<close>

locale keyed_table =
  fixes key :: "'r \<Rightarrow> 'k" and clash :: "'r \<Rightarrow> 'r \<Rightarrow> bool"
  assumes unique: "key r = key x \<Longrightarrow> clash r x"
begin

definition keys_distinct :: "'r list \<Rightarrow> bool" where
  "keys_distinct t = distinct (map key t)"

lemma keys_distinct_Nil [simp]: "keys_distinct []"
  by (simp add: keys_distinct_def)

lemma keys_distinct_append1:
  "keys_distinct (t @ [r]) \<longleftrightarrow> keys_distinct t \<and> (\<forall>x \<in> set t. key x \<noteq> key r)"
  by (auto simp: keys_distinct_def image_iff)

lemma insert_keys_distinct: "insert_row clash what r t = Inr u \<Longrightarrow> keys_distinct t \<Longrightarrow> keys_distinct u"
  using unique [of r] by (auto simp: insert_row_Inr keys_distinct_append1)

lemma keys_distinct_update:
  "(\<And>r. p r \<Longrightarrow> key (f r) = key r) \<Longrightarrow> keys_distinct (update_where p f t) = keys_distinct t"
  by (simp add: keys_distinct_def map_update_where)

lemma key_inj: "keys_distinct t \<Longrightarrow> r \<in> set t \<Longrightarrow> s \<in> set t \<Longrightarrow> key r = key s \<Longrightarrow> r = s"
  by (auto simp: keys_distinct_def distinct_map inj_on_def)

lemma find_member: "keys_distinct t \<Longrightarrow> r \<in> set t \<Longrightarrow> find (\<lambda>x. key x = key r) t = Some r"
  by (induction t) (auto simp: keys_distinct_def)

lemma find_Some: "find (\<lambda>x. key x = k) t = Some r \<Longrightarrow> r \<in> set t \<and> key r = k"
  by (auto simp: find_Some_iff)

lemma matching_le1: "keys_distinct t \<Longrightarrow> matching (\<lambda>r. key r = k \<and> p r) t \<le> 1"
  unfolding keys_distinct_def matching_def
proof (induction t)
  case (Cons a t)
  have "key a = k \<Longrightarrow> filter (\<lambda>r. key r = k \<and> p r) t = []"
    using Cons.prems by (auto simp: filter_empty_conv image_iff)
  with Cons show ?case by auto
qed simp

lemma matching_one:
  assumes "keys_distinct t" and "r \<in> set t" and "p r"
  shows "matching (\<lambda>x. key x = key r \<and> p x) t = 1"
proof -
  have "matching (\<lambda>x. key x = key r \<and> p x) t \<noteq> 0"
    using assms(2,3) by (auto simp: matching_0)
  with matching_le1 [OF assms(1), of "key r" p] show ?thesis by linarith
qed

lemma find_update_same:
  assumes "\<And>r. p r \<Longrightarrow> key (f r) = key r" and "keys_distinct t" and "r \<in> set t" and "p r"
  shows "find (\<lambda>x. key x = key r) (update_where p f t) = Some (f r)"
proof -
  have "f r \<in> set (update_where p f t)"
    using assms(3,4) by (auto simp: set_update_where)
  moreover have "keys_distinct (update_where p f t)"
    using assms(1,2) by (simp add: keys_distinct_update)
  ultimately have "find (\<lambda>x. key x = key (f r)) (update_where p f t) = Some (f r)"
    by (rule find_member [rotated])
  then show ?thesis by (simp add: assms(1,4))
qed

lemma find_update_other:
  "(\<And>r. p r \<Longrightarrow> key (f r) = key r) \<Longrightarrow> (\<And>r. p r \<Longrightarrow> key r \<noteq> k) \<Longrightarrow>
   find (\<lambda>x. key x = k) (update_where p f t) = find (\<lambda>x. key x = k) t"
  by (induction t) (auto simp: update_where_def)

end


section \<open>Printing and parsing integers\<close>

declare show_nat.simps [simp del]

lemma byte_char_of: "n < 256 \<Longrightarrow> byte (char_of n) = n"
  by (simp add: byte_def)

lemma digit_char_facts:
  assumes "d < 10"
  shows "is_digit (digit_char d)" "digit_value (digit_char d) = d"
  using assms by (simp_all add: is_digit_def digit_value_def digit_char_def byte_def)

lemma digits_value_append: "digits_value acc (xs @ [c]) = 10 * digits_value acc xs + digit_value c"
  by (induction xs arbitrary: acc) auto

lemma show_nat_digits: "list_all is_digit (show_nat n) \<and> show_nat n \<noteq> []"
proof (induction n rule: show_nat.induct)
  case (1 n)
  then show ?case
    by (subst (1 2) show_nat.simps) (auto simp: digit_char_facts)
qed

lemma digits_value_show_nat: "digits_value 0 (show_nat n) = n"
proof (induction n rule: show_nat.induct)
  case (1 n)
  then show ?case
    by (subst show_nat.simps) (auto simp: digit_char_facts digits_value_append)
qed

lemma parse_digits_show_nat [simp]: "parse_digits (show_nat n) = Some n"
  by (simp add: parse_digits_def show_nat_digits digits_value_show_nat)

lemma show_nat_head:
  obtains c cs where "show_nat n = c # cs" "is_digit c"
  using show_nat_digits [of n] by (cases "show_nat n") auto

lemma is_digit_not_sign: "is_digit c \<Longrightarrow> c \<noteq> CHR ''+'' \<and> c \<noteq> CHR ''-''"
  by (auto simp: is_digit_def byte_def)

lemma parse_i64_show_int:
  assumes "i64_min \<le> i" "i \<le> i64_max"
  shows "parse_i64 (show_int i) = Some i"
proof (cases "i < 0")
  case True
  with assms show ?thesis by (simp add: parse_i64_def show_int_def)
next
  case False
  obtain c cs where "show_nat (nat i) = c # cs" "is_digit c" by (rule show_nat_head)
  with False assms parse_digits_show_nat [of "nat i"] show ?thesis
    by (simp add: parse_i64_def show_int_def is_digit_not_sign)
qed

lemma parse_u64_show_u64 [simp]: "parse_u64 (show_u64 w) = Some w"
proof -
  obtain c cs where "show_nat (unat w) = c # cs" "is_digit c" by (rule show_nat_head)
  moreover have "unat w < 2 ^ 64"
    using unsigned_less [where 'a = nat, of w] by simp
  ultimately show ?thesis
    using parse_digits_show_nat [of "unat w"]
    by (simp add: parse_u64_def show_u64_def is_digit_not_sign)
qed


lemma length_show_nat: "n < 10 ^ Suc k \<Longrightarrow> length (show_nat n) \<le> Suc k"
proof (induction k arbitrary: n)
  case 0
  then show ?case by (subst show_nat.simps) simp
next
  case (Suc k)
  then have "length (show_nat (n div 10)) \<le> Suc k" by (intro Suc.IH) (simp add: div_less_iff_less_mult mult.commute)
  then show ?case by (subst show_nat.simps) simp
qed

lemma show_int_no_nul: "0 \<le> i \<Longrightarrow> \<not> contains_nul (show_int i)"
  using show_nat_digits [of "nat i"]
  by (auto simp: show_int_def contains_nul_def list_all_iff is_digit_def nul_def byte_def)

lemma length_show_int: "0 \<le> i \<Longrightarrow> i \<le> i64_max \<Longrightarrow> length (show_int i) \<le> 19"
  using length_show_nat [of "nat i" 18] by (simp add: show_int_def i64_max_def nat_less_iff)

lemma contains_nul_append [simp]: "contains_nul (a @ b) \<longleftrightarrow> contains_nul a \<or> contains_nul b"
  by (auto simp: contains_nul_def)


section \<open>A concrete instance of the third-party functions\<close>

text \<open>
  For evaluating the model on concrete inputs: a constant digest of 32 bytes, a printer that
  renders the two shapes the sample inputs use, and identifiers accepted as version 4.
\<close>

definition externals_sample :: externals where
  "externals_sample =
     \<lparr>sha256 = \<lambda>_. replicate 32 (CHR ''0''),
      json_to_string = \<lambda>v. (case v of JString s \<Rightarrow> CHR 0x22 # s @ [CHR 0x22] | _ \<Rightarrow> ''{}''),
      json_from_str = \<lambda>s. (if s = ''{}'' then Inr (JObject [])
                              else Inr (JString (butlast (tl s)))),
      uuid_parse_str = \<lambda>s. Inr \<lparr>uuid_version_num = 4, uuid_variant_of = RFC4122,
                                 uuid_to_string = s\<rparr>,
      sqlite_display = \<lambda>_. ''sqlite''\<rparr>"


section \<open>Printable text\<close>

definition plain :: "string \<Rightarrow> bool" where
  "plain s \<longleftrightarrow> list_all (\<lambda>c. 32 \<le> byte c \<and> byte c < 127) s"

lemma plain_no_control: "plain s \<Longrightarrow> \<not> has_control s"
  by (induction s rule: has_control.induct) (auto simp: plain_def)

lemma plain_no_nul: "plain s \<Longrightarrow> \<not> contains_nul s"
  by (auto simp: plain_def contains_nul_def nul_def byte_def list_all_iff)

lemmas plain_guards = plain_no_control plain_no_nul

end
