(* ===== verification/Supervisor_Policy.thy ===== *)
theory Supervisor_Policy
  imports Watchdog_Prelude
begin

text \<open>
  \<^verbatim>\<open>policy.rs\<close>: the pure reconciliation decision, the deterministic restart backoff and
  the rolling restart budget, with \<^verbatim>\<open>DesiredMode\<close> of \<^verbatim>\<open>config.rs\<close>. The lemmas show which
  observations authorize a start, that the backoff stays in its jitter band under the cap
  without overflowing, and that no window of the configured length ever holds more
  restarts than the budget allows.
\<close>

section \<open>Model\<close>

datatype desired_mode = ModeStopped | ModePaused | ModeRunning | ModeDraining

definition admits_work :: "desired_mode \<Rightarrow> bool" where
  "admits_work m = (m = ModeRunning)"

definition stops_children :: "desired_mode \<Rightarrow> bool" where
  "stops_children m = (m = ModeStopped)"

datatype component_state =
    Stopped | Starting | Running | Suspect | Backoff | Paused | Blocked | Quarantined

record component_observation =
  co_component_id :: string
  co_state :: component_state
  co_observed_at_ms :: u64
  co_heartbeat_age_ms :: "u64 option"
  co_progress_age_ms :: "u64 option"
  co_consecutive_misses :: u32
  co_restart_attempts :: u32

definition observation_stopped :: "string \<Rightarrow> u64 \<Rightarrow> component_observation" where
  "observation_stopped component_id now_ms =
     \<lparr>co_component_id = component_id, co_state = Stopped, co_observed_at_ms = now_ms,
      co_heartbeat_age_ms = None, co_progress_age_ms = None, co_consecutive_misses = 0,
      co_restart_attempts = 0\<rparr>"

datatype reconcile_action = Noop | Start | Stop | Wait | MarkSuspect | Quarantine

record reconcile_decision =
  rd_component_id :: string
  rd_action :: reconcile_action
  rd_resulting_state :: component_state
  rd_reason :: string
  rd_retry_at_ms :: "u64 option"

text \<open>The fields of \<^verbatim>\<open>WatchdogConfig\<close> the policy is built from.\<close>

record watchdog_config =
  wc_probe_interval_ms :: u64
  wc_suspect_threshold :: u32
  wc_startup_grace_secs :: u64
  wc_restart_backoff_base_secs :: u64
  wc_restart_backoff_cap_secs :: u64
  wc_restart_budget_count :: u32
  wc_restart_budget_window_secs :: u64

record supervisor_policy =
  probe_interval_ms :: u64
  suspect_threshold :: u32
  startup_grace_ms :: u64
  restart_backoff_base_ms :: u64
  restart_backoff_cap_ms :: u64
  restart_budget_count :: u32
  restart_budget_window_ms :: u64

definition policy_from_config :: "watchdog_config \<Rightarrow> supervisor_policy" where
  "policy_from_config config =
     \<lparr>probe_interval_ms = wc_probe_interval_ms config,
      suspect_threshold = wc_suspect_threshold config,
      startup_grace_ms = saturating_mul (wc_startup_grace_secs config) 1000,
      restart_backoff_base_ms = saturating_mul (wc_restart_backoff_base_secs config) 1000,
      restart_backoff_cap_ms = saturating_mul (wc_restart_backoff_cap_secs config) 1000,
      restart_budget_count = wc_restart_budget_count config,
      restart_budget_window_ms = saturating_mul (wc_restart_budget_window_secs config) 1000\<rparr>"

text \<open>\<^verbatim>\<open>u32::to_le_bytes\<close> and \<^verbatim>\<open>u16::from_le_bytes\<close>.\<close>

definition u32_to_le_bytes :: "u32 \<Rightarrow> string" where
  "u32_to_le_bytes w = map (\<lambda>i. char_of (unat (drop_bit (8 * i) w) mod 256)) [0, 1, 2, 3]"

definition u16_from_le_bytes :: "char \<Rightarrow> char \<Rightarrow> u16" where
  "u16_from_le_bytes lo hi = of_nat (byte lo + 256 * byte hi)"

definition backoff_delay_ms :: "externals \<Rightarrow> supervisor_policy \<Rightarrow> string \<Rightarrow> u32 \<Rightarrow> u64" where
  "backoff_delay_ms E p component_id attempt =
     (let shift = min attempt 31;
          exponential = min (saturating_mul (restart_backoff_base_ms p) (push_bit (unat shift) 1))
                            (restart_backoff_cap_ms p);
          digest = sha256 E (component_id @ u32_to_le_bytes attempt);
          spread = exponential div 4
      in if spread = 0 then exponential
         else let sample = (ucast (u16_from_le_bytes (digest ! 0) (digest ! 1)) :: u64);
                  jitter = sample mod (saturating_add (saturating_mul spread 2) 1)
              in min (saturating_add (saturating_sub exponential spread) jitter)
                     (restart_backoff_cap_ms p))"

definition restart_decision ::
  "externals \<Rightarrow> supervisor_policy \<Rightarrow> bool \<Rightarrow> component_observation \<Rightarrow> u64 \<Rightarrow> u32 \<Rightarrow> u64 option
   \<Rightarrow> string \<Rightarrow> reconcile_decision" where
  "restart_decision E p restart_enabled observation now_ms restart_count_in_window last_restart_ms reason =
     (let id = co_component_id observation in
      if \<not> restart_enabled then
        \<lparr>rd_component_id = id, rd_action = Quarantine, rd_resulting_state = Quarantined,
         rd_reason = ''component restart is disabled by the approved configuration'',
         rd_retry_at_ms = None\<rparr>
      else if restart_budget_count p \<le> restart_count_in_window then
        \<lparr>rd_component_id = id, rd_action = Quarantine, rd_resulting_state = Quarantined,
         rd_reason = ''restart budget exhausted; bounded diagnostics remain available'',
         rd_retry_at_ms = None\<rparr>
      else
        let delay = backoff_delay_ms E p id (co_restart_attempts observation);
            start = \<lparr>rd_component_id = id, rd_action = Start, rd_resulting_state = Starting,
                     rd_reason = reason, rd_retry_at_ms = None\<rparr>
        in case last_restart_ms of
             None \<Rightarrow> start
           | Some last_restart \<Rightarrow>
               let next = saturating_add last_restart delay in
               if now_ms < next then
                 \<lparr>rd_component_id = id, rd_action = Wait, rd_resulting_state = Backoff,
                  rd_reason = ''restart backoff is still active'', rd_retry_at_ms = Some next\<rparr>
               else start)"

definition decide ::
  "externals \<Rightarrow> supervisor_policy \<Rightarrow> desired_mode \<Rightarrow> bool \<Rightarrow> component_observation \<Rightarrow> u64 \<Rightarrow> u32
   \<Rightarrow> u64 option \<Rightarrow> reconcile_decision" where
  "decide E p mode restart_enabled observation now_ms restart_count_in_window last_restart_ms =
     (let id = co_component_id observation;
          restart = restart_decision E p restart_enabled observation now_ms
                      restart_count_in_window last_restart_ms
      in
      if stops_children mode then
        \<lparr>rd_component_id = id,
         rd_action = (if co_state observation = Stopped then Noop else Stop),
         rd_resulting_state = Stopped,
         rd_reason = ''durable stop intent takes precedence over autonomous recovery'',
         rd_retry_at_ms = None\<rparr>
      else if mode = ModeDraining then
        \<lparr>rd_component_id = id,
         rd_action = (if co_state observation = Stopped then Noop else Stop),
         rd_resulting_state = Stopped,
         rd_reason = ''drain intent prevents new starts and stops owned children'',
         rd_retry_at_ms = None\<rparr>
      else if mode \<noteq> ModeRunning then
        \<lparr>rd_component_id = id,
         rd_action = (if co_state observation = Stopped then Noop else Wait),
         rd_resulting_state = Paused,
         rd_reason = ''operator intent blocks new starts and dispatch'',
         rd_retry_at_ms = None\<rparr>
      else
        case co_state observation of
          Running \<Rightarrow>
            let heartbeat_limit =
                  saturating_mul (probe_interval_ms p) (ucast (suspect_threshold p)) in
            if suspect_threshold p \<le> co_consecutive_misses observation
               \<or> (case co_heartbeat_age_ms observation of
                    None \<Rightarrow> True
                  | Some age \<Rightarrow> heartbeat_limit < age)
            then
              \<lparr>rd_component_id = id, rd_action = MarkSuspect, rd_resulting_state = Suspect,
               rd_reason =
                 ''missing or stale control-loop heartbeat; process liveness is insufficient'',
               rd_retry_at_ms = None\<rparr>
            else
              \<lparr>rd_component_id = id, rd_action = Noop, rd_resulting_state = Running,
               rd_reason = ''component is making progress within health bounds'',
               rd_retry_at_ms = None\<rparr>
        | Starting \<Rightarrow>
            let age = saturating_sub now_ms (co_observed_at_ms observation) in
            if age \<le> startup_grace_ms p then
              \<lparr>rd_component_id = id, rd_action = Wait, rd_resulting_state = Starting,
               rd_reason = ''startup remains within configured grace period'',
               rd_retry_at_ms = Some (saturating_add now_ms (probe_interval_ms p))\<rparr>
            else restart ''startup grace expired''
        | Stopped \<Rightarrow> restart ''component is not running''
        | Suspect \<Rightarrow> restart ''component is not running''
        | Backoff \<Rightarrow> restart ''component is not running''
        | Paused \<Rightarrow>
            \<lparr>rd_component_id = id, rd_action = Wait, rd_resulting_state = Paused,
             rd_reason = ''component remains paused by durable operator intent'',
             rd_retry_at_ms = None\<rparr>
        | Blocked \<Rightarrow>
            \<lparr>rd_component_id = id, rd_action = Quarantine, rd_resulting_state = Quarantined,
             rd_reason = ''component is blocked or quarantined; autonomous relaunch is disabled'',
             rd_retry_at_ms = None\<rparr>
        | Quarantined \<Rightarrow>
            \<lparr>rd_component_id = id, rd_action = Quarantine, rd_resulting_state = Quarantined,
             rd_reason = ''component is blocked or quarantined; autonomous relaunch is disabled'',
             rd_retry_at_ms = None\<rparr>)"

definition in_restart_window :: "supervisor_policy \<Rightarrow> u64 \<Rightarrow> u64 \<Rightarrow> bool" where
  "in_restart_window p now_ms started_ms =
     (saturating_sub now_ms started_ms \<le> restart_budget_window_ms p)"

definition in_monotonic_restart_window :: "supervisor_policy \<Rightarrow> u64 \<Rightarrow> u64 \<Rightarrow> bool" where
  "in_monotonic_restart_window p elapsed_ms event_elapsed_ms =
     (saturating_sub elapsed_ms event_elapsed_ms \<le> restart_budget_window_ms p)"

subsection \<open>The rolling restart budget\<close>

record restart_budget =
  rb_max_events :: u32
  rb_window_ms :: u64
  rb_last_elapsed_ms :: u64
  rb_events :: "u64 list"

definition budget_new :: "u32 \<Rightarrow> u64 \<Rightarrow> restart_budget" where
  "budget_new max_events window_ms =
     \<lparr>rb_max_events = max_events, rb_window_ms = window_ms, rb_last_elapsed_ms = 0, rb_events = []\<rparr>"

definition policy_restart_budget :: "supervisor_policy \<Rightarrow> restart_budget" where
  "policy_restart_budget p = budget_new (restart_budget_count p) (restart_budget_window_ms p)"

definition budget_count :: "restart_budget \<Rightarrow> u32" where
  "budget_count b = u32_of_len (length (rb_events b))"

definition budget_observe :: "restart_budget \<Rightarrow> u64 \<Rightarrow> u32 \<times> restart_budget" where
  "budget_observe b elapsed_ms =
     (let last = max (rb_last_elapsed_ms b) elapsed_ms;
          cutoff = saturating_sub last (rb_window_ms b);
          events = filter (\<lambda>event. cutoff \<le> event) (rb_events b)
      in (u32_of_len (length events), b\<lparr>rb_last_elapsed_ms := last, rb_events := events\<rparr>))"

definition budget_record :: "restart_budget \<Rightarrow> u64 \<Rightarrow> u32 \<times> restart_budget" where
  "budget_record b elapsed_ms =
     (let (count, b1) = budget_observe b elapsed_ms;
          b2 = (if count < rb_max_events b1
                then b1\<lparr>rb_events := rb_events b1 @ [rb_last_elapsed_ms b1]\<rparr> else b1)
      in (u32_of_len (length (rb_events b2)), b2))"

definition admits_restart :: "restart_budget \<Rightarrow> bool" where
  "admits_restart b = (rb_max_events b > 0 \<and> length (rb_events b) < unat (rb_max_events b))"

text \<open>A run of the budget, with the times of every restart it ever admitted.\<close>

datatype budget_op = Observe u64 | Record u64

fun budget_run :: "restart_budget \<times> u64 list \<Rightarrow> budget_op list \<Rightarrow> restart_budget \<times> u64 list" where
  "budget_run (b, admitted) [] = (b, admitted)"
| "budget_run (b, admitted) (Observe e # ops) = budget_run (snd (budget_observe b e), admitted) ops"
| "budget_run (b, admitted) (Record e # ops) =
     (let b1 = snd (budget_observe b e); b2 = snd (budget_record b e)
      in budget_run (b2, admitted @ drop (length (rb_events b1)) (rb_events b2)) ops)"


section \<open>Backoff\<close>

text \<open>The delay before jitter, over the natural numbers: no saturation and no wrap-around.\<close>

definition backoff_exponential :: "supervisor_policy \<Rightarrow> u32 \<Rightarrow> nat" where
  "backoff_exponential p attempt =
     min (unat (restart_backoff_base_ms p) * 2 ^ min (unat attempt) 31)
         (unat (restart_backoff_cap_ms p))"

lemma unat_min_word: "unat (min a b) = min (unat a) (unat b)"
  by (simp add: min_def word_le_nat_alt)

lemma unat_max_of_words: "unat (max a b) = max (unat a) (unat b)"
  by (simp add: max_def word_le_nat_alt)

lemma unat_push_bit_u64:
  assumes "k \<le> 31"
  shows "unat (push_bit k (1 :: u64)) = 2 ^ k"
  using assms by (simp only: unsigned_push_bit_eq) simp

lemma unat_u64_bound: "unat (w :: u64) \<le> 2 ^ 64 - 1"
  using unsigned_less [where 'a = nat, of w] by simp

lemma backoff_exponential_word:
  "unat (min (saturating_mul (restart_backoff_base_ms p) (push_bit (unat (min attempt 31)) 1))
             (restart_backoff_cap_ms p)) = backoff_exponential p attempt"
proof -
  have "unat (min attempt 31) = min (unat attempt) 31"
    by (simp add: unat_min_word)
  then have "unat (push_bit (unat (min attempt 31)) (1 :: u64)) = 2 ^ min (unat attempt) 31"
    by (simp only: unat_push_bit_u64 min.cobounded2)
  then show ?thesis
    using unat_u64_bound [of "restart_backoff_cap_ms p"]
    by (simp del: push_bit_of_1 add: unat_min_word unat_saturating_mul backoff_exponential_def)
qed

lemma unat_backoff_delay_ms:
  "\<exists>j \<le> 2 * (backoff_exponential p attempt div 4).
     unat (backoff_delay_ms E p component_id attempt)
     = min (backoff_exponential p attempt - backoff_exponential p attempt div 4 + j)
           (unat (restart_backoff_cap_ms p))"
proof -
  define e where "e = min (saturating_mul (restart_backoff_base_ms p)
    (push_bit (unat (min attempt 31)) 1)) (restart_backoff_cap_ms p)"
  define sample :: u64 where "sample = (let digest = sha256 E (component_id @ u32_to_le_bytes attempt)
    in ucast (u16_from_le_bytes (digest ! 0) (digest ! 1)))"
  have e: "unat e = backoff_exponential p attempt"
    unfolding e_def by (rule backoff_exponential_word)
  have cap: "unat e \<le> unat (restart_backoff_cap_ms p)"
    by (simp add: e_def unat_min_word)
  have e4: "unat (e div 4) = unat e div 4"
    by (simp add: unat_div)
  have bound: "unat e \<le> 2 ^ 64 - 1" "unat (restart_backoff_cap_ms p) \<le> 2 ^ 64 - 1"
    by (rule unat_u64_bound)+
  have delay: "backoff_delay_ms E p component_id attempt =
    (if e div 4 = 0 then e
     else min (saturating_add (saturating_sub e (e div 4))
                (sample mod (saturating_add (saturating_mul (e div 4) 2) 1)))
              (restart_backoff_cap_ms p))"
    unfolding backoff_delay_ms_def Let_def e_def sample_def by (rule refl)
  show ?thesis
  proof (cases "e div 4 = 0")
    case True
    then have "unat e div 4 = 0" using e4 by simp
    with True cap e show ?thesis
      by (intro exI [of _ 0]) (simp add: delay)
  next
    case False
    define j where "j = unat sample mod (2 * (unat e div 4) + 1)"
    have m: "unat (saturating_add (saturating_mul (e div 4) 2) 1) = 2 * (unat e div 4) + 1"
      using bound by (simp add: unat_saturating_add unat_saturating_mul e4)
    have "unat (backoff_delay_ms E p component_id attempt)
      = min (unat e - unat e div 4 + j) (unat (restart_backoff_cap_ms p))"
      using False bound m
      by (simp add: delay unat_min_word unat_saturating_add unat_saturating_sub e4 unat_mod j_def min.assoc min.absorb2)
    moreover have "j \<le> 2 * (unat e div 4)"
      unfolding j_def by (metis Suc_eq_plus1 less_Suc_eq_le mod_less_divisor zero_less_Suc)
    ultimately show ?thesis using e by auto
  qed
qed

text \<open>
  C26: The restart delay stays within a quarter of the exponential delay on both sides and never
  exceeds the cap, for every component, attempt and policy: nothing in its computation overflows.
\<close>

theorem backoff_delay_bounds:
  "backoff_exponential p attempt - backoff_exponential p attempt div 4
     \<le> unat (backoff_delay_ms E p component_id attempt)
   \<and> unat (backoff_delay_ms E p component_id attempt)
     \<le> min (backoff_exponential p attempt + backoff_exponential p attempt div 4)
           (unat (restart_backoff_cap_ms p))"
proof -
  have cap: "backoff_exponential p attempt \<le> unat (restart_backoff_cap_ms p)"
    by (simp add: backoff_exponential_def)
  obtain j where "j \<le> 2 * (backoff_exponential p attempt div 4)"
    "unat (backoff_delay_ms E p component_id attempt)
     = min (backoff_exponential p attempt - backoff_exponential p attempt div 4 + j)
           (unat (restart_backoff_cap_ms p))"
    using unat_backoff_delay_ms [of p attempt E component_id] by blast
  with cap show ?thesis by linarith
qed


section \<open>Decisions\<close>

lemmas decide_defs = decide_def restart_decision_def stops_children_def Let_def

text \<open>
  C25: A start is decided exactly when the durable mode is running, the component's restarts are
  enabled, fewer restarts are in the window than the budget allows, the component is observed stopped,
  suspect or in backoff, or starting for longer than its grace period, and there was no restart
  before or its backoff delay has elapsed.
\<close>

theorem decide_start_iff:
  "rd_action (decide E p mode enabled ob now n restarted) = Start \<longleftrightarrow>
     mode = ModeRunning \<and> enabled \<and> n < restart_budget_count p
     \<and> (co_state ob \<in> {Stopped, Suspect, Backoff}
        \<or> co_state ob = Starting
          \<and> startup_grace_ms p < saturating_sub now (co_observed_at_ms ob))
     \<and> (case restarted of None \<Rightarrow> True
        | Some t \<Rightarrow> saturating_add t (backoff_delay_ms E p (co_component_id ob)
                                              (co_restart_attempts ob)) \<le> now)"
  by (cases mode; cases "co_state ob")
     (auto simp: decide_defs not_le not_less split: option.splits)

text \<open>
  Under a durable stop or drain intent a component that is not stopped is stopped and one
  that is stopped is left alone, whatever else was observed; a scheduled retry always lies
  strictly in the future of a backoff.
\<close>

theorem decide_stop_precedence:
  "(mode \<in> {ModeStopped, ModeDraining} \<longrightarrow>
      rd_action (decide E p mode enabled ob now n restarted)
        = (if co_state ob = Stopped then Noop else Stop)
      \<and> rd_resulting_state (decide E p mode enabled ob now n restarted) = Stopped)
   \<and> (rd_action (decide E p mode enabled ob now n restarted) = Stop \<longrightarrow>
        mode \<in> {ModeStopped, ModeDraining} \<and> co_state ob \<noteq> Stopped)
   \<and> (rd_resulting_state (decide E p mode enabled ob now n restarted) = Backoff \<longrightarrow>
        (\<exists>t. rd_retry_at_ms (decide E p mode enabled ob now n restarted) = Some t \<and> now < t))"
  by (cases mode; cases "co_state ob")
     (auto simp: decide_defs split: option.splits if_splits)

lemma decide_component_id [simp]:
  "rd_component_id (decide E p mode enabled ob now n restarted) = co_component_id ob"
  by (cases mode; cases "co_state ob") (auto simp: decide_defs split: option.splits)


section \<open>The restart budget\<close>

definition events_within :: "nat \<Rightarrow> nat \<Rightarrow> u64 list \<Rightarrow> nat" where
  "events_within t w es = length (filter (\<lambda>e. t \<le> unat e \<and> unat e \<le> t + w) es)"

definition budget_inv :: "restart_budget \<Rightarrow> u64 list \<Rightarrow> bool" where
  "budget_inv b admitted \<longleftrightarrow>
     rb_events b = filter (\<lambda>e. saturating_sub (rb_last_elapsed_ms b) (rb_window_ms b) \<le> e) admitted
     \<and> sorted admitted
     \<and> (\<forall>e \<in> set admitted. e \<le> rb_last_elapsed_ms b)
     \<and> (\<forall>t. events_within t (unat (rb_window_ms b)) admitted \<le> unat (rb_max_events b))"

lemma length_filter_mono:
  "(\<And>x. x \<in> set xs \<Longrightarrow> P x \<Longrightarrow> Q x) \<Longrightarrow> length (filter P xs) \<le> length (filter Q xs)"
  by (induction xs) (auto intro: le_SucI)

lemma u32_of_len_less: "u32_of_len n < m \<Longrightarrow> n < unat m"
  using unsigned_less [where 'a = nat, of m] by (auto simp: u32_of_len_def word_less_nat_alt unat_of_nat unat_max_word split: if_splits)

lemma budget_new_inv: "budget_inv (budget_new m w) []"
  by (simp add: budget_inv_def budget_new_def events_within_def)

lemma cutoff_mono: "a \<le> b \<Longrightarrow> saturating_sub a w \<le> saturating_sub b (w :: u64)"
  by (simp add: word_le_nat_alt unat_saturating_sub)

lemma budget_observe_fields [simp]:
  "rb_max_events (snd (budget_observe b e)) = rb_max_events b"
  "rb_window_ms (snd (budget_observe b e)) = rb_window_ms b"
  "rb_last_elapsed_ms (snd (budget_observe b e)) = max (rb_last_elapsed_ms b) e"
  by (simp_all add: budget_observe_def Let_def)

lemma budget_observe_inv:
  assumes "budget_inv b admitted"
  shows "budget_inv (snd (budget_observe b e)) admitted"
proof -
  let ?c = "saturating_sub (max (rb_last_elapsed_ms b) e) (rb_window_ms b)"
  have "saturating_sub (rb_last_elapsed_ms b) (rb_window_ms b) \<le> ?c"
    by (rule cutoff_mono) simp
  then have "filter (\<lambda>x. ?c \<le> x) (rb_events b) = filter (\<lambda>x. ?c \<le> x) admitted"
    using assms by (auto simp: budget_inv_def intro!: filter_cong)
  then show ?thesis
    using assms by (auto simp: budget_inv_def budget_observe_def Let_def le_max_iff_disj)
qed

lemma budget_record_eq:
  "snd (budget_record b e) =
     (let b1 = snd (budget_observe b e) in
      if fst (budget_observe b e) < rb_max_events b
      then b1\<lparr>rb_events := rb_events b1 @ [rb_last_elapsed_ms b1]\<rparr> else b1)"
  by (simp add: budget_record_def budget_observe_def Let_def)

lemma budget_admit_inv:
  assumes inv: "budget_inv b admitted" and room: "length (rb_events b) < unat (rb_max_events b)"
  shows "budget_inv (b\<lparr>rb_events := rb_events b @ [rb_last_elapsed_ms b]\<rparr>)
           (admitted @ [rb_last_elapsed_ms b])"
proof -
  let ?last = "rb_last_elapsed_ms b" and ?w = "rb_window_ms b"
  have kept: "events_within t (unat ?w) admitted \<le> length (rb_events b)" if "unat ?last \<le> t + unat ?w" for t
  proof -
    have "length (filter (\<lambda>e. t \<le> unat e \<and> unat e \<le> t + unat ?w) admitted)
      \<le> length (filter (\<lambda>e. saturating_sub ?last ?w \<le> e) admitted)"
      by (rule length_filter_mono)
         (use that in \<open>auto simp: word_le_nat_alt unat_saturating_sub\<close>)
    then show ?thesis using inv by (simp add: events_within_def budget_inv_def)
  qed
  have "events_within t (unat ?w) (admitted @ [?last]) \<le> unat (rb_max_events b)" for t
  proof (cases "t \<le> unat ?last \<and> unat ?last \<le> t + unat ?w")
    case True
    then show ?thesis using kept [of t] room by (simp add: events_within_def)
  next
    case False
    then show ?thesis using inv by (auto simp: events_within_def budget_inv_def)
  qed
  moreover have "saturating_sub ?last ?w \<le> ?last"
    by (simp add: word_le_nat_alt unat_saturating_sub)
  ultimately show ?thesis
    using inv by (auto simp: budget_inv_def sorted_append)
qed

lemma budget_record_inv:
  fixes b e
  assumes "budget_inv b admitted"
  defines "b1 \<equiv> snd (budget_observe b e)" and "b2 \<equiv> snd (budget_record b e)"
  shows "budget_inv b2 (admitted @ drop (length (rb_events b1)) (rb_events b2))"
proof (cases "fst (budget_observe b e) < rb_max_events b")
  case True
  have inv1: "budget_inv b1 admitted"
    unfolding b1_def by (rule budget_observe_inv) (rule assms)
  have "length (rb_events b1) < unat (rb_max_events b1)"
    using True by (auto simp: b1_def budget_observe_def Let_def intro!: u32_of_len_less)
  from budget_admit_inv [OF inv1 this] show ?thesis
    using True by (simp add: b2_def budget_record_eq Let_def flip: b1_def)
next
  case False
  then show ?thesis
    using budget_observe_inv [OF assms(1), of e]
    by (simp add: b2_def b1_def budget_record_eq Let_def)
qed

lemma budget_run_inv: "budget_inv b admitted \<Longrightarrow> case_prod budget_inv (budget_run (b, admitted) ops)"
proof (induction ops arbitrary: b admitted)
  case Nil
  then show ?case by simp
next
  case (Cons op ops)
  then show ?case
    by (cases op) (simp_all add: Let_def budget_observe_inv budget_record_inv)
qed

lemma budget_record_fields [simp]:
  "rb_max_events (snd (budget_record b e)) = rb_max_events b"
  "rb_window_ms (snd (budget_record b e)) = rb_window_ms b"
  by (simp_all add: budget_record_eq Let_def)

lemma budget_run_fields:
  "rb_max_events (fst (budget_run (b, admitted) ops)) = rb_max_events b
   \<and> rb_window_ms (fst (budget_run (b, admitted) ops)) = rb_window_ms b"
proof (induction ops arbitrary: b admitted)
  case Nil
  then show ?case by simp
next
  case (Cons op ops)
  then show ?case by (cases op) (simp_all add: Let_def)
qed

text \<open>
  C12: However observations and restarts are interleaved, and whichever way the reported times
  jump, every time interval of the configured window length holds at most the configured number
  of admitted restarts.
\<close>

theorem restart_rate_bounded:
  "events_within t (unat w) (snd (budget_run (budget_new m w, []) ops)) \<le> unat m"
  using budget_run_inv [OF budget_new_inv, of m w ops] budget_run_fields [of "budget_new m w" "[]" ops]
  by (auto simp: budget_inv_def budget_new_def split: prod.splits)

text \<open>
  C27: The restart budget ages by the clock alone. After any run of a budget of \<open>m\<close> restarts in a
  window, an observation that does not advance the clock forgets no restart; an observation
  more than a window later forgets all of them, and then another restart is admitted if and only if \<open>m\<close>
  is positive. A budget of no restarts never admits one. A new budget of a positive number of
  restarts admits one whatever its window, a window of zero included.
\<close>

theorem restart_budget_aging:
  assumes "budget_run (budget_new m w, []) ops = (b, admitted)"
  shows "(e \<le> rb_last_elapsed_ms b \<longrightarrow> snd (budget_observe b e) = b)
    \<and> (unat (rb_last_elapsed_ms b) + unat w < unat e \<longrightarrow>
         rb_events (snd (budget_observe b e)) = []
         \<and> (admits_restart (snd (budget_observe b e)) \<longleftrightarrow> m > 0))
    \<and> (m = 0 \<longrightarrow> \<not> admits_restart b \<and> admitted = [])
    \<and> (admits_restart (budget_new m w) \<longleftrightarrow> m > 0)"
proof -
  have inv: "budget_inv b admitted" and w: "rb_window_ms b = w" and m: "rb_max_events b = m"
    using budget_run_inv [OF budget_new_inv, of m w ops]
      budget_run_fields [of "budget_new m w" "[]" ops] assms
    by (simp_all add: budget_new_def)
  have "snd (budget_observe b e) = b" if "e \<le> rb_last_elapsed_ms b"
    using inv that by (simp add: budget_inv_def budget_observe_def Let_def max_absorb1 filter_filter)
  moreover have "rb_events (snd (budget_observe b e)) = []"
    if late: "unat (rb_last_elapsed_ms b) + unat w < unat e"
  proof -
    have "rb_last_elapsed_ms b < e"
      using late by (simp add: word_less_nat_alt)
    then have "saturating_sub (max (rb_last_elapsed_ms b) e) w > x" if "x \<in> set (rb_events b)" for x
      using inv late that
      by (force simp: budget_inv_def word_less_nat_alt word_le_nat_alt unat_saturating_sub
          unat_max_of_words)
    then show ?thesis
      by (fastforce simp: budget_observe_def Let_def w filter_empty_conv leD)
  qed
  moreover have "admitted = []" if "m = 0"
  proof -
    have "events_within (unat x) (unat w) admitted = 0" for x using inv that w m by (simp add: budget_inv_def)
    then have "x \<notin> set admitted" for x by (fastforce simp: events_within_def filter_empty_conv)
    then show ?thesis by (cases admitted) auto
  qed
  ultimately show ?thesis
    using m by (auto simp: admits_restart_def budget_new_def word_less_nat_alt)
qed

definition policy_sample :: supervisor_policy where
  "policy_sample = policy_from_config
     \<lparr>wc_probe_interval_ms = 1000, wc_suspect_threshold = 3, wc_startup_grace_secs = 30,
      wc_restart_backoff_base_secs = 1, wc_restart_backoff_cap_secs = 60,
      wc_restart_budget_count = 2, wc_restart_budget_window_secs = 300\<rparr>"

theorem decide_stop_precedence_witness:
  "rd_action (decide externals_sample policy_sample ModeDraining True
     (observation_stopped ''gateway'' 5\<lparr>co_state := Running\<rparr>) 9 0 None) = Stop
   \<and> rd_resulting_state (decide externals_sample policy_sample ModeDraining True
       (observation_stopped ''gateway'' 5\<lparr>co_state := Running\<rparr>) 9 0 None) = Stopped"
  using decide_stop_precedence [where mode = ModeDraining and E = externals_sample and p = policy_sample
      and enabled = True and ob = "observation_stopped ''gateway'' 5\<lparr>co_state := Running\<rparr>"
      and now = 9 and n = 0 and restarted = None]
  by (simp add: observation_stopped_def)

theorem restart_budget_aging_witness:
  "budget_run (budget_new 1 100, []) [Record 50, Record 60] =
     (\<lparr>rb_max_events = 1, rb_window_ms = 100, rb_last_elapsed_ms = 60, rb_events = [50]\<rparr>, [50])
   \<and> admits_restart (snd (budget_observe
        \<lparr>rb_max_events = 1, rb_window_ms = 100, rb_last_elapsed_ms = 60, rb_events = [50]\<rparr> 161))"
proof -
  have run: "budget_run (budget_new 1 100, []) [Record 50, Record 60] =
     (\<lparr>rb_max_events = 1, rb_window_ms = 100, rb_last_elapsed_ms = 60, rb_events = [50]\<rparr>, [50])"
    by (simp add: budget_new_def budget_record_def budget_observe_def u32_of_len_def
        saturating_sub_def max_def)
  show ?thesis
    using run restart_budget_aging [OF run, of 161] by simp
qed

end
