(* ===== verification/Store_Types.thy ===== *)
theory Store_Types
  imports Supervisor_Policy
begin

text \<open>
  The owner-local database: the enumerations stored in its CHECK-constrained text columns with
  their \<^verbatim>\<open>as_str\<close>/\<^verbatim>\<open>parse\<close> conversions, one row record per table of the schema, the database as
  the record of its tables (rows in insertion order), the \<^verbatim>\<open>Store\<close> handle and the transaction
  combinator: an operation that fails before its commit leaves the database as it was.
\<close>

section \<open>Stored enumerations\<close>

datatype job_status = JQueued | JRunning | JCompleted | JFailed | JQuarantined

fun job_status_as_str :: "job_status \<Rightarrow> string" where
  "job_status_as_str JQueued = ''queued''"
| "job_status_as_str JRunning = ''running''"
| "job_status_as_str JCompleted = ''completed''"
| "job_status_as_str JFailed = ''failed''"
| "job_status_as_str JQuarantined = ''quarantined''"

definition job_status_parse :: "string \<Rightarrow> job_status result" where
  "job_status_parse value =
     (if value = ''queued'' then Inr JQueued
      else if value = ''running'' then Inr JRunning
      else if value = ''completed'' then Inr JCompleted
      else if value = ''failed'' then Inr JFailed
      else if value = ''quarantined'' then Inr JQuarantined
      else Inl (Conflict (''unknown durable job status '' @ value)))"

text \<open>The \<^verbatim>\<open>Debug\<close> rendering used in audit details.\<close>

fun job_status_debug :: "job_status \<Rightarrow> string" where
  "job_status_debug JQueued = ''Queued''"
| "job_status_debug JRunning = ''Running''"
| "job_status_debug JCompleted = ''Completed''"
| "job_status_debug JFailed = ''Failed''"
| "job_status_debug JQuarantined = ''Quarantined''"

datatype attempt_status = ARunning | ACompleted | AFailed | AUnknown

fun attempt_status_as_str :: "attempt_status \<Rightarrow> string" where
  "attempt_status_as_str ARunning = ''running''"
| "attempt_status_as_str ACompleted = ''completed''"
| "attempt_status_as_str AFailed = ''failed''"
| "attempt_status_as_str AUnknown = ''unknown''"

fun mode_as_str :: "desired_mode \<Rightarrow> string" where
  "mode_as_str ModeStopped = ''stopped''"
| "mode_as_str ModePaused = ''paused''"
| "mode_as_str ModeRunning = ''running''"
| "mode_as_str ModeDraining = ''draining''"

definition parse_mode :: "string \<Rightarrow> desired_mode result" where
  "parse_mode value =
     (if value = ''stopped'' then Inr ModeStopped
      else if value = ''paused'' then Inr ModePaused
      else if value = ''running'' then Inr ModeRunning
      else if value = ''draining'' then Inr ModeDraining
      else Inl (Conflict (''unknown desired mode '' @ value)))"

fun component_state_as_str :: "component_state \<Rightarrow> string" where
  "component_state_as_str Stopped = ''stopped''"
| "component_state_as_str Starting = ''starting''"
| "component_state_as_str Running = ''running''"
| "component_state_as_str Suspect = ''suspect''"
| "component_state_as_str Backoff = ''backoff''"
| "component_state_as_str Paused = ''paused''"
| "component_state_as_str Blocked = ''blocked''"
| "component_state_as_str Quarantined = ''quarantined''"

definition component_state_parse :: "string \<Rightarrow> component_state result" where
  "component_state_parse value =
     (if value = ''stopped'' then Inr Stopped
      else if value = ''starting'' then Inr Starting
      else if value = ''running'' then Inr Running
      else if value = ''suspect'' then Inr Suspect
      else if value = ''backoff'' then Inr Backoff
      else if value = ''paused'' then Inr Paused
      else if value = ''blocked'' then Inr Blocked
      else if value = ''quarantined'' then Inr Quarantined
      else Inl (Conflict (''unknown component state '' @ value)))"

datatype launch_intent_state = LPrepared | LProofRecorded | LActive | LCleaned

fun launch_intent_state_as_str :: "launch_intent_state \<Rightarrow> string" where
  "launch_intent_state_as_str LPrepared = ''prepared''"
| "launch_intent_state_as_str LProofRecorded = ''proof_recorded''"
| "launch_intent_state_as_str LActive = ''active''"
| "launch_intent_state_as_str LCleaned = ''cleaned''"

definition launch_intent_state_parse :: "string \<Rightarrow> launch_intent_state result" where
  "launch_intent_state_parse value =
     (if value = ''prepared'' then Inr LPrepared
      else if value = ''proof_recorded'' then Inr LProofRecorded
      else if value = ''active'' then Inr LActive
      else if value = ''cleaned'' then Inr LCleaned
      else Inl (Conflict (''unknown launch intent state '' @ value)))"

datatype operator_capability = CapRead | CapAdmin

fun operator_capability_as_str :: "operator_capability \<Rightarrow> string" where
  "operator_capability_as_str CapRead = ''read''"
| "operator_capability_as_str CapAdmin = ''admin''"

definition operator_capability_parse :: "string \<Rightarrow> operator_capability result" where
  "operator_capability_parse value =
     (if value = ''read'' then Inr CapRead
      else if value = ''admin'' then Inr CapAdmin
      else Inl (Conflict (''unknown operator capability class '' @ value)))"

datatype operator_command =
    CmdStatus | CmdJobs | CmdAttempt | CmdReleaseInspect | CmdStart | CmdPause | CmdResume
  | CmdDrain | CmdStop | CmdQuarantine | CmdRetry | CmdReconcile | CmdBackup | CmdRestore
  | CmdReleaseActivate | CmdJobSubmit

fun operator_command_as_str :: "operator_command \<Rightarrow> string" where
  "operator_command_as_str CmdStatus = ''status''"
| "operator_command_as_str CmdJobs = ''jobs''"
| "operator_command_as_str CmdAttempt = ''attempt''"
| "operator_command_as_str CmdReleaseInspect = ''release_inspect''"
| "operator_command_as_str CmdStart = ''start''"
| "operator_command_as_str CmdPause = ''pause''"
| "operator_command_as_str CmdResume = ''resume''"
| "operator_command_as_str CmdDrain = ''drain''"
| "operator_command_as_str CmdStop = ''stop''"
| "operator_command_as_str CmdQuarantine = ''quarantine''"
| "operator_command_as_str CmdRetry = ''retry''"
| "operator_command_as_str CmdReconcile = ''reconcile''"
| "operator_command_as_str CmdBackup = ''backup''"
| "operator_command_as_str CmdRestore = ''restore''"
| "operator_command_as_str CmdReleaseActivate = ''release_activate''"
| "operator_command_as_str CmdJobSubmit = ''job_submit''"

definition operator_command_parse :: "string \<Rightarrow> operator_command result" where
  "operator_command_parse value =
     (if value = ''status'' then Inr CmdStatus
      else if value = ''jobs'' then Inr CmdJobs
      else if value = ''attempt'' then Inr CmdAttempt
      else if value = ''release_inspect'' then Inr CmdReleaseInspect
      else if value = ''start'' then Inr CmdStart
      else if value = ''pause'' then Inr CmdPause
      else if value = ''resume'' then Inr CmdResume
      else if value = ''drain'' then Inr CmdDrain
      else if value = ''stop'' then Inr CmdStop
      else if value = ''quarantine'' then Inr CmdQuarantine
      else if value = ''retry'' then Inr CmdRetry
      else if value = ''reconcile'' then Inr CmdReconcile
      else if value = ''backup'' then Inr CmdBackup
      else if value = ''restore'' then Inr CmdRestore
      else if value = ''release_activate'' then Inr CmdReleaseActivate
      else if value = ''job_submit'' then Inr CmdJobSubmit
      else Inl (Conflict (''unknown operator command '' @ value)))"

definition is_read_only :: "operator_command \<Rightarrow> bool" where
  "is_read_only c \<longleftrightarrow> c \<in> {CmdStatus, CmdJobs, CmdAttempt, CmdReleaseInspect}"

fun command_desired_mode :: "operator_command \<Rightarrow> desired_mode option" where
  "command_desired_mode CmdStart = Some ModeRunning"
| "command_desired_mode CmdResume = Some ModeRunning"
| "command_desired_mode CmdPause = Some ModePaused"
| "command_desired_mode CmdDrain = Some ModeDraining"
| "command_desired_mode CmdStop = Some ModeStopped"
| "command_desired_mode _ = None"

definition is_lifecycle :: "operator_command \<Rightarrow> bool" where
  "is_lifecycle c \<longleftrightarrow> command_desired_mode c \<noteq> None"

datatype worker_control_mode = WRunning | WPaused | WDraining | WStopped

fun worker_control_mode_as_str :: "worker_control_mode \<Rightarrow> string" where
  "worker_control_mode_as_str WRunning = ''running''"
| "worker_control_mode_as_str WPaused = ''paused''"
| "worker_control_mode_as_str WDraining = ''draining''"
| "worker_control_mode_as_str WStopped = ''stopped''"

definition worker_control_mode_parse :: "string \<Rightarrow> worker_control_mode result" where
  "worker_control_mode_parse value =
     (if value = ''running'' then Inr WRunning
      else if value = ''paused'' then Inr WPaused
      else if value = ''draining'' then Inr WDraining
      else if value = ''stopped'' then Inr WStopped
      else Inl (Conflict (''unknown worker control mode '' @ value)))"

datatype worker_handoff_state =
  HPrepared | HMayHaveBeenDispatched | HAdmitted | HCompleted | HFailed | HAcknowledged | HRejected

fun worker_handoff_state_as_str :: "worker_handoff_state \<Rightarrow> string" where
  "worker_handoff_state_as_str HPrepared = ''prepared''"
| "worker_handoff_state_as_str HMayHaveBeenDispatched = ''may_have_been_dispatched''"
| "worker_handoff_state_as_str HAdmitted = ''admitted''"
| "worker_handoff_state_as_str HCompleted = ''completed''"
| "worker_handoff_state_as_str HFailed = ''failed''"
| "worker_handoff_state_as_str HAcknowledged = ''acknowledged''"
| "worker_handoff_state_as_str HRejected = ''rejected''"

definition worker_handoff_state_parse :: "string \<Rightarrow> worker_handoff_state result" where
  "worker_handoff_state_parse value =
     (if value = ''prepared'' then Inr HPrepared
      else if value = ''may_have_been_dispatched'' then Inr HMayHaveBeenDispatched
      else if value = ''admitted'' then Inr HAdmitted
      else if value = ''completed'' then Inr HCompleted
      else if value = ''failed'' then Inr HFailed
      else if value = ''acknowledged'' then Inr HAcknowledged
      else if value = ''rejected'' then Inr HRejected
      else Inl (Conflict (''unknown worker handoff state '' @ value)))"

definition handoff_is_terminal :: "worker_handoff_state \<Rightarrow> bool" where
  "handoff_is_terminal st \<longleftrightarrow> st \<in> {HCompleted, HFailed, HAcknowledged}"

datatype worker_terminal_status = TCompleted | TFailed

fun worker_terminal_status_as_str :: "worker_terminal_status \<Rightarrow> string" where
  "worker_terminal_status_as_str TCompleted = ''completed''"
| "worker_terminal_status_as_str TFailed = ''failed''"

definition worker_terminal_status_parse :: "string \<Rightarrow> worker_terminal_status result" where
  "worker_terminal_status_parse value =
     (if value = ''completed'' then Inr TCompleted
      else if value = ''failed'' then Inr TFailed
      else Inl (Conflict (''unknown worker terminal status '' @ value)))"


section \<open>Rows\<close>

record audit_row =
  au_action :: string
  au_detail :: string
  au_occurred_at_ms :: i64

record job_row =
  j_id :: string
  j_kind :: string
  j_payload :: string
  j_payload_digest :: string
  j_status :: job_status
  j_created_at_ms :: i64
  j_claimed_at_ms :: "i64 option"
  j_completed_at_ms :: "i64 option"
  j_attempt_count :: i64
  j_next_retry_at_ms :: "i64 option"
  j_last_error :: "string option"
  j_result :: "string option"
  j_completion_digest :: "string option"
  j_worker_id :: "string option"

record attempt_row =
  a_id :: string
  a_job_id :: string
  a_sequence :: i64
  a_lineage :: string
  a_status :: attempt_status
  a_started_at_ms :: i64
  a_finished_at_ms :: "i64 option"
  a_worker_id :: "string option"
  a_outcome :: "string option"

record operator_row =
  o_sequence :: i64
  o_request_id :: string
  o_idempotency_key :: string
  o_principal :: string
  o_capability :: operator_capability
  o_command :: operator_command
  o_command_fingerprint :: string
  o_desired_mode :: "desired_mode option"
  o_response_json :: string
  o_recorded_at_ms :: i64

text \<open>The two binding columns are nullable in a store migrated from schema 1.\<close>

record intent_row =
  l_id :: string
  l_deployment_id :: string
  l_component_id :: string
  l_launch_nonce :: string
  l_expected_incarnation :: "string option"
  l_expected_launch_spec_digest :: "string option"
  l_planned_containment_id :: "string option"
  l_state :: launch_intent_state
  l_ownership_proof_json :: "string option"
  l_created_at_ms :: i64
  l_updated_at_ms :: i64

record restart_row =
  r_component_id :: string
  r_occurred_at_ms :: i64
  r_clock_epoch :: string
  r_clock_elapsed_ms :: i64

record component_row =
  c_id :: string
  c_state :: string
  c_launch_nonce :: "string option"
  c_pid :: "i64 option"
  c_executable_digest :: "string option"
  c_started_at_ms :: "i64 option"
  c_restart_attempts :: i64
  c_last_restart_at_ms :: "i64 option"
  c_last_error :: "string option"
  c_identity_json :: "string option"
  c_updated_at_ms :: i64

record worker_binding_row =
  b_deployment_id :: string
  b_worker_owner_id :: string
  b_worker_profile_digest :: string
  b_release_digest :: string
  b_config_digest :: string
  b_schema_digest :: string
  b_updated_at_ms :: i64

record worker_control_row =
  w_deployment_id :: string
  w_worker_owner_id :: string
  w_worker_profile_digest :: string
  w_watchdog_boot_id :: string
  w_worker_boot_id :: string
  w_mode :: worker_control_mode
  w_mode_sequence :: i64
  w_updated_at_ms :: i64

record handoff_row =
  h_handoff_id :: string
  h_deployment_id :: string
  h_job_id :: string
  h_attempt_id :: string
  h_attempt_number :: i64
  h_worker_owner_id :: string
  h_worker_profile_digest :: string
  h_run_id :: string
  h_episode_id :: string
  h_trajectory_id :: string
  h_payload_digest :: string
  h_watchdog_boot_id :: string
  h_worker_boot_id :: string
  h_mode_sequence :: i64
  h_operation :: string
  h_parameters :: string
  h_state :: worker_handoff_state
  h_terminal_status :: "worker_terminal_status option"
  h_checkpoint_sequence :: "i64 option"
  h_terminal_ref :: "string option"
  h_result_digest :: "string option"
  h_terminal_digest :: "string option"
  h_terminal_result :: "string option"
  h_ack_intent :: i64
  h_created_at_ms :: i64
  h_updated_at_ms :: i64
  h_dispatched_at_ms :: "i64 option"
  h_admitted_at_ms :: "i64 option"
  h_terminal_at_ms :: "i64 option"
  h_acknowledged_at_ms :: "i64 option"

text \<open>The two bootstrap tables have the same columns.\<close>

record bootstrap_row =
  bb_intent_id :: string
  bb_version :: i64
  bb_watchdog_boot_id :: string
  bb_frame_sha256 :: string

text \<open>A row of \<^verbatim>\<open>sqlite_master\<close>.\<close>

record master_row =
  m_type :: string
  m_name :: string
  m_tbl_name :: string
  m_sql :: string


section \<open>Database and store\<close>

record db =
  metadata :: "string \<rightharpoonup> string"
  audit_log :: "audit_row list"
  jobs :: "job_row list"
  attempts :: "attempt_row list"
  operator_commands :: "operator_row list"
  operator_seq :: i64
  launch_intents :: "intent_row list"
  restart_events :: "restart_row list"
  components :: "component_row list"
  worker_bindings :: "worker_binding_row option"
  worker_control :: "worker_control_row option"
  worker_handoffs :: "handoff_row list"
  worker_bootstrap_bindings :: "bootstrap_row list"
  gateway_health_bindings :: "bootstrap_row list"
  sqlite_master :: "master_row list"

record store =
  conn :: db
  path :: string
  max_jobs :: u64
  max_payload_bytes :: u64
  restart_clock_epoch :: string

text \<open>A database without rows.\<close>

definition blank_db :: db where
  "blank_db =
     \<lparr>metadata = Map.empty, audit_log = [], jobs = [], attempts = [], operator_commands = [],
      operator_seq = 0, launch_intents = [], restart_events = [], components = [],
      worker_bindings = None, worker_control = None, worker_handoffs = [],
      worker_bootstrap_bindings = [], gateway_health_bindings = [], sqlite_master = []\<rparr>"

text \<open>
  A transaction: what it computed and the database to commit, or an error and the rollback.
\<close>

definition with_tx :: "store \<Rightarrow> (db \<Rightarrow> ('a \<times> db) result) \<Rightarrow> 'a result \<times> store" where
  "with_tx s f =
     (case f (conn s) of Inl e \<Rightarrow> (Inl e, s) | Inr (x, d) \<Rightarrow> (Inr x, s\<lparr>conn := d\<rparr>))"

text \<open>The rest of a function after a fallible step that already changed the store.\<close>

definition bindS :: "'a result \<times> store \<Rightarrow> ('a \<Rightarrow> store \<Rightarrow> 'b result \<times> store) \<Rightarrow> 'b result \<times> store" where
  "bindS m f = (case m of (Inl e, s) \<Rightarrow> (Inl e, s) | (Inr x, s) \<Rightarrow> f x s)"

lemma with_tx_error: "fst (with_tx s f) = Inl e \<Longrightarrow> snd (with_tx s f) = s"
  by (auto simp: with_tx_def split: sum.splits prod.splits)

lemma with_tx_Inr [result_simps]:
  "with_tx s f = (Inr x, s') \<longleftrightarrow> (\<exists>d. f (conn s) = Inr (x, d) \<and> s' = s\<lparr>conn := d\<rparr>)"
  by (auto simp: with_tx_def split: sum.splits prod.splits)

lemma with_tx_Inl: "with_tx s f = (Inl e, s') \<longleftrightarrow> f (conn s) = Inl e \<and> s' = s"
  by (auto simp: with_tx_def split: sum.splits prod.splits)

lemma with_tx_cases:
  obtains e where "f (conn s) = Inl e" "with_tx s f = (Inl e, s)"
  | x d where "f (conn s) = Inr (x, d)" "with_tx s f = (Inr x, s\<lparr>conn := d\<rparr>)"
  by (cases "f (conn s)") (auto simp: with_tx_def)


section \<open>Keys\<close>

interpretation job_table: keyed_table j_id "\<lambda>r x. j_id r = j_id x"
  by unfold_locales

interpretation attempt_table: keyed_table a_id
  "\<lambda>x y. a_id x = a_id y \<or> (a_job_id x = a_job_id y \<and> a_sequence x = a_sequence y)"
  by unfold_locales simp


section \<open>Round trips\<close>

text \<open>
  Every stored enumeration is read back as the value that was written, and reading accepts
  nothing else.
\<close>

lemma job_status_parse_iff: "job_status_parse v = Inr st \<longleftrightarrow> v = job_status_as_str st"
  by (cases st) (auto simp: job_status_parse_def)

lemma parse_mode_iff: "parse_mode v = Inr m \<longleftrightarrow> v = mode_as_str m"
  by (cases m) (auto simp: parse_mode_def)

lemma component_state_parse_iff: "component_state_parse v = Inr st \<longleftrightarrow> v = component_state_as_str st"
  by (cases st) (auto simp: component_state_parse_def)

lemma launch_intent_state_parse_iff:
  "launch_intent_state_parse v = Inr st \<longleftrightarrow> v = launch_intent_state_as_str st"
  by (cases st) (auto simp: launch_intent_state_parse_def)

lemma operator_capability_parse_iff:
  "operator_capability_parse v = Inr c \<longleftrightarrow> v = operator_capability_as_str c"
  by (cases c) (auto simp: operator_capability_parse_def)

lemma operator_command_parse_iff:
  "operator_command_parse v = Inr c \<longleftrightarrow> v = operator_command_as_str c"
  by (cases c) (auto simp: operator_command_parse_def)

lemma worker_control_mode_parse_iff:
  "worker_control_mode_parse v = Inr m \<longleftrightarrow> v = worker_control_mode_as_str m"
  by (cases m) (auto simp: worker_control_mode_parse_def)

lemma worker_handoff_state_parse_iff:
  "worker_handoff_state_parse v = Inr st \<longleftrightarrow> v = worker_handoff_state_as_str st"
  by (cases st) (auto simp: worker_handoff_state_parse_def)

lemma worker_terminal_status_parse_iff:
  "worker_terminal_status_parse v = Inr st \<longleftrightarrow> v = worker_terminal_status_as_str st"
  by (cases st) (auto simp: worker_terminal_status_parse_def)

lemmas parse_iffs = job_status_parse_iff parse_mode_iff component_state_parse_iff
  launch_intent_state_parse_iff operator_capability_parse_iff operator_command_parse_iff
  worker_control_mode_parse_iff worker_handoff_state_parse_iff worker_terminal_status_parse_iff

lemma parse_as_str [simp]:
  "job_status_parse (job_status_as_str js) = Inr js"
  "parse_mode (mode_as_str m) = Inr m"
  "component_state_parse (component_state_as_str cs) = Inr cs"
  "launch_intent_state_parse (launch_intent_state_as_str ls) = Inr ls"
  "operator_capability_parse (operator_capability_as_str cap) = Inr cap"
  "operator_command_parse (operator_command_as_str cmd) = Inr cmd"
  "worker_control_mode_parse (worker_control_mode_as_str wm) = Inr wm"
  "worker_handoff_state_parse (worker_handoff_state_as_str hs) = Inr hs"
  "worker_terminal_status_parse (worker_terminal_status_as_str ts) = Inr ts"
  by (simp_all add: parse_iffs)

end
