(* ===== verification/Store_Metadata.thy ===== *)
theory Store_Metadata
  imports Store_Types
begin

text \<open>
  \<^verbatim>\<open>storage_metadata.rs\<close>, with the insertion of a metadata value and the durability pragmas of
  \<^verbatim>\<open>storage_schema.rs\<close>: value guards, metadata access, the bounded append-only audit log, desired
  mode, restart generation, reconciliation progress and the status view. The lemmas show that the
  audit log only grows and stays bounded with its reserves, and that the generation and the
  reconciliation sequence count up by one.
\<close>

section \<open>Value guards\<close>

definition to_sqlite_error :: "string \<Rightarrow> sqlite_error" where
  "to_sqlite_error message = FromSqlConversionFailure message"

text \<open>\<^verbatim>\<open>map_err(to_sqlite_error)\<close> on an error of the watchdog.\<close>

definition to_sql :: "externals \<Rightarrow> 'a result \<Rightarrow> 'a sqlite_result" where
  "to_sql E = map_err (\<lambda>e. to_sqlite_error (display_error E e))"

lemma to_sql_Inr [result_simps]: "to_sql E m = Inr x \<longleftrightarrow> m = Inr x"
  by (simp add: to_sql_def map_err_Inr)

lemma to_sql_simps [simp]: "to_sql E (Inr x) = Inr x"
  by (simp add: to_sql_def)

definition sqlite_u64 :: "i64 \<Rightarrow> string \<Rightarrow> u64 sqlite_result" where
  "sqlite_u64 value field =
     (if 0 \<le> value then Inr (word_of_int value)
      else Inl (to_sqlite_error (field @ '' contains a negative or out-of-range integer'')))"

definition sqlite_u32 :: "i64 \<Rightarrow> string \<Rightarrow> u32 sqlite_result" where
  "sqlite_u32 value field =
     (if 0 \<le> value \<and> value < 2 ^ 32 then Inr (word_of_int value)
      else Inl (to_sqlite_error (field @ '' contains a negative or out-of-range integer'')))"

definition sqlite_optional_u64 :: "i64 option \<Rightarrow> string \<Rightarrow> u64 option sqlite_result" where
  "sqlite_optional_u64 value field = transposeE (\<lambda>v. sqlite_u64 v field) value"

definition sqlite_optional_u32 :: "i64 option \<Rightarrow> string \<Rightarrow> u32 option sqlite_result" where
  "sqlite_optional_u32 value field = transposeE (\<lambda>v. sqlite_u32 v field) value"

definition validate_name :: "string \<Rightarrow> string \<Rightarrow> nat \<Rightarrow> unit result" where
  "validate_name value name max_bytes =
     ensure (\<not> (value = [] \<or> max_bytes < length value \<or> contains_nul value \<or> has_control value))
       (InvalidInput (name @ '' must be non-empty, bounded, and free of control characters''))"

definition validate_name_sqlite :: "string \<Rightarrow> string \<Rightarrow> nat \<Rightarrow> unit sqlite_result" where
  "validate_name_sqlite value field bound =
     ensure (\<not> (value = [] \<or> bound < length value \<or> has_control value))
       (to_sqlite_error (field @ '' is invalid or exceeds its bound''))"

definition parse_metadata_i64 :: "string \<Rightarrow> string \<Rightarrow> i64 result" where
  "parse_metadata_i64 key value =
     ok_or (Conflict (key @ '' metadata is not a valid SQLite integer'')) (parse_i64 value)"

definition validate_metadata_identifier :: "string \<Rightarrow> string \<Rightarrow> unit result" where
  "validate_metadata_identifier key value =
     ensure (\<not> (value = [] \<or> 128 < length value \<or> contains_nul value \<or> has_control value))
       (Conflict (key @ '' metadata is invalid''))"

definition sqlite_timestamp :: "u64 \<Rightarrow> i64 result" where
  "sqlite_timestamp value =
     (if uint value \<le> i64_max then Inr (uint value)
      else Inl (InvalidInput ''timestamp exceeds SQLite integer range''))"

definition max_audit_detail_bytes :: nat where
  "max_audit_detail_bytes = 16 * 1024"

definition validate_detail :: "string \<Rightarrow> string \<Rightarrow> unit result" where
  "validate_detail value name =
     ensure (\<not> (max_audit_detail_bytes < length value \<or> contains_nul value))
       (InvalidInput (name @ '' exceeds its size bound''))"


section \<open>Metadata and audit\<close>

definition metadata_from_conn :: "db \<Rightarrow> string \<Rightarrow> string option" where
  "metadata_from_conn d key = metadata d key"

definition update_metadata_tx :: "db \<Rightarrow> string \<Rightarrow> string \<Rightarrow> db result" where
  "update_metadata_tx d key value =
     bindE (ensure (metadata d key \<noteq> None) (Conflict (''metadata key '' @ key @ '' is missing'')))
       (\<lambda>_. Inr (d\<lparr>metadata := (metadata d)(key \<mapsto> value)\<rparr>))"

definition upsert_metadata_tx :: "db \<Rightarrow> string \<Rightarrow> string \<Rightarrow> db" where
  "upsert_metadata_tx d key value = d\<lparr>metadata := (metadata d)(key \<mapsto> value)\<rparr>"

definition insert_metadata :: "db \<Rightarrow> string \<Rightarrow> string \<Rightarrow> db result" where
  "insert_metadata d key value =
     bindE (ensure (metadata d key = None) (Sqlite (ConstraintViolation ''metadata.key'')))
       (\<lambda>_. Inr (d\<lparr>metadata := (metadata d)(key \<mapsto> value)\<rparr>))"

definition MAX_AUDIT_RECORDS :: nat where
  "MAX_AUDIT_RECORDS = 4096"

definition RESERVED_CRITICAL_AUDIT_RECORDS :: nat where
  "RESERVED_CRITICAL_AUDIT_RECORDS = 8"

definition RESERVED_STOP_AUDIT_RECORDS :: nat where
  "RESERVED_STOP_AUDIT_RECORDS = 1"

definition starts_with :: "string \<Rightarrow> string \<Rightarrow> bool" where
  "starts_with s p = (take (length p) s = p)"

definition is_critical_audit_action :: "string \<Rightarrow> bool" where
  "is_critical_audit_action action \<longleftrightarrow>
     action = ''desired_mode_changed'' \<or> starts_with action ''operator_command_''
     \<or> action = ''store_restored_new_watchdog_namespace''"

definition is_emergency_stop_audit_action :: "string \<Rightarrow> bool" where
  "is_emergency_stop_audit_action action \<longleftrightarrow> action = ''operator_command_stop_accepted''"

definition audit_limit :: "string \<Rightarrow> nat" where
  "audit_limit action =
     (if is_emergency_stop_audit_action action then MAX_AUDIT_RECORDS + RESERVED_STOP_AUDIT_RECORDS
      else if is_critical_audit_action action then MAX_AUDIT_RECORDS
      else MAX_AUDIT_RECORDS - RESERVED_CRITICAL_AUDIT_RECORDS)"

definition insert_audit_tx :: "db \<Rightarrow> string \<Rightarrow> string \<Rightarrow> u64 \<Rightarrow> db result" where
  "insert_audit_tx d action detail now_ms =
     bindE (validate_name action ''audit action'' 128) (\<lambda>_.
     bindE (validate_detail detail ''audit detail'') (\<lambda>_.
     bindE (ensure (length (audit_log d) < audit_limit action)
              (Conflict ''audit retention bound is full; explicit archival is required'')) (\<lambda>_.
     bindE (sqlite_timestamp now_ms) (\<lambda>occurred.
     Inr (d\<lparr>audit_log := audit_log d
               @ [\<lparr>au_action = action, au_detail = detail, au_occurred_at_ms = occurred\<rparr>]\<rparr>)))))"


section \<open>Operations\<close>

definition store_metadata :: "store \<Rightarrow> string \<Rightarrow> string option" where
  "store_metadata s key = metadata_from_conn (conn s) key"

definition store_desired_mode :: "store \<Rightarrow> desired_mode result" where
  "store_desired_mode s =
     bindE (ok_or (Conflict ''desired mode metadata is missing'') (store_metadata s ''desired_mode''))
       parse_mode"

definition set_desired_mode_at :: "store \<Rightarrow> desired_mode \<Rightarrow> u64 \<Rightarrow> unit result \<times> store" where
  "set_desired_mode_at s mode now_ms = with_tx s (\<lambda>d.
     bindE (update_metadata_tx d ''desired_mode'' (mode_as_str mode)) (\<lambda>d.
     bindE (update_metadata_tx d ''updated_at_ms'' (show_u64 now_ms)) (\<lambda>d.
     bindE (insert_audit_tx d ''desired_mode_changed'' (mode_as_str mode) now_ms) (\<lambda>d.
     Inr ((), d)))))"

definition read_restart_generation :: "store \<Rightarrow> i64 result" where
  "read_restart_generation s =
     bindE (ok_or (Conflict ''restart_generation metadata is missing'')
              (store_metadata s ''restart_generation'')) (\<lambda>text.
     bindE (parse_metadata_i64 ''restart_generation'' text) (\<lambda>current.
     bindE (ensure (0 < current) (Conflict ''restart_generation metadata must be positive'')) (\<lambda>_.
     Inr current)))"

definition establish_new_generation :: "store \<Rightarrow> u64 \<Rightarrow> i64 result \<times> store" where
  "establish_new_generation s now_ms = with_tx s (\<lambda>d.
     bindE (read_restart_generation s) (\<lambda>current.
     bindE (ok_or (Conflict ''restart generation exhausted'')
              (if current + 1 \<le> i64_max then Some (current + 1) else None)) (\<lambda>next.
     bindE (update_metadata_tx d ''restart_generation'' (show_int next)) (\<lambda>d.
     bindE (update_metadata_tx d ''updated_at_ms'' (show_u64 now_ms)) (\<lambda>d.
     bindE (insert_audit_tx d ''fresh_reconciliation_generation'' (show_int next) now_ms) (\<lambda>d.
     Inr (next, d)))))))"

definition audit :: "store \<Rightarrow> string \<Rightarrow> string \<Rightarrow> u64 \<Rightarrow> unit result \<times> store" where
  "audit s action detail now_ms = with_tx s (\<lambda>d.
     bindE (validate_name action ''audit action'' 128) (\<lambda>_.
     bindE (validate_detail detail ''audit detail'') (\<lambda>_.
     bindE (insert_audit_tx d action detail now_ms) (\<lambda>d. Inr ((), d)))))"

definition record_reconciliation_progress :: "store \<Rightarrow> u64 \<Rightarrow> unit result \<times> store" where
  "record_reconciliation_progress s now_ms = with_tx s (\<lambda>d.
     bindE (sqlite_timestamp now_ms) (\<lambda>timestamp.
     let sequence = metadata_from_conn d ''reconciliation_sequence'';
         previous_time = metadata_from_conn d ''last_reconciled_at_ms'' in
     bindE (ensure ((sequence \<noteq> None) = (previous_time \<noteq> None))
              (Conflict ''incomplete reconciliation progress marker'')) (\<lambda>_.
     bindE (case previous_time of
              None \<Rightarrow> Inr ()
            | Some value \<Rightarrow>
                bindE (ok_or (Conflict ''invalid reconciliation timestamp'') (parse_u64 value)) (\<lambda>v.
                bindE (sqlite_timestamp v) (\<lambda>_. Inr ()))) (\<lambda>_.
     bindE (case sequence of
              None \<Rightarrow> Inr 0
            | Some value \<Rightarrow> ok_or (Conflict ''invalid reconciliation sequence'') (parse_u64 value))
       (\<lambda>previous.
     bindE (ensure (\<not> (sequence \<noteq> None \<and> previous = 0))
              (Conflict ''invalid zero reconciliation sequence'')) (\<lambda>_.
     bindE (ok_or (Conflict ''reconciliation sequence exhausted'')
              (case checked_add previous 1 of
                 None \<Rightarrow> None
               | Some v \<Rightarrow> if uint v \<le> i64_max then Some v else None)) (\<lambda>next.
     Inr ((), upsert_metadata_tx (upsert_metadata_tx d ''reconciliation_sequence'' (show_u64 next))
                ''last_reconciled_at_ms'' (show_int timestamp)))))))))"

text \<open>The status view; the connection pragmas are what SQLite reported.\<close>

record durability_pragmas =
  dp_journal_mode :: string
  dp_synchronous :: i64
  dp_foreign_keys :: i64

definition ascii_lower :: "char \<Rightarrow> char" where
  "ascii_lower c = (if 65 \<le> byte c \<and> byte c \<le> 90 then char_of (byte c + 32) else c)"

definition is_wal_full :: "durability_pragmas \<Rightarrow> bool" where
  "is_wal_full p \<longleftrightarrow> map ascii_lower (dp_journal_mode p) = ''wal'' \<and> dp_synchronous p = 2
     \<and> dp_foreign_keys p = 1"

record store_status =
  st_database :: string
  st_deployment_id :: string
  st_desired_mode :: desired_mode
  st_schema_version :: i64
  st_restart_generation :: i64
  st_config_digest :: string
  st_approved_release_digest :: "string option"
  st_jobs_queued :: u64
  st_jobs_running :: u64
  st_jobs_completed :: u64
  st_jobs_quarantined :: u64
  st_durability :: durability_pragmas

definition SCHEMA_VERSION :: i64 where
  "SCHEMA_VERSION = 2"

definition job_count :: "store \<Rightarrow> job_status \<Rightarrow> u64 result" where
  "job_count s st = Inr (of_nat (matching (\<lambda>r. j_status r = st) (jobs (conn s))))"

definition status :: "store \<Rightarrow> durability_pragmas \<Rightarrow> store_status result" where
  "status s pragmas =
     bindE (ok_or (Conflict ''deployment_id metadata is missing'')
              (store_metadata s ''deployment_id'')) (\<lambda>deployment_id.
     bindE (validate_metadata_identifier ''deployment_id'' deployment_id) (\<lambda>_.
     bindE (store_desired_mode s) (\<lambda>desired_mode.
     bindE (ok_or (Conflict ''schema_version metadata is missing'')
              (store_metadata s ''schema_version'')) (\<lambda>version_text.
     bindE (parse_metadata_i64 ''schema_version'' version_text) (\<lambda>schema_version.
     bindE (ensure (schema_version = SCHEMA_VERSION)
              (Unsupported (''store schema '' @ show_int schema_version
                            @ '' requires an explicit migration''))) (\<lambda>_.
     bindE (read_restart_generation s) (\<lambda>restart_generation.
     bindE (ok_or (Conflict ''config_digest metadata is missing'')
              (store_metadata s ''config_digest'')) (\<lambda>config_digest.
     bindE (map_err (\<lambda>message. Conflict (''config_digest metadata is invalid: '' @ message))
              (validate_digest config_digest)) (\<lambda>_.
     let approved = store_metadata s ''approved_release_digest'' in
     bindE (case approved of
              None \<Rightarrow> Inr ()
            | Some digest \<Rightarrow>
                map_err (\<lambda>message. Conflict (''approved_release_digest metadata is invalid: '' @ message))
                  (validate_digest digest)) (\<lambda>_.
     bindE (job_count s JQueued) (\<lambda>queued.
     bindE (job_count s JRunning) (\<lambda>running.
     bindE (job_count s JCompleted) (\<lambda>completed.
     bindE (job_count s JQuarantined) (\<lambda>quarantined.
     Inr \<lparr>st_database = path s, st_deployment_id = deployment_id, st_desired_mode = desired_mode,
          st_schema_version = schema_version, st_restart_generation = restart_generation,
          st_config_digest = config_digest, st_approved_release_digest = approved,
          st_jobs_queued = queued, st_jobs_running = running, st_jobs_completed = completed,
          st_jobs_quarantined = quarantined, st_durability = pragmas\<rparr>))))))))))))))"


section \<open>Guards\<close>

lemma sqlite_timestamp_Inr [result_simps]:
  "sqlite_timestamp w = Inr i \<longleftrightarrow> i = uint w \<and> uint w \<le> i64_max"
  by (auto simp: sqlite_timestamp_def)

lemma sqlite_u64_uint [simp]: "sqlite_u64 (uint w) field = Inr w"
  by (simp add: sqlite_u64_def)

lemma sqlite_u64_Inr: "sqlite_u64 i field = Inr w \<longleftrightarrow> 0 \<le> i \<and> w = word_of_int i"
  by (auto simp: sqlite_u64_def)

lemma sqlite_u32_uint [simp]: "sqlite_u32 (uint w) field = Inr w"
  using uint_lt2p [of w] by (simp add: sqlite_u32_def)

lemma validate_name_Inr [result_simps]:
  "validate_name value name bound = Inr u \<longleftrightarrow>
     value \<noteq> [] \<and> length value \<le> bound \<and> \<not> contains_nul value \<and> \<not> has_control value"
  by (auto simp: validate_name_def result_simps)

lemma validate_detail_Inr [result_simps]:
  "validate_detail value name = Inr u \<longleftrightarrow>
     length value \<le> max_audit_detail_bytes \<and> \<not> contains_nul value"
  by (auto simp: validate_detail_def result_simps)


section \<open>Metadata\<close>

lemma update_metadata_tx_Inr [result_simps]:
  "update_metadata_tx d key value = Inr d' \<longleftrightarrow>
     metadata d key \<noteq> None \<and> d' = d\<lparr>metadata := (metadata d)(key \<mapsto> value)\<rparr>"
  by (auto simp: update_metadata_tx_def result_simps)

lemma insert_metadata_Inr [result_simps]:
  "insert_metadata d key value = Inr d' \<longleftrightarrow>
     metadata d key = None \<and> d' = d\<lparr>metadata := (metadata d)(key \<mapsto> value)\<rparr>"
  by (auto simp: insert_metadata_def result_simps)


section \<open>The audit log\<close>

definition valid_audit :: "string \<Rightarrow> string \<Rightarrow> bool" where
  "valid_audit action detail \<longleftrightarrow>
     action \<noteq> [] \<and> length action \<le> 128 \<and> \<not> contains_nul action \<and> \<not> has_control action
     \<and> length detail \<le> max_audit_detail_bytes \<and> \<not> contains_nul detail"

lemma insert_audit_tx_Inr [result_simps]:
  "insert_audit_tx d action detail now_ms = Inr d' \<longleftrightarrow>
     valid_audit action detail \<and> length (audit_log d) < audit_limit action
     \<and> uint now_ms \<le> i64_max
     \<and> d' = d\<lparr>audit_log := audit_log d
                @ [\<lparr>au_action = action, au_detail = detail, au_occurred_at_ms = uint now_ms\<rparr>]\<rparr>"
  by (auto simp: insert_audit_tx_def valid_audit_def result_simps)

lemma insert_audit_tx_succeeds:
  "valid_audit action detail \<Longrightarrow> length (audit_log d) < audit_limit action \<Longrightarrow> uint now_ms \<le> i64_max \<Longrightarrow>
   insert_audit_tx d action detail now_ms = Inr (d\<lparr>audit_log := audit_log d
     @ [\<lparr>au_action = action, au_detail = detail, au_occurred_at_ms = uint now_ms\<rparr>]\<rparr>)"
  by (simp add: insert_audit_tx_Inr)

text \<open>
  What every operation keeps of the log: it is extended at the end, never rewritten, and holds
  at most the normal budget and the one reserved stop record.
\<close>

definition audit_extends :: "db \<Rightarrow> db \<Rightarrow> bool" where
  "audit_extends d d' \<longleftrightarrow> (\<exists>new. audit_log d' = audit_log d @ new)"

definition audit_bounded :: "db \<Rightarrow> bool" where
  "audit_bounded d \<longleftrightarrow> length (audit_log d) \<le> MAX_AUDIT_RECORDS + RESERVED_STOP_AUDIT_RECORDS"

lemma audit_extends_refl [simp, intro]: "audit_log d' = audit_log d \<Longrightarrow> audit_extends d d'"
  by (simp add: audit_extends_def)

lemma audit_extends_trans [trans]: "audit_extends a b \<Longrightarrow> audit_extends b c \<Longrightarrow> audit_extends a c"
  by (auto simp: audit_extends_def)

lemma audit_limit_bound: "audit_limit action \<le> MAX_AUDIT_RECORDS + RESERVED_STOP_AUDIT_RECORDS"
  by (auto simp: audit_limit_def)

lemma insert_audit_tx_keeps:
  assumes "insert_audit_tx d action detail now_ms = Inr d'"
  shows "audit_extends d d'" "audit_bounded d'"
  using assms audit_limit_bound [of action]
  by (auto simp: insert_audit_tx_Inr audit_extends_def audit_bounded_def)


section \<open>Generation and progress\<close>

lemma show_int_nonneg_range: "0 < (i :: int) \<Longrightarrow> i \<le> i64_max \<Longrightarrow> parse_i64 (show_int i) = Some i"
  by (rule parse_i64_show_int) (auto simp: i64_min_def)

text \<open>
  C28: A daemon that establishes a fresh generation reads it back as the previous one plus one
  and leaves an audit record of it; when the call fails the store is unchanged.
\<close>

theorem establish_new_generation_correct:
  "(\<forall>n s'. establish_new_generation s now_ms = (Inr n, s') \<longrightarrow>
      read_restart_generation s = Inr (n - 1) \<and> read_restart_generation s' = Inr n
      \<and> audit_log (conn s') = audit_log (conn s)
          @ [\<lparr>au_action = ''fresh_reconciliation_generation'', au_detail = show_int n,
              au_occurred_at_ms = uint now_ms\<rparr>])
   \<and> (\<forall>e s'. establish_new_generation s now_ms = (Inl e, s') \<longrightarrow> s' = s)"
proof (rule conjI; intro allI impI)
  fix n s' assume "establish_new_generation s now_ms = (Inr n, s')"
  then obtain d where gen: "read_restart_generation s = Inr (n - 1)" and "n \<le> i64_max"
    and s': "s' = s\<lparr>conn := d\<rparr>"
    and d: "metadata d ''restart_generation'' = Some (show_int n)"
      "audit_log d = audit_log (conn s)
          @ [\<lparr>au_action = ''fresh_reconciliation_generation'', au_detail = show_int n,
              au_occurred_at_ms = uint now_ms\<rparr>]"
    by (auto simp: establish_new_generation_def result_simps split: if_splits)
  then have "0 < n"
    by (auto simp: read_restart_generation_def result_simps)
  with gen s' d \<open>n \<le> i64_max\<close> show "read_restart_generation s = Inr (n - 1)
    \<and> read_restart_generation s' = Inr n
    \<and> audit_log (conn s') = audit_log (conn s)
          @ [\<lparr>au_action = ''fresh_reconciliation_generation'', au_detail = show_int n,
              au_occurred_at_ms = uint now_ms\<rparr>]"
    by (simp add: read_restart_generation_def store_metadata_def metadata_from_conn_def
        parse_metadata_i64_def show_int_nonneg_range)
next
  fix e s' assume "establish_new_generation s now_ms = (Inl e, s')"
  then show "s' = s" by (simp add: establish_new_generation_def with_tx_Inl)
qed

text \<open>What a reader of the progress marker relies on.\<close>

definition progress_sequence :: "db \<Rightarrow> u64 option" where
  "progress_sequence d =
     (case metadata d ''reconciliation_sequence'' of None \<Rightarrow> Some 0 | Some v \<Rightarrow> parse_u64 v)"

definition progress_wf :: "db \<Rightarrow> bool" where
  "progress_wf d \<longleftrightarrow>
     (case (metadata d ''reconciliation_sequence'', metadata d ''last_reconciled_at_ms'') of
        (None, None) \<Rightarrow> True
      | (Some a, Some b) \<Rightarrow>
          (case (parse_u64 a, parse_u64 b) of
             (Some n, Some t) \<Rightarrow> n \<noteq> 0 \<and> uint t \<le> i64_max
           | _ \<Rightarrow> False)
      | _ \<Rightarrow> False)"

lemma show_int_uint: "show_int (uint w) = show_u64 w"
  by (simp add: show_int_def show_u64_def)

lemma checked_succ:
  assumes "uint (n :: u64) < i64_max"
  shows "checked_add n 1 = Some (n + 1)" "uint (n + 1) = uint n + 1"
proof -
  have "int (unat n) < 9223372036854775807"
    using assms by (simp add: i64_max_def)
  then have "unat n + 1 < 18446744073709551616"
    by linarith
  then show "checked_add n 1 = Some (n + 1)"
    by (simp add: checked_add_def)
  then have "unat (n + 1) = unat n + unat (1 :: u64)"
    by (rule checked_add_unat)
  then have "int (unat (n + 1)) = int (unat n) + 1"
    by simp
  then show "uint (n + 1) = uint n + 1"
    by simp
qed

text \<open>
  The reconciliation marker never locks itself out: from a well-formed marker and below the
  integer bound, recording progress succeeds, advances the sequence by exactly one, keeps the
  marker well formed and spends no audit capacity.
\<close>

theorem record_reconciliation_progress_advances:
  assumes "progress_wf (conn s)" and "progress_sequence (conn s) = Some n"
    and "uint n < i64_max" and "uint now_ms \<le> i64_max"
  shows "\<exists>s'. record_reconciliation_progress s now_ms = (Inr (), s')
    \<and> progress_wf (conn s') \<and> progress_sequence (conn s') = Some (n + 1)
    \<and> uint (n + 1) = uint n + 1 \<and> audit_log (conn s') = audit_log (conn s)"
proof -
  let ?d' = "upsert_metadata_tx (upsert_metadata_tx (conn s) ''reconciliation_sequence''
    (show_u64 (n + 1))) ''last_reconciled_at_ms'' (show_u64 now_ms)"
  note succ = checked_succ [OF assms(3)]
  have "n + 1 \<noteq> 0"
  proof
    assume "n + 1 = 0"
    then show False using succ(2) uint_ge_0 [of n] by simp
  qed
  have "record_reconciliation_progress s now_ms = (Inr (), s\<lparr>conn := ?d'\<rparr>)"
    using assms succ
    by (auto simp: record_reconciliation_progress_def with_tx_Inr metadata_from_conn_def Let_def
        sqlite_timestamp_def progress_wf_def progress_sequence_def show_int_uint
        split: option.splits)
  moreover have "progress_wf ?d'" "progress_sequence ?d' = Some (n + 1)"
    using assms(4) \<open>n + 1 \<noteq> 0\<close>
    by (simp_all add: progress_wf_def progress_sequence_def upsert_metadata_tx_def)
  ultimately show ?thesis
    using succ(2) by (simp add: upsert_metadata_tx_def)
qed


section \<open>Concrete runs\<close>

definition sample_store :: store where
  "sample_store =
     \<lparr>conn = blank_db\<lparr>metadata := [''desired_mode'' \<mapsto> ''running'', ''restart_generation'' \<mapsto> ''1'',
                                 ''updated_at_ms'' \<mapsto> ''0'', ''deployment_id'' \<mapsto> ''local'']\<rparr>,
      path = ''watchdog.sqlite3'', max_jobs = 16, max_payload_bytes = 1024,
      restart_clock_epoch = ''epoch''\<rparr>"

lemmas eval_defs = with_tx_def bindS_def result_defs insert_audit_tx_def validate_name_def
  validate_detail_def plain_guards plain_def byte_def max_audit_detail_bytes_def
  audit_limit_def is_emergency_stop_audit_action_def is_critical_audit_action_def starts_with_def
  MAX_AUDIT_RECORDS_def RESERVED_CRITICAL_AUDIT_RECORDS_def RESERVED_STOP_AUDIT_RECORDS_def
  sqlite_timestamp_def i64_max_def metadata_from_conn_def store_metadata_def
  update_metadata_tx_def Let_def

lemma sample_store_simps [simp]:
  "metadata (conn sample_store) = [''desired_mode'' \<mapsto> ''running'', ''restart_generation'' \<mapsto> ''1'',
     ''updated_at_ms'' \<mapsto> ''0'', ''deployment_id'' \<mapsto> ''local'']"
  "audit_log (conn sample_store) = []" "jobs (conn sample_store) = []" "attempts (conn sample_store) = []"
  by (simp_all add: sample_store_def blank_db_def)

abbreviation sample_digest :: string where
  "sample_digest \<equiv> replicate 64 (CHR ''0'')"

lemma sample_digest_valid: "validate_digest sample_digest = Inr ()"
  by (simp add: validate_digest_def list_all_iff is_digit_def byte_def)

lemma show_int_numeral [simp]: "show_int 1 = ''1''" "show_int 2 = ''2''"
  by (simp_all add: show_int_def show_nat.simps digit_char_def char_of_def bit_0)

lemma sample_generation: "read_restart_generation sample_store = Inr 1"
  using parse_i64_show_int [of 1]
  by (simp add: read_restart_generation_def store_metadata_def metadata_from_conn_def
      parse_metadata_i64_def i64_min_def i64_max_def result_defs)

lemma sample_audit:
  "valid_audit ''fresh_reconciliation_generation'' ''2''"
  "length (audit_log (conn sample_store)) < audit_limit a"
  by (simp_all add: valid_audit_def plain_guards plain_def byte_def max_audit_detail_bytes_def
      audit_limit_def MAX_AUDIT_RECORDS_def RESERVED_CRITICAL_AUDIT_RECORDS_def)

theorem establish_new_generation_correct_witness:
  "\<exists>s'. establish_new_generation sample_store 5 = (Inr 2, s') \<and> read_restart_generation s' = Inr 2"
proof -
  obtain s' where run: "establish_new_generation sample_store 5 = (Inr 2, s')"
    using sample_audit
    by (simp add: establish_new_generation_def sample_generation insert_audit_tx_succeeds
        with_tx_def result_defs update_metadata_tx_def i64_max_def)
  then show ?thesis
    using establish_new_generation_correct [of sample_store 5] by blast
qed

theorem record_reconciliation_progress_advances_witness:
  "progress_wf (conn sample_store)
   \<and> (\<exists>s'. record_reconciliation_progress sample_store 5 = (Inr (), s')
        \<and> progress_sequence (conn s') = Some 1)"
proof -
  have pre: "progress_wf (conn sample_store)" "progress_sequence (conn sample_store) = Some 0"
    "uint (0 :: u64) < i64_max" "uint (5 :: u64) \<le> i64_max"
    by (simp_all add: progress_wf_def progress_sequence_def i64_max_def)
  from record_reconciliation_progress_advances [OF this] pre(1) show ?thesis by auto
qed

end
