(* ===== verification/Job_Lifecycle.thy ===== *)
theory Job_Lifecycle
  imports Store_Metadata
begin

text \<open>
  The contract of the job queue: an abstract step relation over the job and attempt tables with
  four transitions (submit, claim, settle, redispose), its invariant, and what every sequence of
  transitions guarantees. The operations of the job queue, of the operator commands and of the
  worker handoff are proved to be such transitions in their own theories.
\<close>

section \<open>Transitions\<close>

type_synonym queue = "job_row list \<times> attempt_row list"

definition queue_of :: "db \<Rightarrow> queue" where
  "queue_of d = (jobs d, attempts d)"

definition unresolved :: "attempt_row \<Rightarrow> bool" where
  "unresolved a \<longleftrightarrow> a_status a \<in> {ARunning, AUnknown}"

definition result_recorded :: "externals \<Rightarrow> job_row \<Rightarrow> bool" where
  "result_recorded E j \<longleftrightarrow>
     (\<exists>r. j_result j = Some r \<and> j_completion_digest j = Some (hex_digest E r))"

definition same_job :: "job_row \<Rightarrow> job_row \<Rightarrow> bool" where
  "same_job j j' \<longleftrightarrow> j_id j' = j_id j \<and> j_kind j' = j_kind j \<and> j_payload j' = j_payload j
     \<and> j_payload_digest j' = j_payload_digest j \<and> j_created_at_ms j' = j_created_at_ms j"

definition same_attempt :: "attempt_row \<Rightarrow> attempt_row \<Rightarrow> bool" where
  "same_attempt a a' \<longleftrightarrow> a_id a' = a_id a \<and> a_job_id a' = a_job_id a \<and> a_sequence a' = a_sequence a
     \<and> a_lineage a' = a_lineage a \<and> a_started_at_ms a' = a_started_at_ms a
     \<and> a_worker_id a' = a_worker_id a"

inductive queue_step :: "externals \<Rightarrow> queue \<Rightarrow> queue \<Rightarrow> bool" for E where
  submit:
    "\<forall>x \<in> set js. j_id x \<noteq> j_id j \<Longrightarrow> j_status j = JQueued \<Longrightarrow> j_attempt_count j = 0
     \<Longrightarrow> queue_step E (js, ats) (js @ [j], ats)"
| claim:
    "j \<in> set js \<Longrightarrow> j_status j = JQueued \<Longrightarrow> \<forall>x \<in> set ats. \<not> unresolved x
     \<Longrightarrow> same_job j j' \<Longrightarrow> j_status j' = JRunning \<Longrightarrow> j_attempt_count j' = j_attempt_count j + 1
     \<Longrightarrow> \<forall>x \<in> set ats. a_id x \<noteq> a_id a
     \<Longrightarrow> a_job_id a = j_id j \<Longrightarrow> a_sequence a = j_attempt_count j' \<Longrightarrow> a_status a = ARunning
     \<Longrightarrow> queue_step E (js, ats) (update_where (\<lambda>r. j_id r = j_id j) (\<lambda>_. j') js, ats @ [a])"
| settle:
    "j \<in> set js \<Longrightarrow> a \<in> set ats \<Longrightarrow> a_job_id a = j_id j
     \<Longrightarrow> (j_status j, a_status a) \<in> {(JRunning, ARunning), (JQuarantined, AUnknown)}
     \<Longrightarrow> same_job j j' \<Longrightarrow> j_attempt_count j' = j_attempt_count j \<Longrightarrow> same_attempt a a'
     \<Longrightarrow> (j_status j', a_status a') \<in> {(JCompleted, ACompleted), (JQueued, AFailed),
            (JQuarantined, AFailed), (JFailed, AFailed), (JQuarantined, AUnknown)}
     \<Longrightarrow> (j_status j' = JCompleted \<longrightarrow> result_recorded E j')
     \<Longrightarrow> queue_step E (js, ats)
           (update_where (\<lambda>r. j_id r = j_id j) (\<lambda>_. j') js,
            update_where (\<lambda>x. a_id x = a_id a) (\<lambda>_. a') ats)"
| redispose:
    "j \<in> set js \<Longrightarrow> j_status j \<in> {JFailed, JQuarantined}
     \<Longrightarrow> \<forall>x \<in> set ats. a_job_id x = j_id j \<longrightarrow> a_status x = AFailed
     \<Longrightarrow> same_job j j' \<Longrightarrow> j_attempt_count j' = j_attempt_count j
     \<Longrightarrow> j_status j' \<in> {JQueued, JQuarantined}
     \<Longrightarrow> queue_step E (js, ats) (update_where (\<lambda>r. j_id r = j_id j) (\<lambda>_. j') js, ats)"

inductive_cases queue_stepE: "queue_step E q q'"


section \<open>The invariant\<close>

definition attempt_ok :: "job_row \<Rightarrow> attempt_row \<Rightarrow> bool" where
  "attempt_ok j a \<longleftrightarrow>
     0 < a_sequence a \<and> a_sequence a \<le> j_attempt_count j
     \<and> (a_status a = ARunning \<longrightarrow> j_status j = JRunning \<and> a_sequence a = j_attempt_count j)
     \<and> (a_status a = AUnknown \<longrightarrow> j_status j = JQuarantined \<and> a_sequence a = j_attempt_count j)
     \<and> (a_status a = ACompleted \<longrightarrow> j_status j = JCompleted \<and> a_sequence a = j_attempt_count j)"

definition job_ok :: "externals \<Rightarrow> attempt_row list \<Rightarrow> job_row \<Rightarrow> bool" where
  "job_ok E ats j \<longleftrightarrow>
     0 \<le> j_attempt_count j
     \<and> (\<forall>a \<in> set ats. a_job_id a = j_id j \<longrightarrow> attempt_ok j a)
     \<and> (j_status j = JRunning \<longrightarrow> (\<exists>a \<in> set ats. a_job_id a = j_id j \<and> a_status a = ARunning))
     \<and> (j_status j = JCompleted \<longrightarrow>
          (\<exists>a \<in> set ats. a_job_id a = j_id j \<and> a_status a = ACompleted) \<and> result_recorded E j)"

definition one_unresolved :: "attempt_row list \<Rightarrow> bool" where
  "one_unresolved ats \<longleftrightarrow>
     (\<forall>a \<in> set ats. \<forall>b \<in> set ats. unresolved a \<longrightarrow> unresolved b \<longrightarrow> a = b)"

definition queue_inv :: "externals \<Rightarrow> queue \<Rightarrow> bool" where
  "queue_inv E q \<longleftrightarrow>
     distinct (map j_id (fst q)) \<and> distinct (map a_id (snd q))
     \<and> distinct (map (\<lambda>a. (a_job_id a, a_sequence a)) (snd q))
     \<and> (\<forall>a \<in> set (snd q). \<exists>j \<in> set (fst q). j_id j = a_job_id a)
     \<and> one_unresolved (snd q) \<and> (\<forall>j \<in> set (fst q). job_ok E (snd q) j)"

lemma queue_inv_Nil [simp]: "queue_inv E ([], [])"
  by (simp add: queue_inv_def one_unresolved_def)

text \<open>Rows of a keyed table after one row was replaced.\<close>

lemma replace_row:
  assumes "distinct (map k t)" and "r \<in> set t" and "k r' = k r"
  shows "x \<in> set (update_where (\<lambda>y. k y = k r) (\<lambda>_. r') t) \<longleftrightarrow> x = r' \<or> x \<in> set t \<and> k x \<noteq> k r"
  using assms by (auto simp: set_update_where image_iff)

lemma replace_map:
  assumes "distinct (map k t)" and "r \<in> set t" and "g r' = g r"
  shows "map g (update_where (\<lambda>y. k y = k r) (\<lambda>_. r') t) = map g t"
proof -
  have "y = r" if "y \<in> set t" "k y = k r" for y
    using assms(1,2) that by (auto simp: distinct_map inj_on_def)
  with assms(3) show ?thesis by (auto simp: update_where_def)
qed

lemma key_unique: "distinct (map k t) \<Longrightarrow> x \<in> set t \<Longrightarrow> y \<in> set t \<Longrightarrow> k x = k y \<Longrightarrow> x = y"
  by (auto simp: distinct_map inj_on_def)

lemma job_ok_cong:
  assumes "\<And>y. a_job_id y = j_id x \<Longrightarrow> (y \<in> set ats') = (y \<in> set ats)"
  shows "job_ok E ats' x = job_ok E ats x"
proof -
  have "(\<forall>a \<in> set ats'. a_job_id a = j_id x \<longrightarrow> attempt_ok x a)
      = (\<forall>a \<in> set ats. a_job_id a = j_id x \<longrightarrow> attempt_ok x a)"
    "\<And>st. (\<exists>a \<in> set ats'. a_job_id a = j_id x \<and> a_status a = st)
      = (\<exists>a \<in> set ats. a_job_id a = j_id x \<and> a_status a = st)"
    using assms by blast+
  then show ?thesis by (simp add: job_ok_def)
qed

lemma submit_inv:
  assumes "queue_inv E (js, ats)" and "\<forall>x \<in> set js. j_id x \<noteq> j_id j"
    and "j_status j = JQueued" and "j_attempt_count j = 0"
  shows "queue_inv E (js @ [j], ats)"
proof -
  have "a_job_id a \<noteq> j_id j" if "a \<in> set ats" for a
    using assms(1,2) that by (fastforce simp: queue_inv_def)
  with assms show ?thesis
    by (auto simp: queue_inv_def job_ok_def)
qed

lemma claim_inv:
  assumes inv: "queue_inv E (js, ats)" and j: "j \<in> set js" "j_status j = JQueued"
    and free: "\<forall>x \<in> set ats. \<not> unresolved x"
    and j': "same_job j j'" "j_status j' = JRunning" "j_attempt_count j' = j_attempt_count j + 1"
    and a: "\<forall>x \<in> set ats. a_id x \<noteq> a_id a" "a_job_id a = j_id j"
      "a_sequence a = j_attempt_count j'" "a_status a = ARunning"
  shows "queue_inv E (update_where (\<lambda>r. j_id r = j_id j) (\<lambda>_. j') js, ats @ [a])"
proof -
  let ?js = "update_where (\<lambda>r. j_id r = j_id j) (\<lambda>_. j') js"
  have d: "distinct (map j_id js)" and fk: "\<forall>a \<in> set ats. \<exists>j \<in> set js. j_id j = a_job_id a"
    and ok: "\<forall>j \<in> set js. job_ok E ats j"
    using inv by (auto simp: queue_inv_def)
  have id': "j_id j' = j_id j" using j' by (simp add: same_job_def)
  note mem = replace_row [OF d j(1) id']
  have "map j_id ?js = map j_id js"
    by (rule replace_map [OF d j(1)]) (rule id')
  have older: "a_sequence x < a_sequence a" if "x \<in> set ats" "a_job_id x = j_id j" for x
    using ok j(1) that a(3) j'(3) by (force simp: job_ok_def attempt_ok_def)
  have "job_ok E (ats @ [a]) x" if "x \<in> set ?js" for x
  proof (cases "x = j'")
    case True
    have "attempt_ok j' y" if "y \<in> set ats" "a_job_id y = j_id j" for y
      using ok j that free j' by (force simp: job_ok_def attempt_ok_def unresolved_def)
    with True a j' id' ok j(1) show ?thesis
      by (auto simp: job_ok_def attempt_ok_def)
  next
    case False
    then have "x \<in> set js" "j_id x \<noteq> j_id j" using that mem by auto
    with ok a(2) show ?thesis by (auto simp: job_ok_def)
  qed
  moreover have "\<exists>j \<in> set ?js. j_id j = a_job_id x" if "x \<in> set (ats @ [a])" for x
    using that fk a(2) id' mem j(1) by (metis append_Cons in_set_conv_decomp set_ConsD rotate1.simps(2) set_rotate1)
  ultimately show ?thesis
    using inv a free older \<open>map j_id ?js = map j_id js\<close>
    by (fastforce simp: queue_inv_def one_unresolved_def image_iff)
qed

lemma settle_inv:
  assumes inv: "queue_inv E (js, ats)" and j: "j \<in> set js" and a: "a \<in> set ats" "a_job_id a = j_id j"
    and src: "(j_status j, a_status a) \<in> {(JRunning, ARunning), (JQuarantined, AUnknown)}"
    and j': "same_job j j'" "j_attempt_count j' = j_attempt_count j" and a': "same_attempt a a'"
    and tgt: "(j_status j', a_status a') \<in> {(JCompleted, ACompleted), (JQueued, AFailed),
            (JQuarantined, AFailed), (JFailed, AFailed), (JQuarantined, AUnknown)}"
    and res: "j_status j' = JCompleted \<longrightarrow> result_recorded E j'"
  shows "queue_inv E (update_where (\<lambda>r. j_id r = j_id j) (\<lambda>_. j') js,
            update_where (\<lambda>x. a_id x = a_id a) (\<lambda>_. a') ats)"
proof -
  let ?js = "update_where (\<lambda>r. j_id r = j_id j) (\<lambda>_. j') js"
    and ?ats = "update_where (\<lambda>x. a_id x = a_id a) (\<lambda>_. a') ats"
  have d: "distinct (map j_id js)" "distinct (map a_id ats)"
    and fk: "\<forall>a \<in> set ats. \<exists>j \<in> set js. j_id j = a_job_id a"
    and one: "one_unresolved ats" and ok: "\<forall>j \<in> set js. job_ok E ats j"
    using inv by (auto simp: queue_inv_def)
  have ids: "j_id j' = j_id j" "a_id a' = a_id a" using j' a' by (auto simp: same_job_def same_attempt_def)
  note memj = replace_row [OF d(1) j ids(1)] and mema = replace_row [OF d(2) a(1) ids(2)]
  have maps: "map j_id ?js = map j_id js" "map a_id ?ats = map a_id ats"
    "map (\<lambda>a. (a_job_id a, a_sequence a)) ?ats = map (\<lambda>a. (a_job_id a, a_sequence a)) ats"
    using a' by (auto intro!: replace_map d j a(1) ids simp: same_attempt_def)
  have others: "\<not> unresolved x" if "x \<in> set ats" "a_id x \<noteq> a_id a" for x
    using one a(1) src that by (auto simp: one_unresolved_def unresolved_def)
  have "job_ok E ?ats x" if "x \<in> set ?js" for x
  proof (cases "x = j'")
    case True
    have "attempt_ok j' y" if "y \<in> set ats" "a_id y \<noteq> a_id a" "a_job_id y = j_id j" for y
      using ok j that others [of y] j'(2) src
      by (force simp: job_ok_def attempt_ok_def unresolved_def)
    moreover have "attempt_ok j' a'"
      using ok j a a' src tgt j' by (force simp: job_ok_def attempt_ok_def same_attempt_def)
    ultimately show ?thesis
      using True ok j j' a a' ids tgt res mema by (auto simp: job_ok_def same_attempt_def)
  next
    case False
    then have x: "x \<in> set js" "j_id x \<noteq> j_id j" using that memj by auto
    have "y \<in> set ?ats \<longleftrightarrow> y \<in> set ats" if "a_job_id y = j_id x" for y
    proof -
      have "y \<noteq> a'" "y \<noteq> a" using that x(2) a(2) a' by (auto simp: same_attempt_def)
      moreover have "y = a" if "y \<in> set ats" "a_id y = a_id a"
        by (rule key_unique [OF d(2) that(1) a(1) that(2)])
      ultimately show ?thesis using mema by auto
    qed
    then have "job_ok E ?ats x = job_ok E ats x" by (rule job_ok_cong)
    with ok x(1) show ?thesis by simp
  qed
  moreover have "\<exists>j \<in> set ?js. j_id j = a_job_id x" if "x \<in> set ?ats" for x
  proof -
    have "x = a' \<or> x \<in> set ats" using that mema by blast
    then obtain y where "y \<in> set ats" "a_job_id x = a_job_id y"
      using a(1) a' by (auto simp: same_attempt_def)
    then obtain k where "k \<in> set js" "j_id k = a_job_id x"
      using fk by auto
    then show ?thesis using memj ids by (cases "j_id k = j_id j") auto
  qed
  moreover have "one_unresolved ?ats"
  proof -
    have "x = a'" if "x \<in> set ?ats" "unresolved x" for x
      using that others mema by blast
    then show ?thesis unfolding one_unresolved_def by metis
  qed
  ultimately show ?thesis
    using inv unfolding queue_inv_def fst_conv snd_conv maps by blast
qed

lemma redispose_inv:
  assumes inv: "queue_inv E (js, ats)" and j: "j \<in> set js" "j_status j \<in> {JFailed, JQuarantined}"
    and failed: "\<forall>x \<in> set ats. a_job_id x = j_id j \<longrightarrow> a_status x = AFailed"
    and j': "same_job j j'" "j_attempt_count j' = j_attempt_count j" "j_status j' \<in> {JQueued, JQuarantined}"
  shows "queue_inv E (update_where (\<lambda>r. j_id r = j_id j) (\<lambda>_. j') js, ats)"
proof -
  let ?js = "update_where (\<lambda>r. j_id r = j_id j) (\<lambda>_. j') js"
  have d: "distinct (map j_id js)" and ok: "\<forall>j \<in> set js. job_ok E ats j"
    and fk: "\<forall>a \<in> set ats. \<exists>j \<in> set js. j_id j = a_job_id a"
    using inv by (simp_all add: queue_inv_def)
  have id': "j_id j' = j_id j" using j' by (simp add: same_job_def)
  note mem = replace_row [OF d j(1) id']
  have maps: "map j_id ?js = map j_id js"
    by (rule replace_map [OF d j(1) id'])
  have "job_ok E ats x" if "x \<in> set ?js" for x
  proof (cases "x = j'")
    case True
    have okj: "job_ok E ats j" using ok j(1) by blast
    then have "attempt_ok j' y" if "y \<in> set ats" "a_job_id y = j_id j" for y
      using that failed j'(2) by (simp add: job_ok_def attempt_ok_def)
    with okj j'(2,3) id' have "job_ok E ats j'" by (auto simp: job_ok_def)
    with True show ?thesis by simp
  next
    case False
    with that mem [of x] ok show ?thesis by simp
  qed
  moreover have "\<exists>j \<in> set ?js. j_id j = a_job_id x" if x: "x \<in> set ats" for x
  proof -
    obtain k where "k \<in> set js" "j_id k = a_job_id x"
      using fk x by blast
    then show ?thesis using mem [of k] mem [of j'] id' by (cases "j_id k = j_id j") auto
  qed
  ultimately show ?thesis
    using inv maps by (simp add: queue_inv_def)
qed

lemma queue_step_inv: "queue_step E q q' \<Longrightarrow> queue_inv E q \<Longrightarrow> queue_inv E q'"
proof (induction rule: queue_step.induct)
  case submit
  then show ?case by (intro submit_inv)
next
  case claim
  show ?case by (rule claim_inv [OF claim(11) claim(1-10)])
next
  case settle
  show ?case by (rule settle_inv [OF settle(10) settle(1-9)])
next
  case redispose
  show ?case by (rule redispose_inv [OF redispose(7) redispose(1-6)])
qed


lemma one_running_job:
  assumes "queue_inv E (js, ats)" and "i \<in> set js" "j_status i = JRunning" and "j \<in> set js" "j_status j = JRunning"
  shows "i = j"
proof -
  have ok: "job_ok E ats i" "job_ok E ats j" and one: "one_unresolved ats" and d: "distinct (map j_id js)"
    using assms by (auto simp: queue_inv_def)
  obtain a b where a: "a \<in> set ats" "a_job_id a = j_id i" "a_status a = ARunning"
    and b: "b \<in> set ats" "a_job_id b = j_id j" "a_status b = ARunning"
    using ok assms(3,5) by (auto simp: job_ok_def)
  then have "a = b" using one by (simp add: one_unresolved_def unresolved_def)
  then show ?thesis using key_unique [OF d assms(2,4)] a b by simp
qed

lemma running_attempt_job:
  assumes "queue_inv E (js, ats)" and a: "a \<in> set ats" "a_status a = ARunning"
  obtains j where "j \<in> set js" "j_id j = a_job_id a" "j_status j = JRunning"
proof -
  have "\<forall>a \<in> set ats. \<exists>j \<in> set js. j_id j = a_job_id a" and ok: "\<forall>j \<in> set js. job_ok E ats j"
    using assms(1) by (simp_all add: queue_inv_def)
  with a(1) obtain j where j: "j \<in> set js" "j_id j = a_job_id a" by blast
  have "attempt_ok j a" using ok j a(1) by (simp add: job_ok_def)
  with j a(2) show ?thesis by (intro that [of j]) (simp_all add: attempt_ok_def)
qed


section \<open>What transitions never undo\<close>

text \<open>
  A completed job and a settled attempt are never touched again, and the identity, payload and
  lineage columns of every row are kept.
\<close>

definition jobs_kept :: "job_row list \<Rightarrow> job_row list \<Rightarrow> bool" where
  "jobs_kept js js' \<longleftrightarrow>
     (\<forall>j \<in> set js. \<exists>j' \<in> set js'. same_job j j' \<and> j_attempt_count j \<le> j_attempt_count j'
        \<and> (j_status j = JCompleted \<longrightarrow> j' = j))"

definition attempts_kept :: "attempt_row list \<Rightarrow> attempt_row list \<Rightarrow> bool" where
  "attempts_kept ats ats' \<longleftrightarrow>
     (\<forall>a \<in> set ats. \<exists>a' \<in> set ats'. same_attempt a a' \<and> (\<not> unresolved a \<longrightarrow> a' = a))"

definition history_kept :: "queue \<Rightarrow> queue \<Rightarrow> bool" where
  "history_kept q q' \<longleftrightarrow> jobs_kept (fst q) (fst q') \<and> attempts_kept (snd q) (snd q')"

lemma same_refl [simp]: "same_job j j" "same_attempt a a"
  by (simp_all add: same_job_def same_attempt_def)

lemma same_trans:
  "same_job i j \<Longrightarrow> same_job j k \<Longrightarrow> same_job i k"
  "same_attempt a b \<Longrightarrow> same_attempt b c \<Longrightarrow> same_attempt a c"
  by (simp_all add: same_job_def same_attempt_def)

lemma jobs_kept_subset: "set js \<subseteq> set js' \<Longrightarrow> jobs_kept js js'"
  unfolding jobs_kept_def by (intro ballI, rule bexI) auto

lemma attempts_kept_subset: "set ats \<subseteq> set ats' \<Longrightarrow> attempts_kept ats ats'"
  unfolding attempts_kept_def by (intro ballI, rule bexI) auto

lemma history_kept_refl [simp]: "history_kept q q"
  by (simp add: history_kept_def jobs_kept_subset attempts_kept_subset)

lemma jobs_kept_trans:
  assumes "jobs_kept p q" and "jobs_kept q r"
  shows "jobs_kept p r"
  unfolding jobs_kept_def
proof
  fix j assume "j \<in> set p"
  then obtain j1 where j1: "j1 \<in> set q" "same_job j j1" "j_attempt_count j \<le> j_attempt_count j1"
    "j_status j = JCompleted \<longrightarrow> j1 = j"
    using assms(1) unfolding jobs_kept_def by blast
  then obtain j2 where "j2 \<in> set r" "same_job j1 j2" "j_attempt_count j1 \<le> j_attempt_count j2"
    "j_status j1 = JCompleted \<longrightarrow> j2 = j1"
    using assms(2) unfolding jobs_kept_def by blast
  with j1 show "\<exists>j' \<in> set r. same_job j j' \<and> j_attempt_count j \<le> j_attempt_count j'
      \<and> (j_status j = JCompleted \<longrightarrow> j' = j)"
    by (intro bexI [of _ j2]) (auto intro: same_trans)
qed

lemma attempts_kept_trans: "attempts_kept p q \<Longrightarrow> attempts_kept q r \<Longrightarrow> attempts_kept p r"
  unfolding attempts_kept_def by (metis same_trans(2))

lemma history_kept_trans: "history_kept p q \<Longrightarrow> history_kept q r \<Longrightarrow> history_kept p r"
  unfolding history_kept_def using jobs_kept_trans attempts_kept_trans by blast

text \<open>Replacing a row that is not settled keeps the settled ones.\<close>

lemma replaced_job_kept:
  assumes d: "distinct (map j_id js)" and j: "j \<in> set js" "j_status j \<noteq> JCompleted"
    and j': "same_job j j'" "j_attempt_count j \<le> j_attempt_count j'"
  shows "jobs_kept js (update_where (\<lambda>r. j_id r = j_id j) (\<lambda>_. j') js)"
  unfolding jobs_kept_def
proof
  fix x assume x: "x \<in> set js"
  have id': "j_id j' = j_id j" using j' by (simp add: same_job_def)
  note mem = replace_row [OF d j(1) id']
  show "\<exists>x' \<in> set (update_where (\<lambda>r. j_id r = j_id j) (\<lambda>_. j') js).
    same_job x x' \<and> j_attempt_count x \<le> j_attempt_count x' \<and> (j_status x = JCompleted \<longrightarrow> x' = x)"
  proof (cases "j_id x = j_id j")
    case True
    then have "x = j" by (rule key_unique [OF d x j(1)])
    with j j' mem show ?thesis by (intro bexI [of _ j']) auto
  next
    case False
    with x mem show ?thesis by (intro bexI [of _ x]) auto
  qed
qed

lemma replaced_attempt_kept:
  assumes d: "distinct (map a_id ats)" and a: "a \<in> set ats" "unresolved a" and a': "same_attempt a a'"
  shows "attempts_kept ats (update_where (\<lambda>r. a_id r = a_id a) (\<lambda>_. a') ats)"
  unfolding attempts_kept_def
proof
  fix x assume x: "x \<in> set ats"
  have id': "a_id a' = a_id a" using a' by (simp add: same_attempt_def)
  note mem = replace_row [OF d a(1) id']
  show "\<exists>x' \<in> set (update_where (\<lambda>r. a_id r = a_id a) (\<lambda>_. a') ats).
    same_attempt x x' \<and> (\<not> unresolved x \<longrightarrow> x' = x)"
  proof (cases "a_id x = a_id a")
    case True
    then have "x = a" by (rule key_unique [OF d x a(1)])
    with a a' mem show ?thesis by (intro bexI [of _ a']) auto
  next
    case False
    with x mem show ?thesis by (intro bexI [of _ x]) auto
  qed
qed

lemma queue_step_history:
  assumes "queue_step E q q'" and "queue_inv E q"
  shows "history_kept q q'"
  using assms
proof (induction rule: queue_step.induct)
  case (submit js j ats)
  show ?case by (simp add: history_kept_def jobs_kept_subset attempts_kept_subset subsetI)
next
  case (claim j js ats j' a)
  then have "jobs_kept js (update_where (\<lambda>r. j_id r = j_id j) (\<lambda>_. j') js)"
    by (intro replaced_job_kept) (simp_all add: queue_inv_def)
  then show ?case by (simp add: history_kept_def attempts_kept_subset subsetI)
next
  case (settle j js a ats j' a')
  have "jobs_kept js (update_where (\<lambda>r. j_id r = j_id j) (\<lambda>_. j') js)"
    using settle by (intro replaced_job_kept) (auto simp: queue_inv_def)
  moreover have "attempts_kept ats (update_where (\<lambda>r. a_id r = a_id a) (\<lambda>_. a') ats)"
    using settle by (intro replaced_attempt_kept) (auto simp: queue_inv_def unresolved_def)
  ultimately show ?case by (simp add: history_kept_def)
next
  case (redispose j js ats j')
  then have "jobs_kept js (update_where (\<lambda>r. j_id r = j_id j) (\<lambda>_. j') js)"
    by (intro replaced_job_kept) (auto simp: queue_inv_def)
  then show ?case by (simp add: history_kept_def attempts_kept_subset)
qed

lemma queue_steps_keep:
  assumes "(queue_step E)\<^sup>*\<^sup>* q q'" and "queue_inv E q"
  shows "queue_inv E q' \<and> history_kept q q'"
  using assms
proof (induction rule: rtranclp_induct)
  case base
  then show ?case by simp
next
  case (step q r)
  then show ?case using queue_step_inv queue_step_history history_kept_trans by metis
qed


section \<open>Operations of the store\<close>

text \<open>What every operation does to the audit log.\<close>

definition audit_ok :: "db \<Rightarrow> db \<Rightarrow> bool" where
  "audit_ok d d' \<longleftrightarrow> audit_extends d d' \<and> (audit_bounded d \<longrightarrow> audit_bounded d')"

lemma audit_ok_same [simp]: "audit_log d' = audit_log d \<Longrightarrow> audit_ok d d'"
  by (simp add: audit_ok_def audit_bounded_def)

lemma audit_ok_trans: "audit_ok a b \<Longrightarrow> audit_ok b c \<Longrightarrow> audit_ok a c"
  using audit_extends_trans by (auto simp: audit_ok_def)

lemma insert_audit_tx_ok: "insert_audit_tx d action detail now_ms = Inr d' \<Longrightarrow> audit_ok d d'"
  using insert_audit_tx_keeps by (auto simp: audit_ok_def)

lemma insert_audit_tx_after:
  "insert_audit_tx d1 action detail now_ms = Inr d' \<Longrightarrow> audit_log d1 = audit_log d \<Longrightarrow> audit_ok d d'"
  using insert_audit_tx_ok [of d1 action detail now_ms d'] audit_ok_trans [of d d1 d'] by simp

text \<open>
  The interface the system level relies on: an operation of the store extends the audit log and
  moves the job tables by transitions of the contract. Its clients get the invariant and the
  kept history from that.
\<close>

locale audited_operation =
  fixes run :: "store \<Rightarrow> 'a result \<times> store"
  assumes audited: "run s = (r, s') \<Longrightarrow> audit_ok (conn s) (conn s')"

locale job_operation = audited_operation run
  for run :: "store \<Rightarrow> 'a result \<times> store" +
  fixes E :: externals
  assumes refines: "queue_inv E (queue_of (conn s)) \<Longrightarrow> run s = (r, s') \<Longrightarrow>
    (queue_step E)\<^sup>*\<^sup>* (queue_of (conn s)) (queue_of (conn s'))"
begin

lemma keeps_queue_inv:
  "queue_inv E (queue_of (conn s)) \<Longrightarrow> run s = (r, s') \<Longrightarrow> queue_inv E (queue_of (conn s'))"
  using refines queue_steps_keep by blast

lemma keeps_history:
  "queue_inv E (queue_of (conn s)) \<Longrightarrow> run s = (r, s') \<Longrightarrow>
     history_kept (queue_of (conn s)) (queue_of (conn s'))"
  using refines queue_steps_keep by blast

end

text \<open>An operation that does not touch the job tables satisfies the contract trivially.\<close>

locale quiet_operation = audited_operation run
  for run :: "store \<Rightarrow> 'a result \<times> store" +
  assumes quiet: "run s = (r, s') \<Longrightarrow> queue_of (conn s') = queue_of (conn s)"

sublocale quiet_operation \<subseteq> job_operation run E for E
  by unfold_locales (simp add: quiet)

lemma with_tx_conn:
  assumes "with_tx s f = (r, s')"
  obtains "s' = s" | x d where "f (conn s) = Inr (x, d)" "r = Inr x" "s' = s\<lparr>conn := d\<rparr>"
  using assms by (auto simp: with_tx_def split: sum.splits prod.splits)

lemma quiet_tx:
  assumes "\<And>s d x d'. f s d = Inr (x, d') \<Longrightarrow> audit_ok d d' \<and> queue_of d' = queue_of d"
  shows "quiet_operation (\<lambda>s. with_tx s (f s))"
  by unfold_locales (auto elim!: with_tx_conn dest: assms)

lemma job_tx:
  assumes "\<And>s d x d'. f s d = Inr (x, d') \<Longrightarrow> audit_ok d d'"
    and "\<And>s d x d'. queue_inv E (queue_of d) \<Longrightarrow> f s d = Inr (x, d') \<Longrightarrow>
           (queue_step E)\<^sup>*\<^sup>* (queue_of d) (queue_of d')"
  shows "job_operation (\<lambda>s. with_tx s (f s)) E"
  by unfold_locales (auto elim!: with_tx_conn dest: assms)

text \<open>Reading back after the commit changes nothing.\<close>

lemma bindS_state:
  assumes "\<And>x s'. snd (g x s') = s'" and "bindS m g = (r, s')"
  shows "\<exists>r'. m = (r', s')"
  using assms by (cases m; cases "fst m") (auto simp: bindS_def prod_eq_iff)

lemma quiet_bindS:
  assumes "quiet_operation m" and "\<And>x s'. snd (g x s') = s'"
  shows "quiet_operation (\<lambda>s. bindS (m s) g)"
proof unfold_locales
  fix s r s' assume "bindS (m s) g = (r, s')"
  then obtain r' where "m s = (r', s')" using bindS_state [of g] assms(2) by blast
  then show "audit_ok (conn s) (conn s')" "queue_of (conn s') = queue_of (conn s)"
    using quiet_operation.quiet [OF assms(1)]
      audited_operation.audited [OF quiet_operation.axioms(1) [OF assms(1)]] by blast+
qed

lemma job_bindS:
  assumes "job_operation m E" and "\<And>x s'. snd (g x s') = s'"
  shows "job_operation (\<lambda>s. bindS (m s) g) E"
proof unfold_locales
  fix s r s' assume "bindS (m s) g = (r, s')"
  then obtain r' where "m s = (r', s')" using bindS_state [of g] assms(2) by blast
  then show "audit_ok (conn s) (conn s')"
    "queue_inv E (queue_of (conn s)) \<Longrightarrow> (queue_step E)\<^sup>*\<^sup>* (queue_of (conn s)) (queue_of (conn s'))"
    using job_operation.refines [OF assms(1)]
      audited_operation.audited [OF job_operation.axioms(1) [OF assms(1)]] by blast+
qed

lemma replace_keyed:
  assumes "distinct (map k t)" and "r \<in> set t" and "p r"
  shows "update_where (\<lambda>x. k x = k r \<and> p x) f t = update_where (\<lambda>x. k x = k r) (\<lambda>_. f r) t"
  unfolding update_where_def
proof (rule map_cong [OF refl])
  fix x assume "x \<in> set t"
  then have "k x = k r \<Longrightarrow> x = r" using key_unique [OF assms(1)] assms(2) by blast
  then show "(if k x = k r \<and> p x then f x else x) = (if k x = k r then f r else x)"
    using assms(3) by auto
qed


section \<open>The metadata operations\<close>

lemma queue_of_updates [simp]:
  "queue_of (metadata_update f d) = queue_of d"
  "queue_of (audit_log_update g d) = queue_of d"
  "queue_of (operator_commands_update oc d) = queue_of d"
  "queue_of (operator_seq_update os d) = queue_of d"
  "queue_of (launch_intents_update li d) = queue_of d"
  "queue_of (restart_events_update re d) = queue_of d"
  "queue_of (components_update cs d) = queue_of d"
  "queue_of (worker_bindings_update wb d) = queue_of d"
  "queue_of (worker_control_update wc d) = queue_of d"
  "queue_of (worker_handoffs_update wh d) = queue_of d"
  "queue_of (worker_bootstrap_bindings_update bb d) = queue_of d"
  "queue_of (gateway_health_bindings_update gh d) = queue_of d"
  "queue_of (sqlite_master_update sm d) = queue_of d"
  by (simp_all add: queue_of_def)

lemma audit_limit_less: "n < audit_limit action \<Longrightarrow> n < MAX_AUDIT_RECORDS + RESERVED_STOP_AUDIT_RECORDS"
  using audit_limit_bound [of action] by linarith

lemmas audit_ok_defs = audit_ok_def audit_extends_def audit_bounded_def

interpretation set_mode: quiet_operation "\<lambda>s. set_desired_mode_at s mode now_ms" for mode now_ms
  unfolding set_desired_mode_at_def
  by (rule quiet_tx) (auto simp: result_simps audit_ok_defs dest: audit_limit_less)

interpretation new_generation: quiet_operation "\<lambda>s. establish_new_generation s now_ms" for now_ms
  unfolding establish_new_generation_def
  by (rule quiet_tx) (auto simp: result_simps audit_ok_defs dest: audit_limit_less)

interpretation audit_event: quiet_operation "\<lambda>s. audit s action detail now_ms" for action detail now_ms
  unfolding audit_def
  by (rule quiet_tx) (auto simp: result_simps audit_ok_defs dest: audit_limit_less)

interpretation progress: quiet_operation "\<lambda>s. record_reconciliation_progress s now_ms" for now_ms
  unfolding record_reconciliation_progress_def
  by (rule quiet_tx) (auto simp: result_simps Let_def upsert_metadata_tx_def)

end
