(* ===== verification/Store_Jobs.thy ===== *)
theory Store_Jobs
  imports Job_Lifecycle
begin

text \<open>
  \<^verbatim>\<open>storage_jobs.rs\<close> and \<^verbatim>\<open>storage_queries.rs\<close>: the durable job queue. Identifiers drawn by
  \<^verbatim>\<open>Uuid::new_v4\<close> are arguments. The queue invariant ties every running job to exactly one
  running attempt and every completed job to its digest; the lemmas show that all operations
  keep it, that at most one attempt is ever unresolved, that a completed result never changes
  and is acknowledged idempotently, and that recovery after a crash always succeeds.
\<close>

section \<open>Model\<close>

definition MAX_RESULT_BYTES :: nat where
  "MAX_RESULT_BYTES = 64 * 1024"

record job_record =
  jr_id :: string
  jr_kind :: string
  jr_payload :: json
  jr_payload_digest :: string
  jr_status :: job_status
  jr_created_at_ms :: u64
  jr_claimed_at_ms :: "u64 option"
  jr_completed_at_ms :: "u64 option"
  jr_attempt_count :: u32
  jr_next_retry_at_ms :: "u64 option"
  jr_last_error :: "string option"
  jr_result :: "json option"
  jr_worker_id :: "string option"

record job_claim =
  jc_job :: job_record
  jc_attempt_id :: string
  jc_attempt_number :: u32
  jc_lineage :: string
  jc_claimed_by :: string

record completion =
  cp_job_id :: string
  cp_attempt_id :: string
  cp_result :: json
  cp_already_completed :: bool

text \<open>The rows the two \<^verbatim>\<open>INSERT\<close> statements write.\<close>

definition queued_job :: "string \<Rightarrow> string \<Rightarrow> string \<Rightarrow> string \<Rightarrow> i64 \<Rightarrow> job_row" where
  "queued_job new_id kind payload digest now =
     \<lparr>j_id = new_id, j_kind = kind, j_payload = payload, j_payload_digest = digest,
      j_status = JQueued, j_created_at_ms = now, j_claimed_at_ms = None, j_completed_at_ms = None,
      j_attempt_count = 0, j_next_retry_at_ms = Some now, j_last_error = None, j_result = None,
      j_completion_digest = None, j_worker_id = None\<rparr>"

definition running_attempt :: "string \<Rightarrow> string \<Rightarrow> u32 \<Rightarrow> string \<Rightarrow> i64 \<Rightarrow> attempt_row" where
  "running_attempt attempt_id job_id number worker_id now =
     \<lparr>a_id = attempt_id, a_job_id = job_id, a_sequence = uint number,
      a_lineage = job_id @ '':'' @ show_u32 number, a_status = ARunning, a_started_at_ms = now,
      a_finished_at_ms = None, a_worker_id = Some worker_id, a_outcome = None\<rparr>"

definition insert_job_tx ::
  "db \<Rightarrow> string \<Rightarrow> string \<Rightarrow> string \<Rightarrow> string \<Rightarrow> u64 \<Rightarrow> u64 \<Rightarrow> db result" where
  "insert_job_tx d new_id kind encoded digest bound now_ms =
     bindE (ensure (length (jobs d) < unat bound) (Conflict ''job retention bound is full'')) (\<lambda>_.
     bindE (sqlite_timestamp now_ms) (\<lambda>now.
     bindE (insert_row (\<lambda>r r'. j_id r = j_id r') ''jobs.id''
              (queued_job new_id kind encoded digest now) (jobs d)) (\<lambda>js.
     insert_audit_tx (d\<lparr>jobs := js\<rparr>) ''job_submitted'' new_id now_ms)))"

definition validate_claim_payload :: "externals \<Rightarrow> string \<Rightarrow> string \<Rightarrow> nat \<Rightarrow> json result" where
  "validate_claim_payload E text expected_digest bound =
     bindE (ensure (\<not> (bound < length text \<or> hex_digest E text \<noteq> expected_digest))
       (Conflict ''stored job payload exceeds its bound or differs from its admission digest'')) (\<lambda>_.
     map_err (\<lambda>_. Conflict ''stored job payload is not valid JSON'') (json_from_str E text))"

definition job_from_row :: "externals \<Rightarrow> job_row \<Rightarrow> job_record sqlite_result" where
  "job_from_row E r =
     bindE (map_err to_sqlite_error (json_from_str E (j_payload r))) (\<lambda>payload.
     bindE (map_err (\<lambda>e. to_sqlite_error (display_error E e))
              (job_status_parse (job_status_as_str (j_status r)))) (\<lambda>status.
     bindE (sqlite_u64 (j_created_at_ms r) ''job created_at_ms'') (\<lambda>created.
     bindE (sqlite_optional_u64 (j_claimed_at_ms r) ''job claimed_at_ms'') (\<lambda>claimed.
     bindE (sqlite_optional_u64 (j_completed_at_ms r) ''job completed_at_ms'') (\<lambda>completed.
     bindE (sqlite_u32 (j_attempt_count r) ''job attempt_count'') (\<lambda>attempt_count.
     bindE (sqlite_optional_u64 (j_next_retry_at_ms r) ''job next_retry_at_ms'') (\<lambda>next_retry.
     bindE (map_err to_sqlite_error (transposeE (json_from_str E) (j_result r))) (\<lambda>result.
     Inr \<lparr>jr_id = j_id r, jr_kind = j_kind r, jr_payload = payload,
          jr_payload_digest = j_payload_digest r, jr_status = status, jr_created_at_ms = created,
          jr_claimed_at_ms = claimed, jr_completed_at_ms = completed,
          jr_attempt_count = attempt_count, jr_next_retry_at_ms = next_retry,
          jr_last_error = j_last_error r, jr_result = result, jr_worker_id = j_worker_id r\<rparr>))))))))"

definition get_job :: "externals \<Rightarrow> store \<Rightarrow> string \<Rightarrow> job_record option result" where
  "get_job E s job_id =
     map_err Sqlite (transposeE (job_from_row E) (find (\<lambda>r. j_id r = job_id) (jobs (conn s))))"

definition submit_job_at ::
  "externals \<Rightarrow> store \<Rightarrow> string \<Rightarrow> json \<Rightarrow> u64 \<Rightarrow> string \<Rightarrow> job_record result \<times> store" where
  "submit_job_at E s kind payload now_ms new_id =
     (let encoded = json_to_string E payload in
      bindS (with_tx s (\<lambda>d.
        bindE (validate_name kind ''job kind'' 128) (\<lambda>_.
        bindE (ensure (length encoded \<le> unat (max_payload_bytes s))
                 (InvalidInput (''job payload exceeds '' @ show_u64 (max_payload_bytes s)
                                @ '' bytes''))) (\<lambda>_.
        bindE (insert_job_tx d new_id kind encoded (hex_digest E encoded) (max_jobs s) now_ms) (\<lambda>d.
        Inr ((), d)))))) (\<lambda>_ s'.
      (bindE (get_job E s' new_id) (ok_or (Conflict ''job disappeared after commit'')), s')))"

text \<open>
  \<^verbatim>\<open>claim_next_job\<close>: the unresolved-attempt query, the ready-job query and the transaction.
\<close>

definition unresolved_attempt :: "db \<Rightarrow> attempt_row option" where
  "unresolved_attempt d =
     select_first (\<lambda>a. a_status a \<in> {ARunning, AUnknown})
       (\<lambda>a. (a_started_at_ms a, a_sequence a, a_id a)) (attempts d)"

definition ready_job :: "db \<Rightarrow> i64 \<Rightarrow> job_row option" where
  "ready_job d now =
     select_first (\<lambda>r. j_status r = JQueued \<and>
                       (case j_next_retry_at_ms r of None \<Rightarrow> False | Some t \<Rightarrow> t \<le> now))
       (\<lambda>r. (j_created_at_ms r, j_id r)) (jobs d)"

definition insert_attempt_row :: "attempt_row \<Rightarrow> db \<Rightarrow> db result" where
  "insert_attempt_row a d =
     bindE (ensure (0 < a_sequence a) (Sqlite (ConstraintViolation ''attempts.sequence''))) (\<lambda>_.
     bindE (ensure (list_ex (\<lambda>r. j_id r = a_job_id a) (jobs d))
              (Sqlite (ConstraintViolation ''attempts.job_id''))) (\<lambda>_.
     bindE (insert_row (\<lambda>x y. a_id x = a_id y
              \<or> (a_job_id x = a_job_id y \<and> a_sequence x = a_sequence y)) ''attempts'' a (attempts d))
       (\<lambda>ats. Inr (d\<lparr>attempts := ats\<rparr>))))"

definition claim_ready_job ::
  "externals \<Rightarrow> u64 \<Rightarrow> string \<Rightarrow> u64 \<Rightarrow> string \<Rightarrow> i64 \<Rightarrow> job_row \<Rightarrow> db
   \<Rightarrow> (job_claim option \<times> db) result" where
  "claim_ready_job E max_payload worker_id now_ms attempt_id limit r d =
     bindE (validate_name (j_id r) ''job id'' 128) (\<lambda>_.
     bindE (validate_name (j_kind r) ''job kind'' 128) (\<lambda>_.
     bindE (validate_claim_payload E (substr_chars (nat limit) (j_payload r))
              (j_payload_digest r) (unat max_payload)) (\<lambda>payload.
     bindE (ensure (0 \<le> j_created_at_ms r) (Conflict ''job creation timestamp is invalid'')) (\<lambda>_.
     bindE (ensure (0 \<le> j_attempt_count r \<and> j_attempt_count r < 2 ^ 32)
              (Conflict ''job attempt counter overflow'')) (\<lambda>_.
     bindE (ok_or (Conflict ''job attempt counter exhausted'')
              (checked_add (word_of_int (j_attempt_count r) :: u32) 1)) (\<lambda>next_attempt.
     bindE (sqlite_timestamp now_ms) (\<lambda>now.
     let target = (\<lambda>x. j_id x = j_id r \<and> j_status x = JQueued) in
     if matching target (jobs d) \<noteq> 1 then Inr (None, d)
     else
       let d1 = d\<lparr>jobs := update_where target
                  (\<lambda>x. x\<lparr>j_status := JRunning, j_claimed_at_ms := Some now,
                          j_worker_id := Some worker_id, j_attempt_count := uint next_attempt\<rparr>)
                  (jobs d)\<rparr>;
           lineage = j_id r @ '':'' @ show_u32 next_attempt in
       bindE (insert_attempt_row
                (running_attempt attempt_id (j_id r) next_attempt worker_id now) d1) (\<lambda>d2.
       bindE (insert_audit_tx d2 ''job_claimed'' (j_id r @ '':'' @ attempt_id) now_ms) (\<lambda>d3.
       Inr (Some
         \<lparr>jc_job =
            \<lparr>jr_id = j_id r, jr_kind = j_kind r, jr_payload = payload,
             jr_payload_digest = j_payload_digest r, jr_status = JRunning,
             jr_created_at_ms = word_of_int (j_created_at_ms r),
             jr_claimed_at_ms = Some now_ms, jr_completed_at_ms = None,
             jr_attempt_count = next_attempt, jr_next_retry_at_ms = None, jr_last_error = None,
             jr_result = None, jr_worker_id = Some worker_id\<rparr>,
          jc_attempt_id = attempt_id, jc_attempt_number = next_attempt, jc_lineage = lineage,
          jc_claimed_by = worker_id\<rparr>, d3))))))))))"

definition payload_read_limit :: "u64 \<Rightarrow> i64 result" where
  "payload_read_limit max_payload =
     ok_or (InvalidInput ''job payload bound exceeds SQLite range'')
       (case checked_add max_payload 1 of
          None \<Rightarrow> None
        | Some v \<Rightarrow> if uint v \<le> i64_max then Some (uint v) else None)"

definition claim_next_job ::
  "externals \<Rightarrow> store \<Rightarrow> string \<Rightarrow> u64 \<Rightarrow> string \<Rightarrow> job_claim option result \<times> store" where
  "claim_next_job E s worker_id now_ms attempt_id = with_tx s (\<lambda>d.
     bindE (validate_name worker_id ''worker id'' 128) (\<lambda>_.
     bindE (payload_read_limit (max_payload_bytes s)) (\<lambda>limit.
     bindE (ok_or (Conflict ''desired mode metadata is missing'')
              (metadata_from_conn d ''desired_mode'')) (\<lambda>desired.
     bindE (parse_mode desired) (\<lambda>mode.
     if mode \<noteq> ModeRunning then Inr (None, d)
     else if unresolved_attempt d \<noteq> None then Inr (None, d)
     else
       bindE (sqlite_timestamp now_ms) (\<lambda>now.
       case ready_job d now of
         None \<Rightarrow> Inr (None, d)
       | Some r \<Rightarrow>
           claim_ready_job E (max_payload_bytes s) worker_id now_ms attempt_id limit r d))))))"

text \<open>
  \<^verbatim>\<open>complete_job_at\<close>: the acknowledgment of a job that is completed already, and the completion of
  the running claim.
\<close>

definition complete_again ::
  "externals \<Rightarrow> string \<Rightarrow> string \<Rightarrow> string \<Rightarrow> job_row \<Rightarrow> db \<Rightarrow> (completion \<times> db) result" where
  "complete_again E job_id attempt_id digest job d =
     bindE (ensure (map_option a_id (select_last (\<lambda>a. a_job_id a = job_id \<and> a_status a = ACompleted)
                      a_sequence (attempts d)) = Some attempt_id)
       (Conflict ''completion attempt does not match the durable completed attempt'')) (\<lambda>_.
     if j_completion_digest job = Some digest then
       bindE (map_err Json (transposeE (json_from_str E) (j_result job))) (\<lambda>parsed.
       Inr (\<lparr>cp_job_id = job_id, cp_attempt_id = attempt_id,
             cp_result = (case parsed of None \<Rightarrow> JNull | Some v \<Rightarrow> v),
             cp_already_completed = True\<rparr>, d))
     else Inl (Conflict ''job is completed with a different result''))"

definition complete_running ::
  "string \<Rightarrow> string \<Rightarrow> json \<Rightarrow> string \<Rightarrow> string \<Rightarrow> u64 \<Rightarrow> job_row \<Rightarrow> db \<Rightarrow> (completion \<times> db) result" where
  "complete_running job_id attempt_id result encoded digest now_ms job d =
     bindE (ensure (j_status job = JRunning)
              (Conflict (''job is '' @ job_status_as_str (j_status job) @ '', not running''))) (\<lambda>_.
     bindE (ensure (map_option a_status (find (\<lambda>a. a_id a = attempt_id \<and> a_job_id a = job_id)
                      (attempts d)) = Some ARunning)
              (Conflict ''attempt is not the active running claim'')) (\<lambda>_.
     bindE (sqlite_timestamp now_ms) (\<lambda>now.
     let att = (\<lambda>a. a_id a = attempt_id \<and> a_job_id a = job_id \<and> a_status a = ARunning) in
     bindE (ensure (matching att (attempts d) = 1)
              (Conflict ''attempt completion changed concurrently'')) (\<lambda>_.
     let d1 = d\<lparr>attempts := update_where att
                 (\<lambda>a. a\<lparr>a_status := ACompleted, a_finished_at_ms := Some now,
                         a_outcome := Some encoded\<rparr>) (attempts d)\<rparr>;
         row = (\<lambda>r. j_id r = job_id \<and> j_status r = JRunning) in
     bindE (ensure (matching row (jobs d1) = 1)
              (Conflict ''job completion changed concurrently'')) (\<lambda>_.
     let d2 = d1\<lparr>jobs := update_where row
                 (\<lambda>r. r\<lparr>j_status := JCompleted, j_completed_at_ms := Some now,
                         j_result := Some encoded, j_completion_digest := Some digest,
                         j_last_error := None\<rparr>) (jobs d1)\<rparr> in
     bindE (insert_audit_tx d2 ''job_completed'' (job_id @ '':'' @ attempt_id) now_ms) (\<lambda>d3.
     Inr (\<lparr>cp_job_id = job_id, cp_attempt_id = attempt_id, cp_result = result,
           cp_already_completed = False\<rparr>, d3)))))))"

definition complete_job_at ::
  "externals \<Rightarrow> store \<Rightarrow> string \<Rightarrow> string \<Rightarrow> json \<Rightarrow> u64 \<Rightarrow> completion result \<times> store" where
  "complete_job_at E s job_id attempt_id result now_ms = with_tx s (\<lambda>d.
     let encoded = json_to_string E result; digest = hex_digest E encoded in
     bindE (ensure (length encoded \<le> MAX_RESULT_BYTES)
              (InvalidInput (''job result exceeds '' @ show_nat MAX_RESULT_BYTES @ '' bytes''))) (\<lambda>_.
     bindE (ok_or (NotFound (''job '' @ job_id)) (find (\<lambda>r. j_id r = job_id) (jobs d))) (\<lambda>job.
     if j_status job = JCompleted then complete_again E job_id attempt_id digest job d
     else complete_running job_id attempt_id result encoded digest now_ms job d)))"

definition quarantine_interrupted_job :: "u64 \<Rightarrow> string \<Rightarrow> db \<Rightarrow> db result" where
  "quarantine_interrupted_job now_ms job_id d =
     bindE (sqlite_timestamp now_ms) (\<lambda>now.
     let att = (\<lambda>a. a_job_id a = job_id \<and> a_status a = ARunning) in
     bindE (ensure (matching att (attempts d) = 1)
              (Conflict ''interrupted attempt changed concurrently'')) (\<lambda>_.
     let d1 = d\<lparr>attempts := update_where att
                 (\<lambda>a. a\<lparr>a_status := AUnknown, a_finished_at_ms := Some now,
                         a_outcome := Some ''daemon_interrupted''\<rparr>) (attempts d)\<rparr>;
         row = (\<lambda>r. j_id r = job_id \<and> j_status r = JRunning) in
     bindE (ensure (matching row (jobs d1) = 1)
              (Conflict ''interrupted job changed concurrently'')) (\<lambda>_.
     let d2 = d1\<lparr>jobs := update_where row
                 (\<lambda>r. r\<lparr>j_status := JQuarantined,
                         j_last_error := Some ''daemon interrupted; outcome unknown''\<rparr>)
                 (jobs d1)\<rparr> in
     insert_audit_tx d2 ''job_quarantined_after_interruption'' job_id now_ms)))"

fun quarantine_jobs_loop :: "u64 \<Rightarrow> string list \<Rightarrow> db \<Rightarrow> db result" where
  "quarantine_jobs_loop now_ms [] d = Inr d"
| "quarantine_jobs_loop now_ms (job_id # ids) d =
     bindE (quarantine_interrupted_job now_ms job_id d) (quarantine_jobs_loop now_ms ids)"

definition quarantine_interrupted_jobs :: "store \<Rightarrow> u64 \<Rightarrow> u64 result \<times> store" where
  "quarantine_interrupted_jobs s now_ms = with_tx s (\<lambda>d.
     let ids = map j_id (filter (\<lambda>r. j_status r = JRunning) (jobs d)) in
     bindE (quarantine_jobs_loop now_ms ids d) (\<lambda>d. Inr (of_nat (length ids), d)))"

definition list_jobs :: "externals \<Rightarrow> store \<Rightarrow> u64 \<Rightarrow> job_record list result" where
  "list_jobs E s limit =
     (let limit = min (min limit (max_jobs s)) 1024 in
      map_err Sqlite (mapE (job_from_row E)
        (take (unat limit)
          (select_ordered (\<lambda>_. True) (\<lambda>r. (j_created_at_ms r, j_id r)) (jobs (conn s))))))"

definition fail_job_at ::
  "store \<Rightarrow> string \<Rightarrow> string \<Rightarrow> string \<Rightarrow> u64 option \<Rightarrow> u64 \<Rightarrow> job_status result \<times> store" where
  "fail_job_at s job_id attempt_id error retry_at_ms now_ms = with_tx s (\<lambda>d.
     bindE (validate_detail error ''job error'') (\<lambda>_.
     bindE (ok_or (NotFound (''job '' @ job_id)) (find (\<lambda>r. j_id r = job_id) (jobs d))) (\<lambda>job.
     bindE (ensure (j_status job = JRunning)
              (Conflict (''job is '' @ job_status_as_str (j_status job) @ '', not running''))) (\<lambda>_.
     bindE (ensure (map_option a_status (find (\<lambda>a. a_id a = attempt_id \<and> a_job_id a = job_id)
                      (attempts d)) = Some ARunning)
              (Conflict ''attempt is not running'')) (\<lambda>_.
     let target = (if retry_at_ms \<noteq> None then JQueued else JQuarantined) in
     bindE (sqlite_timestamp now_ms) (\<lambda>now.
     let att = (\<lambda>a. a_id a = attempt_id \<and> a_status a = ARunning) in
     bindE (ensure (matching att (attempts d) = 1)
              (Conflict ''attempt failure changed concurrently'')) (\<lambda>_.
     let d1 = d\<lparr>attempts := update_where att
                 (\<lambda>a. a\<lparr>a_status := AFailed, a_finished_at_ms := Some now,
                         a_outcome := Some error\<rparr>) (attempts d)\<rparr> in
     bindE (transposeE sqlite_timestamp retry_at_ms) (\<lambda>retry.
     let row = (\<lambda>r. j_id r = job_id \<and> j_status r = JRunning) in
     bindE (ensure (matching row (jobs d1) = 1) (Conflict ''job failure changed concurrently'')) (\<lambda>_.
     let d2 = d1\<lparr>jobs := update_where row
                 (\<lambda>r. r\<lparr>j_status := target, j_next_retry_at_ms := retry,
                         j_last_error := Some error, j_worker_id := None\<rparr>) (jobs d1)\<rparr> in
     bindE (insert_audit_tx d2 ''job_failed'' (job_id @ '':'' @ job_status_debug target) now_ms) (\<lambda>d3.
     Inr (target, d3)))))))))))"

section \<open>Operator projections\<close>

record job_summary =
  js_id :: string
  js_kind :: string
  js_status :: job_status
  js_attempt_count :: u32
  js_created_at_ms :: u64
  js_next_retry_at_ms :: "u64 option"

record job_summary_page =
  jp_jobs :: "job_summary list"
  jp_truncated :: bool

record attempt_summary =
  as_attempt_id :: string
  as_job_id :: string
  as_sequence :: u32
  as_status :: string
  as_started_at_ms :: u64
  as_finished_at_ms :: "u64 option"

definition job_exists :: "store \<Rightarrow> string \<Rightarrow> bool result" where
  "job_exists s job_id =
     bindE (validate_name job_id ''job id'' 128) (\<lambda>_.
     Inr (list_ex (\<lambda>r. j_id r = job_id) (jobs (conn s))))"

definition row_u32 :: "nat \<Rightarrow> i64 \<Rightarrow> u32 sqlite_result" where
  "row_u32 index value =
     (if 0 \<le> value \<and> value < 2 ^ 32 then Inr (word_of_int value)
      else Inl (IntegralValueOutOfRange index value))"

definition row_timestamp :: "i64 \<Rightarrow> u64 sqlite_result" where
  "row_timestamp value =
     (if 0 \<le> value then Inr (word_of_int value)
      else Inl (to_sqlite_error ''out of range integral type conversion attempted''))"

definition row_optional_timestamp :: "i64 option \<Rightarrow> u64 option sqlite_result" where
  "row_optional_timestamp value = transposeE row_timestamp value"

definition job_summary_from_row :: "externals \<Rightarrow> job_row \<Rightarrow> job_summary sqlite_result" where
  "job_summary_from_row E r =
     bindE (map_err (\<lambda>e. to_sqlite_error (display_error E e))
              (job_status_parse (job_status_as_str (j_status r)))) (\<lambda>status.
     bindE (row_u32 3 (j_attempt_count r)) (\<lambda>attempt_count.
     bindE (row_timestamp (j_created_at_ms r)) (\<lambda>created.
     bindE (row_optional_timestamp (j_next_retry_at_ms r)) (\<lambda>next_retry.
     Inr \<lparr>js_id = j_id r, js_kind = j_kind r, js_status = status,
          js_attempt_count = attempt_count, js_created_at_ms = created,
          js_next_retry_at_ms = next_retry\<rparr>))))"

definition job_summaries ::
  "externals \<Rightarrow> store \<Rightarrow> job_status option \<Rightarrow> u16 \<Rightarrow> job_summary_page result" where
  "job_summaries E s flt limit =
     bindE (ensure (\<not> (limit = 0 \<or> 256 < limit)) (InvalidInput ''job limit must be 1..=256'')) (\<lambda>_.
     bindE (map_err Sqlite (mapE (job_summary_from_row E)
              (take (unat limit + 1)
                (select_ordered (\<lambda>r. case flt of None \<Rightarrow> True | Some st \<Rightarrow> j_status r = st)
                   (\<lambda>r. (j_created_at_ms r, j_id r)) (jobs (conn s)))))) (\<lambda>rows.
     Inr \<lparr>jp_jobs = take (unat limit) rows, jp_truncated = (unat limit < length rows)\<rparr>))"

definition store_attempt_summary :: "store \<Rightarrow> string \<Rightarrow> attempt_summary option result" where
  "store_attempt_summary s attempt_id =
     bindE (validate_name attempt_id ''attempt id'' 128) (\<lambda>_.
     map_err Sqlite (transposeE (\<lambda>a.
       bindE (row_u32 2 (a_sequence a)) (\<lambda>sequence.
       bindE (row_timestamp (a_started_at_ms a)) (\<lambda>started.
       bindE (row_optional_timestamp (a_finished_at_ms a)) (\<lambda>finished.
       Inr \<lparr>as_attempt_id = a_id a, as_job_id = a_job_id a, as_sequence = sequence,
            as_status = attempt_status_as_str (a_status a), as_started_at_ms = started,
            as_finished_at_ms = finished\<rparr>))))
       (find (\<lambda>a. a_id a = attempt_id) (attempts (conn s)))))"


section \<open>The operations implement the lifecycle contract\<close>

lemma queue_of_jobs [simp]:
  "queue_of (jobs_update f d) = (f (jobs d), attempts d)"
  "queue_of (attempts_update g d) = (jobs d, g (attempts d))"
  by (simp_all add: queue_of_def)

lemma queued_job_simps [simp]:
  "j_id (queued_job new_id kind payload digest now) = new_id"
  "j_status (queued_job new_id kind payload digest now) = JQueued"
  "j_attempt_count (queued_job new_id kind payload digest now) = 0"
  by (simp_all add: queued_job_def)

lemma running_attempt_simps [simp]:
  "a_id (running_attempt attempt_id job_id number worker_id now) = attempt_id"
  "a_job_id (running_attempt attempt_id job_id number worker_id now) = job_id"
  "a_sequence (running_attempt attempt_id job_id number worker_id now) = uint number"
  "a_status (running_attempt attempt_id job_id number worker_id now) = ARunning"
  by (simp_all add: running_attempt_def)

lemma insert_job_tx_Inr [result_simps]:
  "insert_job_tx d new_id kind encoded digest bound now_ms = Inr d' \<longleftrightarrow>
     length (jobs d) < unat bound \<and> (\<forall>x \<in> set (jobs d). new_id \<noteq> j_id x)
     \<and> uint now_ms \<le> i64_max \<and> valid_audit ''job_submitted'' new_id
     \<and> length (audit_log d) < audit_limit ''job_submitted''
     \<and> d' = d\<lparr>jobs := jobs d @ [queued_job new_id kind encoded digest (uint now_ms)],
               audit_log := audit_log d @ [\<lparr>au_action = ''job_submitted'', au_detail = new_id,
                 au_occurred_at_ms = uint now_ms\<rparr>]\<rparr>"
  by (auto simp: insert_job_tx_def result_simps)

lemma insert_job_tx_step:
  assumes "insert_job_tx d new_id kind encoded digest bound now_ms = Inr d'"
  shows "queue_step E (queue_of d) (queue_of d')" and "audit_ok d d'"
proof -
  show "audit_ok d d'"
    using assms by (auto simp: insert_job_tx_Inr audit_ok_defs dest: audit_limit_less)
  show "queue_step E (queue_of d) (queue_of d')"
    using assms queue_step.submit [of "jobs d" "queued_job new_id kind encoded digest (uint now_ms)" E
        "attempts d"] by (force simp: insert_job_tx_Inr queue_of_def)
qed

lemma uint_next_attempt:
  assumes "checked_add (word_of_int i :: u32) 1 = Some n" and "0 \<le> i" and "i < 2 ^ 32"
  shows "uint n = i + 1"
proof -
  have "unat n = unat (word_of_int i :: u32) + 1"
    using checked_add_unat [OF assms(1)] by simp
  then have "int (unat n) = int (unat (word_of_int i :: u32)) + 1" by simp
  then have "uint n = uint (word_of_int i :: u32) + 1" by simp
  moreover have "uint (word_of_int i :: u32) = i"
    using assms(2,3) by (simp add: uint_word_of_int)
  ultimately show ?thesis by simp
qed

lemma insert_attempt_row_Inr [result_simps]:
  "insert_attempt_row a d = Inr d' \<longleftrightarrow>
     0 < a_sequence a \<and> (\<exists>r \<in> set (jobs d). j_id r = a_job_id a)
     \<and> (\<forall>x \<in> set (attempts d). a_id a \<noteq> a_id x
          \<and> \<not> (a_job_id a = a_job_id x \<and> a_sequence a = a_sequence x))
     \<and> d' = d\<lparr>attempts := attempts d @ [a]\<rparr>"
  by (auto simp: insert_attempt_row_def result_simps list_ex_iff)

lemma unresolved_attempt_None: "unresolved_attempt d = None \<longleftrightarrow> (\<forall>a \<in> set (attempts d). \<not> unresolved a)"
  by (simp add: unresolved_attempt_def select_first_None unresolved_def)

lemma ready_job_Some:
  assumes "ready_job d now = Some r"
  shows "r \<in> set (jobs d)" and "j_status r = JQueued"
    and "\<exists>t. j_next_retry_at_ms r = Some t \<and> t \<le> now"
  using select_first_Some [OF assms [unfolded ready_job_def]] by (auto split: option.splits)

text \<open>What a successful claim commits.\<close>

lemma claim_ready_job_Some:
  assumes "claim_ready_job E bound worker_id now_ms attempt_id limit r d = Inr (Some c, d')"
    and "r \<in> set (jobs d)" and "j_status r = JQueued" and "distinct (map j_id (jobs d))"
  obtains n where "uint n = j_attempt_count r + 1" "jc_attempt_number c = n"
    "jc_attempt_id c = attempt_id" "jr_id (jc_job c) = j_id r" "jc_claimed_by c = worker_id"
    "\<forall>x \<in> set (attempts d). attempt_id \<noteq> a_id x"
    "length (audit_log d) < audit_limit ''job_claimed''"
    "d' = d\<lparr>jobs := update_where (\<lambda>x. j_id x = j_id r)
               (\<lambda>_. r\<lparr>j_status := JRunning, j_claimed_at_ms := Some (uint now_ms),
                      j_worker_id := Some worker_id, j_attempt_count := uint n\<rparr>) (jobs d),
            attempts := attempts d @ [running_attempt attempt_id (j_id r) n worker_id (uint now_ms)],
            audit_log := audit_log d @ [\<lparr>au_action = ''job_claimed'',
              au_detail = j_id r @ '':'' @ attempt_id, au_occurred_at_ms = uint now_ms\<rparr>]\<rparr>"
proof -
  have upd: "update_where (\<lambda>x. j_id x = j_id r \<and> j_status x = JQueued) f (jobs d)
      = update_where (\<lambda>x. j_id x = j_id r) (\<lambda>_. f r) (jobs d)" for f
    using replace_keyed [of j_id "jobs d" r "\<lambda>x. j_status x = JQueued" f] assms(2-4) by simp
  show ?thesis
    using assms(1) that
    unfolding claim_ready_job_def Let_def upd
    by (auto simp: result_simps uint_next_attempt split: if_splits)
qed

lemma queue_inv_distinct:
  assumes "queue_inv E (queue_of d)"
  shows "distinct (map j_id (jobs d))" and "distinct (map a_id (attempts d))"
  using assms by (simp_all add: queue_inv_def queue_of_def)

text \<open>The two guarded updates of a settling operation are one transition.\<close>

lemma settle_step:
  assumes inv: "queue_inv E (queue_of d)" and j: "j \<in> set (jobs d)" "p j"
    and a: "a \<in> set (attempts d)" "q a" "a_job_id a = j_id j"
    and "(j_status j, a_status a) \<in> {(JRunning, ARunning), (JQuarantined, AUnknown)}"
    and "same_job j (f j)" "j_attempt_count (f j) = j_attempt_count j" "same_attempt a (g a)"
    and "(j_status (f j), a_status (g a)) \<in> {(JCompleted, ACompleted), (JQueued, AFailed),
            (JQuarantined, AFailed), (JFailed, AFailed), (JQuarantined, AUnknown)}"
    and "j_status (f j) = JCompleted \<longrightarrow> result_recorded E (f j)"
  shows "queue_step E (queue_of d)
    (update_where (\<lambda>x. j_id x = j_id j \<and> p x) f (jobs d),
     update_where (\<lambda>x. a_id x = a_id a \<and> q x) g (attempts d))"
  unfolding queue_of_def replace_keyed [of j_id "jobs d" j p, OF queue_inv_distinct(1) [OF inv] j]
    replace_keyed [of a_id "attempts d" a q, OF queue_inv_distinct(2) [OF inv] a(1,2)]
  by (rule queue_step.settle) (use assms in auto)

lemma claim_next_job_step:
  assumes inv: "queue_inv E (queue_of d)"
    and "claim_ready_job E bound worker_id now_ms attempt_id limit r d = Inr (c, d')"
    and ready: "ready_job d now = Some r" and free: "unresolved_attempt d = None"
  shows "(queue_step E)\<^sup>*\<^sup>* (queue_of d) (queue_of d')"
proof (cases c)
  case None
  with assms(2) have "d' = d"
    by (auto simp: claim_ready_job_def result_simps Let_def split: if_splits)
  then show ?thesis by simp
next
  case (Some c')
  note r = ready_job_Some [OF ready]
  from assms(2) Some
  have "claim_ready_job E bound worker_id now_ms attempt_id limit r d = Inr (Some c', d')" by simp
  then obtain n where n: "uint n = j_attempt_count r + 1"
    and fresh: "\<forall>x \<in> set (attempts d). attempt_id \<noteq> a_id x"
    and d': "d' = d\<lparr>jobs := update_where (\<lambda>x. j_id x = j_id r)
               (\<lambda>_. r\<lparr>j_status := JRunning, j_claimed_at_ms := Some (uint now_ms),
                      j_worker_id := Some worker_id, j_attempt_count := uint n\<rparr>) (jobs d),
            attempts := attempts d @ [running_attempt attempt_id (j_id r) n worker_id (uint now_ms)],
            audit_log := audit_log d @ [\<lparr>au_action = ''job_claimed'',
              au_detail = j_id r @ '':'' @ attempt_id, au_occurred_at_ms = uint now_ms\<rparr>]\<rparr>"
    by (rule claim_ready_job_Some [OF _ r(1,2) queue_inv_distinct(1) [OF inv]])
  have "queue_step E (queue_of d) (queue_of d')"
    unfolding d' queue_of_def
    by (simp, rule queue_step.claim [OF r(1,2)])
       (use free fresh n in \<open>auto simp: unresolved_attempt_None same_job_def\<close>)
  then show ?thesis by blast
qed

lemma claim_ready_job_audit:
  assumes "claim_ready_job E bound worker_id now_ms attempt_id limit r d = Inr (c, d')"
  shows "audit_ok d d'"
  using assms
  by (auto simp: claim_ready_job_def result_simps Let_def audit_ok_defs split: if_splits
      dest: audit_limit_less)

lemma find_attempt:
  assumes "map_option a_status (find (\<lambda>a. a_id a = attempt_id \<and> a_job_id a = job_id) ats) = Some st"
  obtains a where "a \<in> set ats" "a_id a = attempt_id" "a_job_id a = job_id" "a_status a = st"
  using assms by (auto dest!: find_SomeD)

lemma find_job: "find (\<lambda>r. j_id r = job_id) js = Some j \<Longrightarrow> j \<in> set js \<and> j_id j = job_id"
  by (auto dest: find_SomeD)

lemma complete_running_step:
  assumes inv: "queue_inv E (queue_of d)" and job: "find (\<lambda>r. j_id r = job_id) (jobs d) = Some job"
    and run: "complete_running job_id attempt_id result encoded (hex_digest E encoded) now_ms job d = Inr (c, d')"
  shows "queue_step E (queue_of d) (queue_of d')"
proof -
  let ?f = "\<lambda>r. r\<lparr>j_status := JCompleted, j_completed_at_ms := Some (uint now_ms),
    j_result := Some encoded, j_completion_digest := Some (hex_digest E encoded), j_last_error := None\<rparr>"
  let ?g = "\<lambda>a. a\<lparr>a_status := ACompleted, a_finished_at_ms := Some (uint now_ms), a_outcome := Some encoded\<rparr>"
  note job = find_job [OF job]
  have running: "j_status job = JRunning" and
    att: "map_option a_status (find (\<lambda>a. a_id a = attempt_id \<and> a_job_id a = job_id) (attempts d)) = Some ARunning"
    and d': "queue_of d' = (update_where (\<lambda>r. j_id r = job_id \<and> j_status r = JRunning) ?f (jobs d),
      update_where (\<lambda>a. a_id a = attempt_id \<and> a_job_id a = job_id \<and> a_status a = ARunning) ?g (attempts d))"
    using run by (auto simp: complete_running_def result_simps Let_def queue_of_def)
  from att obtain a where a: "a \<in> set (attempts d)" "a_id a = attempt_id" "a_job_id a = job_id" "a_status a = ARunning"
    by (rule find_attempt)
  show ?thesis
    using settle_step [OF inv, of job "\<lambda>r. j_status r = JRunning" a
        "\<lambda>x. a_job_id x = job_id \<and> a_status x = ARunning" ?f ?g] job running a
    by (simp add: d' same_job_def same_attempt_def result_recorded_def)
qed

lemma complete_running_audit:
  "complete_running job_id attempt_id result encoded digest now_ms job d = Inr (c, d') \<Longrightarrow> audit_ok d d'"
  by (auto simp: complete_running_def result_simps Let_def audit_ok_defs dest: audit_limit_less)

lemma complete_again_unchanged:
  "complete_again E job_id attempt_id digest job d = Inr (c, d') \<Longrightarrow> d' = d"
  by (auto simp: complete_again_def result_simps split: if_splits)

interpretation complete_job: job_operation "\<lambda>s. complete_job_at E s job_id attempt_id result now_ms" E
  for E job_id attempt_id result now_ms
  unfolding complete_job_at_def
  by (rule job_tx)
     (auto simp: Let_def result_simps split: if_splits
       dest!: complete_again_unchanged intro: complete_running_audit r_into_rtranclp complete_running_step)

interpretation submit_job: job_operation "\<lambda>s. submit_job_at E s kind payload now_ms new_id" E
  for E kind payload now_ms new_id
  unfolding submit_job_at_def Let_def
  by (rule job_bindS, rule job_tx)
     (auto simp: bindE_Inr intro: insert_job_tx_step r_into_rtranclp)

interpretation claim_job: job_operation "\<lambda>s. claim_next_job E s worker_id now_ms attempt_id" E
  for E worker_id now_ms attempt_id
  unfolding claim_next_job_def
  by (rule job_tx)
     (auto simp: bindE_Inr split: if_splits option.splits
       intro: claim_ready_job_audit claim_next_job_step)

lemma quarantine_interrupted_job_step:
  assumes inv: "queue_inv E (queue_of d)"
    and job: "j \<in> set (jobs d)" "j_id j = job_id" "j_status j = JRunning"
    and run: "quarantine_interrupted_job now_ms job_id d = Inr d'"
  shows "queue_step E (queue_of d) (queue_of d')"
proof -
  let ?f = "\<lambda>r. r\<lparr>j_status := JQuarantined, j_last_error := Some ''daemon interrupted; outcome unknown''\<rparr>"
  let ?g = "\<lambda>a. a\<lparr>a_status := AUnknown, a_finished_at_ms := Some (uint now_ms),
    a_outcome := Some ''daemon_interrupted''\<rparr>"
  have d': "queue_of d' = (update_where (\<lambda>r. j_id r = job_id \<and> j_status r = JRunning) ?f (jobs d),
      update_where (\<lambda>a. a_job_id a = job_id \<and> a_status a = ARunning) ?g (attempts d))"
    using run by (auto simp: quarantine_interrupted_job_def result_simps Let_def queue_of_def)
  obtain a where a: "a \<in> set (attempts d)" "a_job_id a = job_id" "a_status a = ARunning"
    using inv job by (fastforce simp: queue_inv_def queue_of_def job_ok_def)
  have "a_job_id x = job_id \<and> a_status x = ARunning \<longleftrightarrow>
      a_id x = a_id a \<and> a_job_id x = job_id \<and> a_status x = ARunning" if "x \<in> set (attempts d)" for x
    using inv a that by (auto simp: queue_inv_def queue_of_def one_unresolved_def unresolved_def)
  then have "update_where (\<lambda>a. a_job_id a = job_id \<and> a_status a = ARunning) ?g (attempts d)
    = update_where (\<lambda>x. a_id x = a_id a \<and> a_job_id x = job_id \<and> a_status x = ARunning) ?g (attempts d)"
    unfolding update_where_def by (intro map_cong) auto
  then show ?thesis
    using settle_step [OF inv, of j "\<lambda>r. j_status r = JRunning" a
        "\<lambda>x. a_job_id x = job_id \<and> a_status x = ARunning" ?f ?g] job a
    by (simp add: d' same_job_def same_attempt_def)
qed

lemma quarantine_interrupted_job_audit:
  "quarantine_interrupted_job now_ms job_id d = Inr d' \<Longrightarrow> audit_ok d d'"
  by (auto simp: quarantine_interrupted_job_def result_simps Let_def audit_ok_defs dest: audit_limit_less)

lemma quarantine_jobs_loop_audit: "quarantine_jobs_loop now_ms ids d = Inr d' \<Longrightarrow> audit_ok d d'"
proof (induction ids arbitrary: d)
  case (Cons job_id ids)
  then show ?case
    by (auto simp: bindE_Inr intro: audit_ok_trans dest: quarantine_interrupted_job_audit)
qed simp

text \<open>The jobs the loop still has to visit stay running.\<close>

lemma quarantine_interrupted_job_others:
  assumes "quarantine_interrupted_job now_ms job_id d = Inr d'" and "j \<in> set (jobs d)" "j_id j \<noteq> job_id"
  shows "j \<in> set (jobs d')"
  using assms by (auto simp: quarantine_interrupted_job_def result_simps Let_def set_update_where image_iff
      intro!: bexI [of _ j])

lemma quarantine_jobs_loop_steps:
  assumes "quarantine_jobs_loop now_ms ids d = Inr d'" and "queue_inv E (queue_of d)"
    and "distinct ids" and "\<forall>i \<in> set ids. \<exists>j \<in> set (jobs d). j_id j = i \<and> j_status j = JRunning"
  shows "(queue_step E)\<^sup>*\<^sup>* (queue_of d) (queue_of d')"
  using assms
proof (induction ids arbitrary: d)
  case (Cons job_id ids)
  then obtain d1 where d1: "quarantine_interrupted_job now_ms job_id d = Inr d1"
    "quarantine_jobs_loop now_ms ids d1 = Inr d'"
    by (auto simp: bindE_Inr)
  obtain j where "j \<in> set (jobs d)" "j_id j = job_id" "j_status j = JRunning"
    using Cons.prems(4) by auto
  then have step: "queue_step E (queue_of d) (queue_of d1)"
    using quarantine_interrupted_job_step [OF Cons.prems(2)] d1(1) by blast
  have "\<forall>i \<in> set ids. \<exists>j \<in> set (jobs d1). j_id j = i \<and> j_status j = JRunning"
    using Cons.prems(3,4) quarantine_interrupted_job_others [OF d1(1)] by (metis distinct.simps(2) list.set_intros(2))
  with Cons.IH [OF d1(2) queue_step_inv [OF step Cons.prems(2)]] Cons.prems(3)
  have "(queue_step E)\<^sup>*\<^sup>* (queue_of d1) (queue_of d')" by simp
  with step show ?case by (rule converse_rtranclp_into_rtranclp)
qed simp

lemma distinct_ids_filter: "distinct (map k t) \<Longrightarrow> distinct (map k (filter p t))"
  by (simp add: distinct_map_filter)

interpretation quarantine_jobs: job_operation "\<lambda>s. quarantine_interrupted_jobs s now_ms" E for now_ms E
  unfolding quarantine_interrupted_jobs_def Let_def
  by (rule job_tx)
     (auto simp: bindE_Inr intro: quarantine_jobs_loop_audit
       intro!: quarantine_jobs_loop_steps distinct_ids_filter queue_inv_distinct)

lemma fail_job_tx_step:
  assumes inv: "queue_inv E (queue_of (conn s))"
    and run: "fail_job_at s job_id attempt_id error retry_at_ms now_ms = (Inr st, s')"
  shows "queue_step E (queue_of (conn s)) (queue_of (conn s'))"
proof -
  let ?d = "conn s"
  let ?f = "\<lambda>r. r\<lparr>j_status := if retry_at_ms \<noteq> None then JQueued else JQuarantined,
    j_next_retry_at_ms := map_option uint retry_at_ms, j_last_error := Some error, j_worker_id := None\<rparr>"
  let ?g = "\<lambda>a. a\<lparr>a_status := AFailed, a_finished_at_ms := Some (uint now_ms), a_outcome := Some error\<rparr>"
  obtain job where job: "find (\<lambda>r. j_id r = job_id) (jobs ?d) = Some job" and running: "j_status job = JRunning"
    and att: "map_option a_status (find (\<lambda>a. a_id a = attempt_id \<and> a_job_id a = job_id) (attempts ?d)) = Some ARunning"
    and d': "queue_of (conn s') = (update_where (\<lambda>r. j_id r = job_id \<and> j_status r = JRunning) ?f (jobs ?d),
      update_where (\<lambda>a. a_id a = attempt_id \<and> a_status a = ARunning) ?g (attempts ?d))"
    using run by (fastforce simp: fail_job_at_def result_simps Let_def queue_of_def)
  from att obtain a where a: "a \<in> set (attempts ?d)" "a_id a = attempt_id" "a_job_id a = job_id" "a_status a = ARunning"
    by (rule find_attempt)
  show ?thesis
    using settle_step [OF inv, of job "\<lambda>r. j_status r = JRunning" a "\<lambda>x. a_status x = ARunning" ?f ?g]
      find_job [OF job] running a
    by (simp add: d' same_job_def same_attempt_def)
qed

interpretation fail_job: job_operation "\<lambda>s. fail_job_at s job_id attempt_id error retry_at_ms now_ms" E
  for job_id attempt_id error retry_at_ms now_ms E
proof unfold_locales
  fix s r s' assume run: "fail_job_at s job_id attempt_id error retry_at_ms now_ms = (r, s')"
  show "audit_ok (conn s) (conn s')"
    using run unfolding fail_job_at_def
    by (elim with_tx_conn) (auto simp: result_simps Let_def audit_ok_defs dest: audit_limit_less)
  assume inv: "queue_inv E (queue_of (conn s))"
  show "(queue_step E)\<^sup>*\<^sup>* (queue_of (conn s)) (queue_of (conn s'))"
  proof (cases r)
    case (Inl e)
    with run show ?thesis by (simp add: fail_job_at_def with_tx_Inl)
  next
    case (Inr st)
    with run show ?thesis using fail_job_tx_step [OF inv] by blast
  qed
qed


section \<open>Completion\<close>

text \<open>A completed job has exactly one completed attempt, the latest one.\<close>

lemma completed_attempt_unique:
  assumes inv: "queue_inv E (js, ats)" and j: "j \<in> set js"
    and a: "a \<in> set ats" "a_job_id a = j_id j" "a_status a = ACompleted"
    and b: "b \<in> set ats" "a_job_id b = j_id j" "a_status b = ACompleted"
  shows "b = a"
proof -
  have "job_ok E ats j" using inv j by (simp add: queue_inv_def)
  then have "a_sequence a = a_sequence b"
    using a b by (auto simp: job_ok_def attempt_ok_def)
  moreover have "distinct (map (\<lambda>a. (a_job_id a, a_sequence a)) ats)"
    using inv by (simp add: queue_inv_def)
  ultimately show ?thesis
    by (intro key_unique [of "\<lambda>a. (a_job_id a, a_sequence a)" ats b a]) (use a b in simp_all)
qed

lemma complete_again_returns:
  assumes inv: "queue_inv E (queue_of d)" and j: "j \<in> set (jobs d)" "j_id j = job_id"
    and a: "a \<in> set (attempts d)" "a_id a = attempt_id" "a_job_id a = job_id" "a_status a = ACompleted"
    and res: "j_result j = Some text" "j_completion_digest j = Some (hex_digest E text)"
      "json_from_str E text = Inr v"
  shows "complete_again E job_id attempt_id (hex_digest E text) j d =
    Inr (\<lparr>cp_job_id = job_id, cp_attempt_id = attempt_id, cp_result = v, cp_already_completed = True\<rparr>, d)"
proof -
  have "select_last (\<lambda>a. a_job_id a = job_id \<and> a_status a = ACompleted) a_sequence (attempts d) = Some a"
  proof (rule select_last_unique)
    fix x assume "x \<in> set (attempts d)" "a_job_id x = job_id \<and> a_status x = ACompleted"
    then show "x = a"
      by (intro completed_attempt_unique [OF inv [unfolded queue_of_def] j(1), of a x])
         (use a j in simp_all)
  qed (use a in auto)
  with a res show ?thesis by (simp add: complete_again_def)
qed

lemma complete_running_rows:
  assumes inv: "queue_inv E (queue_of d)" and job: "find (\<lambda>r. j_id r = job_id) (jobs d) = Some job"
    and run: "complete_running job_id attempt_id result encoded digest now_ms job d = Inr (c, d')"
  obtains j a where "find (\<lambda>r. j_id r = job_id) (jobs d') = Some j" "j_status j = JCompleted"
    "j_result j = Some encoded" "j_completion_digest j = Some digest"
    "a \<in> set (attempts d')" "a_id a = attempt_id" "a_job_id a = job_id" "a_status a = ACompleted"
proof -
  let ?f = "\<lambda>r. r\<lparr>j_status := JCompleted, j_completed_at_ms := Some (uint now_ms),
    j_result := Some encoded, j_completion_digest := Some digest, j_last_error := None\<rparr>"
  let ?g = "\<lambda>a. a\<lparr>a_status := ACompleted, a_finished_at_ms := Some (uint now_ms), a_outcome := Some encoded\<rparr>"
  note job' = find_job [OF job]
  have running: "j_status job = JRunning" and
    att: "map_option a_status (find (\<lambda>a. a_id a = attempt_id \<and> a_job_id a = job_id) (attempts d)) = Some ARunning"
    and d': "jobs d' = update_where (\<lambda>r. j_id r = job_id \<and> j_status r = JRunning) ?f (jobs d)"
      "attempts d' = update_where (\<lambda>a. a_id a = attempt_id \<and> a_job_id a = job_id \<and> a_status a = ARunning) ?g (attempts d)"
    using run by (auto simp: complete_running_def result_simps Let_def)
  from att obtain a where a: "a \<in> set (attempts d)" "a_id a = attempt_id" "a_job_id a = job_id" "a_status a = ARunning"
    by (rule find_attempt)
  have "find (\<lambda>r. j_id r = j_id job) (jobs d') = Some (?f job)"
    unfolding d' using job' running queue_inv_distinct(1) [OF inv]
    by (intro job_table.find_update_same) (auto simp: job_table.keys_distinct_def)
  moreover have "?g a \<in> set (attempts d')"
    unfolding d' using a by (auto simp: set_update_where)
  ultimately show ?thesis using that [of "?f job" "?g a"] job' a by simp
qed

text \<open>
  C14: Repeating a completion after a crash returns the recorded result and changes nothing,
  however much later it arrives; a completion with a different result digest is refused and
  changes nothing.
\<close>

theorem complete_job_idempotent:
  assumes inv: "queue_inv E (queue_of (conn s))"
    and run: "complete_job_at E s job_id attempt_id result now_ms = (Inr c, s')"
    and first: "\<not> cp_already_completed c"
    and json: "json_from_str E (json_to_string E result) = Inr result"
  shows "complete_job_at E s' job_id attempt_id result later_ms =
      (Inr \<lparr>cp_job_id = job_id, cp_attempt_id = attempt_id, cp_result = result,
            cp_already_completed = True\<rparr>, s')
    \<and> (hex_digest E (json_to_string E other) \<noteq> hex_digest E (json_to_string E result) \<longrightarrow>
        (\<exists>e. complete_job_at E s' job_id attempt_id other later_ms = (Inl e, s')))"
proof -
  let ?text = "json_to_string E result"
  obtain job d' where short: "length ?text \<le> MAX_RESULT_BYTES" and s': "s' = s\<lparr>conn := d'\<rparr>"
    and job: "find (\<lambda>r. j_id r = job_id) (jobs (conn s)) = Some job"
    and body: "(if j_status job = JCompleted
      then complete_again E job_id attempt_id (hex_digest E ?text) job (conn s)
      else complete_running job_id attempt_id result ?text (hex_digest E ?text) now_ms job (conn s)) = Inr (c, d')"
    using run by (auto simp: complete_job_at_def result_simps Let_def)
  have inv': "queue_inv E (queue_of d')"
    using complete_job.keeps_queue_inv [OF inv run] s' by simp
  have "complete_running job_id attempt_id result ?text (hex_digest E ?text) now_ms job (conn s) = Inr (c, d')"
    using body first by (auto simp: complete_again_def result_simps split: if_splits)
  from complete_running_rows [OF inv job this]
  obtain j a where j: "find (\<lambda>r. j_id r = job_id) (jobs d') = Some j" "j_status j = JCompleted"
    "j_result j = Some ?text" "j_completion_digest j = Some (hex_digest E ?text)"
    and a: "a \<in> set (attempts d')" "a_id a = attempt_id" "a_job_id a = job_id" "a_status a = ACompleted" .
  have again: "complete_again E job_id attempt_id (hex_digest E ?text) j d' =
      Inr (\<lparr>cp_job_id = job_id, cp_attempt_id = attempt_id, cp_result = result, cp_already_completed = True\<rparr>, d')"
    using complete_again_returns [OF inv' _ _ a j(3,4) json] find_job [OF j(1)] by simp
  then have "complete_job_at E s' job_id attempt_id result later_ms =
      (Inr \<lparr>cp_job_id = job_id, cp_attempt_id = attempt_id, cp_result = result,
            cp_already_completed = True\<rparr>, s')"
    using j short s' by (simp add: complete_job_at_def Let_def with_tx_def)
  moreover have "\<exists>e. complete_job_at E s' job_id attempt_id other later_ms = (Inl e, s')"
    if "hex_digest E (json_to_string E other) \<noteq> hex_digest E ?text"
  proof -
    have "\<exists>e. complete_again E job_id attempt_id (hex_digest E (json_to_string E other)) j d' = Inl e"
      using j that by (simp add: complete_again_def bindE_def split: sum.splits)
    then show ?thesis
      using j s' by (cases "length (json_to_string E other) \<le> MAX_RESULT_BYTES")
        (auto simp: complete_job_at_def Let_def with_tx_def)
  qed
  ultimately show ?thesis by blast
qed

section \<open>Recovery\<close>

lemma quarantine_interrupted_job_succeeds:
  assumes inv: "queue_inv E (queue_of d)" and j: "j \<in> set (jobs d)" "j_status j = JRunning"
    and room: "length (audit_log d) < audit_limit ''job_quarantined_after_interruption''"
    and id: "valid_audit ''job_quarantined_after_interruption'' (j_id j)" and now: "uint now_ms \<le> i64_max"
  shows "\<exists>d'. quarantine_interrupted_job now_ms (j_id j) d = Inr d'"
proof -
  obtain a where a: "a \<in> set (attempts d)" "a_job_id a = j_id j" "a_status a = ARunning"
    using inv j by (fastforce simp: queue_inv_def queue_of_def job_ok_def)
  have same: "x = a" if "x \<in> set (attempts d)" "a_status x = ARunning" for x
    using inv a that by (auto simp: queue_inv_def queue_of_def one_unresolved_def unresolved_def)
  have "a_job_id x = j_id j \<and> a_status x = ARunning \<longleftrightarrow> a_id x = a_id a \<and> True" if "x \<in> set (attempts d)" for x
    using same [OF that] key_unique [OF queue_inv_distinct(2) [OF inv] that a(1)] a by auto
  then have "filter (\<lambda>x. a_job_id x = j_id j \<and> a_status x = ARunning) (attempts d)
      = filter (\<lambda>x. a_id x = a_id a \<and> True) (attempts d)"
    by (rule filter_cong [OF refl])
  then have "matching (\<lambda>x. a_job_id x = j_id j \<and> a_status x = ARunning) (attempts d) = 1"
    using attempt_table.matching_one [of "attempts d" a "\<lambda>_. True"] a(1) queue_inv_distinct(2) [OF inv]
    by (simp add: matching_def attempt_table.keys_distinct_def)
  moreover have "matching (\<lambda>r. j_id r = j_id j \<and> j_status r = JRunning) (jobs d) = 1"
    using job_table.matching_one [of "jobs d" j "\<lambda>r. j_status r = JRunning"] j queue_inv_distinct(1) [OF inv]
    by (simp add: job_table.keys_distinct_def)
  ultimately show ?thesis
    using room id now
    by (simp add: quarantine_interrupted_job_def sqlite_timestamp_def Let_def insert_audit_tx_succeeds)
qed


lemma running_jobs_cases:
  assumes inv: "queue_inv E (queue_of d)"
  obtains "filter (\<lambda>r. j_status r = JRunning) (jobs d) = []"
  | j where "filter (\<lambda>r. j_status r = JRunning) (jobs d) = [j]" "j \<in> set (jobs d)" "j_status j = JRunning"
proof (cases "filter (\<lambda>r. j_status r = JRunning) (jobs d)")
  case Nil
  then show ?thesis by (rule that(1))
next
  case (Cons j js)
  then have mem: "x \<in> set (jobs d) \<and> j_status x = JRunning" if "x \<in> set (j # js)" for x
    using that unfolding Cons [symmetric] by simp
  have "x = j" if "x \<in> set js" for x
    using one_running_job [OF inv [unfolded queue_of_def]] mem [of x] mem [of j] that by simp
  moreover have "distinct (j # js)"
    using queue_inv_distinct(1) [OF inv] unfolding Cons [symmetric]
    by (simp add: distinct_map)
  ultimately have "js = []" by (cases js) auto
  with Cons mem [of j] show ?thesis by (intro that(2) [of j]) simp_all
qed

text \<open>
  C23: Crash recovery cannot get stuck on the job tables: whenever they satisfy the queue invariant, the
  audit log has room for one more entry, the ids of the jobs are ids that the audit log accepts, and the time fits
  SQLite's integers, quarantining the interrupted work succeeds and leaves no job and no attempt
  running.
\<close>

theorem interrupted_jobs_recover:
  assumes inv: "queue_inv E (queue_of (conn s))"
    and room: "length (audit_log (conn s)) < audit_limit ''job_quarantined_after_interruption''"
    and ids: "\<forall>j \<in> set (jobs (conn s)). valid_audit ''job_quarantined_after_interruption'' (j_id j)"
    and now: "uint now_ms \<le> i64_max"
  shows "\<exists>n s'. quarantine_interrupted_jobs s now_ms = (Inr n, s') \<and> unat n \<le> 1
    \<and> (\<forall>j \<in> set (jobs (conn s')). j_status j \<noteq> JRunning)
    \<and> (\<forall>a \<in> set (attempts (conn s')). a_status a \<noteq> ARunning)"
proof -
  let ?d = "conn s"
  obtain n d' where run: "quarantine_interrupted_jobs s now_ms = (Inr n, s\<lparr>conn := d'\<rparr>)" "unat n \<le> 1"
    and jobs: "\<forall>j \<in> set (jobs d'). j_status j \<noteq> JRunning"
    using inv
  proof (cases rule: running_jobs_cases)
    case 1
    then have "quarantine_interrupted_jobs s now_ms = (Inr 0, s\<lparr>conn := ?d\<rparr>)"
      by (simp add: quarantine_interrupted_jobs_def with_tx_def)
    with 1 show ?thesis by (intro that [of 0 ?d]) (auto simp: filter_empty_conv)
  next
    case (2 j)
    then obtain d' where d': "quarantine_interrupted_job now_ms (j_id j) ?d = Inr d'"
      using quarantine_interrupted_job_succeeds [OF inv] room ids now by blast
    have "j_status x \<noteq> JRunning" if x: "x \<in> set (jobs d')" for x
    proof -
      obtain y where y: "y \<in> set (jobs ?d)" "x = (if j_id y = j_id j \<and> j_status y = JRunning
          then y\<lparr>j_status := JQuarantined, j_last_error := Some ''daemon interrupted; outcome unknown''\<rparr> else y)"
        using d' x
        by (auto simp: quarantine_interrupted_job_def result_simps Let_def set_update_where)
      show ?thesis
      proof (cases "j_status y = JRunning")
        case True
        then have "j_id y = j_id j"
          using one_running_job [OF inv [unfolded queue_of_def] y(1) _ 2(2,3)] by simp
        with True y(2) show ?thesis by simp
      qed (use y(2) in simp)
    qed
    with d' 2 show ?thesis
      by (intro that [of 1 d']) (simp_all add: quarantine_interrupted_jobs_def with_tx_def)
  qed
  have "queue_inv E (queue_of d')"
    using quarantine_jobs.keeps_queue_inv [OF inv run(1)] by simp
  then have "a_status a \<noteq> ARunning" if "a \<in> set (attempts d')" for a
    using running_attempt_job [of E "jobs d'" "attempts d'" a] jobs that by (auto simp: queue_of_def)
  then show ?thesis
    using run jobs by (intro exI [of _ n] exI [of _ "s\<lparr>conn := d'\<rparr>"]) simp
qed

section \<open>Claims\<close>

lemma store_conn_id: "s = s\<lparr>conn := conn s\<rparr>"
  by simp

lemma claim_next_job_cases:
  assumes "claim_next_job E s worker_id now_ms attempt_id = (Inr x, s')"
  obtains "x = None" "s' = s" "store_desired_mode s \<noteq> Inr ModeRunning \<or> unresolved_attempt (conn s) \<noteq> None
      \<or> ready_job (conn s) (uint now_ms) = None"
  | limit j d' where "store_desired_mode s = Inr ModeRunning"
      "unresolved_attempt (conn s) = None" "ready_job (conn s) (uint now_ms) = Some j"
      "claim_ready_job E (max_payload_bytes s) worker_id now_ms attempt_id limit j (conn s) = Inr (x, d')"
      "s' = s\<lparr>conn := d'\<rparr>"
  using assms
  by (auto simp: claim_next_job_def result_simps store_desired_mode_def store_metadata_def
      split: if_splits option.splits) (blast intro: store_conn_id)+

lemma claim_ready_job_not_None:
  assumes "claim_ready_job E bound worker_id now_ms attempt_id limit r d = Inr (c, d')"
    and "r \<in> set (jobs d)" and "j_status r = JQueued" and "distinct (map j_id (jobs d))"
  shows "c \<noteq> None"
proof -
  have "matching (\<lambda>x. j_id x = j_id r \<and> j_status x = JQueued) (jobs d) = 1"
    using job_table.matching_one [of "jobs d" r "\<lambda>x. j_status x = JQueued"] assms(2-4)
    by (simp add: job_table.keys_distinct_def)
  then show ?thesis using assms(1) by (auto simp: claim_ready_job_def result_simps Let_def split: if_splits)
qed

text \<open>A job that may be claimed at a time.\<close>

definition claimable_job :: "i64 \<Rightarrow> job_row \<Rightarrow> bool" where
  "claimable_job now j \<longleftrightarrow> j_status j = JQueued \<and> (\<exists>t. j_next_retry_at_ms j = Some t \<and> t \<le> now)"

lemma ready_job_None: "ready_job d now = None \<longleftrightarrow> (\<forall>j \<in> set (jobs d). \<not> claimable_job now j)"
  by (auto simp: ready_job_def select_first_None claimable_job_def split: option.splits)

lemma ready_job_oldest:
  assumes "ready_job d now = Some j"
  shows "j \<in> set (jobs d)" and "claimable_job now j"
    and "k \<in> set (jobs d) \<Longrightarrow> claimable_job now k \<Longrightarrow> (j_created_at_ms j, j_id j) \<le> (j_created_at_ms k, j_id k)"
  using ready_job_Some [OF assms] select_first_Some(3) [OF assms [unfolded ready_job_def], of k]
  by (auto simp: claimable_job_def)

text \<open>
  C13: A claim is handed out only in running mode and with no attempt unresolved. It takes the oldest
  job that is queued with its retry time reached, and changes the store in exactly three places: that
  job's row becomes running, with the claim time, the worker and an attempt count one
  higher; one running attempt with that number is appended; and the claim is audited. Every other
  job and attempt keeps its row. No claim is handed out, and the store is unchanged, exactly because the
  mode is another one, an attempt is unresolved, or no job is ready; an error also leaves it unchanged.
\<close>

theorem claim_next_job_correct:
  assumes inv: "queue_inv E (queue_of (conn s))"
    and run: "claim_next_job E s worker_id now_ms attempt_id = (r, s')"
  shows "case r of
      Inr (Some c) \<Rightarrow>
        store_desired_mode s = Inr ModeRunning \<and> (\<forall>a \<in> set (attempts (conn s)). \<not> unresolved a)
        \<and> (\<exists>j \<in> set (jobs (conn s)). claimable_job (uint now_ms) j
             \<and> (\<forall>k \<in> set (jobs (conn s)). claimable_job (uint now_ms) k \<longrightarrow> (j_created_at_ms j, j_id j) \<le> (j_created_at_ms k, j_id k))
             \<and> jr_id (jc_job c) = j_id j \<and> jc_attempt_id c = attempt_id \<and> uint (jc_attempt_number c) = j_attempt_count j + 1
             \<and> s' = s\<lparr>conn := (conn s)
                  \<lparr>jobs := map (\<lambda>x. if j_id x = j_id j
                             then j\<lparr>j_status := JRunning, j_claimed_at_ms := Some (uint now_ms), j_worker_id := Some worker_id,
                                    j_attempt_count := j_attempt_count j + 1\<rparr>
                             else x) (jobs (conn s)),
                   attempts := attempts (conn s) @
                     [\<lparr>a_id = attempt_id, a_job_id = j_id j, a_sequence = j_attempt_count j + 1,
                       a_lineage = j_id j @ '':'' @ show_u32 (jc_attempt_number c), a_status = ARunning,
                       a_started_at_ms = uint now_ms, a_finished_at_ms = None, a_worker_id = Some worker_id, a_outcome = None\<rparr>],
                   audit_log := audit_log (conn s) @
                     [\<lparr>au_action = ''job_claimed'', au_detail = j_id j @ '':'' @ attempt_id, au_occurred_at_ms = uint now_ms\<rparr>]\<rparr>\<rparr>)
    | Inr None \<Rightarrow> s' = s \<and> (store_desired_mode s \<noteq> Inr ModeRunning \<or> (\<exists>a \<in> set (attempts (conn s)). unresolved a)
                       \<or> (\<forall>j \<in> set (jobs (conn s)). \<not> claimable_job (uint now_ms) j))
    | Inl _ \<Rightarrow> s' = s"
proof (cases r)
  case (Inl e)
  with run show ?thesis by (simp add: claim_next_job_def with_tx_Inl)
next
  case (Inr x)
  with run have "claim_next_job E s worker_id now_ms attempt_id = (Inr x, s')" by simp
  then show ?thesis
  proof (cases rule: claim_next_job_cases)
    case 1
    with Inr show ?thesis by (auto simp: unresolved_attempt_None ready_job_None)
  next
    case (2 limit j d')
    note j = ready_job_oldest [OF 2(3)] ready_job_Some(2) [OF 2(3)]
    note ids = queue_inv_distinct(1) [OF inv]
    obtain c where c: "x = Some c" using claim_ready_job_not_None [OF 2(4) j(1,4) ids] by blast
    obtain n where n: "uint n = j_attempt_count j + 1" "jc_attempt_number c = n" "jr_id (jc_job c) = j_id j" "jc_attempt_id c = attempt_id"
      and d': "d' = (conn s)\<lparr>jobs := update_where (\<lambda>x. j_id x = j_id j)
             (\<lambda>_. j\<lparr>j_status := JRunning, j_claimed_at_ms := Some (uint now_ms),
                    j_worker_id := Some worker_id, j_attempt_count := uint n\<rparr>) (jobs (conn s)),
          attempts := attempts (conn s) @ [running_attempt attempt_id (j_id j) n worker_id (uint now_ms)],
          audit_log := audit_log (conn s) @ [\<lparr>au_action = ''job_claimed'',
            au_detail = j_id j @ '':'' @ attempt_id, au_occurred_at_ms = uint now_ms\<rparr>]\<rparr>"
      by (rule claim_ready_job_Some [OF 2(4) [unfolded c] j(1,4) ids])
    have "conn s' = d'" "s' = s\<lparr>conn := d'\<rparr>" using 2(5) by simp_all
    with n j(1-3) 2(1,2) Inr c show ?thesis
      by (auto simp: unresolved_attempt_None d' update_where_def running_attempt_def intro!: bexI [of _ j])
  qed
qed

section \<open>Concrete runs\<close>

definition sample_running :: store where
  "sample_running = sample_store\<lparr>conn := (conn sample_store)
     \<lparr>jobs := [queued_job ''job'' ''kind'' ''{}'' (hex_digest externals_sample ''{}'') 1
                \<lparr>j_status := JRunning, j_attempt_count := 1, j_claimed_at_ms := Some 2,
                 j_worker_id := Some ''worker''\<rparr>],
      attempts := [running_attempt ''attempt'' ''job'' 1 ''worker'' 2]\<rparr>\<rparr>"

lemma sample_running_inv: "queue_inv externals_sample (queue_of (conn sample_running))"
  by (simp add: sample_running_def queue_of_def queue_inv_def one_unresolved_def job_ok_def attempt_ok_def)

theorem complete_job_idempotent_witness:
  "\<exists>s'. complete_job_at externals_sample sample_running ''job'' ''attempt'' (JObject []) 7
          = (Inr \<lparr>cp_job_id = ''job'', cp_attempt_id = ''attempt'', cp_result = JObject [],
                  cp_already_completed = False\<rparr>, s')
     \<and> complete_job_at externals_sample s' ''job'' ''attempt'' (JObject []) 99
          = (Inr \<lparr>cp_job_id = ''job'', cp_attempt_id = ''attempt'', cp_result = JObject [],
                  cp_already_completed = True\<rparr>, s')"
proof -
  have json: "json_from_str externals_sample (json_to_string externals_sample (JObject [])) = Inr (JObject [])"
    by (simp add: externals_sample_def)
  obtain s' where run: "complete_job_at externals_sample sample_running ''job'' ''attempt'' (JObject []) 7
          = (Inr \<lparr>cp_job_id = ''job'', cp_attempt_id = ''attempt'', cp_result = JObject [],
                  cp_already_completed = False\<rparr>, s')"
    by (simp add: complete_job_at_def complete_running_def eval_defs sample_running_def matching_def
        MAX_RESULT_BYTES_def externals_sample_def)
  from complete_job_idempotent [OF sample_running_inv run _ json] run show ?thesis by auto
qed

theorem interrupted_jobs_recover_witness:
  "\<exists>n s'. quarantine_interrupted_jobs sample_running 9 = (Inr n, s') \<and> unat n \<le> 1
    \<and> (\<forall>j \<in> set (jobs (conn s')). j_status j \<noteq> JRunning)
    \<and> (\<forall>a \<in> set (attempts (conn s')). a_status a \<noteq> ARunning)"
  by (rule interrupted_jobs_recover [OF sample_running_inv])
     (simp_all add: sample_running_def valid_audit_def eval_defs)

definition sample_queued :: store where
  "sample_queued = sample_store\<lparr>conn := (conn sample_store)
     \<lparr>jobs := [queued_job ''job'' ''kind'' ''{}'' (hex_digest externals_sample ''{}'') 1]\<rparr>\<rparr>"

theorem claim_next_job_correct_witness:
  "\<exists>c s'. claim_next_job externals_sample sample_queued ''worker'' 5 ''attempt'' = (Inr (Some c), s')
     \<and> jr_id (jc_job c) = ''job'' \<and> uint (jc_attempt_number c) = 1
     \<and> map j_status (jobs (conn s')) = [JRunning] \<and> map a_status (attempts (conn s')) = [ARunning]"
proof -
  have inv: "queue_inv externals_sample (queue_of (conn sample_queued))"
    by (simp add: sample_queued_def queue_of_def queue_inv_def one_unresolved_def job_ok_def)
  have "\<exists>c s'. claim_next_job externals_sample sample_queued ''worker'' 5 ''attempt'' = (Inr (Some c), s')"
    by (simp add: claim_next_job_def claim_ready_job_def ready_job_def unresolved_attempt_def eval_defs
        sample_queued_def sample_store_def blank_db_def queued_job_def parse_mode_def payload_read_limit_def
        checked_add_def select_first_def select_ordered_def validate_claim_payload_def externals_sample_def
        is_continuation_def matching_def insert_attempt_row_def insert_row_def update_where_def)
  then obtain c s' where run: "claim_next_job externals_sample sample_queued ''worker'' 5 ''attempt'' = (Inr (Some c), s')"
    by blast
  from claim_next_job_correct [OF inv run] show ?thesis
    using run by (auto simp: sample_queued_def)
qed

end
