(* ===== verification/Worker_Types.thy ===== *)
theory Worker_Types
  imports Store_Jobs
begin

text \<open>
  The worker side of the store: the structures exchanged with the worker, the guards on their
  fields (\<^verbatim>\<open>storage_worker_claims_validation.rs\<close>), the bounded decoding of the binding and control
  rows (\<^verbatim>\<open>storage_worker_claims_state.rs\<close>) and the two operations on them
  (\<^verbatim>\<open>storage_worker_claims_lifecycle.rs\<close>). The lemmas show that the binding is immutable, that the
  control sequence never moves back, and what a claim witness attests.
\<close>

section \<open>Structures\<close>

record worker_binding =
  wb_deployment_id :: string
  wb_worker_owner_id :: string
  wb_worker_profile_digest :: string
  wb_release_digest :: string
  wb_config_digest :: string
  wb_schema_digest :: string

record worker_control_witness =
  wc_deployment_id :: string
  wc_worker_owner_id :: string
  wc_worker_profile_digest :: string
  wc_watchdog_boot_id :: string
  wc_worker_boot_id :: string
  wc_mode :: worker_control_mode
  wc_mode_sequence :: u64

record worker_claim_witness =
  cw_deployment_id :: string
  cw_worker_owner_id :: string
  cw_worker_profile_digest :: string
  cw_release_digest :: string
  cw_config_digest :: string
  cw_schema_digest :: string
  cw_watchdog_boot_id :: string
  cw_worker_boot_id :: string
  cw_mode_sequence :: u64

record worker_handoff_tuple =
  tu_handoff_id :: string
  tu_deployment_id :: string
  tu_job_id :: string
  tu_attempt_id :: string
  tu_attempt_number :: u32
  tu_worker_owner_id :: string
  tu_worker_profile_digest :: string
  tu_run_id :: string
  tu_episode_id :: string
  tu_trajectory_id :: string
  tu_payload_digest :: string

record worker_terminal_receipt =
  tr_status :: worker_terminal_status
  tr_checkpoint_sequence :: u64
  tr_terminal_ref :: string
  tr_result_digest :: string

text \<open>The stored receipt adds the digest the acknowledgment names.\<close>

record worker_terminal_record = worker_terminal_receipt +
  te_terminal_digest :: string

definition MAX_WORKER_WIRE_INTEGER :: u64 where
  "MAX_WORKER_WIRE_INTEGER = 9007199254740991"

definition WORKER_HANDOFF_SCHEMA_DIGEST :: string where
  "WORKER_HANDOFF_SCHEMA_DIGEST = ''bb13d15f6c0e4b8d0f58f7391fe4ba319ebc57a0a09effc06d73ea718bbff4cf''"

definition WORKER_HANDOFF_OPERATION :: string where
  "WORKER_HANDOFF_OPERATION = ''runtime_v3_episode''"

definition WORKER_HANDOFF_PAYLOAD_DIGEST :: string where
  "WORKER_HANDOFF_PAYLOAD_DIGEST = ''44136fa355b3678a1146ad16f7e8649e94fb4fc21fe77e8310c060f61caaff8a''"


section \<open>Guards\<close>

definition validate_uuid4 :: "externals \<Rightarrow> string \<Rightarrow> string \<Rightarrow> unit result" where
  "validate_uuid4 E value field =
     bindE (map_err (\<lambda>error. InvalidInput (field @ '' is not a canonical UUIDv4: '' @ error))
              (uuid_parse_str E value)) (\<lambda>parsed.
     ensure (\<not> (uuid_version_num parsed \<noteq> 4 \<or> uuid_variant_of parsed \<noteq> RFC4122
                \<or> uuid_to_string parsed \<noteq> value))
       (InvalidInput (field @ '' must be a lowercase canonical UUIDv4'')))"

definition validate_digest_value :: "string \<Rightarrow> string \<Rightarrow> unit result" where
  "validate_digest_value value field =
     map_err (\<lambda>message. InvalidInput (field @ '' is invalid: '' @ message)) (validate_digest value)"

definition validate_worker_identity :: "string \<Rightarrow> string \<Rightarrow> unit result" where
  "validate_worker_identity value field =
     ensure (\<not> (value = [] \<or> 128 < length value
                \<or> \<not> list_all (\<lambda>c. is_alphanumeric c \<or> c \<in> {CHR ''.'', CHR ''_'', CHR ''-''}) value))
       (InvalidInput (field @ '' must be a bounded ASCII worker identity''))"

definition validate_binding :: "db \<Rightarrow> worker_binding \<Rightarrow> unit result" where
  "validate_binding d binding =
     bindE (ok_or (Conflict ''deployment_id metadata is missing'')
              (metadata_from_conn d ''deployment_id'')) (\<lambda>deployment_id.
     bindE (validate_worker_identity (wb_deployment_id binding) ''worker deployment id'') (\<lambda>_.
     bindE (ensure (wb_deployment_id binding = deployment_id)
              (Conflict ''worker binding deployment differs from the owner-local store'')) (\<lambda>_.
     bindE (validate_worker_identity (wb_worker_owner_id binding) ''worker owner id'') (\<lambda>_.
     bindE (forE [(wb_worker_profile_digest binding, ''worker profile digest''),
                  (wb_release_digest binding, ''worker release digest''),
                  (wb_config_digest binding, ''worker config digest''),
                  (wb_schema_digest binding, ''worker schema digest'')]
              (\<lambda>(value, field). validate_digest_value value field)) (\<lambda>_.
     ensure (wb_schema_digest binding = WORKER_HANDOFF_SCHEMA_DIGEST)
       (Conflict ''worker binding schema digest is not the frozen worker-handoff-v1 schema''))))))"

definition validate_control :: "externals \<Rightarrow> worker_control_witness \<Rightarrow> unit result" where
  "validate_control E control =
     bindE (validate_worker_identity (wc_deployment_id control) ''worker control deployment id'') (\<lambda>_.
     bindE (validate_worker_identity (wc_worker_owner_id control) ''worker control owner id'') (\<lambda>_.
     bindE (validate_digest_value (wc_worker_profile_digest control) ''worker control profile digest'') (\<lambda>_.
     bindE (validate_uuid4 E (wc_watchdog_boot_id control) ''watchdog boot id'') (\<lambda>_.
     bindE (validate_uuid4 E (wc_worker_boot_id control) ''worker boot id'') (\<lambda>_.
     bindE (ensure (wc_watchdog_boot_id control \<noteq> wc_worker_boot_id control)
              (InvalidInput ''watchdog and worker boot identities must be distinct'')) (\<lambda>_.
     ensure (\<not> (wc_mode_sequence control = 0 \<or> MAX_WORKER_WIRE_INTEGER < wc_mode_sequence control))
       (InvalidInput ''worker control mode sequence must be positive and fit the wire integer bound'')))))))"

definition validate_claim_witness :: "externals \<Rightarrow> worker_claim_witness \<Rightarrow> unit result" where
  "validate_claim_witness E witness =
     bindE (validate_worker_identity (cw_deployment_id witness) ''worker claim deployment id'') (\<lambda>_.
     bindE (validate_worker_identity (cw_worker_owner_id witness) ''worker claim owner id'') (\<lambda>_.
     bindE (forE [(cw_worker_profile_digest witness, ''worker profile digest''),
                  (cw_release_digest witness, ''worker release digest''),
                  (cw_config_digest witness, ''worker config digest''),
                  (cw_schema_digest witness, ''worker schema digest'')]
              (\<lambda>(value, field). validate_digest_value value field)) (\<lambda>_.
     bindE (validate_uuid4 E (cw_watchdog_boot_id witness) ''watchdog boot id'') (\<lambda>_.
     bindE (validate_uuid4 E (cw_worker_boot_id witness) ''worker boot id'') (\<lambda>_.
     bindE (ensure (cw_watchdog_boot_id witness \<noteq> cw_worker_boot_id witness)
              (InvalidInput ''watchdog and worker boot identities must be distinct'')) (\<lambda>_.
     ensure (\<not> (cw_mode_sequence witness = 0 \<or> MAX_WORKER_WIRE_INTEGER < cw_mode_sequence witness))
       (InvalidInput ''worker claim mode sequence must be positive and fit the wire integer bound'')))))))"

definition validate_tuple :: "externals \<Rightarrow> worker_handoff_tuple \<Rightarrow> unit result" where
  "validate_tuple E t =
     bindE (forE [(tu_handoff_id t, ''handoff id''), (tu_attempt_id t, ''attempt id''),
                  (tu_run_id t, ''run id''), (tu_episode_id t, ''episode id''),
                  (tu_trajectory_id t, ''trajectory id'')]
              (\<lambda>(value, field). validate_uuid4 E value field)) (\<lambda>_.
     bindE (validate_worker_identity (tu_deployment_id t) ''deployment id'') (\<lambda>_.
     bindE (validate_name (tu_job_id t) ''job id'' 128) (\<lambda>_.
     bindE (ensure (tu_attempt_number t \<noteq> 0)
              (InvalidInput ''worker attempt number must be positive'')) (\<lambda>_.
     bindE (validate_worker_identity (tu_worker_owner_id t) ''worker owner id'') (\<lambda>_.
     bindE (validate_digest_value (tu_worker_profile_digest t) ''worker profile digest'') (\<lambda>_.
     bindE (validate_digest_value (tu_payload_digest t) ''payload digest'') (\<lambda>_.
     bindE (ensure (tu_payload_digest t = WORKER_HANDOFF_PAYLOAD_DIGEST)
              (InvalidInput ''worker payload digest is not the frozen empty-parameters digest'')) (\<lambda>_.
     ensure (distinct [tu_handoff_id t, tu_attempt_id t, tu_run_id t, tu_episode_id t, tu_trajectory_id t])
       (InvalidInput ''worker handoff tuple UUIDs must be pairwise distinct'')))))))))"

definition validate_control_against_binding :: "worker_control_witness \<Rightarrow> worker_binding \<Rightarrow> unit result" where
  "validate_control_against_binding control binding =
     ensure (\<not> (wc_deployment_id control \<noteq> wb_deployment_id binding
                \<or> wc_worker_owner_id control \<noteq> wb_worker_owner_id binding
                \<or> wc_worker_profile_digest control \<noteq> wb_worker_profile_digest binding))
       (Conflict ''worker control scope differs from its configured binding'')"


section \<open>Binding and control rows\<close>

text \<open>A text column that is only read within its bound, and the check that it was read.\<close>

definition bounded_text :: "nat \<Rightarrow> string \<Rightarrow> string option" where
  "bounded_text bound value = (if length value \<le> bound then Some value else None)"

definition required_text :: "string option \<Rightarrow> string \<Rightarrow> string sqlite_result" where
  "required_text column field =
     ok_or (to_sqlite_error (''worker '' @ field @ '' is missing, non-text, or exceeds its bound'')) column"

definition binding_from_row :: "externals \<Rightarrow> worker_binding_row \<Rightarrow> worker_binding sqlite_result" where
  "binding_from_row E r =
     bindE (required_text (bounded_text 128 (b_deployment_id r)) ''binding deployment id'') (\<lambda>deployment_id.
     bindE (required_text (bounded_text 128 (b_worker_owner_id r)) ''binding owner id'') (\<lambda>worker_owner_id.
     bindE (required_text (bounded_text 64 (b_worker_profile_digest r)) ''binding profile digest'') (\<lambda>profile.
     bindE (required_text (bounded_text 64 (b_release_digest r)) ''binding release digest'') (\<lambda>release.
     bindE (required_text (bounded_text 64 (b_config_digest r)) ''binding config digest'') (\<lambda>config.
     bindE (required_text (bounded_text 64 (b_schema_digest r)) ''binding schema digest'') (\<lambda>schema.
     bindE (to_sql E (validate_worker_identity deployment_id ''worker binding deployment id'')) (\<lambda>_.
     bindE (to_sql E (validate_worker_identity worker_owner_id ''worker binding owner id'')) (\<lambda>_.
     bindE (forE [(profile, ''worker profile digest''), (release, ''worker release digest''),
                  (config, ''worker config digest''), (schema, ''worker schema digest'')]
              (\<lambda>(value, field). to_sql E (validate_digest_value value field))) (\<lambda>_.
     bindE (ensure (schema = WORKER_HANDOFF_SCHEMA_DIGEST)
              (to_sqlite_error ''worker binding schema digest is not the frozen worker-handoff-v1 schema'')) (\<lambda>_.
     bindE (sqlite_u64 (b_updated_at_ms r) ''worker binding updated_at_ms'') (\<lambda>_.
     Inr \<lparr>wb_deployment_id = deployment_id, wb_worker_owner_id = worker_owner_id,
          wb_worker_profile_digest = profile, wb_release_digest = release,
          wb_config_digest = config, wb_schema_digest = schema\<rparr>)))))))))))"

definition control_from_row :: "externals \<Rightarrow> worker_control_row \<Rightarrow> worker_control_witness sqlite_result" where
  "control_from_row E r =
     bindE (required_text (bounded_text 128 (w_deployment_id r)) ''control deployment id'') (\<lambda>deployment_id.
     bindE (required_text (bounded_text 128 (w_worker_owner_id r)) ''control owner id'') (\<lambda>worker_owner_id.
     bindE (required_text (bounded_text 64 (w_worker_profile_digest r)) ''control profile digest'') (\<lambda>profile.
     bindE (required_text (bounded_text 36 (w_watchdog_boot_id r)) ''control watchdog boot id'') (\<lambda>watchdog_boot.
     bindE (required_text (bounded_text 36 (w_worker_boot_id r)) ''control worker boot id'') (\<lambda>worker_boot.
     bindE (required_text (bounded_text 32 (worker_control_mode_as_str (w_mode r))) ''control mode'') (\<lambda>mode_text.
     bindE (to_sql E (worker_control_mode_parse mode_text)) (\<lambda>mode.
     bindE (sqlite_u64 (w_mode_sequence r) ''worker control mode sequence'') (\<lambda>mode_sequence.
     let control = \<lparr>wc_deployment_id = deployment_id, wc_worker_owner_id = worker_owner_id,
                    wc_worker_profile_digest = profile, wc_watchdog_boot_id = watchdog_boot,
                    wc_worker_boot_id = worker_boot, wc_mode = mode, wc_mode_sequence = mode_sequence\<rparr> in
     bindE (to_sql E (validate_control E control)) (\<lambda>_.
     bindE (sqlite_u64 (w_updated_at_ms r) ''worker control updated_at_ms'') (\<lambda>_. Inr control))))))))))"

text \<open>\<^verbatim>\<open>binding_from_conn\<close> and \<^verbatim>\<open>binding_from_tx\<close> run the same query.\<close>

definition binding_from_conn :: "externals \<Rightarrow> db \<Rightarrow> worker_binding option result" where
  "binding_from_conn E d =
     bindE (map_err Sqlite (transposeE (binding_from_row E) (worker_bindings d))) (\<lambda>binding.
     case binding of
       None \<Rightarrow> Inr None
     | Some b \<Rightarrow> bindE (validate_binding d b) (\<lambda>_. Inr (Some b)))"

definition control_from_conn :: "externals \<Rightarrow> db \<Rightarrow> worker_control_witness option result" where
  "control_from_conn E d = map_err Sqlite (transposeE (control_from_row E) (worker_control d))"

definition ensure_phase_time_at_least :: "u64 \<Rightarrow> i64 \<Rightarrow> string \<Rightarrow> unit result" where
  "ensure_phase_time_at_least now_ms previous field =
     bindE (map_err Sqlite (sqlite_u64 previous (field @ '' updated_at_ms''))) (\<lambda>previous.
     ensure (previous \<le> now_ms) (Conflict (field @ '' timestamp moves backwards'')))"


section \<open>Operations\<close>

definition binding_row_of :: "worker_binding \<Rightarrow> i64 \<Rightarrow> worker_binding_row" where
  "binding_row_of binding now =
     \<lparr>b_deployment_id = wb_deployment_id binding, b_worker_owner_id = wb_worker_owner_id binding,
      b_worker_profile_digest = wb_worker_profile_digest binding,
      b_release_digest = wb_release_digest binding, b_config_digest = wb_config_digest binding,
      b_schema_digest = wb_schema_digest binding, b_updated_at_ms = now\<rparr>"

definition configure_binding_tx ::
  "externals \<Rightarrow> worker_binding \<Rightarrow> u64 \<Rightarrow> db \<Rightarrow> (worker_binding \<times> db) result" where
  "configure_binding_tx E binding now_ms d =
     bindE (validate_binding d binding) (\<lambda>_.
     bindE (map_err Sqlite (transposeE (binding_from_row E) (worker_bindings d))) (\<lambda>existing.
     case existing of
       Some existing \<Rightarrow>
         bindE (ensure (existing = binding)
                  (Conflict ''worker binding is immutable; explicit owner migration is required'')) (\<lambda>_.
         Inr (binding, d))
     | None \<Rightarrow>
         bindE (sqlite_timestamp now_ms) (\<lambda>now.
         bindE (insert_audit_tx (d\<lparr>worker_bindings := Some (binding_row_of binding now)\<rparr>)
                  ''worker_binding_configured'' (wb_worker_owner_id binding) now_ms) (\<lambda>d'.
         Inr (binding, d')))))"

definition configure_worker_binding_at ::
  "externals \<Rightarrow> store \<Rightarrow> worker_binding \<Rightarrow> u64 \<Rightarrow> worker_binding result \<times> store" where
  "configure_worker_binding_at E s binding now_ms = with_tx s (configure_binding_tx E binding now_ms)"

definition control_row_of :: "worker_control_witness \<Rightarrow> i64 \<Rightarrow> i64 \<Rightarrow> worker_control_row" where
  "control_row_of control mode_sequence now =
     \<lparr>w_deployment_id = wc_deployment_id control, w_worker_owner_id = wc_worker_owner_id control,
      w_worker_profile_digest = wc_worker_profile_digest control,
      w_watchdog_boot_id = wc_watchdog_boot_id control, w_worker_boot_id = wc_worker_boot_id control,
      w_mode = wc_mode control, w_mode_sequence = mode_sequence, w_updated_at_ms = now\<rparr>"

text \<open>Whether the witness is new against the stored one; an exact repeat is not.\<close>

definition check_control_sequence ::
  "externals \<Rightarrow> worker_control_witness \<Rightarrow> u64 \<Rightarrow> db \<Rightarrow> bool result" where
  "check_control_sequence E control now_ms d =
     (case worker_control d of
        None \<Rightarrow> Inr True
      | Some row \<Rightarrow>
          bindE (map_err Sqlite (control_from_row E row)) (\<lambda>existing.
          bindE (ensure_phase_time_at_least now_ms (w_updated_at_ms row) ''worker control'') (\<lambda>_.
          bindE (ensure (\<not> wc_mode_sequence control < wc_mode_sequence existing)
                   (Conflict ''worker control sequence is older than the durable sequence'')) (\<lambda>_.
          if wc_mode_sequence control = wc_mode_sequence existing then
            bindE (ensure (control = existing)
                     (Conflict ''worker control reuses a sequence with a different scope'')) (\<lambda>_. Inr False)
          else Inr True))))"

definition set_control_tx ::
  "externals \<Rightarrow> worker_control_witness \<Rightarrow> u64 \<Rightarrow> db \<Rightarrow> (worker_control_witness \<times> db) result" where
  "set_control_tx E control now_ms d =
     bindE (validate_control E control) (\<lambda>_.
     bindE (binding_from_conn E d) (\<lambda>binding.
     bindE (ok_or (Conflict ''worker binding is not configured'') binding) (\<lambda>binding.
     bindE (validate_control_against_binding control binding) (\<lambda>_.
     bindE (check_control_sequence E control now_ms d) (\<lambda>fresh.
     if \<not> fresh then Inr (control, d)
     else
       bindE (sqlite_timestamp (wc_mode_sequence control)) (\<lambda>mode_sequence.
       bindE (sqlite_timestamp now_ms) (\<lambda>now.
       bindE (ensure (0 < mode_sequence) (Sqlite (ConstraintViolation ''worker_control.mode_sequence''))) (\<lambda>_.
       bindE (insert_audit_tx (d\<lparr>worker_control := Some (control_row_of control mode_sequence now)\<rparr>)
                ''worker_control_mode_set''
                (worker_control_mode_as_str (wc_mode control) @ '':'' @ show_u64 (wc_mode_sequence control))
                now_ms) (\<lambda>d'.
       Inr (control, d'))))))))))"

definition set_worker_control_at ::
  "externals \<Rightarrow> store \<Rightarrow> worker_control_witness \<Rightarrow> u64 \<Rightarrow> worker_control_witness result \<times> store" where
  "set_worker_control_at E s control now_ms = with_tx s (set_control_tx E control now_ms)"

definition current_worker_control :: "externals \<Rightarrow> store \<Rightarrow> worker_control_witness option result" where
  "current_worker_control E s =
     bindE (control_from_conn E (conn s)) (\<lambda>control.
     case control of
       None \<Rightarrow> Inr None
     | Some control \<Rightarrow>
         bindE (binding_from_conn E (conn s)) (\<lambda>binding.
         bindE (ok_or (Conflict ''worker control has no configured binding'') binding) (\<lambda>binding.
         bindE (validate_control_against_binding control binding) (\<lambda>_. Inr (Some control)))))"

definition claim_witness_of :: "worker_binding \<Rightarrow> worker_control_witness \<Rightarrow> worker_claim_witness" where
  "claim_witness_of binding control =
     \<lparr>cw_deployment_id = wb_deployment_id binding, cw_worker_owner_id = wb_worker_owner_id binding,
      cw_worker_profile_digest = wb_worker_profile_digest binding,
      cw_release_digest = wb_release_digest binding, cw_config_digest = wb_config_digest binding,
      cw_schema_digest = wb_schema_digest binding, cw_watchdog_boot_id = wc_watchdog_boot_id control,
      cw_worker_boot_id = wc_worker_boot_id control, cw_mode_sequence = wc_mode_sequence control\<rparr>"

text \<open>\<^verbatim>\<open>||\<close> does not read the desired mode when the control is not running.\<close>

definition current_worker_claim_witness :: "externals \<Rightarrow> store \<Rightarrow> worker_claim_witness option result" where
  "current_worker_claim_witness E s =
     bindE (binding_from_conn E (conn s)) (\<lambda>binding.
     case binding of
       None \<Rightarrow> Inr None
     | Some binding \<Rightarrow>
         bindE (control_from_conn E (conn s)) (\<lambda>control.
         case control of
           None \<Rightarrow> Inr None
         | Some control \<Rightarrow>
             bindE (validate_control_against_binding control binding) (\<lambda>_.
             if wc_mode control \<noteq> WRunning then Inr None
             else
               bindE (ok_or (Conflict ''desired mode metadata is missing'')
                        (metadata_from_conn (conn s) ''desired_mode'')) (\<lambda>desired.
               bindE (parse_mode desired) (\<lambda>mode.
               if mode \<noteq> ModeRunning then Inr None
               else Inr (Some (claim_witness_of binding control)))))))"

section \<open>Contract\<close>

lemma bounded_required [result_simps]:
  "required_text (bounded_text n v) field = Inr x \<longleftrightarrow> length v \<le> n \<and> x = v"
  by (auto simp: required_text_def bounded_text_def)

lemma validate_uuid4_Inr [result_simps]:
  "validate_uuid4 E value field = Inr u \<longleftrightarrow>
     (\<exists>p. uuid_parse_str E value = Inr p \<and> uuid_version_num p = 4 \<and> uuid_variant_of p = RFC4122
        \<and> uuid_to_string p = value)"
  by (auto simp: validate_uuid4_def result_simps)

lemma validate_digest_value_Inr [result_simps]:
  "validate_digest_value value field = Inr u \<longleftrightarrow> validate_digest value = Inr u"
  by (simp add: validate_digest_value_def result_simps)

lemma validate_digest_length: "validate_digest value = Inr () \<Longrightarrow> length value = 64"
  by (simp add: validate_digest_def ensure_def split: if_splits)

lemma validate_worker_identity_field:
  "validate_worker_identity value field = Inr u \<longleftrightarrow> validate_worker_identity value field' = Inr u"
  by (auto simp: validate_worker_identity_def result_simps)

lemma validate_worker_identity_length: "validate_worker_identity value field = Inr u \<Longrightarrow> length value \<le> 128"
  by (auto simp: validate_worker_identity_def result_simps)

lemma length_worker_control_mode [simp]: "length (worker_control_mode_as_str m) \<le> 32"
  by (cases m) simp_all

lemma worker_control_mode_roundtrip [simp]: "worker_control_mode_parse (worker_control_mode_as_str m) = Inr m"
  by (cases m) (simp_all add: worker_control_mode_parse_def)

text \<open>What the decoded rows are.\<close>

definition binding_of_row :: "worker_binding_row \<Rightarrow> worker_binding" where
  "binding_of_row r =
     \<lparr>wb_deployment_id = b_deployment_id r, wb_worker_owner_id = b_worker_owner_id r,
      wb_worker_profile_digest = b_worker_profile_digest r, wb_release_digest = b_release_digest r,
      wb_config_digest = b_config_digest r, wb_schema_digest = b_schema_digest r\<rparr>"

definition control_of_row :: "worker_control_row \<Rightarrow> worker_control_witness" where
  "control_of_row r =
     \<lparr>wc_deployment_id = w_deployment_id r, wc_worker_owner_id = w_worker_owner_id r,
      wc_worker_profile_digest = w_worker_profile_digest r, wc_watchdog_boot_id = w_watchdog_boot_id r,
      wc_worker_boot_id = w_worker_boot_id r, wc_mode = w_mode r,
      wc_mode_sequence = word_of_int (w_mode_sequence r)\<rparr>"

lemma binding_from_row_Inr:
  assumes "binding_from_row E r = Inr b"
  shows "b = binding_of_row r"
  using assms by (auto simp: binding_from_row_def result_simps binding_of_row_def)

lemma binding_row_of_binding [simp]: "binding_of_row (binding_row_of b now) = b"
  by (simp add: binding_of_row_def binding_row_of_def)

lemma binding_row_decodes:
  assumes "validate_binding d b = Inr ()" and "0 \<le> now"
  shows "binding_from_row E (binding_row_of b now) = Inr b"
  using assms validate_worker_identity_length [of "wb_deployment_id b"]
    validate_worker_identity_length [of "wb_worker_owner_id b"]
  by (auto simp: binding_from_row_def binding_row_of_def validate_binding_def result_simps
      validate_worker_identity_field [of _ "''worker deployment id''" _ "''worker binding deployment id''"]
      validate_worker_identity_field [of _ "''worker owner id''" _ "''worker binding owner id''"]
      sqlite_u64_def validate_digest_length)

lemma control_from_row_Inr:
  assumes "control_from_row E r = Inr c"
  shows "c = control_of_row r" "validate_control E c = Inr ()"
    "0 \<le> w_mode_sequence r" "0 \<le> w_updated_at_ms r"
  using assms
  by (auto simp: control_from_row_def result_simps control_of_row_def sqlite_u64_def Let_def split: if_splits)

lemma control_row_decodes:
  assumes "validate_control E c = Inr ()" and "length (wc_watchdog_boot_id c) \<le> 36"
    "length (wc_worker_boot_id c) \<le> 36" and "0 \<le> now"
  shows "control_from_row E (control_row_of c (uint (wc_mode_sequence c)) now) = Inr c"
  using assms validate_worker_identity_length [of "wc_deployment_id c"]
    validate_worker_identity_length [of "wc_worker_owner_id c"]
    validate_digest_length [of "wc_worker_profile_digest c"]
  by (auto simp: control_from_row_def control_row_of_def validate_control_def result_simps Let_def
      sqlite_u64_def)

lemma configure_binding_tx_cases:
  assumes "configure_binding_tx E binding now_ms d = Inr (b, d')"
  obtains
    (kept) r where "worker_bindings d = Some r" "binding_of_row r = binding" "b = binding" "d' = d"
  | (configured) "worker_bindings d = None" "b = binding" "validate_binding d binding = Inr ()"
      "uint now_ms \<le> i64_max"
      "insert_audit_tx (d\<lparr>worker_bindings := Some (binding_row_of binding (uint now_ms))\<rparr>)
         ''worker_binding_configured'' (wb_worker_owner_id binding) now_ms = Inr d'"
  using assms
  by (auto simp: configure_binding_tx_def bindE_Inr ensure_Inr map_err_Inr transposeE_Inr sqlite_timestamp_def
      dest!: binding_from_row_Inr split: option.splits if_splits)

interpretation configure_binding: quiet_operation "\<lambda>s. configure_worker_binding_at E s binding now_ms"
  for E binding now_ms
  unfolding configure_worker_binding_at_def
  by (rule quiet_tx, erule configure_binding_tx_cases)
     (auto simp: result_simps audit_ok_defs dest: audit_limit_less)

lemma check_control_sequence_cases:
  assumes "check_control_sequence E control now_ms d = Inr fresh"
  obtains
    (first) "worker_control d = None" fresh
  | (later) row where "worker_control d = Some row" "control_from_row E row = Inr (control_of_row row)"
      "wc_mode_sequence (control_of_row row) < wc_mode_sequence control"
      "word_of_int (w_updated_at_ms row) \<le> now_ms" fresh
  | (repeat) row where "worker_control d = Some row" "control_from_row E row = Inr (control_of_row row)"
      "control_of_row row = control" "\<not> fresh"
proof (cases "worker_control d")
  case None
  then show thesis using assms first by (simp add: check_control_sequence_def)
next
  case (Some row)
  then obtain c where c: "control_from_row E row = Inr c"
    using assms by (cases "control_from_row E row") (simp_all add: check_control_sequence_def)
  have "bindE (ensure_phase_time_at_least now_ms (w_updated_at_ms row) ''worker control'') (\<lambda>_.
        bindE (ensure (\<not> wc_mode_sequence control < wc_mode_sequence c)
                 (Conflict ''worker control sequence is older than the durable sequence'')) (\<lambda>_.
        if wc_mode_sequence control = wc_mode_sequence c then
          bindE (ensure (control = c)
                   (Conflict ''worker control reuses a sequence with a different scope'')) (\<lambda>_. Inr False)
        else Inr True)) = Inr fresh"
    using assms unfolding check_control_sequence_def Some by (simp only: option.case c map_err_simps bindE_simps)
  then have t: "ensure_phase_time_at_least now_ms (w_updated_at_ms row) ''worker control'' = Inr ()"
    and le: "wc_mode_sequence c \<le> wc_mode_sequence control"
    and rest: "(if wc_mode_sequence control = wc_mode_sequence c then bindE (ensure (control = c)
        (Conflict ''worker control reuses a sequence with a different scope'')) (\<lambda>_. Inr False)
      else Inr True) = (Inr fresh :: bool result)"
    by (simp_all only: bindE_Inr ensure_Inr not_less) auto
  note row = control_from_row_Inr [OF c]
  show thesis
  proof (cases "wc_mode_sequence control = wc_mode_sequence c")
    case True
    then show thesis using repeat [OF Some] c row(1) rest by (simp add: bindE_Inr ensure_Inr)
  next
    case False
    moreover have "word_of_int (w_updated_at_ms row) \<le> now_ms"
      using t by (auto simp: ensure_phase_time_at_least_def result_simps sqlite_u64_def split: if_splits)
    ultimately show thesis using later [OF Some] c row(1) rest le by (simp add: order.strict_iff_order)
  qed
qed

lemma binding_from_conn_Some:
  assumes "binding_from_conn E d = Inr (Some b)"
  obtains r where "worker_bindings d = Some r" "b = binding_of_row r" "validate_binding d b = Inr ()"
  using assms
  by (auto simp: binding_from_conn_def bindE_Inr map_err_Inr transposeE_Inr dest: binding_from_row_Inr
      split: option.splits)

lemma control_from_conn_Some:
  assumes "control_from_conn E d = Inr (Some c)"
  obtains r where "worker_control d = Some r" "c = control_of_row r" "validate_control E c = Inr ()"
  using assms by (auto simp: control_from_conn_def map_err_Inr transposeE_Inr dest: control_from_row_Inr)

lemma set_control_tx_cases:
  assumes "set_control_tx E control now_ms d = Inr (c, d')"
  obtains
    (repeat) row where "worker_control d = Some row" "control_of_row row = control" "c = control" "d' = d"
      "control_from_row E row = Inr control"
  | (fresh) b where "c = control" "validate_control E control = Inr ()" "binding_from_conn E d = Inr (Some b)"
      "validate_control_against_binding control b = Inr ()"
      "\<And>old. control_from_conn E d = Inr (Some old) \<Longrightarrow> wc_mode_sequence old < wc_mode_sequence control"
      "insert_audit_tx (d\<lparr>worker_control := Some (control_row_of control (uint (wc_mode_sequence control)) (uint now_ms))\<rparr>)
         ''worker_control_mode_set''
         (worker_control_mode_as_str (wc_mode control) @ '':'' @ show_u64 (wc_mode_sequence control)) now_ms = Inr d'"
proof -
  obtain b fresh where v: "validate_control E control = Inr ()" and b: "binding_from_conn E d = Inr (Some b)"
    and vb: "validate_control_against_binding control b = Inr ()"
    and seq: "check_control_sequence E control now_ms d = Inr fresh"
    and no: "\<not> fresh \<Longrightarrow> c = control \<and> d' = d"
    and yes: "fresh \<Longrightarrow> c = control \<and> insert_audit_tx (d\<lparr>worker_control := Some (control_row_of control
         (uint (wc_mode_sequence control)) (uint now_ms))\<rparr>) ''worker_control_mode_set''
         (worker_control_mode_as_str (wc_mode control) @ '':'' @ show_u64 (wc_mode_sequence control)) now_ms = Inr d'"
    using assms
    by (auto simp: set_control_tx_def bindE_Inr ok_or_Inr ensure_Inr sqlite_timestamp_def split: if_splits)
  from seq show thesis
  proof (cases rule: check_control_sequence_cases)
    case first
    then show thesis using fresh [OF _ v b vb] yes by (simp add: control_from_conn_def)
  next
    case (later row)
    then show thesis using fresh [OF _ v b vb] yes by (simp add: control_from_conn_def)
  next
    case (repeat row)
    then show thesis using that(1) no by simp
  qed
qed

interpretation set_control: quiet_operation "\<lambda>s. set_worker_control_at E s control now_ms"
  for E control now_ms
  unfolding set_worker_control_at_def
  by (rule quiet_tx, erule set_control_tx_cases)
     (auto simp: result_simps audit_ok_defs dest: audit_limit_less)

text \<open>
  C24: The worker control ledger is monotone. A control witness that is accepted is what the store
  reads back; the configured binding and everything but the control row and the audit log are
  unchanged; the sequence never moves back, and repeating a sequence is accepted only for the very
  same witness, without a write. Boot identifiers are canonical UUIDs, which have 36 bytes.
\<close>

theorem set_worker_control_correct:
  assumes "set_worker_control_at E s control now_ms = (Inr c, s')"
    and "length (wc_watchdog_boot_id control) \<le> 36" and "length (wc_worker_boot_id control) \<le> 36"
  shows "c = control \<and> control_from_conn E (conn s') = Inr (Some control)
    \<and> s' = s\<lparr>conn := (conn s)\<lparr>worker_control := worker_control (conn s'), audit_log := audit_log (conn s')\<rparr>\<rparr>
    \<and> (\<forall>old. control_from_conn E (conn s) = Inr (Some old) \<longrightarrow>
         wc_mode_sequence old \<le> wc_mode_sequence control
         \<and> (wc_mode_sequence old = wc_mode_sequence control \<longrightarrow> old = control \<and> s' = s))"
proof -
  obtain d' where tx: "set_control_tx E control now_ms (conn s) = Inr (c, d')" and s': "s' = s\<lparr>conn := d'\<rparr>"
    using assms(1) by (auto simp: set_worker_control_at_def with_tx_def split: sum.splits)
  have *: "c = control \<and> control_from_conn E d' = Inr (Some control)
     \<and> d' = (conn s)\<lparr>worker_control := worker_control d', audit_log := audit_log d'\<rparr>
     \<and> (control_from_conn E (conn s) = Inr (Some old) \<longrightarrow> wc_mode_sequence old \<le> wc_mode_sequence control
        \<and> (wc_mode_sequence old = wc_mode_sequence control \<longrightarrow> old = control \<and> d' = conn s))" for old
    using tx
  proof (cases rule: set_control_tx_cases)
    case (repeat row)
    then show ?thesis by (simp add: control_from_conn_def)
  next
    case (fresh b)
    have dec: "control_from_row E (control_row_of control (uint (wc_mode_sequence control)) (uint now_ms)) = Inr control"
      using control_row_decodes [OF fresh(2) assms(2,3)] by simp
    then show ?thesis using fresh by (auto simp: insert_audit_tx_Inr control_from_conn_def)
  qed
  from * s' show ?thesis by auto
qed

section \<open>Concrete runs\<close>

text \<open>A SHA-256 whose digest is that of the empty object, and a deployment with its worker bound.\<close>

definition externals_worker :: externals where
  "externals_worker = externals_sample\<lparr>sha256 := \<lambda>_. map char_of
     [0x44 :: nat, 0x13, 0x6f, 0xa3, 0x55, 0xb3, 0x67, 0x8a, 0x11, 0x46, 0xad, 0x16, 0xf7, 0xe8, 0x64, 0x9e,
      0x94, 0xfb, 0x4f, 0xc2, 0x1f, 0xe7, 0x7e, 0x83, 0x10, 0xc0, 0x60, 0xf6, 0x1c, 0xaa, 0xff, 0x8a]\<rparr>"

definition sample_binding :: worker_binding where
  "sample_binding =
     \<lparr>wb_deployment_id = ''local'', wb_worker_owner_id = ''worker'', wb_worker_profile_digest = sample_digest,
      wb_release_digest = sample_digest, wb_config_digest = sample_digest,
      wb_schema_digest = WORKER_HANDOFF_SCHEMA_DIGEST\<rparr>"

definition sample_control :: "u64 \<Rightarrow> worker_control_witness" where
  "sample_control sequence =
     \<lparr>wc_deployment_id = ''local'', wc_worker_owner_id = ''worker'', wc_worker_profile_digest = sample_digest,
      wc_watchdog_boot_id = ''watchdog-boot'', wc_worker_boot_id = ''worker-boot'', wc_mode = WRunning,
      wc_mode_sequence = sequence\<rparr>"

definition sample_bound :: "worker_control_row option \<Rightarrow> store" where
  "sample_bound control = sample_store\<lparr>conn := (conn sample_store)
     \<lparr>worker_bindings := Some (binding_row_of sample_binding 1), worker_control := control\<rparr>\<rparr>"

lemma worker_digests [simp]:
  "validate_digest WORKER_HANDOFF_SCHEMA_DIGEST = Inr ()" "validate_digest WORKER_HANDOFF_PAYLOAD_DIGEST = Inr ()"
  by (simp_all add: WORKER_HANDOFF_SCHEMA_DIGEST_def WORKER_HANDOFF_PAYLOAD_DIGEST_def validate_digest_def
      is_digit_def byte_def)

lemma sample_identities [simp]:
  "validate_worker_identity ''local'' field = Inr ()" "validate_worker_identity ''worker'' field = Inr ()"
  by (simp_all add: validate_worker_identity_def is_alphanumeric_def is_digit_def byte_def)

lemma sample_binding_valid [simp]: "validate_binding (conn (sample_bound control)) sample_binding = Inr ()"
  by (simp add: validate_binding_def sample_binding_def sample_bound_def metadata_from_conn_def
      validate_digest_value_def sample_digest_valid)

lemma sample_binding_read [simp]: "binding_from_conn E (conn (sample_bound control)) = Inr (Some sample_binding)"
proof -
  have "binding_from_row E (binding_row_of sample_binding 1) = Inr sample_binding"
    by (rule binding_row_decodes [OF sample_binding_valid]) simp
  moreover have "worker_bindings (conn (sample_bound control)) = Some (binding_row_of sample_binding 1)"
    by (simp add: sample_bound_def)
  ultimately show ?thesis by (simp add: binding_from_conn_def)
qed

lemma sample_control_valid:
  assumes "sequence \<in> {1, 2}"
  shows "validate_control externals_sample (sample_control sequence) = Inr ()"
    "validate_control externals_worker (sample_control sequence) = Inr ()"
  using assms
  by (auto simp: validate_control_def sample_control_def validate_uuid4_def externals_worker_def externals_sample_def
      validate_digest_value_def sample_digest_valid MAX_WORKER_WIRE_INTEGER_def)

lemma sample_scope [simp]:
  "validate_control_against_binding (sample_control sequence) sample_binding = Inr ()"
  "wc_mode (sample_control sequence) = WRunning" "wc_mode_sequence (sample_control sequence) = sequence"
  by (simp_all add: validate_control_against_binding_def sample_control_def sample_binding_def)

lemma sample_bound_simps [simp]:
  "worker_control (conn (sample_bound control)) = control" "audit_log (conn (sample_bound control)) = []"
  "metadata (conn (sample_bound control)) = metadata (conn sample_store)"
  by (simp_all add: sample_bound_def)

lemma sample_control_run:
  "\<exists>s'. set_worker_control_at externals_sample (sample_bound None) (sample_control 1) 5 = (Inr (sample_control 1), s')"
proof -
  have "valid_audit ''worker_control_mode_set'' ''running:1''"
    by (simp add: valid_audit_def plain_guards plain_def byte_def max_audit_detail_bytes_def)
  then show ?thesis
    using sample_audit(2) [of "''worker_control_mode_set''"]
    by (simp add: set_worker_control_at_def set_control_tx_def sample_control_valid with_tx_def
        check_control_sequence_def sqlite_timestamp_def i64_max_def insert_audit_tx_succeeds show_u64_def
        show_nat.simps digit_char_def char_of_def bit_0)
qed

theorem set_worker_control_correct_witness:
  "\<exists>s'. set_worker_control_at externals_sample (sample_bound None) (sample_control 1) 5 = (Inr (sample_control 1), s')
     \<and> control_from_conn externals_sample (conn s') = Inr (Some (sample_control 1))"
proof -
  obtain s' where run: "set_worker_control_at externals_sample (sample_bound None) (sample_control 1) 5
    = (Inr (sample_control 1), s')" using sample_control_run by blast
  have "length (wc_watchdog_boot_id (sample_control 1)) \<le> 36" "length (wc_worker_boot_id (sample_control 1)) \<le> 36"
    by (simp_all add: sample_control_def)
  from set_worker_control_correct [OF run this] run show ?thesis by blast
qed

end
