(* ===== verification/Worker_Rows.thy ===== *)
theory Worker_Rows
  imports Worker_Types
begin

text \<open>
  Reading a worker handoff: the bounded decoding of its row with the checks on the lifecycle
  columns (\<^verbatim>\<open>storage_worker_queries_handoff_row.rs\<close>, \<^verbatim>\<open>storage_worker_queries_projection.rs\<close>), the
  bounded job and attempt (\<^verbatim>\<open>storage_worker_queries_jobs.rs\<close>), their agreement
  (\<^verbatim>\<open>storage_worker_queries_consistency.rs\<close>), the terminal digests
  (\<^verbatim>\<open>storage_worker_queries_terminal.rs\<close>) and the queries (\<^verbatim>\<open>storage_worker_queries_handoff.rs\<close>).
\<close>

section \<open>Terminal receipts\<close>

definition MAX_TERMINAL_REF_BYTES :: nat where
  "MAX_TERMINAL_REF_BYTES = 1024"

definition MAX_WORKER_RESULT_BYTES :: nat where
  "MAX_WORKER_RESULT_BYTES = 64 * 1024"

definition empty_parameters :: json where
  "empty_parameters = JObject []"

text \<open>The struct is serialized in the order of its fields.\<close>

definition terminal_material :: "worker_handoff_tuple \<Rightarrow> worker_terminal_receipt \<Rightarrow> json" where
  "terminal_material t receipt = JObject
     [(''handoff_id'', JString (tu_handoff_id t)), (''deployment_id'', JString (tu_deployment_id t)),
      (''job_id'', JString (tu_job_id t)), (''attempt_id'', JString (tu_attempt_id t)),
      (''attempt_number'', JNumber (uint (tu_attempt_number t))),
      (''worker_owner_id'', JString (tu_worker_owner_id t)),
      (''worker_profile_digest'', JString (tu_worker_profile_digest t)),
      (''run_id'', JString (tu_run_id t)), (''episode_id'', JString (tu_episode_id t)),
      (''trajectory_id'', JString (tu_trajectory_id t)), (''payload_digest'', JString (tu_payload_digest t)),
      (''status'', JString (worker_terminal_status_as_str (tr_status receipt))),
      (''checkpoint_sequence'', JNumber (uint (tr_checkpoint_sequence receipt))),
      (''terminal_ref'', JString (tr_terminal_ref receipt)),
      (''result_digest'', JString (tr_result_digest receipt))]"

definition terminal_digest :: "externals \<Rightarrow> worker_handoff_tuple \<Rightarrow> worker_terminal_receipt \<Rightarrow> string" where
  "terminal_digest E t receipt = hex_digest E (json_to_string E (terminal_material t receipt))"

text \<open>An object value is kept sorted by its keys.\<close>

definition compact_value :: "worker_terminal_receipt \<Rightarrow> json" where
  "compact_value receipt = JObject
     [(''checkpoint_sequence'', JNumber (uint (tr_checkpoint_sequence receipt))),
      (''result_digest'', JString (tr_result_digest receipt)),
      (''status'', JString (worker_terminal_status_as_str (tr_status receipt))),
      (''terminal_ref'', JString (tr_terminal_ref receipt))]"

definition compact_terminal_result :: "externals \<Rightarrow> worker_terminal_receipt \<Rightarrow> (string \<times> string) result" where
  "compact_terminal_result E receipt =
     (let encoded = json_to_string E (compact_value receipt) in
      bindE (ensure (length encoded \<le> MAX_WORKER_RESULT_BYTES)
               (InvalidInput (''worker result exceeds '' @ show_nat MAX_WORKER_RESULT_BYTES @ '' bytes''))) (\<lambda>_.
      Inr (encoded, hex_digest E encoded)))"


section \<open>Handoff rows\<close>

record raw_handoff = worker_handoff_tuple +
  rh_watchdog_boot_id :: string
  rh_worker_boot_id :: string
  rh_mode_sequence :: u64
  rh_operation :: string
  rh_parameters :: json
  rh_state :: worker_handoff_state
  rh_terminal :: "worker_terminal_record option"
  rh_terminal_result :: "string option"
  rh_created_at_ms :: u64
  rh_updated_at_ms :: u64
  rh_dispatched_at_ms :: "u64 option"
  rh_admitted_at_ms :: "u64 option"
  rh_terminal_at_ms :: "u64 option"
  rh_acknowledged_at_ms :: "u64 option"

text \<open>The lifecycle columns a state admits.\<close>

fun lifecycle_columns ::
  "worker_handoff_state \<Rightarrow> bool \<Rightarrow> 'a option \<Rightarrow> 'a option \<Rightarrow> 'a option \<Rightarrow> 'a option \<Rightarrow> unit sqlite_result" where
  "lifecycle_columns HPrepared ack_intent dispatched admitted terminal_at acknowledged =
     ensure (\<not> (ack_intent \<or> dispatched \<noteq> None \<or> admitted \<noteq> None \<or> terminal_at \<noteq> None \<or> acknowledged \<noteq> None))
       (to_sqlite_error ''worker handoff has lifecycle timestamps or acknowledgment intent before dispatch'')"
| "lifecycle_columns HRejected ack_intent dispatched admitted terminal_at acknowledged =
     ensure (\<not> (ack_intent \<or> dispatched \<noteq> None \<or> admitted \<noteq> None \<or> terminal_at \<noteq> None \<or> acknowledged \<noteq> None))
       (to_sqlite_error ''worker handoff has lifecycle timestamps or acknowledgment intent before dispatch'')"
| "lifecycle_columns HMayHaveBeenDispatched ack_intent dispatched admitted terminal_at acknowledged =
     ensure (\<not> (ack_intent \<or> dispatched = None \<or> admitted \<noteq> None \<or> terminal_at \<noteq> None \<or> acknowledged \<noteq> None))
       (to_sqlite_error ''worker handoff dispatch lifecycle columns are inconsistent'')"
| "lifecycle_columns HAdmitted ack_intent dispatched admitted terminal_at acknowledged =
     ensure (\<not> (ack_intent \<or> dispatched = None \<or> admitted = None \<or> terminal_at \<noteq> None \<or> acknowledged \<noteq> None))
       (to_sqlite_error ''worker handoff admission lifecycle columns are inconsistent'')"
| "lifecycle_columns HCompleted ack_intent dispatched admitted terminal_at acknowledged =
     ensure (\<not> (\<not> ack_intent \<or> dispatched = None \<or> terminal_at = None \<or> acknowledged \<noteq> None))
       (to_sqlite_error ''worker handoff terminal lifecycle columns are inconsistent'')"
| "lifecycle_columns HFailed ack_intent dispatched admitted terminal_at acknowledged =
     ensure (\<not> (\<not> ack_intent \<or> dispatched = None \<or> terminal_at = None \<or> acknowledged \<noteq> None))
       (to_sqlite_error ''worker handoff terminal lifecycle columns are inconsistent'')"
| "lifecycle_columns HAcknowledged ack_intent dispatched admitted terminal_at acknowledged =
     ensure (\<not> (\<not> ack_intent \<or> dispatched = None \<or> terminal_at = None \<or> acknowledged = None))
       (to_sqlite_error ''worker handoff acknowledgment lifecycle columns are inconsistent'')"

text \<open>\<^verbatim>\<open>if let Some(a) = later && let Some(b) = earlier && a < b\<close>.\<close>

definition precedes :: "u64 option \<Rightarrow> u64 option \<Rightarrow> bool" where
  "precedes later earlier = (case (later, earlier) of (Some a, Some b) \<Rightarrow> a < b | _ \<Rightarrow> False)"

definition validate_terminal_evidence ::
  "externals \<Rightarrow> worker_handoff_tuple \<Rightarrow> worker_handoff_state \<Rightarrow> worker_terminal_record \<Rightarrow> string option
   \<Rightarrow> unit sqlite_result" where
  "validate_terminal_evidence E t state receipt terminal_result =
     (let wire_receipt = worker_terminal_receipt.truncate receipt in
      bindE (ensure (te_terminal_digest receipt = terminal_digest E t wire_receipt)
               (to_sqlite_error ''worker terminal digest does not match its exact tuple and receipt'')) (\<lambda>_.
      bindE (to_sql E (compact_terminal_result E wire_receipt)) (\<lambda>(expected_result, _).
      bindE (ensure (terminal_result = Some expected_result)
               (to_sqlite_error ''worker compact terminal result does not match its receipt'')) (\<lambda>_.
      ensure (\<not> (state = HCompleted \<and> tr_status receipt \<noteq> TCompleted
                 \<or> state = HFailed \<and> tr_status receipt \<noteq> TFailed))
        (to_sqlite_error ''worker handoff state does not match terminal receipt status'')))))"

definition validate_terminal_projection ::
  "externals \<Rightarrow> worker_handoff_tuple \<Rightarrow> worker_handoff_state \<Rightarrow> worker_terminal_record option \<Rightarrow> string option
   \<Rightarrow> bool \<Rightarrow> u64 \<Rightarrow> u64 \<Rightarrow> u64 option \<Rightarrow> u64 option \<Rightarrow> u64 option \<Rightarrow> u64 option \<Rightarrow> unit sqlite_result" where
  "validate_terminal_projection E t state terminal terminal_result ack_intent created updated
       dispatched admitted terminal_at acknowledged =
     bindE (ensure (\<not> updated < created)
              (to_sqlite_error ''worker handoff updated time precedes creation'')) (\<lambda>_.
     bindE (forE [(''dispatched'', dispatched), (''admitted'', admitted), (''terminal'', terminal_at),
                  (''acknowledged'', acknowledged)] (\<lambda>(name, value).
              ensure (case value of None \<Rightarrow> True | Some v \<Rightarrow> \<not> (v < created \<or> updated < v))
                (to_sqlite_error (''worker handoff '' @ name
                   @ '' time is outside its creation/update interval'')))) (\<lambda>_.
     bindE (ensure (\<not> (handoff_is_terminal state \<noteq> (terminal \<noteq> None)
                       \<or> handoff_is_terminal state \<noteq> (terminal_result \<noteq> None)))
              (to_sqlite_error ''worker handoff terminal state and receipt columns disagree'')) (\<lambda>_.
     bindE (lifecycle_columns state ack_intent dispatched admitted terminal_at acknowledged) (\<lambda>_.
     bindE (ensure (\<not> precedes admitted dispatched)
              (to_sqlite_error ''worker handoff admission precedes dispatch'')) (\<lambda>_.
     bindE (ensure (\<not> precedes terminal_at admitted)
              (to_sqlite_error ''worker handoff terminal time precedes admission'')) (\<lambda>_.
     bindE (ensure (\<not> precedes terminal_at dispatched)
              (to_sqlite_error ''worker handoff terminal time precedes dispatch'')) (\<lambda>_.
     bindE (ensure (\<not> precedes acknowledged terminal_at)
              (to_sqlite_error ''worker handoff acknowledgment precedes terminal commit'')) (\<lambda>_.
     case terminal of
       None \<Rightarrow> Inr ()
     | Some receipt \<Rightarrow> validate_terminal_evidence E t state receipt terminal_result))))))))"

text \<open>An optional text column: out of its bound it is read as a character no decoder admits.\<close>

definition bounded_optional :: "char \<Rightarrow> nat \<Rightarrow> string option \<Rightarrow> string option" where
  "bounded_optional bad bound column = map_option (\<lambda>v. if length v \<le> bound then v else [bad]) column"

definition terminal_from_columns ::
  "externals \<Rightarrow> string option \<Rightarrow> string option \<Rightarrow> string option \<Rightarrow> string option \<Rightarrow> i64 option
   \<Rightarrow> worker_terminal_record option sqlite_result" where
  "terminal_from_columns E status_text terminal_ref result_digest digest checkpoint =
     (case (status_text, terminal_ref, result_digest, digest, checkpoint) of
        (None, None, None, None, None) \<Rightarrow> Inr None
      | (Some status_text, Some terminal_ref, Some result_digest, Some digest, Some checkpoint) \<Rightarrow>
          bindE (sqlite_u64 checkpoint ''worker checkpoint sequence'') (\<lambda>checkpoint.
          bindE (ensure (\<not> MAX_WORKER_WIRE_INTEGER < checkpoint)
                   (to_sqlite_error ''worker checkpoint sequence exceeds the wire integer bound'')) (\<lambda>_.
          bindE (to_sql E (validate_name terminal_ref ''terminal reference'' MAX_TERMINAL_REF_BYTES)) (\<lambda>_.
          bindE (to_sql E (validate_digest_value result_digest ''worker result digest'')) (\<lambda>_.
          bindE (to_sql E (validate_digest_value digest ''worker terminal digest'')) (\<lambda>_.
          bindE (to_sql E (worker_terminal_status_parse status_text)) (\<lambda>terminal_status.
          Inr (Some \<lparr>tr_status = terminal_status, tr_checkpoint_sequence = checkpoint,
                     tr_terminal_ref = terminal_ref, tr_result_digest = result_digest,
                     te_terminal_digest = digest\<rparr>)))))))
      | _ \<Rightarrow> Inl (to_sqlite_error ''worker handoff terminal receipt is partially persisted''))"

definition raw_handoff_from_row :: "externals \<Rightarrow> handoff_row \<Rightarrow> raw_handoff sqlite_result" where
  "raw_handoff_from_row E r =
     bindE (required_text (bounded_text 36 (h_handoff_id r)) ''handoff id'') (\<lambda>handoff_id.
     bindE (required_text (bounded_text 128 (h_deployment_id r)) ''deployment id'') (\<lambda>deployment_id.
     bindE (required_text (bounded_text 128 (h_job_id r)) ''job id'') (\<lambda>job_id.
     bindE (required_text (bounded_text 36 (h_attempt_id r)) ''attempt id'') (\<lambda>attempt_id.
     bindE (required_text (bounded_text 128 (h_worker_owner_id r)) ''worker owner id'') (\<lambda>owner.
     bindE (required_text (bounded_text 64 (h_worker_profile_digest r)) ''worker profile digest'') (\<lambda>profile.
     bindE (required_text (bounded_text 36 (h_run_id r)) ''run id'') (\<lambda>run_id.
     bindE (required_text (bounded_text 36 (h_episode_id r)) ''episode id'') (\<lambda>episode_id.
     bindE (required_text (bounded_text 36 (h_trajectory_id r)) ''trajectory id'') (\<lambda>trajectory_id.
     bindE (required_text (bounded_text 64 (h_payload_digest r)) ''payload digest'') (\<lambda>payload_digest.
     bindE (required_text (bounded_text 36 (h_watchdog_boot_id r)) ''watchdog boot id'') (\<lambda>watchdog_boot.
     bindE (required_text (bounded_text 36 (h_worker_boot_id r)) ''worker boot id'') (\<lambda>worker_boot.
     bindE (required_text (bounded_text 128 (h_operation r)) ''worker operation'') (\<lambda>operation.
     bindE (ensure (operation = WORKER_HANDOFF_OPERATION)
              (to_sqlite_error ''worker handoff operation is not admitted'')) (\<lambda>_.
     bindE (required_text (bounded_text 65536 (h_parameters r)) ''worker parameters'') (\<lambda>parameters_text.
     bindE (ensure (parameters_text = ''{}'')
              (to_sqlite_error ''worker handoff parameters are not the canonical empty object'')) (\<lambda>_.
     bindE (map_err to_sqlite_error (json_from_str E parameters_text)) (\<lambda>parameters.
     bindE (ensure (parameters = empty_parameters)
              (to_sqlite_error ''worker handoff parameters are not empty'')) (\<lambda>_.
     bindE (required_text (bounded_text 32 (worker_handoff_state_as_str (h_state r))) ''worker handoff state'') (\<lambda>state_text.
     bindE (to_sql E (worker_handoff_state_parse state_text)) (\<lambda>state.
     bindE (sqlite_u32 (h_attempt_number r) ''worker attempt number'') (\<lambda>attempt_number.
     bindE (sqlite_u64 (h_mode_sequence r) ''worker mode sequence'') (\<lambda>mode_sequence.
     let t = \<lparr>tu_handoff_id = handoff_id, tu_deployment_id = deployment_id, tu_job_id = job_id,
              tu_attempt_id = attempt_id, tu_attempt_number = attempt_number, tu_worker_owner_id = owner,
              tu_worker_profile_digest = profile, tu_run_id = run_id, tu_episode_id = episode_id,
              tu_trajectory_id = trajectory_id, tu_payload_digest = payload_digest\<rparr> in
     bindE (to_sql E (validate_tuple E t)) (\<lambda>_.
     bindE (to_sql E (validate_uuid4 E watchdog_boot ''watchdog boot id'')) (\<lambda>_.
     bindE (to_sql E (validate_uuid4 E worker_boot ''worker boot id'')) (\<lambda>_.
     bindE (ensure (watchdog_boot \<noteq> worker_boot)
              (to_sqlite_error ''watchdog and worker boot identities must be distinct'')) (\<lambda>_.
     bindE (to_sql E (validate_digest_value profile ''worker profile digest'')) (\<lambda>_.
     bindE (to_sql E (validate_digest_value payload_digest ''payload digest'')) (\<lambda>_.
     bindE (ensure (\<not> (mode_sequence = 0 \<or> MAX_WORKER_WIRE_INTEGER < mode_sequence))
              (to_sqlite_error ''worker mode sequence exceeds the wire integer bound'')) (\<lambda>_.
     bindE (terminal_from_columns E
              (bounded_optional (CHR 0x01) 32 (map_option worker_terminal_status_as_str (h_terminal_status r)))
              (bounded_optional (CHR 0x01) 1024 (h_terminal_ref r))
              (bounded_optional (CHR 0x01) 64 (h_result_digest r))
              (bounded_optional (CHR 0x01) 64 (h_terminal_digest r)) (h_checkpoint_sequence r)) (\<lambda>terminal.
     let terminal_result = bounded_optional (CHR 0x01) 65536 (h_terminal_result r) in
     bindE (if h_ack_intent r = 0 then Inr False else if h_ack_intent r = 1 then Inr True
            else Inl (to_sqlite_error ''worker handoff ack intent is invalid'')) (\<lambda>ack_intent.
     bindE (sqlite_optional_u64 (h_dispatched_at_ms r) ''worker handoff dispatched_at_ms'') (\<lambda>dispatched.
     bindE (sqlite_optional_u64 (h_admitted_at_ms r) ''worker handoff admitted_at_ms'') (\<lambda>admitted.
     bindE (sqlite_optional_u64 (h_terminal_at_ms r) ''worker handoff terminal_at_ms'') (\<lambda>terminal_at.
     bindE (sqlite_optional_u64 (h_acknowledged_at_ms r) ''worker handoff acknowledged_at_ms'') (\<lambda>acknowledged.
     bindE (sqlite_u64 (h_created_at_ms r) ''worker handoff created_at_ms'') (\<lambda>created.
     bindE (sqlite_u64 (h_updated_at_ms r) ''worker handoff updated_at_ms'') (\<lambda>updated.
     bindE (validate_terminal_projection E t state terminal terminal_result ack_intent created updated
              dispatched admitted terminal_at acknowledged) (\<lambda>_.
     Inr (worker_handoff_tuple.extend t
       \<lparr>rh_watchdog_boot_id = watchdog_boot, rh_worker_boot_id = worker_boot, rh_mode_sequence = mode_sequence,
        rh_operation = operation, rh_parameters = parameters, rh_state = state, rh_terminal = terminal,
        rh_terminal_result = terminal_result, rh_created_at_ms = created, rh_updated_at_ms = updated,
        rh_dispatched_at_ms = dispatched, rh_admitted_at_ms = admitted, rh_terminal_at_ms = terminal_at,
        rh_acknowledged_at_ms = acknowledged\<rparr>)))))))))))))))))))))))))))))))))))))))"

section \<open>Bounded jobs and attempts\<close>

definition MAX_WORKER_TEXT_BYTES :: nat where
  "MAX_WORKER_TEXT_BYTES = 128"

definition job_bound :: "u64 \<Rightarrow> i64 result" where
  "job_bound max_payload =
     (if uint max_payload \<le> i64_max then Inr (uint max_payload)
      else Inl (InvalidInput ''job payload bound exceeds SQLite range''))"

definition earlier :: "u64 option \<Rightarrow> u64 \<Rightarrow> bool" where
  "earlier value limit = (case value of None \<Rightarrow> False | Some v \<Rightarrow> v < limit)"

definition bounded_job_from_row :: "externals \<Rightarrow> i64 \<Rightarrow> job_row \<Rightarrow> (job_record \<times> string option) sqlite_result" where
  "bounded_job_from_row E bound r =
     bindE (required_text (bounded_text 128 (j_id r)) ''job id'') (\<lambda>job_id.
     bindE (required_text (bounded_text 128 (j_kind r)) ''job kind'') (\<lambda>kind.
     bindE (required_text (bounded_text (nat bound) (j_payload r)) ''job payload'') (\<lambda>payload_text.
     bindE (required_text (bounded_text 64 (j_payload_digest r)) ''job payload digest'') (\<lambda>payload_digest.
     bindE (required_text (bounded_text 32 (job_status_as_str (j_status r))) ''job status'') (\<lambda>status_text.
     bindE (to_sql E (validate_name job_id ''job id'' MAX_WORKER_TEXT_BYTES)) (\<lambda>_.
     bindE (to_sql E (validate_name kind ''job kind'' MAX_WORKER_TEXT_BYTES)) (\<lambda>_.
     bindE (to_sql E (validate_digest_value payload_digest ''job payload digest'')) (\<lambda>_.
     bindE (ensure (hex_digest E payload_text = payload_digest)
              (to_sqlite_error ''job payload differs from its admission digest'')) (\<lambda>_.
     bindE (map_err to_sqlite_error (json_from_str E payload_text)) (\<lambda>payload.
     bindE (to_sql E (job_status_parse status_text)) (\<lambda>job_status.
     let result_text = bounded_optional (CHR 0x01) 65536 (j_result r);
         completion_digest = bounded_optional (CHR 0x01) 64 (j_completion_digest r);
         last_error = bounded_optional nul 16384 (j_last_error r);
         worker_id = bounded_optional (CHR 0x01) 128 (j_worker_id r) in
     bindE (ensure (case last_error of None \<Rightarrow> True | Some e \<Rightarrow> \<not> contains_nul e)
              (to_sqlite_error ''job last_error is oversized or malformed'')) (\<lambda>_.
     bindE (case worker_id of
              None \<Rightarrow> Inr ()
            | Some w \<Rightarrow> to_sql E (validate_name w ''job worker id'' MAX_WORKER_TEXT_BYTES)) (\<lambda>_.
     bindE (ensure ((completion_digest \<noteq> None) = (result_text \<noteq> None))
              (to_sqlite_error ''job result and completion digest are partially persisted'')) (\<lambda>_.
     bindE (map_err to_sqlite_error (transposeE (json_from_str E) result_text)) (\<lambda>result.
     bindE (case (result_text, completion_digest) of
              (Some result_text, Some completion_digest) \<Rightarrow>
                bindE (to_sql E (validate_digest_value completion_digest ''job completion digest'')) (\<lambda>_.
                ensure (hex_digest E result_text = completion_digest)
                  (to_sqlite_error ''job result differs from its completion digest''))
            | _ \<Rightarrow> Inr ()) (\<lambda>_.
     bindE (sqlite_u64 (j_created_at_ms r) ''job created_at_ms'') (\<lambda>created.
     bindE (sqlite_optional_u64 (j_claimed_at_ms r) ''job claimed_at_ms'') (\<lambda>claimed.
     bindE (sqlite_optional_u64 (j_completed_at_ms r) ''job completed_at_ms'') (\<lambda>completed.
     bindE (sqlite_optional_u64 (j_next_retry_at_ms r) ''job next_retry_at_ms'') (\<lambda>next_retry.
     bindE (ensure (\<not> (earlier claimed created \<or> earlier completed created \<or> precedes completed claimed))
              (to_sqlite_error ''job phase timestamps are out of order'')) (\<lambda>_.
     bindE (ensure (\<not> (job_status \<noteq> JQueued \<and> next_retry \<noteq> None))
              (to_sqlite_error ''job retry timestamp is present outside the queued state'')) (\<lambda>_.
     bindE (ensure (\<not> (job_status = JRunning \<and> claimed = None))
              (to_sqlite_error ''running job is missing its claim timestamp'')) (\<lambda>_.
     bindE (ensure (\<not> (job_status = JCompleted \<and> (claimed = None \<or> completed = None \<or> result = None)))
              (to_sqlite_error ''completed job is missing claim, completion, or result evidence'')) (\<lambda>_.
     bindE (sqlite_u32 (j_attempt_count r) ''job attempt_count'') (\<lambda>attempt_count.
     Inr (\<lparr>jr_id = job_id, jr_kind = kind, jr_payload = payload, jr_payload_digest = payload_digest,
           jr_status = job_status, jr_created_at_ms = created, jr_claimed_at_ms = claimed,
           jr_completed_at_ms = completed, jr_attempt_count = attempt_count,
           jr_next_retry_at_ms = next_retry, jr_last_error = last_error, jr_result = result,
           jr_worker_id = worker_id\<rparr>, completion_digest))))))))))))))))))))))))))"

text \<open>\<^verbatim>\<open>load_job_conn\<close> and \<^verbatim>\<open>load_job_tx\<close> run the same query, as do the two for attempts.\<close>

definition load_job :: "externals \<Rightarrow> db \<Rightarrow> string \<Rightarrow> u64 \<Rightarrow> (job_record \<times> string option) option result" where
  "load_job E d job_id max_payload =
     bindE (job_bound max_payload) (\<lambda>bound.
     map_err Sqlite (transposeE (bounded_job_from_row E bound) (find (\<lambda>r. j_id r = job_id) (jobs d))))"

record raw_attempt =
  ra_id :: string
  ra_job_id :: string
  ra_sequence :: u32
  ra_lineage :: string
  ra_status :: string
  ra_started_at_ms :: u64
  ra_finished_at_ms :: "u64 option"
  ra_worker_id :: "string option"

definition raw_attempt_from_row :: "externals \<Rightarrow> attempt_row \<Rightarrow> raw_attempt sqlite_result" where
  "raw_attempt_from_row E r =
     bindE (required_text (bounded_text 128 (a_id r)) ''attempt id'') (\<lambda>attempt_id.
     bindE (required_text (bounded_text 128 (a_job_id r)) ''attempt job id'') (\<lambda>job_id.
     bindE (required_text (bounded_text 256 (a_lineage r)) ''attempt lineage'') (\<lambda>lineage.
     bindE (required_text (bounded_text 32 (attempt_status_as_str (a_status r))) ''attempt status'') (\<lambda>status_text.
     let worker_id = bounded_optional (CHR 0x01) 128 (a_worker_id r) in
     bindE (case worker_id of
              None \<Rightarrow> Inr ()
            | Some w \<Rightarrow> to_sql E (validate_name w ''attempt worker id'' MAX_WORKER_TEXT_BYTES)) (\<lambda>_.
     bindE (sqlite_u32 (a_sequence r) ''attempt sequence'') (\<lambda>sequence.
     bindE (sqlite_u64 (a_started_at_ms r) ''attempt started_at_ms'') (\<lambda>started.
     bindE (sqlite_optional_u64 (a_finished_at_ms r) ''attempt finished_at_ms'') (\<lambda>finished.
     bindE (ensure (\<not> contains_nul lineage) (to_sqlite_error ''attempt lineage is malformed'')) (\<lambda>_.
     bindE (ensure (\<not> earlier finished started)
              (to_sqlite_error ''attempt finish time precedes its start'')) (\<lambda>_.
     Inr \<lparr>ra_id = attempt_id, ra_job_id = job_id, ra_sequence = sequence, ra_lineage = lineage,
          ra_status = status_text, ra_started_at_ms = started, ra_finished_at_ms = finished,
          ra_worker_id = worker_id\<rparr>))))))))))"

definition load_attempt :: "externals \<Rightarrow> db \<Rightarrow> string \<Rightarrow> raw_attempt option result" where
  "load_attempt E d attempt_id =
     map_err Sqlite (transposeE (raw_attempt_from_row E) (find (\<lambda>a. a_id a = attempt_id) (attempts d)))"


section \<open>Agreement of a handoff with its job and attempt\<close>

definition validate_open_job :: "raw_handoff \<Rightarrow> job_record \<Rightarrow> raw_attempt \<Rightarrow> string option \<Rightarrow> unit result" where
  "validate_open_job raw job attempt completion_digest =
     ensure (\<not> (jr_status job \<notin> {JRunning, JQuarantined} \<or> jr_result job \<noteq> None \<or> completion_digest \<noteq> None
                \<or> (jr_status job = JRunning \<and> ra_status attempt \<noteq> ''running'')
                \<or> (jr_status job = JQuarantined \<and> ra_status attempt \<noteq> ''unknown'')
                \<or> (jr_status job = JRunning \<and> ra_finished_at_ms attempt \<noteq> None)
                \<or> jr_worker_id job \<noteq> Some (tu_worker_owner_id raw)))
       (Conflict ''non-terminal worker handoff references a non-running or completed job'')"

definition validate_completed_job ::
  "externals \<Rightarrow> raw_handoff \<Rightarrow> job_record \<Rightarrow> raw_attempt \<Rightarrow> string option \<Rightarrow> unit result" where
  "validate_completed_job E raw job attempt completion_digest =
     bindE (ok_or (Conflict ''completed worker handoff is missing result'') (rh_terminal_result raw)) (\<lambda>result_text.
     bindE (map_err (\<lambda>error. Conflict (''worker compact result is invalid JSON: '' @ error))
              (json_from_str E result_text)) (\<lambda>expected_result.
     bindE (ensure (\<not> (jr_status job \<noteq> JCompleted \<or> ra_status attempt \<noteq> ''completed''
                       \<or> ra_finished_at_ms attempt \<noteq> rh_terminal_at_ms raw
                       \<or> jr_result job \<noteq> Some expected_result
                       \<or> jr_completed_at_ms job \<noteq> rh_terminal_at_ms raw \<or> jr_last_error job \<noteq> None
                       \<or> jr_worker_id job \<noteq> Some (tu_worker_owner_id raw)))
              (Conflict ''completed worker handoff does not match the completed job result'')) (\<lambda>_.
     bindE (ok_or (Conflict ''completed worker job is missing result digest'') completion_digest) (\<lambda>digest.
     ensure (hex_digest E result_text = digest)
       (Conflict ''worker compact result hash differs from job'')))))"

definition validate_failed_job ::
  "externals \<Rightarrow> raw_handoff \<Rightarrow> job_record \<Rightarrow> raw_attempt \<Rightarrow> string option \<Rightarrow> unit result" where
  "validate_failed_job E raw job attempt completion_digest =
     bindE (ok_or (Conflict ''failed worker handoff is missing result'') (rh_terminal_result raw)) (\<lambda>result_text.
     bindE (map_err (\<lambda>error. Conflict (''worker compact result is invalid JSON: '' @ error))
              (json_from_str E result_text)) (\<lambda>expected_result.
     bindE (ensure (\<not> (jr_status job \<noteq> JFailed \<or> ra_status attempt \<noteq> ''failed''
                       \<or> ra_finished_at_ms attempt \<noteq> rh_terminal_at_ms raw
                       \<or> jr_result job \<noteq> Some expected_result
                       \<or> jr_completed_at_ms job \<noteq> None \<or> jr_worker_id job \<noteq> None
                       \<or> jr_last_error job \<noteq>
                           Some (case rh_terminal raw of None \<Rightarrow> [] | Some receipt \<Rightarrow> tr_terminal_ref receipt)
                       \<or> completion_digest = None))
              (Conflict ''failed worker handoff does not match the failed job result'')) (\<lambda>_.
     bindE (ok_or (Conflict ''failed worker job is missing result digest'') completion_digest) (\<lambda>digest.
     ensure (hex_digest E result_text = digest)
       (Conflict ''worker compact result hash differs from job'')))))"

definition validate_handoff_job ::
  "externals \<Rightarrow> raw_handoff \<Rightarrow> job_record \<Rightarrow> raw_attempt \<Rightarrow> string option \<Rightarrow> unit result" where
  "validate_handoff_job E raw job attempt completion_digest =
     bindE (ensure (\<not> (ra_id attempt \<noteq> tu_attempt_id raw \<or> ra_job_id attempt \<noteq> tu_job_id raw
                       \<or> ra_sequence attempt \<noteq> tu_attempt_number raw
                       \<or> ra_lineage attempt \<noteq> tu_job_id raw @ '':'' @ show_u32 (tu_attempt_number raw)
                       \<or> ra_worker_id attempt \<noteq> Some (tu_worker_owner_id raw)
                       \<or> jr_attempt_count job \<noteq> tu_attempt_number raw
                       \<or> jr_claimed_at_ms job \<noteq> Some (rh_created_at_ms raw)))
              (Conflict ''worker handoff attempt or claim history differs from its durable tuple'')) (\<lambda>_.
     bindE (ensure (ra_started_at_ms attempt = rh_created_at_ms raw)
              (Conflict ''worker handoff and attempt phase clocks differ'')) (\<lambda>_.
     bindE (ensure (\<not> (jr_id job \<noteq> tu_job_id raw \<or> jr_kind job \<noteq> WORKER_HANDOFF_OPERATION
                       \<or> jr_payload_digest job \<noteq> tu_payload_digest raw \<or> jr_payload job \<noteq> empty_parameters))
              (Conflict ''worker handoff job identity or payload differs from durable tuple'')) (\<lambda>_.
     case (rh_state raw, map_option tr_status (rh_terminal raw)) of
       (HPrepared, _) \<Rightarrow> validate_open_job raw job attempt completion_digest
     | (HMayHaveBeenDispatched, _) \<Rightarrow> validate_open_job raw job attempt completion_digest
     | (HAdmitted, _) \<Rightarrow> validate_open_job raw job attempt completion_digest
     | (HCompleted, _) \<Rightarrow> validate_completed_job E raw job attempt completion_digest
     | (HAcknowledged, Some TCompleted) \<Rightarrow> validate_completed_job E raw job attempt completion_digest
     | (HFailed, _) \<Rightarrow> validate_failed_job E raw job attempt completion_digest
     | (HAcknowledged, Some TFailed) \<Rightarrow> validate_failed_job E raw job attempt completion_digest
     | (HAcknowledged, None) \<Rightarrow>
         Inl (Conflict ''acknowledged worker handoff is missing its terminal outcome'')
     | (HRejected, _) \<Rightarrow> Inr ())))"

section \<open>Queries\<close>

record worker_handoff = worker_handoff_tuple +
  wh_watchdog_boot_id :: string
  wh_worker_boot_id :: string
  wh_mode_sequence :: u64
  wh_operation :: string
  wh_parameters :: json
  wh_state :: worker_handoff_state
  wh_job :: job_record
  wh_terminal :: "worker_terminal_record option"
  wh_created_at_ms :: u64
  wh_updated_at_ms :: u64

definition handoff_of :: "raw_handoff \<Rightarrow> job_record \<Rightarrow> worker_handoff" where
  "handoff_of raw job =
     worker_handoff_tuple.extend (worker_handoff_tuple.truncate raw)
       \<lparr>wh_watchdog_boot_id = rh_watchdog_boot_id raw, wh_worker_boot_id = rh_worker_boot_id raw,
        wh_mode_sequence = rh_mode_sequence raw, wh_operation = rh_operation raw,
        wh_parameters = rh_parameters raw, wh_state = rh_state raw, wh_job = job,
        wh_terminal = rh_terminal raw, wh_created_at_ms = rh_created_at_ms raw,
        wh_updated_at_ms = rh_updated_at_ms raw\<rparr>"

definition handoff_from_raw :: "externals \<Rightarrow> db \<Rightarrow> raw_handoff \<Rightarrow> u64 \<Rightarrow> worker_handoff result" where
  "handoff_from_raw E d raw max_payload =
     bindE (load_job E d (tu_job_id raw) max_payload) (\<lambda>loaded.
     bindE (ok_or (Conflict ''worker handoff references a missing job'') loaded) (\<lambda>(job, completion_digest).
     bindE (load_attempt E d (tu_attempt_id raw)) (\<lambda>attempt.
     bindE (ok_or (Conflict ''worker handoff references a missing attempt'') attempt) (\<lambda>attempt.
     bindE (validate_handoff_job E raw job attempt completion_digest) (\<lambda>_.
     Inr (handoff_of raw job))))))"

definition load_handoff :: "externals \<Rightarrow> db \<Rightarrow> string \<Rightarrow> u64 \<Rightarrow> worker_handoff option result" where
  "load_handoff E d handoff_id max_payload =
     bindE (map_err Sqlite (transposeE (raw_handoff_from_row E)
              (find (\<lambda>h. h_handoff_id h = handoff_id) (worker_handoffs d)))) (\<lambda>raw.
     transposeE (\<lambda>raw. handoff_from_raw E d raw max_payload) raw)"

definition load_handoff_tx :: "externals \<Rightarrow> db \<Rightarrow> string \<Rightarrow> raw_handoff option result" where
  "load_handoff_tx E d handoff_id =
     map_err Sqlite (transposeE (raw_handoff_from_row E)
       (find (\<lambda>h. h_handoff_id h = handoff_id) (worker_handoffs d)))"

definition require_handoff_tx :: "externals \<Rightarrow> db \<Rightarrow> worker_handoff_tuple \<Rightarrow> u64 \<Rightarrow> raw_handoff result" where
  "require_handoff_tx E d t max_payload =
     bindE (load_handoff_tx E d (tu_handoff_id t)) (\<lambda>loaded.
     case loaded of
       Some raw \<Rightarrow>
         bindE (load_job E d (tu_job_id raw) max_payload) (\<lambda>loaded.
         bindE (ok_or (Conflict ''worker handoff references a missing job'') loaded) (\<lambda>(job, completion_digest).
         bindE (load_attempt E d (tu_attempt_id raw)) (\<lambda>attempt.
         bindE (ok_or (Conflict ''worker handoff references a missing attempt'') attempt) (\<lambda>attempt.
         bindE (validate_handoff_job E raw job attempt completion_digest) (\<lambda>_. Inr raw)))))
     | None \<Rightarrow>
         (case find (\<lambda>h. h_job_id h = tu_job_id t \<and> h_attempt_id h = tu_attempt_id t) (worker_handoffs d) of
            None \<Rightarrow> Inl (NotFound (''worker handoff '' @ tu_handoff_id t))
          | Some h \<Rightarrow>
              if length (h_handoff_id h) \<le> 36
              then Inl (Conflict ''worker attempt already has a different durable handoff tuple'')
              else Inl (Sqlite (InvalidColumnType 0))))"

definition get_worker_handoff :: "externals \<Rightarrow> store \<Rightarrow> string \<Rightarrow> worker_handoff option result" where
  "get_worker_handoff E s handoff_id =
     bindE (validate_uuid4 E handoff_id ''handoff id'') (\<lambda>_.
     load_handoff E (conn s) handoff_id (max_payload_bytes s))"

definition lookup_worker_handoff :: "externals \<Rightarrow> store \<Rightarrow> worker_handoff_tuple \<Rightarrow> worker_handoff option result" where
  "lookup_worker_handoff E s t =
     bindE (validate_tuple E t) (\<lambda>_.
     bindE (get_worker_handoff E s (tu_handoff_id t)) (\<lambda>found.
     case found of
       None \<Rightarrow> Inr None
     | Some handoff \<Rightarrow>
         bindE (ensure (worker_handoff_tuple.truncate handoff = t)
                  (Conflict ''worker handoff tuple does not match durable history'')) (\<lambda>_.
         Inr (Some handoff))))"

definition next_worker_handoff_for_reconciliation :: "externals \<Rightarrow> store \<Rightarrow> worker_handoff option result" where
  "next_worker_handoff_for_reconciliation E s =
     (case select_first (\<lambda>h. h_state h \<notin> {HAcknowledged, HRejected})
             (\<lambda>h. (h_created_at_ms h, h_handoff_id h)) (worker_handoffs (conn s)) of
        None \<Rightarrow> Inr None
      | Some h \<Rightarrow>
          if length (h_handoff_id h) = 36 then
            bindE (get_worker_handoff E s (h_handoff_id h)) (\<lambda>found.
            bindE (ok_or (Conflict ''pending worker handoff disappeared during lookup'') found) (\<lambda>handoff.
            Inr (Some handoff)))
          else Inl (Sqlite (InvalidColumnType 0)))"

definition ensure_tuple_matches :: "raw_handoff \<Rightarrow> worker_handoff_tuple \<Rightarrow> unit result" where
  "ensure_tuple_matches raw t =
     ensure (tu_handoff_id raw = tu_handoff_id t \<and> tu_deployment_id raw = tu_deployment_id t
             \<and> tu_job_id raw = tu_job_id t \<and> tu_attempt_id raw = tu_attempt_id t
             \<and> tu_attempt_number raw = tu_attempt_number t \<and> tu_worker_owner_id raw = tu_worker_owner_id t
             \<and> tu_worker_profile_digest raw = tu_worker_profile_digest t \<and> tu_run_id raw = tu_run_id t
             \<and> tu_episode_id raw = tu_episode_id t \<and> tu_trajectory_id raw = tu_trajectory_id t
             \<and> tu_payload_digest raw = tu_payload_digest t)
       (Conflict ''worker handoff tuple does not match durable history'')"

definition prior_phase_at_ms :: "raw_handoff \<Rightarrow> string \<Rightarrow> u64" where
  "prior_phase_at_ms raw phase =
     (let or_else = (\<lambda>a b. case a of None \<Rightarrow> b | Some v \<Rightarrow> Some v);
          unwrap_or = (\<lambda>a b. case a of None \<Rightarrow> b | Some v \<Rightarrow> v) in
      if phase = ''dispatch'' then rh_created_at_ms raw
      else if phase = ''admission'' then unwrap_or (rh_dispatched_at_ms raw) (rh_created_at_ms raw)
      else if phase = ''terminal'' then
        unwrap_or (or_else (rh_admitted_at_ms raw) (rh_dispatched_at_ms raw)) (rh_created_at_ms raw)
      else if phase = ''acknowledgment'' then
        unwrap_or (or_else (rh_acknowledged_at_ms raw) (rh_terminal_at_ms raw)) (rh_created_at_ms raw)
      else rh_updated_at_ms raw)"

definition validate_handoff_transition_time :: "raw_handoff \<Rightarrow> u64 \<Rightarrow> string \<Rightarrow> unit result" where
  "validate_handoff_transition_time raw now_ms phase =
     ensure (\<not> (now_ms < rh_updated_at_ms raw \<or> now_ms < prior_phase_at_ms raw phase))
       (Conflict (''worker handoff '' @ phase @ '' timestamp moves backwards''))"

text \<open>Three checks of a decoded handoff against the current binding and control.\<close>

definition validate_dispatch_control_tx :: "externals \<Rightarrow> db \<Rightarrow> raw_handoff \<Rightarrow> unit result" where
  "validate_dispatch_control_tx E d raw =
     bindE (ok_or (Conflict ''desired mode metadata is missing'') (metadata_from_conn d ''desired_mode'')) (\<lambda>desired.
     bindE (parse_mode desired) (\<lambda>mode.
     bindE (ensure (mode = ModeRunning)
              (Conflict ''durable desired mode no longer authorizes dispatch'')) (\<lambda>_.
     bindE (binding_from_conn E d) (\<lambda>binding.
     bindE (ok_or (Conflict ''worker binding is not configured'') binding) (\<lambda>binding.
     bindE (ensure (\<not> (wb_deployment_id binding \<noteq> tu_deployment_id raw
                       \<or> wb_worker_owner_id binding \<noteq> tu_worker_owner_id raw
                       \<or> wb_worker_profile_digest binding \<noteq> tu_worker_profile_digest raw))
              (Conflict ''worker binding no longer matches the prepared handoff'')) (\<lambda>_.
     bindE (control_from_conn E d) (\<lambda>control.
     bindE (ok_or (Conflict ''worker control has not been acknowledged'') control) (\<lambda>control.
     ensure (\<not> (wc_mode control \<noteq> WRunning \<or> wc_deployment_id control \<noteq> tu_deployment_id raw
                \<or> wc_worker_owner_id control \<noteq> tu_worker_owner_id raw
                \<or> wc_worker_profile_digest control \<noteq> tu_worker_profile_digest raw
                \<or> wc_watchdog_boot_id control \<noteq> rh_watchdog_boot_id raw
                \<or> wc_worker_boot_id control \<noteq> rh_worker_boot_id raw
                \<or> wc_mode_sequence control \<noteq> rh_mode_sequence raw))
       (Conflict ''worker control no longer matches the prepared handoff'')))))))))"

definition validate_current_worker_incarnation_tx :: "externals \<Rightarrow> db \<Rightarrow> raw_handoff \<Rightarrow> unit result" where
  "validate_current_worker_incarnation_tx E d raw =
     bindE (binding_from_conn E d) (\<lambda>binding.
     bindE (ok_or (Conflict ''worker binding is not configured'') binding) (\<lambda>binding.
     bindE (ensure (\<not> (wb_deployment_id binding \<noteq> tu_deployment_id raw
                       \<or> wb_worker_owner_id binding \<noteq> tu_worker_owner_id raw
                       \<or> wb_worker_profile_digest binding \<noteq> tu_worker_profile_digest raw))
              (Conflict ''worker binding no longer matches the worker handoff'')) (\<lambda>_.
     bindE (control_from_conn E d) (\<lambda>control.
     bindE (ok_or (Conflict ''worker control has not been acknowledged'') control) (\<lambda>control.
     ensure (\<not> (wc_deployment_id control \<noteq> tu_deployment_id raw
                \<or> wc_worker_owner_id control \<noteq> tu_worker_owner_id raw
                \<or> wc_worker_profile_digest control \<noteq> tu_worker_profile_digest raw
                \<or> wc_watchdog_boot_id control \<noteq> rh_watchdog_boot_id raw
                \<or> wc_worker_boot_id control \<noteq> rh_worker_boot_id raw))
       (Conflict ''worker report belongs to a stale watchdog or worker boot''))))))"

definition validate_current_worker_recovery_tx ::
  "externals \<Rightarrow> db \<Rightarrow> raw_handoff \<Rightarrow> worker_control_witness \<Rightarrow> unit result" where
  "validate_current_worker_recovery_tx E d raw recovery =
     bindE (validate_control E recovery) (\<lambda>_.
     bindE (binding_from_conn E d) (\<lambda>binding.
     bindE (ok_or (Conflict ''worker binding is not configured'') binding) (\<lambda>binding.
     bindE (validate_control_against_binding recovery binding) (\<lambda>_.
     bindE (ensure (\<not> (wb_deployment_id binding \<noteq> tu_deployment_id raw
                       \<or> wb_worker_owner_id binding \<noteq> tu_worker_owner_id raw
                       \<or> wb_worker_profile_digest binding \<noteq> tu_worker_profile_digest raw))
              (Conflict ''worker binding no longer matches the original worker handoff'')) (\<lambda>_.
     bindE (control_from_conn E d) (\<lambda>control.
     bindE (ok_or (Conflict ''worker control has not been acknowledged'') control) (\<lambda>current.
     ensure (current = recovery)
       (Conflict ''worker recovery credential is not the current acknowledged control''))))))))"

section \<open>What a successful read says\<close>

lemma sqlite_u32_Inr: "sqlite_u32 v field = Inr x \<longleftrightarrow> 0 \<le> v \<and> v < 2 ^ 32 \<and> x = word_of_int v"
  by (auto simp: sqlite_u32_def)

lemma worker_handoff_state_roundtrip [simp]: "worker_handoff_state_parse (worker_handoff_state_as_str st) = Inr st"
  by (cases st) (simp_all add: worker_handoff_state_parse_def)

lemma worker_terminal_status_roundtrip [simp]: "worker_terminal_status_parse (worker_terminal_status_as_str st) = Inr st"
  by (cases st) (simp_all add: worker_terminal_status_parse_def)

lemma bounded_status: "bounded_optional c 32 (map_option worker_terminal_status_as_str st) = map_option worker_terminal_status_as_str st"
proof (cases st)
  case (Some x)
  then show ?thesis by (cases x) (simp_all add: bounded_optional_def)
qed (simp add: bounded_optional_def)

lemma bounded_optional_valid:
  "bounded_optional (CHR 0x01) n v = Some x \<Longrightarrow> x \<noteq> [CHR 0x01] \<Longrightarrow> v = Some x"
  by (auto simp: bounded_optional_def split: if_splits)

lemma terminal_from_columns_Some:
  assumes "terminal_from_columns E st tref rdigest tdigest cp = Inr (Some receipt)"
  shows "tref = Some (tr_terminal_ref receipt)" "rdigest = Some (tr_result_digest receipt)"
    "tdigest = Some (te_terminal_digest receipt)" "\<exists>c. cp = Some c \<and> tr_checkpoint_sequence receipt = word_of_int c"
    "validate_digest (tr_result_digest receipt) = Inr ()" "validate_digest (te_terminal_digest receipt) = Inr ()"
    "validate_name (tr_terminal_ref receipt) ''terminal reference'' MAX_TERMINAL_REF_BYTES = Inr ()"
    "\<exists>s. st = Some s \<and> worker_terminal_status_parse s = Inr (tr_status receipt)"
  using assms
  by (auto simp: terminal_from_columns_def bindE_Inr ensure_Inr to_sql_Inr validate_digest_value_Inr sqlite_u64_def
      split: option.splits if_splits)

lemma projection_terminal:
  assumes "validate_terminal_projection E t st terminal result ack created updated a b c e = Inr u"
  shows "handoff_is_terminal st \<longleftrightarrow> terminal \<noteq> None" "handoff_is_terminal st \<longleftrightarrow> result \<noteq> None"
  using assms by (simp_all only: validate_terminal_projection_def bindE_Inr ensure_Inr) blast+

lemma raw_handoff_fields:
  assumes "raw_handoff_from_row E r = Inr raw"
  shows "tu_handoff_id raw = h_handoff_id r \<and> tu_deployment_id raw = h_deployment_id r
    \<and> tu_job_id raw = h_job_id r \<and> tu_attempt_id raw = h_attempt_id r
    \<and> tu_attempt_number raw = word_of_int (h_attempt_number r) \<and> tu_worker_owner_id raw = h_worker_owner_id r
    \<and> tu_worker_profile_digest raw = h_worker_profile_digest r \<and> tu_run_id raw = h_run_id r
    \<and> tu_episode_id raw = h_episode_id r \<and> tu_trajectory_id raw = h_trajectory_id r
    \<and> tu_payload_digest raw = h_payload_digest r \<and> rh_watchdog_boot_id raw = h_watchdog_boot_id r
    \<and> rh_worker_boot_id raw = h_worker_boot_id r \<and> rh_mode_sequence raw = word_of_int (h_mode_sequence r)
    \<and> rh_state raw = h_state r \<and> rh_created_at_ms raw = word_of_int (h_created_at_ms r)
    \<and> rh_updated_at_ms raw = word_of_int (h_updated_at_ms r)
    \<and> validate_tuple E (worker_handoff_tuple.truncate raw) = Inr ()
    \<and> terminal_from_columns E (map_option worker_terminal_status_as_str (h_terminal_status r))
         (bounded_optional (CHR 0x01) 1024 (h_terminal_ref r)) (bounded_optional (CHR 0x01) 64 (h_result_digest r))
         (bounded_optional (CHR 0x01) 64 (h_terminal_digest r)) (h_checkpoint_sequence r) = Inr (rh_terminal raw)
    \<and> (handoff_is_terminal (h_state r) \<longleftrightarrow> rh_terminal raw \<noteq> None)"
  using assms unfolding raw_handoff_from_row_def Let_def bounded_status
  by - (elim bindE_InrE, drule projection_terminal(1),
      simp only: bounded_required to_sql_Inr sqlite_u64_Inr sqlite_u32_Inr worker_handoff_tuple.extend_def
        sum.inject worker_handoff_state_roundtrip,
      elim conjE, hypsubst, simp add: worker_handoff_tuple.truncate_def)

lemma raw_handoff_receipt:
  assumes "raw_handoff_from_row E r = Inr raw" and "rh_terminal raw = Some receipt"
  shows "h_terminal_digest r = Some (te_terminal_digest receipt)" "h_result_digest r = Some (tr_result_digest receipt)"
    "h_terminal_status r = Some (tr_status receipt)" "h_terminal_ref r = Some (tr_terminal_ref receipt)"
proof -
  have bad: "validate_digest [CHR 0x01] \<noteq> Inr ()"
    "validate_name [CHR 0x01] ''terminal reference'' MAX_TERMINAL_REF_BYTES \<noteq> Inr ()"
    by (simp_all add: validate_digest_def validate_name_def result_defs byte_def)
  have "terminal_from_columns E (map_option worker_terminal_status_as_str (h_terminal_status r))
         (bounded_optional (CHR 0x01) 1024 (h_terminal_ref r)) (bounded_optional (CHR 0x01) 64 (h_result_digest r))
         (bounded_optional (CHR 0x01) 64 (h_terminal_digest r)) (h_checkpoint_sequence r) = Inr (Some receipt)"
    using raw_handoff_fields [OF assms(1)] assms(2) by simp
  note t = terminal_from_columns_Some [OF this]
  show "h_terminal_digest r = Some (te_terminal_digest receipt)"
    by (rule bounded_optional_valid [OF t(3)]) (use t(6) bad in auto)
  show "h_result_digest r = Some (tr_result_digest receipt)"
    by (rule bounded_optional_valid [OF t(2)]) (use t(5) bad in auto)
  show "h_terminal_ref r = Some (tr_terminal_ref receipt)"
    by (rule bounded_optional_valid [OF t(1)]) (use t(7) bad in auto)
  show "h_terminal_status r = Some (tr_status receipt)" using t(8) by auto
qed

definition handoff_agrees :: "externals \<Rightarrow> db \<Rightarrow> u64 \<Rightarrow> raw_handoff \<Rightarrow> job_record \<Rightarrow> bool" where
  "handoff_agrees E d max_payload raw job \<longleftrightarrow>
     (\<exists>completion_digest attempt.
        load_job E d (tu_job_id raw) max_payload = Inr (Some (job, completion_digest))
        \<and> load_attempt E d (tu_attempt_id raw) = Inr (Some attempt)
        \<and> validate_handoff_job E raw job attempt completion_digest = Inr ())"

text \<open>The two readers of a handoff accept the same rows.\<close>

lemma require_handoff_tx_Inr:
  "require_handoff_tx E d t max_payload = Inr raw \<longleftrightarrow>
     (\<exists>r job. find (\<lambda>h. h_handoff_id h = tu_handoff_id t) (worker_handoffs d) = Some r
        \<and> raw_handoff_from_row E r = Inr raw \<and> handoff_agrees E d max_payload raw job)"
  by (auto simp: require_handoff_tx_def load_handoff_tx_def bindE_Inr map_err_Inr transposeE_Inr ok_or_Inr
      handoff_agrees_def split: option.splits if_splits)

lemma load_handoff_Some:
  "load_handoff E d handoff_id max_payload = Inr (Some handoff) \<longleftrightarrow>
     (\<exists>r raw job. find (\<lambda>h. h_handoff_id h = handoff_id) (worker_handoffs d) = Some r
        \<and> raw_handoff_from_row E r = Inr raw \<and> handoff_agrees E d max_payload raw job
        \<and> handoff = handoff_of raw job)"
  by (auto simp: load_handoff_def bindE_Inr map_err_Inr transposeE_Inr ok_or_Inr handoff_from_raw_def
      handoff_agrees_def split: option.splits)

lemma ensure_tuple_matches_Inr:
  "ensure_tuple_matches raw t = Inr u \<longleftrightarrow> worker_handoff_tuple.truncate raw = t"
  by (auto simp: ensure_tuple_matches_def ensure_Inr worker_handoff_tuple.truncate_def)

end
