(* ===== verification/Handoff_Lifecycle.thy ===== *)
theory Handoff_Lifecycle
  imports Job_Lifecycle
begin

text \<open>
  The contract of the worker handoff: an abstract step relation over the handoff table with two
  transitions (prepare, advance), its invariant (one open handoff, distinct identifiers, lifecycle
  columns that fit the state), and what every sequence of transitions guarantees: a handoff only
  moves forward, its identity is fixed and its terminal evidence is never rewritten.
\<close>

section \<open>Transitions\<close>

definition open_handoff :: "handoff_row \<Rightarrow> bool" where
  "open_handoff h \<longleftrightarrow> h_state h \<in> {HPrepared, HMayHaveBeenDispatched, HAdmitted}"

definition handoff_edges :: "(worker_handoff_state \<times> worker_handoff_state) set" where
  "handoff_edges =
     {(HPrepared, HMayHaveBeenDispatched), (HMayHaveBeenDispatched, HAdmitted),
      (HMayHaveBeenDispatched, HCompleted), (HMayHaveBeenDispatched, HFailed),
      (HAdmitted, HCompleted), (HAdmitted, HFailed), (HCompleted, HAcknowledged), (HFailed, HAcknowledged)}"

fun handoff_rank :: "worker_handoff_state \<Rightarrow> nat" where
  "handoff_rank HPrepared = 0"
| "handoff_rank HMayHaveBeenDispatched = 1"
| "handoff_rank HAdmitted = 2"
| "handoff_rank HCompleted = 3"
| "handoff_rank HFailed = 3"
| "handoff_rank HAcknowledged = 4"
| "handoff_rank HRejected = 4"

definition same_handoff :: "handoff_row \<Rightarrow> handoff_row \<Rightarrow> bool" where
  "same_handoff h h' \<longleftrightarrow>
     h_handoff_id h' = h_handoff_id h \<and> h_deployment_id h' = h_deployment_id h \<and> h_job_id h' = h_job_id h
     \<and> h_attempt_id h' = h_attempt_id h \<and> h_attempt_number h' = h_attempt_number h
     \<and> h_worker_owner_id h' = h_worker_owner_id h \<and> h_worker_profile_digest h' = h_worker_profile_digest h
     \<and> h_run_id h' = h_run_id h \<and> h_episode_id h' = h_episode_id h \<and> h_trajectory_id h' = h_trajectory_id h
     \<and> h_payload_digest h' = h_payload_digest h \<and> h_watchdog_boot_id h' = h_watchdog_boot_id h
     \<and> h_worker_boot_id h' = h_worker_boot_id h \<and> h_mode_sequence h' = h_mode_sequence h
     \<and> h_operation h' = h_operation h \<and> h_parameters h' = h_parameters h
     \<and> h_created_at_ms h' = h_created_at_ms h"

definition same_evidence :: "handoff_row \<Rightarrow> handoff_row \<Rightarrow> bool" where
  "same_evidence h h' \<longleftrightarrow>
     h_terminal_status h' = h_terminal_status h \<and> h_checkpoint_sequence h' = h_checkpoint_sequence h
     \<and> h_terminal_ref h' = h_terminal_ref h \<and> h_result_digest h' = h_result_digest h
     \<and> h_terminal_digest h' = h_terminal_digest h \<and> h_terminal_result h' = h_terminal_result h
     \<and> h_terminal_at_ms h' = h_terminal_at_ms h"

text \<open>The lifecycle columns a state has.\<close>

definition handoff_columns :: "handoff_row \<Rightarrow> bool" where
  "handoff_columns h \<longleftrightarrow>
     (if handoff_is_terminal (h_state h)
      then h_terminal_status h \<noteq> None \<and> h_checkpoint_sequence h \<noteq> None \<and> h_terminal_ref h \<noteq> None
        \<and> h_result_digest h \<noteq> None \<and> h_terminal_digest h \<noteq> None \<and> h_terminal_result h \<noteq> None
        \<and> h_terminal_at_ms h \<noteq> None \<and> h_ack_intent h = 1
      else h_terminal_status h = None \<and> h_checkpoint_sequence h = None \<and> h_terminal_ref h = None
        \<and> h_result_digest h = None \<and> h_terminal_digest h = None \<and> h_terminal_result h = None
        \<and> h_terminal_at_ms h = None \<and> h_ack_intent h = 0)
     \<and> (h_dispatched_at_ms h \<noteq> None \<longleftrightarrow> h_state h \<notin> {HPrepared, HRejected})
     \<and> (h_state h = HAdmitted \<longrightarrow> h_admitted_at_ms h \<noteq> None)
     \<and> (h_state h \<in> {HPrepared, HMayHaveBeenDispatched, HRejected} \<longrightarrow> h_admitted_at_ms h = None)
     \<and> (h_acknowledged_at_ms h \<noteq> None \<longleftrightarrow> h_state h = HAcknowledged)"

text \<open>The identifiers that are unique in the table.\<close>

definition handoff_clash :: "handoff_row \<Rightarrow> handoff_row \<Rightarrow> bool" where
  "handoff_clash x y \<longleftrightarrow> h_handoff_id x = h_handoff_id y \<or> h_attempt_id x = h_attempt_id y
     \<or> h_episode_id x = h_episode_id y \<or> h_run_id x = h_run_id y \<or> h_trajectory_id x = h_trajectory_id y"

inductive handoff_step :: "handoff_row list \<Rightarrow> handoff_row list \<Rightarrow> bool" where
  prepare:
    "h_state h = HPrepared \<Longrightarrow> handoff_columns h \<Longrightarrow> \<forall>x \<in> set hs. \<not> open_handoff x
     \<Longrightarrow> \<forall>x \<in> set hs. \<not> handoff_clash h x \<Longrightarrow> handoff_step hs (hs @ [h])"
| advance:
    "h \<in> set hs \<Longrightarrow> (h_state h, h_state h') \<in> handoff_edges \<Longrightarrow> same_handoff h h' \<Longrightarrow> handoff_columns h'
     \<Longrightarrow> (handoff_is_terminal (h_state h) \<longrightarrow> same_evidence h h')
     \<Longrightarrow> handoff_step hs (update_where (\<lambda>x. h_handoff_id x = h_handoff_id h) (\<lambda>_. h') hs)"

inductive_cases handoff_stepE: "handoff_step hs hs'"


section \<open>The invariant\<close>

definition handoffs_inv :: "handoff_row list \<Rightarrow> bool" where
  "handoffs_inv hs \<longleftrightarrow>
     distinct (map h_handoff_id hs) \<and> distinct (map h_attempt_id hs) \<and> distinct (map h_run_id hs)
     \<and> distinct (map h_episode_id hs) \<and> distinct (map h_trajectory_id hs)
     \<and> (\<forall>x \<in> set hs. \<forall>y \<in> set hs. open_handoff x \<longrightarrow> open_handoff y \<longrightarrow> x = y)
     \<and> (\<forall>x \<in> set hs. handoff_columns x)"

lemma handoffs_inv_Nil [simp]: "handoffs_inv []"
  by (simp add: handoffs_inv_def)

lemma same_handoff_refl [simp]: "same_handoff h h" "same_evidence h h"
  by (simp_all add: same_handoff_def same_evidence_def)

lemma same_handoff_trans:
  "same_handoff a b \<Longrightarrow> same_handoff b c \<Longrightarrow> same_handoff a c"
  "same_evidence a b \<Longrightarrow> same_evidence b c \<Longrightarrow> same_evidence a c"
  by (simp_all add: same_handoff_def same_evidence_def)

lemma handoff_edge_open: "(a, b) \<in> handoff_edges \<Longrightarrow> b \<in> {HPrepared, HMayHaveBeenDispatched, HAdmitted}
  \<Longrightarrow> a \<in> {HPrepared, HMayHaveBeenDispatched, HAdmitted}"
  by (auto simp: handoff_edges_def)

lemma handoff_edge_rank: "(a, b) \<in> handoff_edges \<Longrightarrow> handoff_rank a < handoff_rank b"
  by (auto simp: handoff_edges_def)

lemma prepare_inv:
  assumes "handoffs_inv hs" and "handoff_columns h" and "\<forall>x \<in> set hs. \<not> open_handoff x"
    and "\<forall>x \<in> set hs. \<not> handoff_clash h x"
  shows "handoffs_inv (hs @ [h])"
  using assms by (auto simp: handoffs_inv_def handoff_clash_def image_iff)

lemma advance_inv:
  assumes inv: "handoffs_inv hs" and h: "h \<in> set hs" and edge: "(h_state h, h_state h') \<in> handoff_edges"
    and same: "same_handoff h h'" and cols: "handoff_columns h'"
  shows "handoffs_inv (update_where (\<lambda>x. h_handoff_id x = h_handoff_id h) (\<lambda>_. h') hs)"
proof -
  let ?t = "update_where (\<lambda>x. h_handoff_id x = h_handoff_id h) (\<lambda>_. h') hs"
  have d: "distinct (map h_handoff_id hs)" using inv by (simp add: handoffs_inv_def)
  have keys: "map h_handoff_id ?t = map h_handoff_id hs" "map h_attempt_id ?t = map h_attempt_id hs"
    "map h_run_id ?t = map h_run_id hs" "map h_episode_id ?t = map h_episode_id hs"
    "map h_trajectory_id ?t = map h_trajectory_id hs"
    by (rule replace_map [OF d h], use same in \<open>simp add: same_handoff_def\<close>)+
  have mem: "x \<in> set ?t \<longleftrightarrow> x = h' \<or> x \<in> set hs \<and> h_handoff_id x \<noteq> h_handoff_id h" for x
    using replace_row [OF d h, of h'] same by (simp add: same_handoff_def)
  have "open_handoff h' \<Longrightarrow> open_handoff h"
    using handoff_edge_open [OF edge] by (simp add: open_handoff_def)
  then have "x = y" if "x \<in> set ?t" "y \<in> set ?t" "open_handoff x" "open_handoff y" for x y
    using that inv h unfolding mem handoffs_inv_def by blast
  moreover have "\<forall>x \<in> set ?t. handoff_columns x"
    using inv cols by (auto simp: mem handoffs_inv_def)
  ultimately show ?thesis using inv unfolding handoffs_inv_def keys by blast
qed

lemma handoff_step_inv: "handoff_step hs hs' \<Longrightarrow> handoffs_inv hs \<Longrightarrow> handoffs_inv hs'"
  by (induction rule: handoff_step.induct) (simp_all add: prepare_inv advance_inv)


section \<open>Kept history\<close>

definition handoffs_kept :: "handoff_row list \<Rightarrow> handoff_row list \<Rightarrow> bool" where
  "handoffs_kept hs hs' \<longleftrightarrow>
     (\<forall>h \<in> set hs. \<exists>h' \<in> set hs'. same_handoff h h' \<and> handoff_rank (h_state h) \<le> handoff_rank (h_state h')
        \<and> (handoff_is_terminal (h_state h) \<longrightarrow> handoff_is_terminal (h_state h') \<and> same_evidence h h'))"

lemma handoffs_kept_refl [simp]: "handoffs_kept hs hs"
  unfolding handoffs_kept_def by (intro ballI, rule bexI) auto

lemma handoffs_kept_trans:
  assumes ab: "handoffs_kept a b" and bc: "handoffs_kept b c"
  shows "handoffs_kept a c"
  unfolding handoffs_kept_def
proof
  fix h assume "h \<in> set a"
  with ab obtain h1 where h1: "h1 \<in> set b" "same_handoff h h1" "handoff_rank (h_state h) \<le> handoff_rank (h_state h1)"
    "handoff_is_terminal (h_state h) \<longrightarrow> handoff_is_terminal (h_state h1) \<and> same_evidence h h1"
    unfolding handoffs_kept_def by blast
  with bc obtain h2 where h2: "h2 \<in> set c" "same_handoff h1 h2" "handoff_rank (h_state h1) \<le> handoff_rank (h_state h2)"
    "handoff_is_terminal (h_state h1) \<longrightarrow> handoff_is_terminal (h_state h2) \<and> same_evidence h1 h2"
    unfolding handoffs_kept_def by blast
  show "\<exists>h' \<in> set c. same_handoff h h' \<and> handoff_rank (h_state h) \<le> handoff_rank (h_state h')
      \<and> (handoff_is_terminal (h_state h) \<longrightarrow> handoff_is_terminal (h_state h') \<and> same_evidence h h')"
    using h1 h2 same_handoff_trans [of h h1 h2] order_trans by blast
qed

lemma handoff_edge_terminal: "(a, b) \<in> handoff_edges \<Longrightarrow> handoff_is_terminal a \<Longrightarrow> handoff_is_terminal b"
  by (auto simp: handoff_edges_def handoff_is_terminal_def)

lemma handoff_step_kept:
  assumes "handoff_step hs hs'" and "handoffs_inv hs"
  shows "handoffs_kept hs hs'"
  using assms
proof (induction rule: handoff_step.induct)
  case (prepare h hs)
  show ?case unfolding handoffs_kept_def by (intro ballI, rule bexI) auto
next
  case (advance h hs h')
  have d: "distinct (map h_handoff_id hs)" using advance.prems by (simp add: handoffs_inv_def)
  have new: "h' \<in> set (update_where (\<lambda>x. h_handoff_id x = h_handoff_id h) (\<lambda>_. h') hs)"
    using replace_row [OF d advance(1), of h'] advance(3) by (simp add: same_handoff_def)
  show ?case
    unfolding handoffs_kept_def
  proof
    fix x assume x: "x \<in> set hs"
    show "\<exists>y \<in> set (update_where (\<lambda>x. h_handoff_id x = h_handoff_id h) (\<lambda>_. h') hs).
        same_handoff x y \<and> handoff_rank (h_state x) \<le> handoff_rank (h_state y)
        \<and> (handoff_is_terminal (h_state x) \<longrightarrow> handoff_is_terminal (h_state y) \<and> same_evidence x y)"
    proof (cases "h_handoff_id x = h_handoff_id h")
      case True
      then have "x = h" using key_unique [OF d x advance(1)] by simp
      then show ?thesis
        using new advance handoff_edge_rank [OF advance(2)] handoff_edge_terminal [OF advance(2)] by auto
    next
      case False
      then have "x \<in> set (update_where (\<lambda>x. h_handoff_id x = h_handoff_id h) (\<lambda>_. h') hs)"
        using replace_row [OF d advance(1), of h'] advance(3) x by (simp add: same_handoff_def)
      then show ?thesis by (intro bexI [of _ x]) auto
    qed
  qed
qed

lemma handoff_steps_keep:
  assumes "handoff_step\<^sup>*\<^sup>* hs hs'" and "handoffs_inv hs"
  shows "handoffs_inv hs' \<and> handoffs_kept hs hs'"
  using assms
proof (induction rule: rtranclp_induct)
  case base
  then show ?case by simp
next
  case (step hs1 hs2)
  then show ?case using handoff_step_inv handoff_step_kept handoffs_kept_trans by blast
qed

text \<open>
  The interface of the operations on the handoff table: transitions of the job contract and of
  the handoff contract at once.
\<close>

locale handoff_operation = job_operation run E
  for run :: "store \<Rightarrow> 'a result \<times> store" and E :: externals +
  assumes hands_over: "queue_inv E (queue_of (conn s)) \<Longrightarrow> handoffs_inv (worker_handoffs (conn s)) \<Longrightarrow>
    run s = (r, s') \<Longrightarrow> handoff_step\<^sup>*\<^sup>* (worker_handoffs (conn s)) (worker_handoffs (conn s'))"
begin

lemma keeps_handoffs:
  "queue_inv E (queue_of (conn s)) \<Longrightarrow> handoffs_inv (worker_handoffs (conn s)) \<Longrightarrow> run s = (r, s') \<Longrightarrow>
     handoffs_inv (worker_handoffs (conn s')) \<and> handoffs_kept (worker_handoffs (conn s)) (worker_handoffs (conn s'))"
  using hands_over handoff_steps_keep by blast

end

lemma handoff_tx:
  assumes "\<And>s d x d'. f s d = Inr (x, d') \<Longrightarrow> audit_ok d d'"
    and "\<And>s d x d'. queue_inv E (queue_of d) \<Longrightarrow> f s d = Inr (x, d') \<Longrightarrow>
           (queue_step E)\<^sup>*\<^sup>* (queue_of d) (queue_of d')"
    and "\<And>s d x d'. queue_inv E (queue_of d) \<Longrightarrow> handoffs_inv (worker_handoffs d) \<Longrightarrow> f s d = Inr (x, d') \<Longrightarrow>
           handoff_step\<^sup>*\<^sup>* (worker_handoffs d) (worker_handoffs d')"
  shows "handoff_operation (\<lambda>s. with_tx s (f s)) E"
  by unfold_locales (auto elim!: with_tx_conn dest: assms)

lemma handoff_bindS:
  assumes "handoff_operation m E" and "\<And>x s'. snd (g x s') = s'"
  shows "handoff_operation (\<lambda>s. bindS (m s) g) E"
proof (intro handoff_operation.intro handoff_operation_axioms.intro)
  show "job_operation (\<lambda>s. bindS (m s) g) E"
    using job_bindS [OF handoff_operation.axioms(1) [OF assms(1)] assms(2)] .
  fix s r s' assume inv: "queue_inv E (queue_of (conn s))" "handoffs_inv (worker_handoffs (conn s))" and "bindS (m s) g = (r, s')"
  then obtain r' where "m s = (r', s')" using bindS_state [of g] assms(2) by blast
  with inv show "handoff_step\<^sup>*\<^sup>* (worker_handoffs (conn s)) (worker_handoffs (conn s'))"
    using handoff_operation.hands_over [OF assms(1)] by blast
qed

end
