(* ===== verification/Worker_Handoff.thy ===== *)
theory Worker_Handoff
  imports Worker_Rows Handoff_Lifecycle
begin

text \<open>
  The worker handoff protocol: claiming a job for the worker
  (\<^verbatim>\<open>storage_worker_claims_admission.rs\<close>), marking the dispatch and the admission
  (\<^verbatim>\<open>storage_worker_completion_dispatch.rs\<close>), the terminal completion
  (\<^verbatim>\<open>storage_worker_completion_terminal.rs\<close>) and its acknowledgment
  (\<^verbatim>\<open>storage_worker_completion_ack.rs\<close>). The five identifiers of a handoff are drawn from a source of
  UUIDs, which is an argument.
\<close>

section \<open>Claiming\<close>

text \<open>
  \<^verbatim>\<open>new_uuid4_distinct\<close> draws until the value is new. The draws are a list; \<open>None\<close> is a loop that
  used all of them without returning.
\<close>

fun new_uuid4_distinct :: "string list \<Rightarrow> string list \<Rightarrow> (string \<times> string list) option" where
  "new_uuid4_distinct existing [] = None"
| "new_uuid4_distinct existing (value # draws) =
     (if value \<notin> set existing then Some (value, draws) else new_uuid4_distinct existing draws)"

record handoff_ids =
  id_handoff :: string
  id_attempt :: string
  id_run :: string
  id_episode :: string
  id_trajectory :: string

definition allocate_ids :: "string list \<Rightarrow> handoff_ids option" where
  "allocate_ids draws =
     Option.bind (new_uuid4_distinct [] draws) (\<lambda>(handoff_id, draws).
     Option.bind (new_uuid4_distinct [handoff_id] draws) (\<lambda>(attempt_id, draws).
     Option.bind (new_uuid4_distinct [handoff_id, attempt_id] draws) (\<lambda>(run_id, draws).
     Option.bind (new_uuid4_distinct [handoff_id, attempt_id, run_id] draws) (\<lambda>(episode_id, draws).
     Option.bind (new_uuid4_distinct [handoff_id, attempt_id, run_id, episode_id] draws) (\<lambda>(trajectory_id, _).
     Some \<lparr>id_handoff = handoff_id, id_attempt = attempt_id, id_run = run_id, id_episode = episode_id,
           id_trajectory = trajectory_id\<rparr>)))))"

definition witness_binding :: "worker_claim_witness \<Rightarrow> worker_binding" where
  "witness_binding witness =
     \<lparr>wb_deployment_id = cw_deployment_id witness, wb_worker_owner_id = cw_worker_owner_id witness,
      wb_worker_profile_digest = cw_worker_profile_digest witness,
      wb_release_digest = cw_release_digest witness, wb_config_digest = cw_config_digest witness,
      wb_schema_digest = cw_schema_digest witness\<rparr>"

definition witness_control :: "worker_claim_witness \<Rightarrow> worker_control_witness" where
  "witness_control witness =
     \<lparr>wc_deployment_id = cw_deployment_id witness, wc_worker_owner_id = cw_worker_owner_id witness,
      wc_worker_profile_digest = cw_worker_profile_digest witness,
      wc_watchdog_boot_id = cw_watchdog_boot_id witness, wc_worker_boot_id = cw_worker_boot_id witness,
      wc_mode = WRunning, wc_mode_sequence = cw_mode_sequence witness\<rparr>"

definition validate_claim_witness_tx :: "externals \<Rightarrow> db \<Rightarrow> worker_claim_witness \<Rightarrow> unit result" where
  "validate_claim_witness_tx E d witness =
     bindE (binding_from_conn E d) (\<lambda>binding.
     bindE (ok_or (Conflict ''worker binding is not configured'') binding) (\<lambda>binding.
     bindE (ensure (binding = witness_binding witness)
              (Conflict ''worker claim witness differs from its configured binding'')) (\<lambda>_.
     bindE (control_from_conn E d) (\<lambda>control.
     bindE (ok_or (Conflict ''worker control has not been acknowledged'') control) (\<lambda>control.
     bindE (ensure (control = witness_control witness)
              (Conflict ''worker claim witness differs from acknowledged worker control'')) (\<lambda>_.
     bindE (ok_or (Conflict ''desired mode metadata is missing'') (metadata_from_conn d ''desired_mode'')) (\<lambda>desired.
     bindE (parse_mode desired) (\<lambda>mode.
     ensure (mode = ModeRunning)
       (Conflict ''durable desired mode does not authorize worker claims'')))))))))"

definition unresolved_handoff_exists :: "db \<Rightarrow> bool" where
  "unresolved_handoff_exists d =
     list_ex (\<lambda>h. h_state h \<in> {HPrepared, HMayHaveBeenDispatched, HAdmitted}) (worker_handoffs d)"

definition ready_worker_job :: "db \<Rightarrow> i64 \<Rightarrow> job_row option" where
  "ready_worker_job d now =
     select_first (\<lambda>r. j_status r = JQueued
         \<and> (case j_next_retry_at_ms r of None \<Rightarrow> False | Some t \<Rightarrow> t \<le> now)
         \<and> j_kind r = WORKER_HANDOFF_OPERATION \<and> j_payload_digest r = WORKER_HANDOFF_PAYLOAD_DIGEST)
       (\<lambda>r. (j_created_at_ms r, j_id r)) (jobs d)"

text \<open>The row the claim writes.\<close>

definition prepared_handoff ::
  "worker_claim_witness \<Rightarrow> handoff_ids \<Rightarrow> string \<Rightarrow> u32 \<Rightarrow> string \<Rightarrow> i64 \<Rightarrow> string \<Rightarrow> i64 \<Rightarrow> handoff_row" where
  "prepared_handoff witness ids job_id attempt_number payload_digest mode_sequence parameters now =
     \<lparr>h_handoff_id = id_handoff ids, h_deployment_id = cw_deployment_id witness, h_job_id = job_id,
      h_attempt_id = id_attempt ids, h_attempt_number = uint attempt_number,
      h_worker_owner_id = cw_worker_owner_id witness,
      h_worker_profile_digest = cw_worker_profile_digest witness, h_run_id = id_run ids,
      h_episode_id = id_episode ids, h_trajectory_id = id_trajectory ids,
      h_payload_digest = payload_digest, h_watchdog_boot_id = cw_watchdog_boot_id witness,
      h_worker_boot_id = cw_worker_boot_id witness, h_mode_sequence = mode_sequence,
      h_operation = WORKER_HANDOFF_OPERATION, h_parameters = parameters, h_state = HPrepared,
      h_terminal_status = None, h_checkpoint_sequence = None, h_terminal_ref = None,
      h_result_digest = None, h_terminal_digest = None, h_terminal_result = None, h_ack_intent = 0,
      h_created_at_ms = now, h_updated_at_ms = now, h_dispatched_at_ms = None, h_admitted_at_ms = None,
      h_terminal_at_ms = None, h_acknowledged_at_ms = None\<rparr>"

definition insert_handoff_row :: "handoff_row \<Rightarrow> db \<Rightarrow> db result" where
  "insert_handoff_row h d =
     bindE (ensure (0 < h_attempt_number h \<and> 0 < h_mode_sequence h
                    \<and> h_operation h = WORKER_HANDOFF_OPERATION)
              (Sqlite (ConstraintViolation ''worker_handoffs''))) (\<lambda>_.
     bindE (ensure (list_ex (\<lambda>r. j_id r = h_job_id h) (jobs d) \<and> list_ex (\<lambda>a. a_id a = h_attempt_id h) (attempts d))
              (Sqlite (ConstraintViolation ''worker_handoffs''))) (\<lambda>_.
     bindE (insert_row handoff_clash ''worker_handoffs'' h (worker_handoffs d)) (\<lambda>t.
     Inr (d\<lparr>worker_handoffs := t\<rparr>))))"

text \<open>The guard of the \<^verbatim>\<open>UPDATE jobs\<close> statement, and the writes of a claim.\<close>

definition claimable :: "string \<Rightarrow> i64 \<Rightarrow> job_row \<Rightarrow> bool" where
  "claimable job_id now r \<longleftrightarrow> j_id r = job_id \<and> j_status r = JQueued \<and> j_created_at_ms r \<le> now
     \<and> (case j_next_retry_at_ms r of None \<Rightarrow> False | Some t \<Rightarrow> t \<le> now)"

definition claimed_job :: "worker_claim_witness \<Rightarrow> u32 \<Rightarrow> i64 \<Rightarrow> job_row \<Rightarrow> job_row" where
  "claimed_job witness n now r =
     r\<lparr>j_status := JRunning, j_claimed_at_ms := Some now, j_worker_id := Some (cw_worker_owner_id witness),
       j_attempt_count := uint n, j_next_retry_at_ms := None\<rparr>"

definition commit_worker_claim ::
  "worker_claim_witness \<Rightarrow> handoff_ids \<Rightarrow> string \<Rightarrow> u32 \<Rightarrow> string \<Rightarrow> string \<Rightarrow> i64 \<Rightarrow> u64 \<Rightarrow> db \<Rightarrow> db result" where
  "commit_worker_claim witness ids job_id attempt_number payload_digest parameters now now_ms d =
     bindE (insert_attempt_row
              (running_attempt (id_attempt ids) job_id attempt_number (cw_worker_owner_id witness) now)
              (d\<lparr>jobs := update_where (claimable job_id now) (claimed_job witness attempt_number now) (jobs d)\<rparr>)) (\<lambda>d.
     bindE (sqlite_timestamp (cw_mode_sequence witness)) (\<lambda>mode_sequence.
     bindE (insert_handoff_row
              (prepared_handoff witness ids job_id attempt_number payload_digest mode_sequence parameters now) d) (\<lambda>d.
     insert_audit_tx d ''worker_handoff_prepared''
       (job_id @ '':'' @ id_attempt ids @ '':'' @ id_handoff ids) now_ms)))"

definition claim_worker_job ::
  "externals \<Rightarrow> u64 \<Rightarrow> worker_claim_witness \<Rightarrow> u64 \<Rightarrow> i64 \<Rightarrow> i64 \<Rightarrow> handoff_ids \<Rightarrow> job_row \<Rightarrow> db
   \<Rightarrow> (string option \<times> db) result" where
  "claim_worker_job E max_payload witness now_ms now limit ids r d =
     bindE (ok_or (Sqlite (InvalidColumnType 0)) (bounded_text 128 (j_id r))) (\<lambda>job_id.
     bindE (validate_name job_id ''job id'' 128) (\<lambda>_.
     if j_kind r \<noteq> WORKER_HANDOFF_OPERATION then Inr (None, d)
     else
       bindE (validate_claim_payload E (substr_chars (nat limit) (j_payload r)) (j_payload_digest r)
                (unat max_payload)) (\<lambda>payload.
       if payload \<noteq> empty_parameters then Inr (None, d)
       else
         bindE (ensure (0 \<le> j_created_at_ms r) (Conflict ''job creation timestamp is invalid'')) (\<lambda>_.
         if now_ms < word_of_int (j_created_at_ms r) then Inr (None, d)
         else
           bindE (ensure (0 \<le> j_attempt_count r \<and> j_attempt_count r < 2 ^ 32)
                    (Conflict ''job attempt counter overflow'')) (\<lambda>_.
           bindE (ok_or (Conflict ''job attempt counter exhausted'')
                    (checked_add (word_of_int (j_attempt_count r) :: u32) 1)) (\<lambda>attempt_number.
           if matching (claimable job_id now) (jobs d) \<noteq> 1 then Inr (None, d)
           else
             bindE (commit_worker_claim witness ids job_id attempt_number (j_payload_digest r)
                      (json_to_string E payload) now now_ms d) (\<lambda>d'.
             Inr (Some (id_handoff ids), d'))))))))"

definition claim_handoff_tx ::
  "externals \<Rightarrow> u64 \<Rightarrow> worker_claim_witness \<Rightarrow> u64 \<Rightarrow> handoff_ids \<Rightarrow> db \<Rightarrow> (string option \<times> db) result" where
  "claim_handoff_tx E max_payload witness now_ms ids d =
     bindE (validate_claim_witness E witness) (\<lambda>_.
     bindE (payload_read_limit max_payload) (\<lambda>limit.
     bindE (validate_claim_witness_tx E d witness) (\<lambda>_.
     if list_ex (\<lambda>a. a_status a \<in> {ARunning, AUnknown}) (attempts d) \<or> unresolved_handoff_exists d
     then Inr (None, d)
     else
       bindE (sqlite_timestamp now_ms) (\<lambda>now.
       case ready_worker_job d now of
         None \<Rightarrow> Inr (None, d)
       | Some r \<Rightarrow> claim_worker_job E max_payload witness now_ms now limit ids r d))))"

definition claim_next_worker_handoff ::
  "externals \<Rightarrow> store \<Rightarrow> worker_claim_witness \<Rightarrow> u64 \<Rightarrow> handoff_ids \<Rightarrow> worker_handoff option result \<times> store" where
  "claim_next_worker_handoff E s witness now_ms ids =
     bindS (with_tx s (claim_handoff_tx E (max_payload_bytes s) witness now_ms ids)) (\<lambda>claimed s'.
     case claimed of
       None \<Rightarrow> (Inr None, s')
     | Some handoff_id \<Rightarrow>
         (bindE (get_worker_handoff E s' handoff_id) (\<lambda>found.
          bindE (ok_or (Conflict ''worker handoff disappeared after commit'') found) (\<lambda>handoff.
          Inr (Some handoff))), s'))"

section \<open>Dispatch and admission\<close>

definition mark_dispatched_tx ::
  "externals \<Rightarrow> u64 \<Rightarrow> worker_handoff_tuple \<Rightarrow> u64 \<Rightarrow> db \<Rightarrow> (unit \<times> db) result" where
  "mark_dispatched_tx E max_payload t now_ms d =
     bindE (validate_tuple E t) (\<lambda>_.
     bindE (require_handoff_tx E d t max_payload) (\<lambda>current.
     bindE (ensure_tuple_matches current t) (\<lambda>_.
     bindE (ensure (rh_state current = HPrepared)
              (Conflict ''handoff is already marked; lookup is allowed and redispatch is forbidden'')) (\<lambda>_.
     bindE (validate_handoff_transition_time current now_ms ''dispatch'') (\<lambda>_.
     bindE (validate_dispatch_control_tx E d current) (\<lambda>_.
     bindE (sqlite_timestamp now_ms) (\<lambda>now.
     let row = (\<lambda>h. h_handoff_id h = tu_handoff_id t \<and> h_state h = HPrepared) in
     bindE (ensure (matching row (worker_handoffs d) = 1)
              (Conflict ''worker handoff dispatch marker was changed concurrently'')) (\<lambda>_.
     bindE (insert_audit_tx
              (d\<lparr>worker_handoffs := update_where row
                   (\<lambda>h. h\<lparr>h_state := HMayHaveBeenDispatched, h_dispatched_at_ms := Some now,
                           h_updated_at_ms := now\<rparr>) (worker_handoffs d)\<rparr>)
              ''worker_handoff_may_have_been_dispatched'' (tu_handoff_id t) now_ms) (\<lambda>d'.
     Inr ((), d'))))))))))"

definition mark_worker_handoff_may_have_been_dispatched_at ::
  "externals \<Rightarrow> store \<Rightarrow> worker_handoff_tuple \<Rightarrow> u64 \<Rightarrow> worker_handoff result \<times> store" where
  "mark_worker_handoff_may_have_been_dispatched_at E s t now_ms =
     bindS (with_tx s (mark_dispatched_tx E (max_payload_bytes s) t now_ms)) (\<lambda>_ s'.
     (bindE (get_worker_handoff E s' (tu_handoff_id t))
        (ok_or (Conflict ''worker handoff disappeared after dispatch marker'')), s'))"

text \<open>The value says whether the handoff was admitted already.\<close>

definition mark_admitted_tx ::
  "externals \<Rightarrow> u64 \<Rightarrow> worker_handoff_tuple \<Rightarrow> u64 \<Rightarrow> db \<Rightarrow> (bool \<times> db) result" where
  "mark_admitted_tx E max_payload t now_ms d =
     bindE (validate_tuple E t) (\<lambda>_.
     bindE (require_handoff_tx E d t max_payload) (\<lambda>current.
     bindE (ensure_tuple_matches current t) (\<lambda>_.
     bindE (validate_current_worker_incarnation_tx E d current) (\<lambda>_.
     if rh_state current = HAdmitted then Inr (True, d)
     else
       bindE (ensure (rh_state current = HMayHaveBeenDispatched)
                (Conflict ''handoff is not awaiting worker admission'')) (\<lambda>_.
       bindE (validate_handoff_transition_time current now_ms ''admission'') (\<lambda>_.
       bindE (sqlite_timestamp now_ms) (\<lambda>now.
       let row = (\<lambda>h. h_handoff_id h = tu_handoff_id t \<and> h_state h = HMayHaveBeenDispatched) in
       bindE (ensure (matching row (worker_handoffs d) = 1)
                (Conflict ''worker handoff admission was changed concurrently'')) (\<lambda>_.
       bindE (insert_audit_tx
                (d\<lparr>worker_handoffs := update_where row
                     (\<lambda>h. h\<lparr>h_state := HAdmitted, h_admitted_at_ms := Some now, h_updated_at_ms := now\<rparr>)
                     (worker_handoffs d)\<rparr>)
                ''worker_handoff_admitted'' (tu_handoff_id t) now_ms) (\<lambda>d'.
       Inr (False, d'))))))))))"

definition mark_worker_handoff_admitted_at ::
  "externals \<Rightarrow> store \<Rightarrow> worker_handoff_tuple \<Rightarrow> u64 \<Rightarrow> worker_handoff result \<times> store" where
  "mark_worker_handoff_admitted_at E s t now_ms =
     bindS (with_tx s (mark_admitted_tx E (max_payload_bytes s) t now_ms)) (\<lambda>already s'.
     (bindE (get_worker_handoff E s' (tu_handoff_id t))
        (ok_or (Conflict (if already then ''worker handoff disappeared''
                          else ''worker handoff disappeared after admission''))), s'))"


section \<open>Terminal completion\<close>

text \<open>\<^verbatim>\<open>TerminalAuthority\<close> and \<^verbatim>\<open>AcknowledgmentAuthority\<close> have the same two alternatives.\<close>

datatype worker_authority =
    OriginalIncarnation
  | CurrentRecovery worker_control_witness

definition validate_terminal_receipt :: "worker_terminal_receipt \<Rightarrow> unit result" where
  "validate_terminal_receipt receipt =
     bindE (validate_name (tr_terminal_ref receipt) ''terminal reference'' MAX_TERMINAL_REF_BYTES) (\<lambda>_.
     bindE (validate_digest_value (tr_result_digest receipt) ''result digest'') (\<lambda>_.
     ensure (\<not> MAX_WORKER_WIRE_INTEGER < tr_checkpoint_sequence receipt)
       (InvalidInput ''worker checkpoint sequence exceeds the wire integer bound'')))"

fun terminal_state :: "worker_terminal_status \<Rightarrow> worker_handoff_state" where
  "terminal_state TCompleted = HCompleted"
| "terminal_state TFailed = HFailed"

fun terminal_outcome :: "worker_terminal_status \<Rightarrow> string" where
  "terminal_outcome TCompleted = ''worker_completed''"
| "terminal_outcome TFailed = ''worker_failed''"

fun terminal_attempt :: "worker_terminal_status \<Rightarrow> attempt_status" where
  "terminal_attempt TCompleted = ACompleted"
| "terminal_attempt TFailed = AFailed"

definition settled_attempt :: "worker_terminal_receipt \<Rightarrow> i64 \<Rightarrow> attempt_row \<Rightarrow> attempt_row" where
  "settled_attempt receipt now a =
     a\<lparr>a_status := terminal_attempt (tr_status receipt), a_finished_at_ms := Some now,
       a_outcome := Some (terminal_outcome (tr_status receipt))\<rparr>"

text \<open>The two \<^verbatim>\<open>UPDATE jobs\<close> statements, one per status.\<close>

fun terminal_job :: "worker_terminal_receipt \<Rightarrow> string \<Rightarrow> string \<Rightarrow> i64 \<Rightarrow> job_row \<Rightarrow> job_row" where
  "terminal_job receipt result_text digest now r =
     (case tr_status receipt of
        TCompleted \<Rightarrow> r\<lparr>j_status := JCompleted, j_completed_at_ms := Some now, j_result := Some result_text,
                       j_completion_digest := Some digest, j_last_error := None\<rparr>
      | TFailed \<Rightarrow> r\<lparr>j_status := JFailed, j_result := Some result_text, j_completion_digest := Some digest,
                    j_last_error := Some (tr_terminal_ref receipt), j_worker_id := None\<rparr>)"

definition terminal_handoff ::
  "worker_terminal_receipt \<Rightarrow> string \<Rightarrow> string \<Rightarrow> i64 \<Rightarrow> i64 \<Rightarrow> handoff_row \<Rightarrow> handoff_row" where
  "terminal_handoff receipt result_text digest checkpoint now h =
     h\<lparr>h_state := terminal_state (tr_status receipt), h_terminal_status := Some (tr_status receipt),
       h_checkpoint_sequence := Some checkpoint, h_terminal_ref := Some (tr_terminal_ref receipt),
       h_result_digest := Some (tr_result_digest receipt), h_terminal_digest := Some digest,
       h_terminal_result := Some result_text, h_ack_intent := 1, h_terminal_at_ms := Some now,
       h_updated_at_ms := now\<rparr>"

definition commit_terminal ::
  "worker_handoff_tuple \<Rightarrow> worker_terminal_receipt \<Rightarrow> string \<Rightarrow> string \<Rightarrow> string \<Rightarrow> u64 \<Rightarrow> db \<Rightarrow> db result" where
  "commit_terminal t receipt result_text result_digest digest now_ms d =
     bindE (ok_or (NotFound (''job '' @ tu_job_id t)) (find (\<lambda>r. j_id r = tu_job_id t) (jobs d))) (\<lambda>job.
     bindE (ok_or (NotFound (''attempt '' @ tu_attempt_id t))
              (find (\<lambda>a. a_id a = tu_attempt_id t \<and> a_job_id a = tu_job_id t) (attempts d))) (\<lambda>attempt.
     bindE (ensure ((j_status job, a_status attempt) \<in> {(JRunning, ARunning), (JQuarantined, AUnknown)})
              (Conflict (''job/attempt history is not terminally admissible: job='' @ job_status_as_str (j_status job)
                         @ '', attempt='' @ attempt_status_as_str (a_status attempt)))) (\<lambda>_.
     bindE (sqlite_timestamp now_ms) (\<lambda>now.
     let att = (\<lambda>a. a_id a = tu_attempt_id t \<and> a_job_id a = tu_job_id t \<and> a_status a = a_status attempt) in
     bindE (ensure (matching att (attempts d) = 1)
              (Conflict ''worker attempt changed concurrently during completion'')) (\<lambda>_.
     let d1 = d\<lparr>attempts := update_where att (settled_attempt receipt now) (attempts d)\<rparr>;
         row = (\<lambda>r. j_id r = tu_job_id t \<and> j_status r = j_status job) in
     bindE (ensure (matching row (jobs d1) = 1)
              (Conflict ''worker job changed concurrently during completion'')) (\<lambda>_.
     let d2 = d1\<lparr>jobs := update_where row (terminal_job receipt result_text result_digest now) (jobs d1)\<rparr>;
         hand = (\<lambda>h. h_handoff_id h = tu_handoff_id t \<and> h_state h \<in> {HMayHaveBeenDispatched, HAdmitted}) in
     bindE (sqlite_timestamp (tr_checkpoint_sequence receipt)) (\<lambda>checkpoint.
     bindE (ensure (matching hand (worker_handoffs d2) = 1)
              (Conflict ''worker handoff changed concurrently during completion'')) (\<lambda>_.
     insert_audit_tx
       (d2\<lparr>worker_handoffs := update_where hand
             (terminal_handoff receipt result_text digest checkpoint now) (worker_handoffs d2)\<rparr>)
       ''worker_handoff_terminal_committed''
       (tu_handoff_id t @ '':'' @ worker_terminal_status_as_str (tr_status receipt)) now_ms))))))))"

definition complete_handoff_tx ::
  "externals \<Rightarrow> u64 \<Rightarrow> worker_handoff_tuple \<Rightarrow> worker_terminal_receipt \<Rightarrow> worker_authority \<Rightarrow> u64 \<Rightarrow> db
   \<Rightarrow> (bool \<times> db) result" where
  "complete_handoff_tx E max_payload t receipt authority now_ms d =
     bindE (validate_tuple E t) (\<lambda>_.
     bindE (validate_terminal_receipt receipt) (\<lambda>_.
     bindE (compact_terminal_result E receipt) (\<lambda>(result_text, result_digest).
     bindE (require_handoff_tx E d t max_payload) (\<lambda>current.
     bindE (ensure_tuple_matches current t) (\<lambda>_.
     bindE (case authority of
              OriginalIncarnation \<Rightarrow> Inr ()
            | CurrentRecovery recovery \<Rightarrow> validate_current_worker_recovery_tx E d current recovery) (\<lambda>_.
     let digest = terminal_digest E t receipt in
     if handoff_is_terminal (rh_state current) then
       bindE (ok_or (Conflict ''terminal handoff is missing its receipt'') (rh_terminal current)) (\<lambda>existing.
       bindE (ensure (te_terminal_digest existing = digest \<and> tr_result_digest existing = tr_result_digest receipt)
                (Conflict ''handoff already has a different terminal receipt'')) (\<lambda>_.
       Inr (True, d)))
     else
       bindE (case authority of
                OriginalIncarnation \<Rightarrow> validate_current_worker_incarnation_tx E d current
              | CurrentRecovery _ \<Rightarrow> Inr ()) (\<lambda>_.
       bindE (ensure (rh_state current \<in> {HMayHaveBeenDispatched, HAdmitted})
                (Conflict ''handoff was never authorized for worker execution'')) (\<lambda>_.
       bindE (validate_handoff_transition_time current now_ms ''terminal'') (\<lambda>_.
       bindE (commit_terminal t receipt result_text result_digest digest now_ms d) (\<lambda>d'.
       Inr (False, d')))))))))))"

record worker_completion =
  wcp_handoff :: worker_handoff
  wcp_terminal_digest :: string
  wcp_already_completed :: bool

definition complete_worker_handoff_with_authority_at ::
  "externals \<Rightarrow> store \<Rightarrow> worker_handoff_tuple \<Rightarrow> worker_terminal_receipt \<Rightarrow> worker_authority \<Rightarrow> u64
   \<Rightarrow> worker_completion result \<times> store" where
  "complete_worker_handoff_with_authority_at E s t receipt authority now_ms =
     bindS (with_tx s (complete_handoff_tx E (max_payload_bytes s) t receipt authority now_ms)) (\<lambda>already s'.
     (bindE (get_worker_handoff E s' (tu_handoff_id t)) (\<lambda>found.
      bindE (ok_or (Conflict (if already then ''worker handoff disappeared''
                              else ''worker handoff disappeared after completion'')) found) (\<lambda>handoff.
      Inr \<lparr>wcp_handoff = handoff, wcp_terminal_digest = terminal_digest E t receipt,
           wcp_already_completed = already\<rparr>)), s'))"

definition complete_worker_handoff_at ::
  "externals \<Rightarrow> store \<Rightarrow> worker_handoff_tuple \<Rightarrow> worker_terminal_receipt \<Rightarrow> u64 \<Rightarrow> worker_completion result \<times> store" where
  "complete_worker_handoff_at E s t receipt now_ms =
     complete_worker_handoff_with_authority_at E s t receipt OriginalIncarnation now_ms"

definition complete_worker_handoff_with_recovery_at ::
  "externals \<Rightarrow> store \<Rightarrow> worker_handoff_tuple \<Rightarrow> worker_terminal_receipt \<Rightarrow> worker_control_witness \<Rightarrow> u64
   \<Rightarrow> worker_completion result \<times> store" where
  "complete_worker_handoff_with_recovery_at E s t receipt recovery now_ms =
     complete_worker_handoff_with_authority_at E s t receipt (CurrentRecovery recovery) now_ms"


section \<open>Acknowledgment\<close>

record worker_acknowledgment =
  wak_handoff_id :: string
  wak_terminal_digest :: string
  wak_already_acknowledged :: bool

definition current_ack_intent :: "db \<Rightarrow> string \<Rightarrow> bool result" where
  "current_ack_intent d handoff_id =
     bindE (ok_or (Sqlite QueryReturnedNoRows) (find (\<lambda>h. h_handoff_id h = handoff_id) (worker_handoffs d))) (\<lambda>h.
     if h_ack_intent h = 0 then Inr False else if h_ack_intent h = 1 then Inr True
     else Inl (Conflict ''worker handoff acknowledgment marker is invalid''))"

definition acknowledge_tx ::
  "externals \<Rightarrow> u64 \<Rightarrow> worker_handoff_tuple \<Rightarrow> string \<Rightarrow> worker_authority \<Rightarrow> u64 \<Rightarrow> db
   \<Rightarrow> (worker_acknowledgment \<times> db) result" where
  "acknowledge_tx E max_payload t digest authority now_ms d =
     bindE (validate_tuple E t) (\<lambda>_.
     bindE (validate_digest_value digest ''terminal digest'') (\<lambda>_.
     bindE (require_handoff_tx E d t max_payload) (\<lambda>current.
     bindE (ensure_tuple_matches current t) (\<lambda>_.
     bindE (ok_or (Conflict ''handoff has no terminal acknowledgment intent'') (rh_terminal current)) (\<lambda>receipt.
     bindE (ensure (te_terminal_digest receipt = digest)
              (Conflict ''terminal acknowledgment digest does not match durable receipt'')) (\<lambda>_.
     bindE (case authority of
              OriginalIncarnation \<Rightarrow> Inr ()
            | CurrentRecovery recovery \<Rightarrow> validate_current_worker_recovery_tx E d current recovery) (\<lambda>_.
     if rh_state current = HAcknowledged then
       Inr (\<lparr>wak_handoff_id = tu_handoff_id t, wak_terminal_digest = digest, wak_already_acknowledged = True\<rparr>, d)
     else
       bindE (if rh_state current \<in> {HCompleted, HFailed} then current_ack_intent d (tu_handoff_id t)
              else Inr False) (\<lambda>awaiting.
       bindE (ensure awaiting (Conflict ''handoff is not awaiting terminal acknowledgment'')) (\<lambda>_.
       bindE (case authority of
                OriginalIncarnation \<Rightarrow> validate_current_worker_incarnation_tx E d current
              | CurrentRecovery _ \<Rightarrow> Inr ()) (\<lambda>_.
       bindE (validate_handoff_transition_time current now_ms ''acknowledgment'') (\<lambda>_.
       bindE (sqlite_timestamp now_ms) (\<lambda>now.
       let row = (\<lambda>h. h_handoff_id h = tu_handoff_id t \<and> h_state h \<in> {HCompleted, HFailed} \<and> h_ack_intent h = 1) in
       bindE (ensure (matching row (worker_handoffs d) = 1)
                (Conflict ''worker acknowledgment was changed concurrently'')) (\<lambda>_.
       bindE (insert_audit_tx
                (d\<lparr>worker_handoffs := update_where row
                     (\<lambda>h. h\<lparr>h_state := HAcknowledged, h_acknowledged_at_ms := Some now, h_updated_at_ms := now\<rparr>)
                     (worker_handoffs d)\<rparr>)
                ''worker_handoff_acknowledged'' (tu_handoff_id t) now_ms) (\<lambda>d'.
       Inr (\<lparr>wak_handoff_id = tu_handoff_id t, wak_terminal_digest = digest,
             wak_already_acknowledged = False\<rparr>, d')))))))))))))))"

definition acknowledge_worker_handoff_with_authority_at ::
  "externals \<Rightarrow> store \<Rightarrow> worker_handoff_tuple \<Rightarrow> string \<Rightarrow> worker_authority \<Rightarrow> u64
   \<Rightarrow> worker_acknowledgment result \<times> store" where
  "acknowledge_worker_handoff_with_authority_at E s t digest authority now_ms =
     with_tx s (acknowledge_tx E (max_payload_bytes s) t digest authority now_ms)"

definition acknowledge_worker_handoff_at ::
  "externals \<Rightarrow> store \<Rightarrow> worker_handoff_tuple \<Rightarrow> string \<Rightarrow> u64 \<Rightarrow> worker_acknowledgment result \<times> store" where
  "acknowledge_worker_handoff_at E s t digest now_ms =
     acknowledge_worker_handoff_with_authority_at E s t digest OriginalIncarnation now_ms"

definition acknowledge_worker_handoff_with_recovery_at ::
  "externals \<Rightarrow> store \<Rightarrow> worker_handoff_tuple \<Rightarrow> string \<Rightarrow> worker_control_witness \<Rightarrow> u64
   \<Rightarrow> worker_acknowledgment result \<times> store" where
  "acknowledge_worker_handoff_with_recovery_at E s t digest recovery now_ms =
     acknowledge_worker_handoff_with_authority_at E s t digest (CurrentRecovery recovery) now_ms"

section \<open>Contract\<close>

lemma ready_worker_job_Some:
  assumes "ready_worker_job d now = Some r"
  shows "r \<in> set (jobs d)" "j_status r = JQueued" "j_kind r = WORKER_HANDOFF_OPERATION"
    "j_payload_digest r = WORKER_HANDOFF_PAYLOAD_DIGEST" "\<exists>t. j_next_retry_at_ms r = Some t \<and> t \<le> now"
  using select_first_Some [OF assms [unfolded ready_worker_job_def]] by (auto split: option.splits)

lemma matching_keyed:
  assumes "matching (\<lambda>x. k x = k r \<and> p x) t = 1" and "distinct (map k t)" and "r \<in> set t"
  shows "p r"
proof -
  have "\<not> (\<forall>x \<in> set t. \<not> (k x = k r \<and> p x))" using assms(1) matching_0 [of "\<lambda>x. k x = k r \<and> p x" t] by simp
  then show ?thesis using key_unique [OF assms(2)] assms(3) by blast
qed

lemma insert_handoff_row_Inr [result_simps]:
  "insert_handoff_row h d = Inr d' \<longleftrightarrow>
     0 < h_attempt_number h \<and> 0 < h_mode_sequence h \<and> h_operation h = WORKER_HANDOFF_OPERATION
     \<and> (\<exists>r \<in> set (jobs d). j_id r = h_job_id h) \<and> (\<exists>a \<in> set (attempts d). a_id a = h_attempt_id h)
     \<and> (\<forall>x \<in> set (worker_handoffs d). \<not> handoff_clash h x)
     \<and> d' = d\<lparr>worker_handoffs := worker_handoffs d @ [h]\<rparr>"
  by (auto simp: insert_handoff_row_def result_simps list_ex_iff)


lemma commit_worker_claim_Inr:
  assumes "matching (claimable (j_id r) now) (jobs d) = 1" and r: "r \<in> set (jobs d)" "distinct (map j_id (jobs d))"
  shows "commit_worker_claim witness ids (j_id r) n digest parameters now now_ms d = Inr d' \<longleftrightarrow>
     0 < uint n \<and> (\<forall>x \<in> set (attempts d). id_attempt ids \<noteq> a_id x \<and> \<not> (j_id r = a_job_id x \<and> uint n = a_sequence x))
     \<and> uint (cw_mode_sequence witness) \<le> i64_max \<and> 0 < uint (cw_mode_sequence witness)
     \<and> (\<forall>x \<in> set (worker_handoffs d). \<not> handoff_clash (prepared_handoff witness ids (j_id r) n digest
          (uint (cw_mode_sequence witness)) parameters now) x)
     \<and> insert_audit_tx
         (d\<lparr>jobs := update_where (\<lambda>x. j_id x = j_id r) (\<lambda>_. claimed_job witness n now r) (jobs d),
            attempts := attempts d @ [running_attempt (id_attempt ids) (j_id r) n (cw_worker_owner_id witness) now],
            worker_handoffs := worker_handoffs d @ [prepared_handoff witness ids (j_id r) n digest
              (uint (cw_mode_sequence witness)) parameters now]\<rparr>)
         ''worker_handoff_prepared'' (j_id r @ '':'' @ id_attempt ids @ '':'' @ id_handoff ids) now_ms = Inr d'"
proof -
  let ?p = "\<lambda>x. j_status x = JQueued \<and> j_created_at_ms x \<le> now
    \<and> (case j_next_retry_at_ms x of None \<Rightarrow> False | Some t \<Rightarrow> t \<le> now)"
  have c: "claimable (j_id r) now = (\<lambda>x. j_id x = j_id r \<and> ?p x)" by (simp add: claimable_def fun_eq_iff)
  have "?p r" using matching_keyed [OF assms(1) [unfolded c] r(2,1)] .
  then have upd: "update_where (claimable (j_id r) now) (claimed_job witness n now) (jobs d)
      = update_where (\<lambda>x. j_id x = j_id r) (\<lambda>_. claimed_job witness n now r) (jobs d)"
    unfolding c using replace_keyed [of j_id "jobs d" r ?p] r by simp
  have job: "\<exists>x \<in> set (update_where (\<lambda>x. j_id x = j_id r) (\<lambda>_. claimed_job witness n now r) (jobs d)). j_id x = j_id r"
    by (rule bexI [of _ "claimed_job witness n now r"])
       (use replace_row [OF r(2,1), of "claimed_job witness n now r"] in \<open>simp_all add: claimed_job_def\<close>)
  then show ?thesis
    unfolding commit_worker_claim_def upd
    by (auto simp: bindE_Inr insert_attempt_row_Inr insert_handoff_row_Inr sqlite_timestamp_def prepared_handoff_def split: if_splits)
qed

lemma claim_worker_job_cases:
  assumes run: "claim_worker_job E bound witness now_ms now limit ids r d = Inr (claimed, d')"
    and r: "r \<in> set (jobs d)" "distinct (map j_id (jobs d))"
  obtains
    (none) "claimed = None" "d' = d"
  | (claimed) n where "claimed = Some (id_handoff ids)" "uint n = j_attempt_count r + 1"
      "claimable (j_id r) now r" "0 \<le> j_created_at_ms r" "validate_name (j_id r) ''job id'' 128 = Inr ()"
      "validate_claim_payload E (substr_chars (nat limit) (j_payload r)) (j_payload_digest r) (unat bound)
         = Inr empty_parameters"
      "\<forall>x \<in> set (attempts d). id_attempt ids \<noteq> a_id x" "uint (cw_mode_sequence witness) \<le> i64_max"
      "0 < uint (cw_mode_sequence witness)"
      "\<forall>x \<in> set (worker_handoffs d). \<not> handoff_clash (prepared_handoff witness ids (j_id r) n (j_payload_digest r)
          (uint (cw_mode_sequence witness)) (json_to_string E empty_parameters) now) x"
      "insert_audit_tx
         (d\<lparr>jobs := update_where (\<lambda>x. j_id x = j_id r) (\<lambda>_. claimed_job witness n now r) (jobs d),
            attempts := attempts d @ [running_attempt (id_attempt ids) (j_id r) n (cw_worker_owner_id witness) now],
            worker_handoffs := worker_handoffs d @ [prepared_handoff witness ids (j_id r) n (j_payload_digest r)
              (uint (cw_mode_sequence witness)) (json_to_string E empty_parameters) now]\<rparr>)
         ''worker_handoff_prepared'' (j_id r @ '':'' @ id_attempt ids @ '':'' @ id_handoff ids) now_ms = Inr d'"
proof (cases claimed)
  case None
  then have "d' = d" using run
    by (auto simp: claim_worker_job_def bindE_Inr split: if_splits)
  then show thesis using none None by simp
next
  case (Some x)
  have "\<exists>n. validate_name (j_id r) ''job id'' 128 = Inr ()
      \<and> validate_claim_payload E (substr_chars (nat limit) (j_payload r)) (j_payload_digest r) (unat bound)
         = Inr empty_parameters \<and> 0 \<le> j_created_at_ms r \<and> 0 \<le> j_attempt_count r \<and> j_attempt_count r < 2 ^ 32
      \<and> checked_add (word_of_int (j_attempt_count r)) 1 = Some n \<and> claimed = Some (id_handoff ids)
      \<and> matching (claimable (j_id r) now) (jobs d) = 1
      \<and> commit_worker_claim witness ids (j_id r) n (j_payload_digest r) (json_to_string E empty_parameters) now now_ms d = Inr d'"
    using run Some
    by (auto simp: claim_worker_job_def bindE_Inr ok_or_Inr ensure_Inr bounded_text_def split: if_splits)
  then obtain n where f: "validate_name (j_id r) ''job id'' 128 = Inr ()"
      "validate_claim_payload E (substr_chars (nat limit) (j_payload r)) (j_payload_digest r) (unat bound) = Inr empty_parameters"
      "0 \<le> j_created_at_ms r" "0 \<le> j_attempt_count r" "j_attempt_count r < 2 ^ 32"
      "checked_add (word_of_int (j_attempt_count r)) 1 = Some n" "claimed = Some (id_handoff ids)"
      and m: "matching (claimable (j_id r) now) (jobs d) = 1"
      and c: "commit_worker_claim witness ids (j_id r) n (j_payload_digest r) (json_to_string E empty_parameters) now now_ms d = Inr d'"
    by blast
  have "claimable (j_id r) now = (\<lambda>x. j_id x = j_id r \<and> claimable (j_id r) now x)"
    by (auto simp: claimable_def fun_eq_iff)
  with m have "matching (\<lambda>x. j_id x = j_id r \<and> claimable (j_id r) now x) (jobs d) = 1" by metis
  from matching_keyed [OF this r(2,1)] have "claimable (j_id r) now r" .
  then show thesis
    using claimed [of n] f uint_next_attempt [OF f(6,4,5)] c [unfolded commit_worker_claim_Inr [OF m r]] by blast
qed

lemma claim_handoff_tx_cases:
  assumes "claim_handoff_tx E bound witness now_ms ids d = Inr (claimed, d')"
  obtains
    (none) "claimed = None" "d' = d"
  | (tried) r limit where "validate_claim_witness E witness = Inr ()" "validate_claim_witness_tx E d witness = Inr ()"
      "\<forall>a \<in> set (attempts d). \<not> unresolved a" "\<forall>h \<in> set (worker_handoffs d). \<not> open_handoff h"
      "uint now_ms \<le> i64_max" "ready_worker_job d (uint now_ms) = Some r" "payload_read_limit bound = Inr limit"
      "claim_worker_job E bound witness now_ms (uint now_ms) limit ids r d = Inr (claimed, d')"
  using assms
  by (auto simp: claim_handoff_tx_def bindE_Inr sqlite_timestamp_def list_ex_iff unresolved_def open_handoff_def
      unresolved_handoff_exists_def split: if_splits option.splits)

lemma prepared_handoff_simps [simp]:
  "h_state (prepared_handoff witness ids job_id n digest sq parameters now) = HPrepared"
  "h_handoff_id (prepared_handoff witness ids job_id n digest sq parameters now) = id_handoff ids"
  "h_job_id (prepared_handoff witness ids job_id n digest sq parameters now) = job_id"
  "h_attempt_id (prepared_handoff witness ids job_id n digest sq parameters now) = id_attempt ids"
  "handoff_columns (prepared_handoff witness ids job_id n digest sq parameters now)"
  by (simp_all add: prepared_handoff_def handoff_columns_def handoff_is_terminal_def)

lemma claim_handoff_tx_keeps:
  assumes run: "claim_handoff_tx E bound witness now_ms ids d = Inr (claimed, d')"
    and inv: "queue_inv E (queue_of d)"
  shows "(queue_step E)\<^sup>*\<^sup>* (queue_of d) (queue_of d') \<and> handoff_step\<^sup>*\<^sup>* (worker_handoffs d) (worker_handoffs d')"
  using run
proof (cases rule: claim_handoff_tx_cases)
  case none
  then show ?thesis by simp
next
  case (tried r limit)
  note r = ready_worker_job_Some [OF tried(6)]
  from tried(8) r(1) queue_inv_distinct(1) [OF inv] show ?thesis
  proof (cases rule: claim_worker_job_cases)
    case none
    then show ?thesis by simp
  next
    case (claimed n)
    have hs: "worker_handoffs d' = worker_handoffs d @ [prepared_handoff witness ids (j_id r) n (j_payload_digest r)
              (uint (cw_mode_sequence witness)) (json_to_string E empty_parameters) (uint now_ms)]"
      and q: "queue_of d' = (update_where (\<lambda>x. j_id x = j_id r) (\<lambda>_. claimed_job witness n (uint now_ms) r) (jobs d),
        attempts d @ [running_attempt (id_attempt ids) (j_id r) n (cw_worker_owner_id witness) (uint now_ms)])"
      using claimed(11) by (auto simp: insert_audit_tx_Inr queue_of_def)
    have "queue_step E (queue_of d) (queue_of d')"
      unfolding q
      unfolding queue_of_def
      by (rule queue_step.claim [OF r(1,2)])
         (use tried(3) claimed(2,7) in \<open>auto simp: same_job_def claimed_job_def\<close>)
    moreover have "handoff_step (worker_handoffs d) (worker_handoffs d')"
      unfolding hs by (rule handoff_step.prepare) (use tried(4) claimed(10) in auto)
    ultimately show ?thesis by blast
  qed
qed

lemma claim_handoff_tx_audit:
  assumes "claim_handoff_tx E bound witness now_ms ids d = Inr (claimed, d')"
  shows "audit_ok d d'"
  using assms
  by (auto simp: claim_handoff_tx_def claim_worker_job_def commit_worker_claim_def bindE_Inr insert_attempt_row_Inr
      insert_handoff_row_Inr dest!: insert_audit_tx_after [of _ _ _ _ _ d] split: if_splits option.splits)


interpretation claim_handoff: handoff_operation "\<lambda>s. claim_next_worker_handoff E s witness now_ms ids" E
  for E witness now_ms ids
  unfolding claim_next_worker_handoff_def
  by (rule handoff_bindS, rule handoff_tx)
     (auto dest: claim_handoff_tx_audit claim_handoff_tx_keeps split: option.splits)

section \<open>Advancing a handoff\<close>

lemma advance_where:
  assumes "handoffs_inv hs" and r: "r \<in> set hs" "p r" and "(h_state r, h_state (f r)) \<in> handoff_edges"
    and "same_handoff r (f r)" "handoff_columns (f r)" "handoff_is_terminal (h_state r) \<longrightarrow> same_evidence r (f r)"
  shows "handoff_step hs (update_where (\<lambda>x. h_handoff_id x = h_handoff_id r \<and> p x) f hs)"
proof -
  have "distinct (map h_handoff_id hs)" using assms(1) by (simp add: handoffs_inv_def)
  then show ?thesis
    using replace_keyed [of h_handoff_id hs r p f] r handoff_step.advance [OF r(1), of "f r"] assms by simp
qed

lemma found_handoff:
  "find (\<lambda>h. h_handoff_id h = i) hs = Some r \<Longrightarrow> r \<in> set hs \<and> h_handoff_id r = i"
  by (auto dest: find_SomeD)

lemma mark_dispatched_tx_cases:
  assumes "mark_dispatched_tx E bound t now_ms d = Inr (u, d')"
  obtains r raw job where "find (\<lambda>h. h_handoff_id h = tu_handoff_id t) (worker_handoffs d) = Some r"
    "raw_handoff_from_row E r = Inr raw" "handoff_agrees E d bound raw job" "worker_handoff_tuple.truncate raw = t"
    "h_state r = HPrepared" "validate_dispatch_control_tx E d raw = Inr ()"
    "insert_audit_tx (d\<lparr>worker_handoffs := update_where (\<lambda>h. h_handoff_id h = tu_handoff_id t \<and> h_state h = HPrepared)
        (\<lambda>h. h\<lparr>h_state := HMayHaveBeenDispatched, h_dispatched_at_ms := Some (uint now_ms),
                h_updated_at_ms := uint now_ms\<rparr>) (worker_handoffs d)\<rparr>)
      ''worker_handoff_may_have_been_dispatched'' (tu_handoff_id t) now_ms = Inr d'"
  using assms raw_handoff_fields
  by (auto simp: mark_dispatched_tx_def bindE_Inr ensure_Inr require_handoff_tx_Inr ensure_tuple_matches_Inr
      sqlite_timestamp_def Let_def split: if_splits)

lemma mark_dispatched_tx_keeps:
  assumes run: "mark_dispatched_tx E bound t now_ms d = Inr (u, d')"
  shows "audit_ok d d' \<and> queue_of d' = queue_of d
    \<and> (handoffs_inv (worker_handoffs d) \<longrightarrow> handoff_step\<^sup>*\<^sup>* (worker_handoffs d) (worker_handoffs d'))"
  using run
proof (cases rule: mark_dispatched_tx_cases)
  case (1 r raw job)
  note r = found_handoff [OF 1(1)]
  let ?f = "\<lambda>h. h\<lparr>h_state := HMayHaveBeenDispatched, h_dispatched_at_ms := Some (uint now_ms), h_updated_at_ms := uint now_ms\<rparr>"
  have "handoff_step (worker_handoffs d)
      (update_where (\<lambda>h. h_handoff_id h = h_handoff_id r \<and> h_state h = HPrepared) ?f (worker_handoffs d))"
    if inv: "handoffs_inv (worker_handoffs d)"
  proof (rule advance_where [OF inv, where f = ?f])
    have "handoff_columns r" using inv r by (simp add: handoffs_inv_def)
    then show "handoff_columns (?f r)" using 1(5) by (simp add: handoff_columns_def handoff_is_terminal_def)
  qed (use r 1(5) in \<open>auto simp: handoff_edges_def same_handoff_def handoff_is_terminal_def\<close>)
  then show ?thesis
    using 1(7) r insert_audit_tx_after [OF 1(7), of d] by (auto simp: insert_audit_tx_Inr)
qed

interpretation mark_dispatched: handoff_operation "\<lambda>s. mark_worker_handoff_may_have_been_dispatched_at E s t now_ms" E
  for E t now_ms
  unfolding mark_worker_handoff_may_have_been_dispatched_at_def
  by (rule handoff_bindS, rule handoff_tx) (auto dest: mark_dispatched_tx_keeps)

lemma mark_admitted_tx_cases:
  assumes "mark_admitted_tx E bound t now_ms d = Inr (already, d')"
  obtains
    (already) r where "find (\<lambda>h. h_handoff_id h = tu_handoff_id t) (worker_handoffs d) = Some r"
      "h_state r = HAdmitted" "already" "d' = d"
  | (admitted) r raw where "find (\<lambda>h. h_handoff_id h = tu_handoff_id t) (worker_handoffs d) = Some r"
      "raw_handoff_from_row E r = Inr raw" "worker_handoff_tuple.truncate raw = t" "\<not> already"
      "h_state r = HMayHaveBeenDispatched" "validate_current_worker_incarnation_tx E d raw = Inr ()"
      "insert_audit_tx (d\<lparr>worker_handoffs := update_where (\<lambda>h. h_handoff_id h = tu_handoff_id t \<and> h_state h = HMayHaveBeenDispatched)
        (\<lambda>h. h\<lparr>h_state := HAdmitted, h_admitted_at_ms := Some (uint now_ms), h_updated_at_ms := uint now_ms\<rparr>)
        (worker_handoffs d)\<rparr>) ''worker_handoff_admitted'' (tu_handoff_id t) now_ms = Inr d'"
proof -
  obtain raw where g: "validate_tuple E t = Inr ()" "require_handoff_tx E d t bound = Inr raw"
    "ensure_tuple_matches raw t = Inr ()" "validate_current_worker_incarnation_tx E d raw = Inr ()"
    using assms unfolding mark_admitted_tx_def by - (elim bindE_InrE, auto)
  from g(2) obtain r where r: "find (\<lambda>h. h_handoff_id h = tu_handoff_id t) (worker_handoffs d) = Some r"
    "raw_handoff_from_row E r = Inr raw"
    by (auto simp: require_handoff_tx_Inr)
  have st: "rh_state raw = h_state r" using raw_handoff_fields [OF r(2)] by simp
  show thesis
  proof (cases "h_state r = HAdmitted")
    case True
    then have "already \<and> d' = d" using assms g st by (simp add: mark_admitted_tx_def)
    then show thesis using already [OF r(1) True] by simp
  next
    case False
    then show thesis
      using assms g st admitted [OF r] by (auto simp: mark_admitted_tx_def bindE_Inr ensure_Inr ensure_tuple_matches_Inr
        sqlite_timestamp_def Let_def split: if_splits)
  qed
qed

lemma mark_admitted_tx_keeps:
  assumes run: "mark_admitted_tx E bound t now_ms d = Inr (already, d')"
  shows "audit_ok d d' \<and> queue_of d' = queue_of d
    \<and> (handoffs_inv (worker_handoffs d) \<longrightarrow> handoff_step\<^sup>*\<^sup>* (worker_handoffs d) (worker_handoffs d'))"
  using run
proof (cases rule: mark_admitted_tx_cases)
  case already
  then show ?thesis by simp
next
  case (admitted r raw)
  note r = found_handoff [OF admitted(1)]
  let ?f = "\<lambda>h. h\<lparr>h_state := HAdmitted, h_admitted_at_ms := Some (uint now_ms), h_updated_at_ms := uint now_ms\<rparr>"
  have "handoff_step (worker_handoffs d)
      (update_where (\<lambda>h. h_handoff_id h = h_handoff_id r \<and> h_state h = HMayHaveBeenDispatched) ?f (worker_handoffs d))"
    if inv: "handoffs_inv (worker_handoffs d)"
  proof (rule advance_where [OF inv, where f = ?f])
    have "handoff_columns r" using inv r by (simp add: handoffs_inv_def)
    then show "handoff_columns (?f r)" using admitted(5) by (simp add: handoff_columns_def handoff_is_terminal_def)
  qed (use r admitted(5) in \<open>auto simp: handoff_edges_def same_handoff_def handoff_is_terminal_def\<close>)
  then show ?thesis
    using admitted(7) r insert_audit_tx_after [OF admitted(7), of d] by (auto simp: insert_audit_tx_Inr)
qed

interpretation mark_admitted: handoff_operation "\<lambda>s. mark_worker_handoff_admitted_at E s t now_ms" E
  for E t now_ms
  unfolding mark_worker_handoff_admitted_at_def
  by (rule handoff_bindS, rule handoff_tx) (auto dest: mark_admitted_tx_keeps)

lemma commit_terminal_cases:
  assumes "commit_terminal t receipt result_text result_digest digest now_ms d = Inr d'"
  obtains job attempt where "find (\<lambda>r. j_id r = tu_job_id t) (jobs d) = Some job"
    "find (\<lambda>a. a_id a = tu_attempt_id t \<and> a_job_id a = tu_job_id t) (attempts d) = Some attempt"
    "(j_status job, a_status attempt) \<in> {(JRunning, ARunning), (JQuarantined, AUnknown)}"
    "uint now_ms \<le> i64_max"
    "insert_audit_tx
       (d\<lparr>attempts := update_where (\<lambda>a. a_id a = tu_attempt_id t \<and> a_job_id a = tu_job_id t \<and> a_status a = a_status attempt)
            (settled_attempt receipt (uint now_ms)) (attempts d),
          jobs := update_where (\<lambda>r. j_id r = tu_job_id t \<and> j_status r = j_status job)
            (terminal_job receipt result_text result_digest (uint now_ms)) (jobs d),
          worker_handoffs := update_where (\<lambda>h. h_handoff_id h = tu_handoff_id t \<and> h_state h \<in> {HMayHaveBeenDispatched, HAdmitted})
            (terminal_handoff receipt result_text digest (uint (tr_checkpoint_sequence receipt)) (uint now_ms)) (worker_handoffs d)\<rparr>)
       ''worker_handoff_terminal_committed''
       (tu_handoff_id t @ '':'' @ worker_terminal_status_as_str (tr_status receipt)) now_ms = Inr d'"
  using assms that unfolding commit_terminal_def Let_def
  by - (elim bindE_InrE, simp add: ok_or_Inr ensure_Inr sqlite_timestamp_def del: terminal_job.simps insert_iff split: if_splits)

lemma terminal_job_simps:
  "same_job r (terminal_job receipt text digest now r)" "j_id (terminal_job receipt text digest now r) = j_id r"
  "j_attempt_count (terminal_job receipt text digest now r) = j_attempt_count r"
  "j_status (terminal_job receipt text digest now r) = (case tr_status receipt of TCompleted \<Rightarrow> JCompleted | TFailed \<Rightarrow> JFailed)"
  "j_result (terminal_job receipt text digest now r) = Some text"
  "j_completion_digest (terminal_job receipt text digest now r) = Some digest"
  by (simp_all add: same_job_def split: worker_terminal_status.splits)

lemma commit_terminal_step:
  assumes run: "commit_terminal t receipt result_text (hex_digest E result_text) digest now_ms d = Inr d'"
    and inv: "queue_inv E (queue_of d)"
  shows "queue_step E (queue_of d) (queue_of d')"
  using run
proof (cases rule: commit_terminal_cases)
  case (1 job attempt)
  note job = find_job [OF 1(1)]
  have att: "attempt \<in> set (attempts d)" "a_id attempt = tu_attempt_id t" "a_job_id attempt = tu_job_id t"
    using find_SomeD [OF 1(2)] by simp_all
  have q: "queue_of d' = (update_where (\<lambda>r. j_id r = j_id job \<and> j_status r = j_status job)
            (terminal_job receipt result_text (hex_digest E result_text) (uint now_ms)) (jobs d),
     update_where (\<lambda>a. a_id a = a_id attempt \<and> (a_job_id a = tu_job_id t \<and> a_status a = a_status attempt))
            (settled_attempt receipt (uint now_ms)) (attempts d))"
    using 1(5) job att by (auto simp: insert_audit_tx_Inr queue_of_def simp del: terminal_job.simps)
  show ?thesis
    unfolding q
    by (rule settle_step [OF inv])
       (use job att 1(3) in \<open>auto simp: terminal_job_simps same_attempt_def settled_attempt_def result_recorded_def
          simp del: terminal_job.simps split: worker_terminal_status.splits\<close>)
qed

lemma commit_terminal_handoff:
  assumes run: "commit_terminal t receipt result_text result_digest digest now_ms d = Inr d'"
    and r: "find (\<lambda>h. h_handoff_id h = tu_handoff_id t) (worker_handoffs d) = Some r"
      "h_state r \<in> {HMayHaveBeenDispatched, HAdmitted}" and inv: "handoffs_inv (worker_handoffs d)"
  shows "handoff_step (worker_handoffs d) (worker_handoffs d')"
proof -
  note r' = found_handoff [OF r(1)]
  let ?f = "terminal_handoff receipt result_text digest (uint (tr_checkpoint_sequence receipt)) (uint now_ms)"
  have hs: "worker_handoffs d' = update_where (\<lambda>h. h_handoff_id h = h_handoff_id r \<and> h_state h \<in> {HMayHaveBeenDispatched, HAdmitted})
      ?f (worker_handoffs d)"
    using run by (rule commit_terminal_cases) (use r' in \<open>auto simp: insert_audit_tx_Inr\<close>)
  have edge: "(h_state r, h_state (?f r)) \<in> handoff_edges"
    using r(2) by (cases "tr_status receipt") (auto simp: handoff_edges_def terminal_handoff_def)
  have "handoff_columns r" using inv r' by (simp add: handoffs_inv_def)
  then have cols: "handoff_columns (?f r)"
    using r(2) by (cases "tr_status receipt") (auto simp: handoff_columns_def handoff_is_terminal_def terminal_handoff_def)
  show ?thesis
    unfolding hs
    by (rule advance_where [OF inv])
       (use r r' edge cols in \<open>auto simp: same_handoff_def terminal_handoff_def handoff_is_terminal_def\<close>)
qed

lemma commit_terminal_audit:
  assumes "commit_terminal t receipt result_text result_digest digest now_ms d = Inr d'"
  shows "audit_ok d d'"
  using assms by (rule commit_terminal_cases) (auto dest: insert_audit_tx_after [of _ _ _ _ _ d])


text \<open>What both terminal steps have read before they decide anything.\<close>

definition authorised :: "externals \<Rightarrow> db \<Rightarrow> raw_handoff \<Rightarrow> worker_authority \<Rightarrow> bool" where
  "authorised E d raw authority = (case authority of
       OriginalIncarnation \<Rightarrow> validate_current_worker_incarnation_tx E d raw = Inr ()
     | CurrentRecovery recovery \<Rightarrow> validate_current_worker_recovery_tx E d raw recovery = Inr ())"

lemma authorised_cases:
  assumes "(case authority of OriginalIncarnation \<Rightarrow> Inr ()
             | CurrentRecovery recovery \<Rightarrow> validate_current_worker_recovery_tx E d raw recovery) = Inr ()"
    and "(case authority of OriginalIncarnation \<Rightarrow> validate_current_worker_incarnation_tx E d raw
             | CurrentRecovery _ \<Rightarrow> Inr ()) = Inr ()"
  shows "authorised E d raw authority"
  using assms by (simp add: authorised_def split: worker_authority.splits)

lemma complete_handoff_tx_cases:
  assumes "complete_handoff_tx E bound t receipt authority now_ms d = Inr (already, d')"
  obtains
    (replayed) r raw existing where "find (\<lambda>h. h_handoff_id h = tu_handoff_id t) (worker_handoffs d) = Some r"
      "raw_handoff_from_row E r = Inr raw" "worker_handoff_tuple.truncate raw = t"
      "handoff_is_terminal (h_state r)" "rh_terminal raw = Some existing"
      "te_terminal_digest existing = terminal_digest E t receipt" "tr_result_digest existing = tr_result_digest receipt"
      "already" "d' = d"
  | (committed) r raw job where "find (\<lambda>h. h_handoff_id h = tu_handoff_id t) (worker_handoffs d) = Some r"
      "raw_handoff_from_row E r = Inr raw" "worker_handoff_tuple.truncate raw = t" "handoff_agrees E d bound raw job"
      "h_state r \<in> {HMayHaveBeenDispatched, HAdmitted}" "\<not> already" "authorised E d raw authority"
      "commit_terminal t receipt (json_to_string E (compact_value receipt))
         (hex_digest E (json_to_string E (compact_value receipt))) (terminal_digest E t receipt) now_ms d = Inr d'"
proof -
  obtain raw result_text result_digest where g: "validate_tuple E t = Inr ()" "validate_terminal_receipt receipt = Inr ()"
    "compact_terminal_result E receipt = Inr (result_text, result_digest)"
    "require_handoff_tx E d t bound = Inr raw" "ensure_tuple_matches raw t = Inr ()"
    and auth: "(case authority of OriginalIncarnation \<Rightarrow> Inr ()
             | CurrentRecovery recovery \<Rightarrow> validate_current_worker_recovery_tx E d raw recovery) = Inr ()"
    using assms unfolding complete_handoff_tx_def by - (elim bindE_InrE, auto elim!: bindE_InrE)
  have comp: "result_text = json_to_string E (compact_value receipt)" "result_digest = hex_digest E result_text"
    using g(3) by (auto simp: compact_terminal_result_def Let_def bindE_Inr)
  from g(4) obtain r job where r: "find (\<lambda>h. h_handoff_id h = tu_handoff_id t) (worker_handoffs d) = Some r"
    "raw_handoff_from_row E r = Inr raw" "handoff_agrees E d bound raw job"
    by (auto simp: require_handoff_tx_Inr)
  have st: "rh_state raw = h_state r" using raw_handoff_fields [OF r(2)] by simp
  have tup: "worker_handoff_tuple.truncate raw = t" using g(5) by (simp add: ensure_tuple_matches_Inr)
  show thesis
  proof (cases "handoff_is_terminal (h_state r)")
    case True
    then show thesis
      using assms g auth st replayed [OF r(1,2) tup True]
      by (auto simp: complete_handoff_tx_def Let_def bindE_Inr ok_or_Inr ensure_Inr)
  next
    case False
    then show thesis
      using assms g auth st committed [OF r(1,2) tup r(3)] comp authorised_cases [OF auth]
      by (auto simp: complete_handoff_tx_def Let_def bindE_Inr ensure_Inr)
  qed
qed

lemma complete_handoff_tx_keeps:
  assumes run: "complete_handoff_tx E bound t receipt authority now_ms d = Inr (already, d')"
  shows "audit_ok d d' \<and> (queue_inv E (queue_of d) \<longrightarrow> (queue_step E)\<^sup>*\<^sup>* (queue_of d) (queue_of d'))
    \<and> (handoffs_inv (worker_handoffs d) \<longrightarrow> handoff_step\<^sup>*\<^sup>* (worker_handoffs d) (worker_handoffs d'))"
  using run
proof (cases rule: complete_handoff_tx_cases)
  case (replayed r raw existing)
  then show ?thesis by simp
next
  case (committed r raw job)
  then show ?thesis
    using commit_terminal_audit [OF committed(8)] commit_terminal_step [OF committed(8)]
      commit_terminal_handoff [OF committed(8) committed(1,5)] by blast
qed

interpretation complete_handoff: handoff_operation
  "\<lambda>s. complete_worker_handoff_with_authority_at E s t receipt authority now_ms" E
  for E t receipt authority now_ms
  unfolding complete_worker_handoff_with_authority_at_def
  by (rule handoff_bindS, rule handoff_tx) (auto dest: complete_handoff_tx_keeps)

lemma acknowledge_tx_cases:
  assumes "acknowledge_tx E bound t digest authority now_ms d = Inr (ack, d')"
  obtains
    (repeated) r raw existing where "find (\<lambda>h. h_handoff_id h = tu_handoff_id t) (worker_handoffs d) = Some r"
      "raw_handoff_from_row E r = Inr raw" "worker_handoff_tuple.truncate raw = t" "h_state r = HAcknowledged"
      "rh_terminal raw = Some existing" "te_terminal_digest existing = digest"
      "ack = \<lparr>wak_handoff_id = tu_handoff_id t, wak_terminal_digest = digest, wak_already_acknowledged = True\<rparr>" "d' = d"
  | (acknowledged) r raw existing job where "find (\<lambda>h. h_handoff_id h = tu_handoff_id t) (worker_handoffs d) = Some r"
      "raw_handoff_from_row E r = Inr raw" "worker_handoff_tuple.truncate raw = t" "handoff_agrees E d bound raw job"
      "rh_terminal raw = Some existing" "te_terminal_digest existing = digest"
      "h_state r \<in> {HCompleted, HFailed}" "h_ack_intent r = 1" "authorised E d raw authority"
      "ack = \<lparr>wak_handoff_id = tu_handoff_id t, wak_terminal_digest = digest, wak_already_acknowledged = False\<rparr>"
      "insert_audit_tx (d\<lparr>worker_handoffs := update_where
           (\<lambda>h. h_handoff_id h = tu_handoff_id t \<and> (h_state h = HCompleted \<or> h_state h = HFailed) \<and> h_ack_intent h = 1)
           (\<lambda>h. h\<lparr>h_state := HAcknowledged, h_acknowledged_at_ms := Some (uint now_ms), h_updated_at_ms := uint now_ms\<rparr>)
           (worker_handoffs d)\<rparr>) ''worker_handoff_acknowledged'' (tu_handoff_id t) now_ms = Inr d'"
      "rh_updated_at_ms raw \<le> now_ms" "uint now_ms \<le> i64_max"
proof -
  obtain raw existing where g: "validate_tuple E t = Inr ()" "validate_digest_value digest ''terminal digest'' = Inr ()"
    "require_handoff_tx E d t bound = Inr raw" "ensure_tuple_matches raw t = Inr ()"
    "rh_terminal raw = Some existing" "te_terminal_digest existing = digest"
    and auth: "(case authority of OriginalIncarnation \<Rightarrow> Inr ()
             | CurrentRecovery recovery \<Rightarrow> validate_current_worker_recovery_tx E d raw recovery) = Inr ()"
    using assms unfolding acknowledge_tx_def by - (elim bindE_InrE, simp add: ok_or_Inr ensure_Inr)
  from g(3) obtain r job where r: "find (\<lambda>h. h_handoff_id h = tu_handoff_id t) (worker_handoffs d) = Some r"
    "raw_handoff_from_row E r = Inr raw" "handoff_agrees E d bound raw job"
    by (auto simp: require_handoff_tx_Inr)
  have st: "rh_state raw = h_state r" using raw_handoff_fields [OF r(2)] by simp
  have tup: "worker_handoff_tuple.truncate raw = t" using g(4) by (simp add: ensure_tuple_matches_Inr)
  show thesis
  proof (cases "h_state r = HAcknowledged")
    case True
    then show thesis
      using assms g auth st repeated [OF r(1,2) tup True g(5,6)] by (simp add: acknowledge_tx_def)
  next
    case False
    then show thesis
      using assms g auth st acknowledged [OF r(1,2) tup r(3) g(5,6)] authorised_cases [OF auth] r(1)
      by (auto simp: acknowledge_tx_def Let_def current_ack_intent_def sqlite_timestamp_def bindE_Inr ensure_Inr
          validate_handoff_transition_time_def not_less split: if_splits)
  qed
qed

lemma acknowledge_tx_keeps:
  assumes run: "acknowledge_tx E bound t digest authority now_ms d = Inr (ack, d')"
  shows "audit_ok d d' \<and> queue_of d' = queue_of d
    \<and> (handoffs_inv (worker_handoffs d) \<longrightarrow> handoff_step\<^sup>*\<^sup>* (worker_handoffs d) (worker_handoffs d'))"
  using run
proof (cases rule: acknowledge_tx_cases)
  case (repeated r raw existing)
  then show ?thesis by simp
next
  case (acknowledged r raw existing job)
  note r = found_handoff [OF acknowledged(1)]
  let ?f = "\<lambda>h. h\<lparr>h_state := HAcknowledged, h_acknowledged_at_ms := Some (uint now_ms), h_updated_at_ms := uint now_ms\<rparr>"
  have "handoff_step (worker_handoffs d)
      (update_where (\<lambda>h. h_handoff_id h = h_handoff_id r \<and> (h_state h = HCompleted \<or> h_state h = HFailed) \<and> h_ack_intent h = 1)
        ?f (worker_handoffs d))"
    if inv: "handoffs_inv (worker_handoffs d)"
  proof (rule advance_where [OF inv, where f = ?f])
    have "handoff_columns r" using inv r by (simp add: handoffs_inv_def)
    moreover from acknowledged(7) have "h_state r = HCompleted \<or> h_state r = HFailed" by simp
    ultimately show "handoff_columns (?f r)" by (elim disjE) (simp_all add: handoff_columns_def handoff_is_terminal_def)
  qed (use r acknowledged(7,8) in \<open>auto simp: handoff_edges_def same_handoff_def same_evidence_def\<close>)
  then show ?thesis
    using acknowledged(11) r insert_audit_tx_after [OF acknowledged(11), of d] by (auto simp: insert_audit_tx_Inr)
qed

interpretation acknowledge_handoff: handoff_operation
  "\<lambda>s. acknowledge_worker_handoff_with_authority_at E s t digest authority now_ms" E
  for E t digest authority now_ms
  unfolding acknowledge_worker_handoff_with_authority_at_def
  by (rule handoff_tx) (auto dest: acknowledge_tx_keeps)

end
