(* ===== verification/Worker_Samples.thy ===== *)
theory Worker_Samples
  imports Worker_Handoff
begin

text \<open>
  A concrete deployment with its worker bound and one job, and what the readers of
  \<^verbatim>\<open>Worker_Rows\<close> return for its handoff in each phase: the runs that show the
  hypotheses of the protocol properties can hold.
\<close>

definition sample_ids :: handoff_ids where
  "sample_ids = \<lparr>id_handoff = ''h'', id_attempt = ''a'', id_run = ''r'', id_episode = ''e'', id_trajectory = ''t''\<rparr>"

definition sample_claim_witness :: worker_claim_witness where
  "sample_claim_witness = claim_witness_of sample_binding (sample_control 1)"

definition sample_worker_job :: job_row where
  "sample_worker_job = queued_job ''job'' WORKER_HANDOFF_OPERATION ''{}'' WORKER_HANDOFF_PAYLOAD_DIGEST 1"

definition sample_tuple :: worker_handoff_tuple where
  "sample_tuple =
     \<lparr>tu_handoff_id = ''h'', tu_deployment_id = ''local'', tu_job_id = ''job'', tu_attempt_id = ''a'',
      tu_attempt_number = 1, tu_worker_owner_id = ''worker'', tu_worker_profile_digest = sample_digest,
      tu_run_id = ''r'', tu_episode_id = ''e'', tu_trajectory_id = ''t'',
      tu_payload_digest = WORKER_HANDOFF_PAYLOAD_DIGEST\<rparr>"

definition sample_handoff :: handoff_row where
  "sample_handoff = prepared_handoff sample_claim_witness sample_ids ''job'' 1 WORKER_HANDOFF_PAYLOAD_DIGEST 1 ''{}'' 5"

definition sample_worker_store ::
  "job_row list \<Rightarrow> attempt_row list \<Rightarrow> handoff_row list \<Rightarrow> audit_row list \<Rightarrow> store" where
  "sample_worker_store js as hs au = (let s = sample_bound (Some (control_row_of (sample_control 1) 1 1)) in
     s\<lparr>conn := (conn s)\<lparr>jobs := js, attempts := as, worker_handoffs := hs, audit_log := au\<rparr>\<rparr>)"

lemma sample_worker_store_simps [simp]:
  "jobs (conn (sample_worker_store js as hs au)) = js" "attempts (conn (sample_worker_store js as hs au)) = as"
  "worker_handoffs (conn (sample_worker_store js as hs au)) = hs" "audit_log (conn (sample_worker_store js as hs au)) = au"
  "max_payload_bytes (sample_worker_store js as hs au) = 1024"
  "metadata (conn (sample_worker_store js as hs au)) = metadata (conn sample_store)"
  by (simp_all add: sample_worker_store_def Let_def) (simp add: sample_bound_def sample_store_def)

lemma sample_worker_store_update [simp]:
  "(conn (sample_worker_store js as hs au))\<lparr>jobs := js'\<rparr> = conn (sample_worker_store js' as hs au)"
  "(conn (sample_worker_store js as hs au))\<lparr>attempts := as'\<rparr> = conn (sample_worker_store js as' hs au)"
  "(conn (sample_worker_store js as hs au))\<lparr>worker_handoffs := hs'\<rparr> = conn (sample_worker_store js as hs' au)"
  "(conn (sample_worker_store js as hs au))\<lparr>audit_log := au'\<rparr> = conn (sample_worker_store js as hs au')"
  "(sample_worker_store js as hs au)\<lparr>conn := conn (sample_worker_store js' as' hs' au')\<rparr> = sample_worker_store js' as' hs' au'"
  by (simp_all add: sample_worker_store_def Let_def)

lemma sample_worker_digest [simp]: "hex_digest externals_worker text = WORKER_HANDOFF_PAYLOAD_DIGEST"
  by (simp add: hex_digest_def externals_worker_def WORKER_HANDOFF_PAYLOAD_DIGEST_def hex_byte_def hex_digit_def byte_def
     char_of_def of_char_def bit_0)

lemma sample_worker_json [simp]:
  "json_from_str externals_worker ''{}'' = Inr (JObject [])" "json_to_string externals_worker (JObject kvs) = ''{}''"
  "validate_uuid4 externals_worker value field = Inr ()"
  by (simp_all add: externals_worker_def externals_sample_def validate_uuid4_def)

lemma sample_digest_lengths [simp]: "length WORKER_HANDOFF_PAYLOAD_DIGEST = 64"
  "length WORKER_HANDOFF_OPERATION \<le> 128"
  by (simp_all add: WORKER_HANDOFF_PAYLOAD_DIGEST_def WORKER_HANDOFF_OPERATION_def)

lemma sample_tuple_valid [simp]: "validate_tuple externals_worker sample_tuple = Inr ()"
  by (simp add: validate_tuple_def sample_tuple_def validate_digest_value_def sample_digest_valid
     validate_name_def plain_guards plain_def byte_def)

lemma sample_rows [simp]:
  "binding_from_conn externals_worker (conn (sample_worker_store js as hs au)) = Inr (Some sample_binding)"
  "control_from_conn externals_worker (conn (sample_worker_store js as hs au)) = Inr (Some (sample_control 1))"
proof -
  let ?d = "conn (sample_worker_store js as hs au)"
  have rows: "worker_bindings ?d = Some (binding_row_of sample_binding 1)"
    "worker_control ?d = Some (control_row_of (sample_control 1) 1 1)"
    by (simp_all add: sample_worker_store_def Let_def) (simp add: sample_bound_def)
  have valid: "validate_binding ?d sample_binding = Inr ()"
    by (simp add: validate_binding_def sample_binding_def metadata_from_conn_def
      validate_digest_value_def sample_digest_valid)
  show "binding_from_conn externals_worker ?d = Inr (Some sample_binding)"
    using rows valid binding_row_decodes [OF valid, of 1 externals_worker] by (simp add: binding_from_conn_def)
  have "control_from_row externals_worker (control_row_of (sample_control 1) 1 1) = Inr (sample_control 1)"
    using control_row_decodes [OF sample_control_valid(2) [of 1], of 1] by (simp add: sample_control_def)
  then show "control_from_conn externals_worker ?d = Inr (Some (sample_control 1))"
    using rows by (simp add: control_from_conn_def)
qed

text \<open>The prepared row, moved to another phase.\<close>

definition sample_phase :: "worker_handoff_state \<Rightarrow> i64 option \<Rightarrow> i64 option \<Rightarrow> i64 \<Rightarrow> handoff_row" where
  "sample_phase st dispatched admitted now = sample_handoff
     \<lparr>h_state := st, h_dispatched_at_ms := dispatched, h_admitted_at_ms := admitted, h_updated_at_ms := now\<rparr>"

definition sample_raw :: "worker_handoff_state \<Rightarrow> u64 option \<Rightarrow> u64 option \<Rightarrow> u64 \<Rightarrow> raw_handoff" where
  "sample_raw st dispatched admitted now = worker_handoff_tuple.extend sample_tuple
     \<lparr>rh_watchdog_boot_id = ''watchdog-boot'', rh_worker_boot_id = ''worker-boot'', rh_mode_sequence = 1,
      rh_operation = WORKER_HANDOFF_OPERATION, rh_parameters = JObject [], rh_state = st, rh_terminal = None,
      rh_terminal_result = None, rh_created_at_ms = 5, rh_updated_at_ms = now, rh_dispatched_at_ms = dispatched,
      rh_admitted_at_ms = admitted, rh_terminal_at_ms = None, rh_acknowledged_at_ms = None\<rparr>"

lemmas handoff_eval = raw_handoff_from_row_def sample_phase_def sample_raw_def sample_handoff_def prepared_handoff_def
  sample_ids_def sample_claim_witness_def claim_witness_of_def sample_binding_def sample_control_def bounded_text_def
  required_text_def empty_parameters_def sample_tuple_valid [unfolded sample_tuple_def] sqlite_u32_def sqlite_u64_def
  validate_digest_value_def sample_digest_valid MAX_WORKER_WIRE_INTEGER_def terminal_from_columns_def
  bounded_optional_def sqlite_optional_u64_def validate_terminal_projection_def worker_handoff_state_parse_def
  precedes_def handoff_is_terminal_def to_sql_simps sample_tuple_def

lemma sample_phase_read:
  "raw_handoff_from_row externals_worker (sample_phase HPrepared None None 5) = Inr (sample_raw HPrepared None None 5)"
  "raw_handoff_from_row externals_worker (sample_phase HMayHaveBeenDispatched (Some 6) None 6)
     = Inr (sample_raw HMayHaveBeenDispatched (Some 6) None 6)"
  by (simp_all add: handoff_eval)

definition sample_receipt :: "worker_terminal_status \<Rightarrow> worker_terminal_receipt" where
  "sample_receipt st = \<lparr>tr_status = st, tr_checkpoint_sequence = 7, tr_terminal_ref = ''ref'', tr_result_digest = sample_digest\<rparr>"

definition sample_terminal :: "worker_terminal_status \<Rightarrow> handoff_row" where
  "sample_terminal st = terminal_handoff (sample_receipt st) ''{}'' WORKER_HANDOFF_PAYLOAD_DIGEST 7 8
     (sample_phase HMayHaveBeenDispatched (Some 6) None 6)"

definition sample_terminal_raw :: "worker_terminal_status \<Rightarrow> raw_handoff" where
  "sample_terminal_raw st = (sample_raw (terminal_state st) (Some 6) None 8)
     \<lparr>rh_terminal := Some (worker_terminal_receipt.extend (sample_receipt st)
        \<lparr>te_terminal_digest = WORKER_HANDOFF_PAYLOAD_DIGEST\<rparr>),
      rh_terminal_result := Some ''{}'', rh_terminal_at_ms := Some 8\<rparr>"

lemma sample_terminal_read:
  "raw_handoff_from_row externals_worker (sample_terminal st) = Inr (sample_terminal_raw st)"
  by (cases st) (simp_all add: handoff_eval sample_terminal_def sample_terminal_raw_def sample_receipt_def terminal_handoff_def
    worker_terminal_status_parse_def validate_name_def plain_guards plain_def byte_def MAX_TERMINAL_REF_BYTES_def
    validate_terminal_evidence_def terminal_digest_def terminal_material_def compact_terminal_result_def compact_value_def
    MAX_WORKER_RESULT_BYTES_def worker_terminal_receipt.defs worker_handoff_tuple.defs)

definition sample_claimed :: job_row where
  "sample_claimed = claimed_job sample_claim_witness 1 5 sample_worker_job"

definition sample_attempt :: attempt_row where
  "sample_attempt = running_attempt ''a'' ''job'' 1 ''worker'' 5"

lemmas job_eval = bounded_job_from_row_def sample_claimed_def claimed_job_def sample_worker_job_def queued_job_def
  bounded_text_def required_text_def bounded_optional_def validate_name_def plain_guards plain_def byte_def
  MAX_WORKER_TEXT_BYTES_def validate_digest_value_def sqlite_u32_def sqlite_u64_def sqlite_optional_u64_def
  earlier_def precedes_def WORKER_HANDOFF_OPERATION_def sample_claim_witness_def claim_witness_of_def sample_binding_def
  job_status_parse_def to_sql_simps

definition sample_job_record :: "job_status \<Rightarrow> job_record" where
  "sample_job_record st = \<lparr>jr_id = ''job'', jr_kind = WORKER_HANDOFF_OPERATION, jr_payload = JObject [],
     jr_payload_digest = WORKER_HANDOFF_PAYLOAD_DIGEST, jr_status = st, jr_created_at_ms = 1,
     jr_claimed_at_ms = Some 5, jr_completed_at_ms = None, jr_attempt_count = 1, jr_next_retry_at_ms = None,
     jr_last_error = None, jr_result = None, jr_worker_id = Some ''worker''\<rparr>"

lemma sample_claimed_read:
  "bounded_job_from_row externals_worker 1024 sample_claimed = Inr (sample_job_record JRunning, None)"
  by (simp add: job_eval sample_job_record_def)

fun sample_done_record :: "worker_terminal_status \<Rightarrow> job_record" where
  "sample_done_record TCompleted =
     (sample_job_record JCompleted)\<lparr>jr_completed_at_ms := Some 8, jr_result := Some (JObject [])\<rparr>"
| "sample_done_record TFailed =
     (sample_job_record JFailed)\<lparr>jr_last_error := Some ''ref'', jr_result := Some (JObject []), jr_worker_id := None\<rparr>"

lemma sample_done_read:
  "bounded_job_from_row externals_worker 1024
     (terminal_job (sample_receipt ts) ''{}'' WORKER_HANDOFF_PAYLOAD_DIGEST 8 sample_claimed)
   = Inr (sample_done_record ts, Some WORKER_HANDOFF_PAYLOAD_DIGEST)"
  by (cases ts) (simp_all add: job_eval sample_job_record_def sample_receipt_def)

lemmas attempt_eval = raw_attempt_from_row_def sample_attempt_def running_attempt_def bounded_text_def required_text_def
  bounded_optional_def validate_name_def plain_guards plain_def byte_def MAX_WORKER_TEXT_BYTES_def
  sqlite_u32_def sqlite_u64_def sqlite_optional_u64_def earlier_def to_sql_simps
  show_u32_def show_nat.simps digit_char_def char_of_def bit_0

definition sample_raw_attempt :: "attempt_status \<Rightarrow> u64 option \<Rightarrow> raw_attempt" where
  "sample_raw_attempt st finished = \<lparr>ra_id = ''a'', ra_job_id = ''job'', ra_sequence = 1, ra_lineage = ''job:1'',
     ra_status = attempt_status_as_str st, ra_started_at_ms = 5, ra_finished_at_ms = finished,
     ra_worker_id = Some ''worker''\<rparr>"

lemma sample_attempt_read:
  "raw_attempt_from_row externals_worker sample_attempt = Inr (sample_raw_attempt ARunning None)"
  "raw_attempt_from_row externals_worker (settled_attempt (sample_receipt st) 8 sample_attempt)
     = Inr (sample_raw_attempt (terminal_attempt st) (Some 8))"
  by (simp_all add: attempt_eval sample_raw_attempt_def settled_attempt_def sample_receipt_def)
   (cases st; simp)+

lemma sample_agrees:
  assumes "bounded_job_from_row E 1024 j = Inr (job, digest)" and "raw_attempt_from_row E a = Inr attempt"
    and "j_id j = tu_job_id raw" and "a_id a = tu_attempt_id raw"
    and "validate_handoff_job E raw job attempt digest = Inr ()"
  shows "handoff_agrees E (conn (sample_worker_store [j] [a] hs au)) 1024 raw job"
  using assms by (simp add: handoff_agrees_def load_job_def load_attempt_def job_bound_def i64_max_def)

lemma sample_agreements [simp]:
  "handoff_agrees externals_worker (conn (sample_worker_store [sample_claimed] [sample_attempt] hs au)) 1024
     (sample_raw HPrepared None None 5) (sample_job_record JRunning)"
  "handoff_agrees externals_worker (conn (sample_worker_store [sample_claimed] [sample_attempt] hs au)) 1024
     (sample_raw HMayHaveBeenDispatched (Some 6) None 6) (sample_job_record JRunning)"
  by (rule sample_agrees [OF sample_claimed_read sample_attempt_read(1)];
      simp add: sample_claimed_def claimed_job_def sample_worker_job_def queued_job_def sample_attempt_def running_attempt_def
        sample_raw_def sample_tuple_def worker_handoff_tuple.defs validate_handoff_job_def validate_open_job_def
        sample_job_record_def sample_raw_attempt_def empty_parameters_def show_u32_def show_nat.simps digit_char_def char_of_def bit_0)+

lemma sample_agreements_done [simp]:
  "handoff_agrees externals_worker (conn (sample_worker_store
      [terminal_job (sample_receipt ts) ''{}'' WORKER_HANDOFF_PAYLOAD_DIGEST 8 sample_claimed]
      [settled_attempt (sample_receipt ts) 8 sample_attempt] hs au)) 1024
     (sample_terminal_raw ts) (sample_done_record ts)"
  by (rule sample_agrees [OF sample_done_read sample_attempt_read(2)]; cases ts;
      simp add: sample_claimed_def claimed_job_def sample_worker_job_def queued_job_def sample_attempt_def running_attempt_def
        sample_raw_def sample_terminal_raw_def sample_receipt_def worker_terminal_receipt.defs settled_attempt_def
        sample_tuple_def worker_handoff_tuple.defs validate_handoff_job_def validate_completed_job_def validate_failed_job_def
        sample_job_record_def sample_raw_attempt_def empty_parameters_def show_u32_def show_nat.simps digit_char_def char_of_def bit_0)

lemma sample_worker_inv:
  "queue_inv externals_worker (queue_of (conn (sample_worker_store [sample_worker_job] [] [] [])))"
  by (simp add: queue_of_def queue_inv_def one_unresolved_def job_ok_def sample_worker_job_def queued_job_def)

lemma sample_claim_authority:
  "validate_claim_witness externals_worker sample_claim_witness = Inr ()"
  "validate_claim_witness_tx externals_worker (conn (sample_worker_store js as hs au)) sample_claim_witness = Inr ()"
  by (simp_all add: validate_claim_witness_def validate_claim_witness_tx_def sample_claim_witness_def claim_witness_of_def
      sample_binding_def sample_control_def witness_binding_def witness_control_def validate_digest_value_def
      sample_digest_valid MAX_WORKER_WIRE_INTEGER_def metadata_from_conn_def parse_mode_def)

lemma sample_ready: "ready_worker_job (conn (sample_worker_store [sample_worker_job] [] [] [])) 5 = Some sample_worker_job"
  by (simp add: ready_worker_job_def select_first_def select_ordered_def sample_worker_job_def queued_job_def)

lemma sample_audit_row:
  "insert_audit_tx (conn (sample_worker_store js as hs [])) action detail 5
     = Inr (conn (sample_worker_store js as hs [\<lparr>au_action = action, au_detail = detail, au_occurred_at_ms = 5\<rparr>]))"
  if "valid_audit action detail"
  using insert_audit_tx_succeeds [OF that, of "conn (sample_worker_store js as hs [])" 5] sample_audit(2) [of action]
  by (simp add: i64_max_def)

lemma sample_claim_commit:
  "commit_worker_claim sample_claim_witness sample_ids ''job'' 1 WORKER_HANDOFF_PAYLOAD_DIGEST ''{}'' 5 5
     (conn (sample_worker_store [sample_worker_job] [] [] []))
   = Inr (conn (sample_worker_store [sample_claimed] [sample_attempt] [sample_phase HPrepared None None 5]
        [\<lparr>au_action = ''worker_handoff_prepared'', au_detail = ''job:a:h'', au_occurred_at_ms = 5\<rparr>]))"
proof -
  have "valid_audit ''worker_handoff_prepared'' ''job:a:h''"
    by (simp add: valid_audit_def plain_guards plain_def byte_def max_audit_detail_bytes_def)
  moreover have "update_where (claimable ''job'' 5) (claimed_job sample_claim_witness 1 5) [sample_worker_job] = [sample_claimed]"
    by (simp add: update_where_def claimable_def sample_claimed_def sample_worker_job_def queued_job_def)
  moreover have "cw_mode_sequence sample_claim_witness = 1" "cw_worker_owner_id sample_claim_witness = ''worker''"
    by (simp_all add: sample_claim_witness_def claim_witness_of_def sample_binding_def sample_control_def)
  moreover have "j_id sample_claimed = ''job''" "a_id sample_attempt = ''a''" "a_job_id sample_attempt = ''job''" "a_sequence sample_attempt = 1"
    by (simp_all add: sample_claimed_def claimed_job_def sample_worker_job_def queued_job_def sample_attempt_def running_attempt_def)
  moreover have "id_handoff sample_ids = ''h''" "id_attempt sample_ids = ''a''" by (simp_all add: sample_ids_def)
  moreover have "h_attempt_number sample_handoff = 1" "h_mode_sequence sample_handoff = 1"
    "h_operation sample_handoff = WORKER_HANDOFF_OPERATION" "h_job_id sample_handoff = ''job''" "h_attempt_id sample_handoff = ''a''"
    by (simp_all add: sample_handoff_def prepared_handoff_def sample_ids_def)
  moreover have "sample_phase HPrepared None None 5 = sample_handoff"
    by (simp add: sample_phase_def sample_handoff_def prepared_handoff_def)
  ultimately show ?thesis
    by (simp add: commit_worker_claim_def insert_attempt_row_def insert_row_def insert_handoff_row_def sqlite_timestamp_def
       i64_max_def sample_audit_row sample_handoff_def [symmetric] sample_attempt_def [symmetric])
qed

lemma sample_claim_tx:
  "claim_handoff_tx externals_worker 1024 sample_claim_witness 5 sample_ids (conn (sample_worker_store [sample_worker_job] [] [] []))
   = Inr (Some ''h'', conn (sample_worker_store [sample_claimed] [sample_attempt] [sample_phase HPrepared None None 5]
        [\<lparr>au_action = ''worker_handoff_prepared'', au_detail = ''job:a:h'', au_occurred_at_ms = 5\<rparr>]))"
proof -
  have "claim_worker_job externals_worker 1024 sample_claim_witness 5 5 1025 sample_ids sample_worker_job 
     (conn (sample_worker_store [sample_worker_job] [] [] []))
   = Inr (Some ''h'', conn (sample_worker_store [sample_claimed] [sample_attempt] [sample_phase HPrepared None None 5]
        [\<lparr>au_action = ''worker_handoff_prepared'', au_detail = ''job:a:h'', au_occurred_at_ms = 5\<rparr>]))"
    using sample_claim_commit
    by (simp add: claim_worker_job_def sample_worker_job_def queued_job_def bounded_text_def validate_name_def plain_guards plain_def byte_def 
     validate_claim_payload_def substr_chars.simps empty_parameters_def checked_add_def matching_def claimable_def sample_ids_def is_continuation_def)
  then show ?thesis
  by (simp add: claim_handoff_tx_def sample_claim_authority payload_read_limit_def checked_add_def i64_max_def
    unresolved_handoff_exists_def sample_ready sqlite_timestamp_def)
qed

lemma sample_claim_run:
  "claim_next_worker_handoff externals_worker (sample_worker_store [sample_worker_job] [] [] []) sample_claim_witness 5 sample_ids
   = (Inr (Some (handoff_of (sample_raw HPrepared None None 5) (sample_job_record JRunning))),
      sample_worker_store [sample_claimed] [sample_attempt] [sample_phase HPrepared None None 5]
        [\<lparr>au_action = ''worker_handoff_prepared'', au_detail = ''job:a:h'', au_occurred_at_ms = 5\<rparr>])"
proof -
  have "h_handoff_id (sample_phase HPrepared None None 5) = ''h''"
    by (simp add: sample_phase_def sample_handoff_def sample_ids_def)
  then have "load_handoff externals_worker (conn (sample_worker_store [sample_claimed] [sample_attempt]
      [sample_phase HPrepared None None 5] au)) ''h'' 1024
    = Inr (Some (handoff_of (sample_raw HPrepared None None 5) (sample_job_record JRunning)))" for au
    unfolding load_handoff_Some using sample_phase_read(1) sample_agreements(1) by fastforce
  then show ?thesis
    by (simp add: claim_next_worker_handoff_def with_tx_def bindS_def sample_claim_tx get_worker_handoff_def)
qed

abbreviation sample_dispatched :: store where
  "sample_dispatched \<equiv> sample_worker_store [sample_claimed] [sample_attempt]
     [sample_phase HMayHaveBeenDispatched (Some 6) None 6] []"

abbreviation sample_settled :: "worker_terminal_status \<Rightarrow> audit_row list \<Rightarrow> store" where
  "sample_settled ts au \<equiv> sample_worker_store
      [terminal_job (sample_receipt ts) ''{}'' WORKER_HANDOFF_PAYLOAD_DIGEST 8 sample_claimed]
      [settled_attempt (sample_receipt ts) 8 sample_attempt] [sample_terminal ts] au"

lemma sample_handoffs_inv:
  "handoffs_inv [sample_phase HMayHaveBeenDispatched (Some 6) None 6]" "handoffs_inv [sample_terminal ts]"
  by (cases ts; simp add: handoffs_inv_def handoff_columns_def sample_phase_def sample_handoff_def prepared_handoff_def
      sample_terminal_def terminal_handoff_def sample_receipt_def handoff_is_terminal_def)+

lemma sample_row_ids [simp]:
  "h_handoff_id (sample_phase st a b n) = ''h''" "h_state (sample_phase st a b n) = st"
  "h_handoff_id (sample_terminal ts) = ''h''" "h_state (sample_terminal ts) = terminal_state ts" "h_ack_intent (sample_terminal ts) = 1"
  "tu_handoff_id sample_tuple = ''h''" "tu_job_id sample_tuple = ''job''" "tu_attempt_id sample_tuple = ''a''"
  "j_id sample_claimed = ''job''" "j_status sample_claimed = JRunning"
  "a_id sample_attempt = ''a''" "a_job_id sample_attempt = ''job''" "a_status sample_attempt = ARunning"
  "tr_status (sample_receipt ts) = ts" "tr_checkpoint_sequence (sample_receipt ts) = 7"
  by (simp_all add: sample_phase_def sample_handoff_def sample_ids_def sample_terminal_def terminal_handoff_def sample_receipt_def
      sample_tuple_def sample_claimed_def claimed_job_def sample_worker_job_def queued_job_def sample_attempt_def running_attempt_def)

lemma sample_dispatched_read:
  "require_handoff_tx externals_worker (conn sample_dispatched) sample_tuple 1024 = Inr (sample_raw HMayHaveBeenDispatched (Some 6) None 6)"
  unfolding require_handoff_tx_Inr using sample_phase_read(2) sample_agreements(2) by fastforce

lemma sample_settled_read:
  "require_handoff_tx externals_worker (conn (sample_settled ts au)) sample_tuple 1024 = Inr (sample_terminal_raw ts)"
  "get_worker_handoff externals_worker (sample_settled ts au) ''h''
     = Inr (Some (handoff_of (sample_terminal_raw ts) (sample_done_record ts)))"
  unfolding require_handoff_tx_Inr using sample_terminal_read [of ts] sample_agreements_done [of ts]
  by (fastforce simp: get_worker_handoff_def load_handoff_Some)+

lemma sample_raw_tuple:
  "ensure_tuple_matches (sample_raw st a b n) sample_tuple = Inr ()"
  "ensure_tuple_matches (sample_terminal_raw ts) sample_tuple = Inr ()"
  by (simp_all add: ensure_tuple_matches_def sample_raw_def sample_terminal_raw_def worker_handoff_tuple.defs)

lemma sample_incarnation:
  "validate_current_worker_incarnation_tx externals_worker (conn (sample_worker_store js as hs au)) (sample_raw st a b n) = Inr ()"
  "validate_current_worker_incarnation_tx externals_worker (conn (sample_worker_store js as hs au)) (sample_terminal_raw ts) = Inr ()"
  by (simp_all add: validate_current_worker_incarnation_tx_def sample_raw_def sample_terminal_raw_def worker_handoff_tuple.defs
      sample_tuple_def sample_binding_def sample_control_def)

lemma sample_complete_run:
  "\<exists>c au. complete_worker_handoff_with_authority_at externals_worker sample_dispatched sample_tuple (sample_receipt TCompleted)
     OriginalIncarnation 8 = (Inr c, sample_settled TCompleted au) \<and> \<not> wcp_already_completed c"
proof -
  have "valid_audit ''worker_handoff_terminal_committed'' ''h:completed''"
    by (simp add: valid_audit_def plain_guards plain_def byte_def max_audit_detail_bytes_def)
  then obtain au where "commit_terminal sample_tuple (sample_receipt TCompleted) ''{}'' WORKER_HANDOFF_PAYLOAD_DIGEST
     WORKER_HANDOFF_PAYLOAD_DIGEST 8 (conn sample_dispatched) = Inr (conn (sample_settled TCompleted au))"
    using insert_audit_tx_succeeds [of "''worker_handoff_terminal_committed''" "''h:completed''" "conn (sample_settled TCompleted [])" 8]
       sample_audit(2) [of "''worker_handoff_terminal_committed''"]
    by (simp add: commit_terminal_def sqlite_timestamp_def i64_max_def Let_def matching_def update_where_def
      sample_terminal_def [symmetric] del: terminal_job.simps)
  moreover have "validate_terminal_receipt (sample_receipt TCompleted) = Inr ()"
    by (simp add: validate_terminal_receipt_def sample_receipt_def validate_name_def plain_guards plain_def byte_def
       MAX_TERMINAL_REF_BYTES_def validate_digest_value_def sample_digest_valid MAX_WORKER_WIRE_INTEGER_def)
  moreover have "compact_terminal_result externals_worker (sample_receipt TCompleted) = Inr (''{}'', WORKER_HANDOFF_PAYLOAD_DIGEST)"
    by (simp add: compact_terminal_result_def compact_value_def MAX_WORKER_RESULT_BYTES_def)
  moreover have "terminal_digest externals_worker sample_tuple (sample_receipt TCompleted) = WORKER_HANDOFF_PAYLOAD_DIGEST"
    by (simp add: terminal_digest_def)
  moreover have "validate_handoff_transition_time (sample_raw HMayHaveBeenDispatched (Some 6) None 6) 8 ''terminal'' = Inr ()"
    "rh_state (sample_raw HMayHaveBeenDispatched (Some 6) None 6) = HMayHaveBeenDispatched"
    by (simp_all add: validate_handoff_transition_time_def prior_phase_at_ms_def sample_raw_def worker_handoff_tuple.defs)
  ultimately show ?thesis
    using sample_dispatched_read sample_settled_read(2) [of TCompleted au] sample_raw_tuple(1) sample_incarnation(1)
    by (simp add: complete_worker_handoff_with_authority_at_def with_tx_def bindS_def complete_handoff_tx_def Let_def
      handoff_is_terminal_def del: terminal_job.simps) blast
qed

lemma sample_acknowledge_run:
  "\<exists>s'. acknowledge_worker_handoff_with_authority_at externals_worker (sample_settled ts []) sample_tuple
     WORKER_HANDOFF_PAYLOAD_DIGEST OriginalIncarnation 9
   = (Inr \<lparr>wak_handoff_id = ''h'', wak_terminal_digest = WORKER_HANDOFF_PAYLOAD_DIGEST, wak_already_acknowledged = False\<rparr>, s')"
proof -
  have "valid_audit ''worker_handoff_acknowledged'' ''h''"
    by (simp add: valid_audit_def plain_guards plain_def byte_def max_audit_detail_bytes_def)
  then have audit: "insert_audit_tx (conn (sample_worker_store js as hs [])) ''worker_handoff_acknowledged'' ''h'' 9
      = Inr (conn (sample_worker_store js as hs
          [\<lparr>au_action = ''worker_handoff_acknowledged'', au_detail = ''h'', au_occurred_at_ms = 9\<rparr>]))" for js as hs
    using insert_audit_tx_succeeds [of _ _ "conn (sample_worker_store js as hs [])" 9]
      sample_audit(2) [of "''worker_handoff_acknowledged''"] by (simp add: i64_max_def)
  have "rh_terminal (sample_terminal_raw ts) = Some (worker_terminal_receipt.extend (sample_receipt ts)
      \<lparr>te_terminal_digest = WORKER_HANDOFF_PAYLOAD_DIGEST\<rparr>)" "rh_state (sample_terminal_raw ts) = terminal_state ts"
    "validate_handoff_transition_time (sample_terminal_raw ts) 9 ''acknowledgment'' = Inr ()"
    by (simp_all add: sample_terminal_raw_def sample_raw_def worker_handoff_tuple.defs validate_handoff_transition_time_def
      prior_phase_at_ms_def)
  then show ?thesis
    using sample_settled_read(1) sample_raw_tuple(2) sample_incarnation(2) audit
    by (cases ts) (simp_all add: acknowledge_worker_handoff_with_authority_at_def with_tx_def acknowledge_tx_def validate_digest_value_def
       worker_terminal_receipt.defs current_ack_intent_def sqlite_timestamp_def i64_max_def Let_def matching_def
       del: terminal_job.simps)
qed

end
