(* ===== verification/Worker_Protocol.thy ===== *)
theory Worker_Protocol
  imports Worker_Samples
begin

text \<open>
  What the worker handoff protocol guarantees: who may claim, what a claim writes, that a handoff is
  dispatched at most once and settled exactly once, and that its evidence is kept.
\<close>

section \<open>Claims\<close>

lemma validate_claim_witness_published:
  "validate_claim_witness_tx E (conn s) w = Inr () \<longleftrightarrow> current_worker_claim_witness E s = Inr (Some w)"
proof -
  have eq: "b = witness_binding w \<and> c = witness_control w \<longleftrightarrow>
      wc_mode c = WRunning \<and> validate_control_against_binding c b = Inr () \<and> claim_witness_of b c = w" for b c
    by (cases b, cases c, cases w) (auto simp: witness_binding_def witness_control_def claim_witness_of_def
        validate_control_against_binding_def ensure_Inr)
  have admitted: "validate_claim_witness_tx E (conn s) w = Inr () \<longleftrightarrow>
      (\<exists>b c v. binding_from_conn E (conn s) = Inr (Some b) \<and> control_from_conn E (conn s) = Inr (Some c)
         \<and> (b = witness_binding w \<and> c = witness_control w)
         \<and> metadata_from_conn (conn s) ''desired_mode'' = Some v \<and> parse_mode v = Inr ModeRunning)"
    by (auto simp: validate_claim_witness_tx_def bindE_Inr ok_or_Inr ensure_Inr)
  have some: "(case x of None \<Rightarrow> Inr None | Some y \<Rightarrow> f y) = Inr (Some w) \<longleftrightarrow> (\<exists>y. x = Some y \<and> f y = Inr (Some w))"
    for x :: "'x option" and f :: "'x \<Rightarrow> worker_claim_witness option result"
    by (cases x) simp_all
  have published: "current_worker_claim_witness E s = Inr (Some w) \<longleftrightarrow>
      (\<exists>b c v. binding_from_conn E (conn s) = Inr (Some b) \<and> control_from_conn E (conn s) = Inr (Some c)
         \<and> (wc_mode c = WRunning \<and> validate_control_against_binding c b = Inr () \<and> claim_witness_of b c = w)
         \<and> metadata_from_conn (conn s) ''desired_mode'' = Some v \<and> parse_mode v = Inr ModeRunning)"
    by (auto simp: current_worker_claim_witness_def bindE_Inr ok_or_Inr some split: if_splits)
  show ?thesis unfolding admitted published eq ..
qed

text \<open>
  C37: The two routines that decide who may claim agree. The witness a claim is admitted with inside the
  transaction (\<open>validate_claim_witness_tx\<close>) is exactly the witness that the public query
  (\<open>current_worker_claim_witness\<close>) publishes: no other witness is admitted, and a published one always is.
\<close>

theorem claim_witness_current:
  "validate_claim_witness_tx E (conn s) w = Inr () \<longleftrightarrow> current_worker_claim_witness E s = Inr (Some w)"
  by (rule validate_claim_witness_published)

lemma new_uuid4_distinct_Some:
  assumes "U \<subseteq> set draws \<union> set existing" and "length existing < card U"
  obtains x rest where "new_uuid4_distinct existing draws = Some (x, rest)" "x \<notin> set existing" "x \<in> set draws"
    "set rest \<subseteq> set draws" "U \<subseteq> set rest \<union> set (existing @ [x])"
proof -
  have "\<exists>x rest. new_uuid4_distinct existing draws = Some (x, rest) \<and> x \<notin> set existing \<and> x \<in> set draws
      \<and> set rest \<subseteq> set draws \<and> set draws \<subseteq> set rest \<union> insert x (set existing)"
    if "\<not> set draws \<subseteq> set existing"
    using that
  proof (induction draws)
    case (Cons d draws)
    show ?case
    proof (cases "d \<in> set existing")
      case True
      then have "\<not> set draws \<subseteq> set existing" using Cons.prems by simp
      from Cons.IH [OF this] True show ?thesis by auto
    qed auto
  qed simp
  moreover have "\<not> set draws \<subseteq> set existing"
  proof
    assume "set draws \<subseteq> set existing"
    then have "card U \<le> card (set existing)" using assms(1) by (intro card_mono) auto
    then show False using assms(2) card_length [of existing] by simp
  qed
  ultimately obtain x rest where "new_uuid4_distinct existing draws = Some (x, rest)" "x \<notin> set existing"
    "x \<in> set draws" "set rest \<subseteq> set draws" "set draws \<subseteq> set rest \<union> insert x (set existing)" by blast
  then show thesis using that assms(1) by fastforce
qed

text \<open>
  C38: The identifiers of a handoff are always allocated. The loop that draws UUIDs until one is new ends as
  soon as the source has produced five different values, and the handoff, attempt, run, episode and
  trajectory identifiers it returns are drawn values, all different from each other.
\<close>

theorem allocate_ids_terminates:
  assumes "5 \<le> card (set draws)"
  shows "\<exists>ids. allocate_ids draws = Some ids
    \<and> distinct [id_handoff ids, id_attempt ids, id_run ids, id_episode ids, id_trajectory ids]
    \<and> {id_handoff ids, id_attempt ids, id_run ids, id_episode ids, id_trajectory ids} \<subseteq> set draws"
proof -
  let ?U = "set draws"
  obtain h r1 where 1: "new_uuid4_distinct [] draws = Some (h, r1)" "h \<in> ?U" "set r1 \<subseteq> ?U" "?U \<subseteq> set r1 \<union> set [h]"
    using new_uuid4_distinct_Some [of ?U draws "[]"] assms by auto
  obtain a r2 where 2: "new_uuid4_distinct [h] r1 = Some (a, r2)" "a \<notin> {h}" "a \<in> set r1" "set r2 \<subseteq> set r1"
    "?U \<subseteq> set r2 \<union> set [h, a]"
    by (rule new_uuid4_distinct_Some [OF 1(4)]) (use assms in auto)
  obtain r r3 where 3: "new_uuid4_distinct [h, a] r2 = Some (r, r3)" "r \<notin> {h, a}" "r \<in> set r2" "set r3 \<subseteq> set r2"
    "?U \<subseteq> set r3 \<union> set [h, a, r]"
    by (rule new_uuid4_distinct_Some [OF 2(5)]) (use assms in auto)
  obtain e r4 where 4: "new_uuid4_distinct [h, a, r] r3 = Some (e, r4)" "e \<notin> {h, a, r}" "e \<in> set r3" "set r4 \<subseteq> set r3"
    "?U \<subseteq> set r4 \<union> set [h, a, r, e]"
    by (rule new_uuid4_distinct_Some [OF 3(5)]) (use assms in auto)
  obtain t r5 where 5: "new_uuid4_distinct [h, a, r, e] r4 = Some (t, r5)" "t \<notin> {h, a, r, e}" "t \<in> set r4"
    by (rule new_uuid4_distinct_Some [OF 4(5)]) (use assms in auto)
  have "{a, r, e, t} \<subseteq> ?U" using 1(3) 2(3,4) 3(3,4) 4(3,4) 5(3) by blast
  then show ?thesis using 1(1,2) 2(1,2) 3(1,2) 4(1,2) 5(1,2) by (auto simp: allocate_ids_def)
qed

theorem allocate_ids_terminates_witness:
  "\<exists>ids. allocate_ids [''a'', ''a'', ''b'', ''a'', ''c'', ''d'', ''d'', ''e''] = Some ids
    \<and> distinct [id_handoff ids, id_attempt ids, id_run ids, id_episode ids, id_trajectory ids]"
proof -
  have "5 \<le> card (set [''a'', ''a'', ''b'', ''a'', ''c'', ''d'', ''d'', ''e''])" by (simp add: card_insert_if)
  from allocate_ids_terminates [OF this] show ?thesis by blast
qed

lemma find_appended: "(\<forall>x \<in> set t. \<not> P x) \<Longrightarrow> P y \<Longrightarrow> find P (t @ [y]) = Some y"
  by (induction t) auto

lemma claim_handoff_tx_Inr:
  assumes "claim_handoff_tx E bound witness now_ms ids d = Inr (found, d')" and inv: "queue_inv E (queue_of d)"
  obtains
    (none) "found = None" "d' = d"
  | (claimed) r n audit where "found = Some (id_handoff ids)" "validate_claim_witness_tx E d witness = Inr ()"
      "\<forall>a \<in> set (attempts d). \<not> unresolved a" "\<forall>h \<in> set (worker_handoffs d). \<not> open_handoff h"
      "ready_worker_job d (uint now_ms) = Some r" "claimable (j_id r) (uint now_ms) r" "uint n = j_attempt_count r + 1"
      "\<forall>h \<in> set (worker_handoffs d). h_handoff_id h \<noteq> id_handoff ids"
      "d' = d\<lparr>jobs := update_where (\<lambda>x. j_id x = j_id r) (\<lambda>_. claimed_job witness n (uint now_ms) r) (jobs d),
            attempts := attempts d @ [running_attempt (id_attempt ids) (j_id r) n (cw_worker_owner_id witness) (uint now_ms)],
            worker_handoffs := worker_handoffs d @ [prepared_handoff witness ids (j_id r) n (j_payload_digest r)
              (uint (cw_mode_sequence witness)) (json_to_string E empty_parameters) (uint now_ms)],
            audit_log := audit\<rparr>"
  using assms(1)
proof (cases rule: claim_handoff_tx_cases)
  case none
  then show thesis using that(1) by simp
next
  case (tried r limit)
  from tried(8) ready_worker_job_Some(1) [OF tried(6)] queue_inv_distinct(1) [OF inv] show thesis
  proof (cases rule: claim_worker_job_cases)
    case none
    then show thesis using that(1) by simp
  next
    case (claimed n)
    have "\<forall>h \<in> set (worker_handoffs d). h_handoff_id h \<noteq> id_handoff ids"
      using claimed(10) by (auto simp: handoff_clash_def)
    then show thesis
      using that(2) [OF claimed(1) tried(2,3,4,6) claimed(3,2)] claimed(11) by (auto simp: insert_audit_tx_Inr)
  qed
qed

text \<open>
  C9: A claim is exclusive and complete. When it claims, the presented witness is the one the store
  publishes, no attempt of any job is running or unknown and no handoff is open; then exactly one due
  job of the worker operation moves to running with its attempt counter one higher, one running attempt
  and one prepared handoff with the allocated identifiers are added, the caller gets that handoff, and
  nothing else but the audit log changes. When it claims nothing, the store is unchanged.
\<close>

theorem claim_next_worker_handoff_correct:
  assumes run: "claim_next_worker_handoff E s witness now_ms ids = (Inr found, s')"
    and inv: "queue_inv E (queue_of (conn s))"
  shows "case found of
      None \<Rightarrow> s' = s
    | Some handoff \<Rightarrow>
        current_worker_claim_witness E s = Inr (Some witness)
        \<and> (\<forall>a \<in> set (attempts (conn s)). \<not> unresolved a) \<and> (\<forall>h \<in> set (worker_handoffs (conn s)). \<not> open_handoff h)
        \<and> tu_handoff_id handoff = id_handoff ids \<and> tu_attempt_id handoff = id_attempt ids \<and> wh_state handoff = HPrepared
        \<and> (\<exists>r n audit. ready_worker_job (conn s) (uint now_ms) = Some r \<and> uint n = j_attempt_count r + 1
            \<and> tu_job_id handoff = j_id r
            \<and> s' = s\<lparr>conn := (conn s)
                \<lparr>jobs := update_where (\<lambda>x. j_id x = j_id r) (\<lambda>_. claimed_job witness n (uint now_ms) r) (jobs (conn s)),
                 attempts := attempts (conn s)
                   @ [running_attempt (id_attempt ids) (j_id r) n (cw_worker_owner_id witness) (uint now_ms)],
                 worker_handoffs := worker_handoffs (conn s)
                   @ [prepared_handoff witness ids (j_id r) n (j_payload_digest r)
                        (uint (cw_mode_sequence witness)) (json_to_string E empty_parameters) (uint now_ms)],
                 audit_log := audit\<rparr>\<rparr>)"
proof -
  obtain claimed d' where tx: "claim_handoff_tx E (max_payload_bytes s) witness now_ms ids (conn s) = Inr (claimed, d')"
    and s': "s' = s\<lparr>conn := d'\<rparr>" and found: "claimed = None \<Longrightarrow> found = None"
    "\<And>i. claimed = Some i \<Longrightarrow> \<exists>handoff. found = Some handoff \<and> load_handoff E d' i (max_payload_bytes s) = Inr (Some handoff)"
    using run by (auto simp: claim_next_worker_handoff_def bindS_def with_tx_def get_worker_handoff_def bindE_Inr
        ok_or_Inr split: sum.splits option.splits)
  from tx inv show ?thesis
  proof (cases rule: claim_handoff_tx_Inr)
    case none
    then show ?thesis using s' found(1) by simp
  next
    case (claimed r n audit)
    obtain handoff where handoff: "found = Some handoff" "load_handoff E d' (id_handoff ids) (max_payload_bytes s) = Inr (Some handoff)"
      using found(2) claimed(1) by blast
    let ?h = "prepared_handoff witness ids (j_id r) n (j_payload_digest r)
      (uint (cw_mode_sequence witness)) (json_to_string E empty_parameters) (uint now_ms)"
    have "find (\<lambda>h. h_handoff_id h = id_handoff ids) (worker_handoffs d') = Some ?h"
      using claimed(8,9) find_appended [of "worker_handoffs (conn s)" "\<lambda>h. h_handoff_id h = id_handoff ids" ?h] by simp
    with handoff(2) obtain raw job where raw: "raw_handoff_from_row E ?h = Inr raw" "handoff = handoff_of raw job"
      by (auto simp: load_handoff_Some)
    have "tu_handoff_id handoff = id_handoff ids \<and> tu_attempt_id handoff = id_attempt ids \<and> wh_state handoff = HPrepared
      \<and> tu_job_id handoff = j_id r"
      using raw_handoff_fields [OF raw(1)] raw(2) by (simp add: handoff_of_def worker_handoff_tuple.defs)
    moreover have "current_worker_claim_witness E s = Inr (Some witness)"
      using claimed(2) by (simp add: validate_claim_witness_published)
    ultimately show ?thesis
      using claimed(3-5,7,9) s' handoff(1) by auto
  qed
qed

theorem claim_next_worker_handoff_correct_witness:
  "\<exists>handoff s'. claim_next_worker_handoff externals_worker (sample_worker_store [sample_worker_job] [] [] [])
       sample_claim_witness 5 sample_ids = (Inr (Some handoff), s') \<and> wh_state handoff = HPrepared
     \<and> current_worker_claim_witness externals_worker (sample_worker_store [sample_worker_job] [] [] [])
         = Inr (Some sample_claim_witness)"
  using claim_next_worker_handoff_correct [OF sample_claim_run sample_worker_inv] sample_claim_run by simp


section \<open>Completion\<close>

definition authority_checked :: "externals \<Rightarrow> db \<Rightarrow> raw_handoff \<Rightarrow> worker_authority \<Rightarrow> bool" where
  "authority_checked E d raw authority = (case authority of
       OriginalIncarnation \<Rightarrow> True
     | CurrentRecovery recovery \<Rightarrow> validate_current_worker_recovery_tx E d raw recovery = Inr ())"

lemma authority_checked_eq:
  "(case authority of OriginalIncarnation \<Rightarrow> Inr ()
      | CurrentRecovery recovery \<Rightarrow> validate_current_worker_recovery_tx E d raw recovery) = Inr ()
   \<longleftrightarrow> authority_checked E d raw authority"
  by (simp add: authority_checked_def split: worker_authority.splits)

lemma authority_checked_cong:
  assumes "worker_bindings d' = worker_bindings d" "worker_control d' = worker_control d" "metadata d' = metadata d"
    and "worker_handoff_tuple.truncate raw' = worker_handoff_tuple.truncate raw"
  shows "authority_checked E d' raw' authority = authority_checked E d raw authority"
proof -
  have "validate_binding d' = validate_binding d"
    using assms(3) by (simp add: fun_eq_iff validate_binding_def metadata_from_conn_def)
  then have "binding_from_conn E d' = binding_from_conn E d" "control_from_conn E d' = control_from_conn E d"
    unfolding binding_from_conn_def control_from_conn_def assms(1,2) by simp_all
  then show ?thesis
    using assms(4) by (simp add: authority_checked_def validate_current_worker_recovery_tx_def
      worker_handoff_tuple.truncate_def split: worker_authority.splits)
qed

lemma complete_handoff_tx_guards:
  assumes "complete_handoff_tx E bound t receipt authority now_ms d = Inr (already, d')"
  obtains raw material where "validate_tuple E t = Inr ()" "validate_terminal_receipt receipt = Inr ()"
    "compact_terminal_result E receipt = Inr material" "require_handoff_tx E d t bound = Inr raw"
    "ensure_tuple_matches raw t = Inr ()" "authority_checked E d raw authority"
  using assms unfolding complete_handoff_tx_def by - (elim bindE_InrE, auto elim!: bindE_InrE simp: authority_checked_eq)

lemma complete_handoff_tx_replay:
  assumes "validate_tuple E t = Inr ()" "validate_terminal_receipt receipt = Inr ()"
    "compact_terminal_result E receipt = Inr material" "require_handoff_tx E d t bound = Inr raw"
    "worker_handoff_tuple.truncate raw = t" "authority_checked E d raw authority"
    "handoff_is_terminal (rh_state raw)" "rh_terminal raw = Some existing"
    "te_terminal_digest existing = terminal_digest E t receipt" "tr_result_digest existing = tr_result_digest receipt"
  shows "complete_handoff_tx E bound t receipt authority later d = Inr (True, d)"
proof -
  have "ensure_tuple_matches raw t = Inr ()" using assms(5) by (simp add: ensure_tuple_matches_Inr)
  moreover note assms(6) [folded authority_checked_eq]
  ultimately show ?thesis
    using assms by (cases material) (simp add: complete_handoff_tx_def Let_def)
qed

text \<open>The terminal row after a completion, however it was reached.\<close>

lemma completed_row:
  assumes run: "complete_handoff_tx E bound t receipt authority now_ms d = Inr (already, d')"
    and inv: "handoffs_inv (worker_handoffs d)"
  obtains r where "find (\<lambda>h. h_handoff_id h = tu_handoff_id t) (worker_handoffs d') = Some r"
    "handoff_is_terminal (h_state r)" "h_terminal_digest r = Some (terminal_digest E t receipt)"
    "h_result_digest r = Some (tr_result_digest receipt)"
    "\<forall>raw. raw_handoff_from_row E r = Inr raw \<longrightarrow> worker_handoff_tuple.truncate raw = t"
    "worker_bindings d' = worker_bindings d" "worker_control d' = worker_control d" "metadata d' = metadata d"
  using run
proof (cases rule: complete_handoff_tx_cases)
  case (replayed r raw existing)
  then show thesis using that [of r] raw_handoff_receipt(1,2) [OF replayed(2,5)] by simp
next
  case (committed r raw job)
  note r = found_handoff [OF committed(1)]
  let ?f = "terminal_handoff receipt (json_to_string E (compact_value receipt)) (terminal_digest E t receipt)
    (uint (tr_checkpoint_sequence receipt)) (uint now_ms)"
  have d': "worker_handoffs d' = update_where (\<lambda>h. h_handoff_id h = h_handoff_id r \<and> h_state h \<in> {HMayHaveBeenDispatched, HAdmitted})
      ?f (worker_handoffs d)" "worker_bindings d' = worker_bindings d" "worker_control d' = worker_control d" "metadata d' = metadata d"
    using committed(8) by (rule commit_terminal_cases, use r in \<open>auto simp: insert_audit_tx_Inr\<close>)+
  have dist: "distinct (map h_handoff_id (worker_handoffs d))" using inv by (simp add: handoffs_inv_def)
  have key: "h_handoff_id (?f r) = tu_handoff_id t" using r by (simp add: terminal_handoff_def)
  have hs: "worker_handoffs d' = update_where (\<lambda>h. h_handoff_id h = h_handoff_id r) (\<lambda>_. ?f r) (worker_handoffs d)"
    using replace_keyed [of h_handoff_id "worker_handoffs d" r "\<lambda>h. h_state h \<in> {HMayHaveBeenDispatched, HAdmitted}" ?f]
      dist r committed(5) d'(1) by simp
  have found: "find (\<lambda>h. h_handoff_id h = tu_handoff_id t) (worker_handoffs d') = Some (?f r)"
    unfolding hs using find_update_where [of "\<lambda>h. h_handoff_id h = tu_handoff_id t" "\<lambda>_. ?f r" "worker_handoffs d"] key r committed(1)
    by simp
  have same: "\<forall>raw'. raw_handoff_from_row E (?f r) = Inr raw' \<longrightarrow> worker_handoff_tuple.truncate raw' = t"
    using raw_handoff_fields [of E "?f r"] raw_handoff_fields [OF committed(2)] committed(3)
    by (auto simp: terminal_handoff_def worker_handoff_tuple.truncate_def)
  show thesis
    by (rule that [OF found _ _ _ same d'(2-4)])
       (cases "tr_status receipt"; simp add: terminal_handoff_def handoff_is_terminal_def)+
qed


text \<open>
  C10: A completion takes effect exactly once and all at once. When it is accepted, the digest returned is
  that of the exact tuple and receipt and the handoff the caller reads back carries it as its terminal
  evidence. The first completion settles the attempt, the job and the handoff in one transaction
  (a running job with its running attempt, or a quarantined job with its unknown attempt). Sending the
  same receipt again, at any time, returns the same answer marked as already completed and writes nothing.
\<close>

theorem complete_worker_handoff_once:
  assumes run: "complete_worker_handoff_with_authority_at E s t receipt authority now_ms = (Inr c, s')"
    and inv: "handoffs_inv (worker_handoffs (conn s))"
  shows "wcp_terminal_digest c = terminal_digest E t receipt
    \<and> (\<exists>evidence. wh_terminal (wcp_handoff c) = Some evidence \<and> te_terminal_digest evidence = terminal_digest E t receipt
         \<and> tr_result_digest evidence = tr_result_digest receipt)
    \<and> complete_worker_handoff_with_authority_at E s' t receipt authority later = (Inr (c\<lparr>wcp_already_completed := True\<rparr>), s')
    \<and> (if wcp_already_completed c then s' = s
       else \<exists>job attempt audit. find (\<lambda>r. j_id r = tu_job_id t) (jobs (conn s)) = Some job
         \<and> find (\<lambda>a. a_id a = tu_attempt_id t \<and> a_job_id a = tu_job_id t) (attempts (conn s)) = Some attempt
         \<and> (j_status job, a_status attempt) \<in> {(JRunning, ARunning), (JQuarantined, AUnknown)}
         \<and> s' = s\<lparr>conn := (conn s)
             \<lparr>attempts := update_where (\<lambda>a. a_id a = tu_attempt_id t \<and> a_job_id a = tu_job_id t \<and> a_status a = a_status attempt)
                (settled_attempt receipt (uint now_ms)) (attempts (conn s)),
              jobs := update_where (\<lambda>r. j_id r = tu_job_id t \<and> j_status r = j_status job)
                (terminal_job receipt (json_to_string E (compact_value receipt))
                   (hex_digest E (json_to_string E (compact_value receipt))) (uint now_ms)) (jobs (conn s)),
              worker_handoffs := update_where
                (\<lambda>h. h_handoff_id h = tu_handoff_id t \<and> h_state h \<in> {HMayHaveBeenDispatched, HAdmitted})
                (terminal_handoff receipt (json_to_string E (compact_value receipt)) (terminal_digest E t receipt)
                   (uint (tr_checkpoint_sequence receipt)) (uint now_ms)) (worker_handoffs (conn s)),
              audit_log := audit\<rparr>\<rparr>)"
proof -
  obtain already d' handoff where tx: "complete_handoff_tx E (max_payload_bytes s) t receipt authority now_ms (conn s) = Inr (already, d')"
    and s': "s' = s\<lparr>conn := d'\<rparr>" and got: "get_worker_handoff E s' (tu_handoff_id t) = Inr (Some handoff)"
    and c: "c = \<lparr>wcp_handoff = handoff, wcp_terminal_digest = terminal_digest E t receipt, wcp_already_completed = already\<rparr>"
    using run by (auto simp: complete_worker_handoff_with_authority_at_def bindS_def with_tx_def bindE_Inr ok_or_Inr
        split: sum.splits if_splits)
  obtain raw0 material where g: "validate_tuple E t = Inr ()" "validate_terminal_receipt receipt = Inr ()"
    "compact_terminal_result E receipt = Inr material" "require_handoff_tx E (conn s) t (max_payload_bytes s) = Inr raw0"
    "ensure_tuple_matches raw0 t = Inr ()" "authority_checked E (conn s) raw0 authority"
    using tx by (rule complete_handoff_tx_guards)
  obtain r where r: "find (\<lambda>h. h_handoff_id h = tu_handoff_id t) (worker_handoffs d') = Some r"
    "handoff_is_terminal (h_state r)" "h_terminal_digest r = Some (terminal_digest E t receipt)"
    "h_result_digest r = Some (tr_result_digest receipt)"
    and tup: "\<forall>raw. raw_handoff_from_row E r = Inr raw \<longrightarrow> worker_handoff_tuple.truncate raw = t"
    and frame: "worker_bindings d' = worker_bindings (conn s)" "worker_control d' = worker_control (conn s)"
      "metadata d' = metadata (conn s)"
    by (rule completed_row [OF tx inv])
  have load: "load_handoff E d' (tu_handoff_id t) (max_payload_bytes s) = Inr (Some handoff)"
    using got by (simp add: get_worker_handoff_def bindE_Inr s')
  then obtain raw job where raw: "raw_handoff_from_row E r = Inr raw" "handoff_agrees E d' (max_payload_bytes s) raw job"
    "handoff = handoff_of raw job"
    using r(1) by (auto simp: load_handoff_Some)
  obtain evidence where ev: "rh_terminal raw = Some evidence"
    using raw_handoff_fields [OF raw(1)] r(2) by auto
  note digests = raw_handoff_receipt(1,2) [OF raw(1) ev]
  have "complete_handoff_tx E (max_payload_bytes s) t receipt authority later d' = Inr (True, d')"
  proof (rule complete_handoff_tx_replay [OF g(1-3) _ tup [rule_format, OF raw(1)] _ _ ev])
    show "require_handoff_tx E d' t (max_payload_bytes s) = Inr raw"
      using r(1) raw by (auto simp: require_handoff_tx_Inr)
    show "authority_checked E d' raw authority"
      using g(5,6) tup [rule_format, OF raw(1)] authority_checked_cong [OF frame, of raw raw0 E authority]
      by (simp add: ensure_tuple_matches_Inr)
  qed (use raw_handoff_fields [OF raw(1)] r digests in auto)
  then have replay: "complete_worker_handoff_with_authority_at E s' t receipt authority later
      = (Inr (c\<lparr>wcp_already_completed := True\<rparr>), s')"
    using got by (simp add: complete_worker_handoff_with_authority_at_def bindS_def with_tx_def s' c)
  have terminal: "wh_terminal handoff = Some evidence" using raw(3) ev by (simp add: handoff_of_def worker_handoff_tuple.defs)
  from tx show ?thesis
  proof (cases rule: complete_handoff_tx_cases)
    case (replayed r' raw' existing)
    then show ?thesis using replay terminal digests r c s' by simp
  next
    case (committed r' raw' job')
    from committed(8) show ?thesis
    proof (cases rule: commit_terminal_cases)
      case (1 job attempt)
      then show ?thesis using replay terminal digests r c s' committed(6)
        by (simp add: insert_audit_tx_Inr del: terminal_job.simps insert_iff) blast
    qed
  qed
qed


section \<open>Acknowledgment\<close>

lemma projection_acknowledged:
  assumes run: "validate_terminal_projection E t st terminal result ack created updated a b c e = Inr u"
    and st: "st = HCompleted \<or> st = HFailed" and now: "updated \<le> now"
  shows "validate_terminal_projection E t HAcknowledged terminal result ack created now a b c (Some now) = Inr ()"
proof -
  have le: "created \<le> updated" "a = Some v \<Longrightarrow> created \<le> v \<and> v \<le> updated" "b = Some v \<Longrightarrow> created \<le> v \<and> v \<le> updated"
    "c = Some v \<Longrightarrow> created \<le> v \<and> v \<le> updated" for v
    using run by (auto simp: validate_terminal_projection_def bindE_Inr ensure_Inr not_less)
  have all: "\<not> precedes b a \<and> \<not> precedes c b \<and> \<not> precedes c a \<and> lifecycle_columns st ack a b c e = Inr ()
    \<and> (case terminal of None \<Rightarrow> Inr () | Some receipt \<Rightarrow> validate_terminal_evidence E t st receipt result) = Inr ()"
    using run unfolding validate_terminal_projection_def by - (elim bindE_InrE, simp only: ensure_Inr, simp)
  from all have ord: "\<not> precedes b a" "\<not> precedes c b" "\<not> precedes c a"
    and life: "lifecycle_columns st ack a b c e = Inr ()"
    and ev: "(case terminal of None \<Rightarrow> Inr () | Some receipt \<Rightarrow> validate_terminal_evidence E t st receipt result) = Inr ()"
    by simp_all
  note trm = projection_terminal [OF run]
  have ev': "(case terminal of None \<Rightarrow> Inr () | Some receipt \<Rightarrow> validate_terminal_evidence E t HAcknowledged receipt result) = Inr ()"
    using ev by (auto simp: validate_terminal_evidence_def Let_def bindE_Inr ensure_Inr split: option.splits)
  have "\<not> precedes (Some now) c" using le(4) now by (auto simp: precedes_def not_less split: option.splits intro: order_trans)
  moreover have "lifecycle_columns HAcknowledged ack a b c (Some now) = Inr ()"
    using life st by (auto simp: ensure_Inr)
  moreover have "v \<le> now" if "v \<le> updated" for v using that now by (rule order_trans)
  ultimately show ?thesis
    using ord ev' trm st le now
    by (auto simp: validate_terminal_projection_def bindE_Inr ensure_Inr handoff_is_terminal_def not_less split: option.splits)
qed

lemma raw_handoff_acknowledged:
  assumes "raw_handoff_from_row E r = Inr raw" "h_state r = HCompleted \<or> h_state r = HFailed"
    and "rh_updated_at_ms raw \<le> now" "uint now \<le> i64_max"
  shows "raw_handoff_from_row E (r\<lparr>h_state := HAcknowledged, h_acknowledged_at_ms := Some (uint now), h_updated_at_ms := uint now\<rparr>)
    = Inr (raw\<lparr>rh_state := HAcknowledged, rh_acknowledged_at_ms := Some now, rh_updated_at_ms := now\<rparr>)"
proof -
  let ?r = "r\<lparr>h_state := HAcknowledged, h_acknowledged_at_ms := Some (uint now), h_updated_at_ms := uint now\<rparr>"
  have upd: "word_of_int (h_updated_at_ms r) \<le> now" using raw_handoff_fields [OF assms(1)] assms(3) by simp
  have cols: "h_handoff_id ?r = h_handoff_id r" "h_deployment_id ?r = h_deployment_id r" "h_job_id ?r = h_job_id r"
    "h_attempt_id ?r = h_attempt_id r" "h_attempt_number ?r = h_attempt_number r" "h_worker_owner_id ?r = h_worker_owner_id r"
    "h_worker_profile_digest ?r = h_worker_profile_digest r" "h_run_id ?r = h_run_id r" "h_episode_id ?r = h_episode_id r"
    "h_trajectory_id ?r = h_trajectory_id r" "h_payload_digest ?r = h_payload_digest r"
    "h_watchdog_boot_id ?r = h_watchdog_boot_id r" "h_worker_boot_id ?r = h_worker_boot_id r"
    "h_mode_sequence ?r = h_mode_sequence r" "h_operation ?r = h_operation r" "h_parameters ?r = h_parameters r"
    "h_terminal_status ?r = h_terminal_status r" "h_checkpoint_sequence ?r = h_checkpoint_sequence r"
    "h_terminal_ref ?r = h_terminal_ref r" "h_result_digest ?r = h_result_digest r" "h_terminal_digest ?r = h_terminal_digest r"
    "h_terminal_result ?r = h_terminal_result r" "h_ack_intent ?r = h_ack_intent r" "h_created_at_ms ?r = h_created_at_ms r"
    "h_dispatched_at_ms ?r = h_dispatched_at_ms r" "h_admitted_at_ms ?r = h_admitted_at_ms r"
    "h_terminal_at_ms ?r = h_terminal_at_ms r"
    by simp_all
  have new: "required_text (bounded_text 32 (worker_handoff_state_as_str (h_state ?r))) f = Inr (worker_handoff_state_as_str HAcknowledged)"
    "to_sql E (worker_handoff_state_parse (worker_handoff_state_as_str HAcknowledged)) = Inr HAcknowledged"
    "sqlite_optional_u64 (h_acknowledged_at_ms ?r) f = Inr (Some now)" "sqlite_u64 (h_updated_at_ms ?r) f = Inr now" for f
    by (simp_all add: sqlite_optional_u64_def sqlite_u64_def to_sql_simps bounded_required worker_handoff_state_parse_def)
  show ?thesis
    using assms(1)
    unfolding raw_handoff_from_row_def Let_def bounded_status
    by - (elim bindE_InrE, drule projection_acknowledged [of _ _ _ _ _ _ _ _ _ _ _ _ _ now],
      use assms(2) in \<open>simp only: to_sql_Inr worker_handoff_state_roundtrip bounded_required sum.inject simp_thms\<close>,
      use upd in \<open>simp only: sqlite_u64_Inr\<close>,
      simp only: cols new bindE_simps sum.inject,
      hypsubst, simp only: worker_handoff_tuple.extend_def raw_handoff.update_convs worker_handoff_tuple.select_convs
        raw_handoff.select_convs)
qed

lemma projection_status:
  assumes "validate_terminal_projection E t st (Some receipt) result ack created updated a b c e = Inr u"
  shows "(st = HCompleted \<longrightarrow> tr_status receipt = TCompleted) \<and> (st = HFailed \<longrightarrow> tr_status receipt = TFailed)"
  using assms unfolding validate_terminal_projection_def option.case validate_terminal_evidence_def Let_def
  by - (elim bindE_InrE, auto elim!: bindE_InrE simp: ensure_Inr)

lemma raw_handoff_status:
  assumes "raw_handoff_from_row E r = Inr raw" and "rh_terminal raw = Some receipt"
  shows "(h_state r = HCompleted \<longrightarrow> tr_status receipt = TCompleted) \<and> (h_state r = HFailed \<longrightarrow> tr_status receipt = TFailed)"
  using assms unfolding raw_handoff_from_row_def Let_def bounded_status
  by - (elim bindE_InrE, simp only: to_sql_Inr worker_handoff_state_roundtrip bounded_required sum.inject
      worker_handoff_tuple.extend_def, elim conjE, hypsubst, simp only: raw_handoff.select_convs,
      drule projection_status, simp)

lemma agrees_acknowledged:
  assumes "handoff_agrees E d bound raw job" and "rh_terminal raw = Some receipt"
    and "(rh_state raw = HCompleted \<and> tr_status receipt = TCompleted) \<or> (rh_state raw = HFailed \<and> tr_status receipt = TFailed)"
    and "jobs d' = jobs d" "attempts d' = attempts d"
  shows "handoff_agrees E d' bound (raw\<lparr>rh_state := HAcknowledged, rh_acknowledged_at_ms := Some now, rh_updated_at_ms := now\<rparr>) job"
proof -
  let ?raw = "raw\<lparr>rh_state := HAcknowledged, rh_acknowledged_at_ms := Some now, rh_updated_at_ms := now\<rparr>"
  have "validate_handoff_job E ?raw job attempt digest = validate_handoff_job E raw job attempt digest" for attempt digest
    using assms(2,3) by (auto simp: validate_handoff_job_def validate_completed_job_def validate_failed_job_def)
  then show ?thesis
    using assms(1,4,5) by (simp add: handoff_agrees_def load_job_def load_attempt_def)
qed


lemma acknowledge_tx_guards:
  assumes "acknowledge_tx E bound t digest authority now_ms d = Inr (ack, d')"
  obtains raw where "validate_tuple E t = Inr ()" "validate_digest_value digest ''terminal digest'' = Inr ()"
    "require_handoff_tx E d t bound = Inr raw" "ensure_tuple_matches raw t = Inr ()" "authority_checked E d raw authority"
  using assms unfolding acknowledge_tx_def by - (elim bindE_InrE, simp add: authority_checked_eq)

lemma acknowledge_tx_replay:
  assumes "validate_tuple E t = Inr ()" "validate_digest_value digest ''terminal digest'' = Inr ()"
    "require_handoff_tx E d t bound = Inr raw" "worker_handoff_tuple.truncate raw = t" "authority_checked E d raw authority"
    "rh_state raw = HAcknowledged" "rh_terminal raw = Some existing" "te_terminal_digest existing = digest"
  shows "acknowledge_tx E bound t digest authority later d
    = Inr (\<lparr>wak_handoff_id = tu_handoff_id t, wak_terminal_digest = digest, wak_already_acknowledged = True\<rparr>, d)"
proof -
  have "ensure_tuple_matches raw t = Inr ()" using assms(4) by (simp add: ensure_tuple_matches_Inr)
  moreover note assms(5) [folded authority_checked_eq]
  ultimately show ?thesis using assms by (simp add: acknowledge_tx_def)
qed

text \<open>After an acknowledgment the handoff reads as acknowledged with the same evidence.\<close>

lemma acknowledged_reads:
  assumes run: "acknowledge_tx E bound t digest authority now_ms d = Inr (ack, d')"
    and inv: "handoffs_inv (worker_handoffs d)"
  obtains raw existing where "require_handoff_tx E d' t bound = Inr raw" "worker_handoff_tuple.truncate raw = t"
    "rh_state raw = HAcknowledged" "rh_terminal raw = Some existing" "te_terminal_digest existing = digest"
    "authority_checked E d' raw authority"
proof -
  obtain raw0 where g: "require_handoff_tx E d t bound = Inr raw0" "ensure_tuple_matches raw0 t = Inr ()"
    "authority_checked E d raw0 authority"
    using run by (rule acknowledge_tx_guards)
  from run show thesis
  proof (cases rule: acknowledge_tx_cases)
    case (repeated r raw existing)
    then have "raw = raw0" using g(1) by (auto simp: require_handoff_tx_Inr)
    then show thesis using repeated g raw_handoff_fields [OF repeated(2)] by (intro that [of raw existing]) auto
  next
    case (acknowledged r raw existing job)
    note r = found_handoff [OF acknowledged(1)]
    let ?f = "\<lambda>h. h\<lparr>h_state := HAcknowledged, h_acknowledged_at_ms := Some (uint now_ms), h_updated_at_ms := uint now_ms\<rparr>"
    let ?p = "\<lambda>h. (h_state h = HCompleted \<or> h_state h = HFailed) \<and> h_ack_intent h = 1"
    let ?raw = "raw\<lparr>rh_state := HAcknowledged, rh_acknowledged_at_ms := Some now_ms, rh_updated_at_ms := now_ms\<rparr>"
    have d': "worker_handoffs d' = update_where (\<lambda>h. h_handoff_id h = h_handoff_id r \<and> ?p h) ?f (worker_handoffs d)"
      "jobs d' = jobs d" "attempts d' = attempts d" "worker_bindings d' = worker_bindings d"
      "worker_control d' = worker_control d" "metadata d' = metadata d"
      using acknowledged(11) r by (auto simp: insert_audit_tx_Inr)
    have st: "h_state r = HCompleted \<or> h_state r = HFailed" using acknowledged(7) by simp
    have "distinct (map h_handoff_id (worker_handoffs d))" using inv by (simp add: handoffs_inv_def)
    then have "worker_handoffs d' = update_where (\<lambda>h. h_handoff_id h = h_handoff_id r) (\<lambda>_. ?f r) (worker_handoffs d)"
      using replace_keyed [of h_handoff_id "worker_handoffs d" r ?p ?f] r st acknowledged(8) d'(1) by simp
    then have found: "find (\<lambda>h. h_handoff_id h = tu_handoff_id t) (worker_handoffs d') = Some (?f r)"
      using find_update_where [of "\<lambda>h. h_handoff_id h = tu_handoff_id t" "\<lambda>_. ?f r" "worker_handoffs d"] r acknowledged(1)
      by simp
    have "rh_state raw = h_state r" using raw_handoff_fields [OF acknowledged(2)] by simp
    then have "handoff_agrees E d' bound ?raw job"
      using agrees_acknowledged [OF acknowledged(4,5) _ d'(2,3)] raw_handoff_status [OF acknowledged(2,5)] st by auto
    then have "require_handoff_tx E d' t bound = Inr ?raw"
      using found raw_handoff_acknowledged [OF acknowledged(2) st acknowledged(12,13)] by (auto simp: require_handoff_tx_Inr)
    moreover have tup: "worker_handoff_tuple.truncate ?raw = t"
      using acknowledged(3) by (simp add: worker_handoff_tuple.truncate_def)
    moreover have "authority_checked E d' ?raw authority"
      using g(2,3) tup authority_checked_cong [OF d'(4-6), of ?raw raw0 E authority] by (simp add: ensure_tuple_matches_Inr)
    ultimately show thesis using that [of ?raw existing] acknowledged(5,6) by simp
  qed
qed

text \<open>
  C15: An acknowledgment takes effect exactly once. It is accepted only with the digest of the durable
  terminal evidence; it leaves jobs and attempts untouched and changes nothing but the state and the
  times of that one handoff and the audit log. The same acknowledgment sent again, at any time, is
  answered as already acknowledged and writes nothing.
\<close>

theorem acknowledge_worker_handoff_once:
  assumes run: "acknowledge_worker_handoff_with_authority_at E s t digest authority now_ms = (Inr ack, s')"
    and inv: "handoffs_inv (worker_handoffs (conn s))"
  shows "wak_handoff_id ack = tu_handoff_id t \<and> wak_terminal_digest ack = digest
    \<and> (\<exists>h \<in> set (worker_handoffs (conn s)). h_handoff_id h = tu_handoff_id t \<and> h_terminal_digest h = Some digest)
    \<and> (if wak_already_acknowledged ack then s' = s
       else \<exists>audit. s' = s\<lparr>conn := (conn s)\<lparr>worker_handoffs := update_where
           (\<lambda>h. h_handoff_id h = tu_handoff_id t \<and> (h_state h = HCompleted \<or> h_state h = HFailed) \<and> h_ack_intent h = 1)
           (\<lambda>h. h\<lparr>h_state := HAcknowledged, h_acknowledged_at_ms := Some (uint now_ms), h_updated_at_ms := uint now_ms\<rparr>)
           (worker_handoffs (conn s)), audit_log := audit\<rparr>\<rparr>)
    \<and> acknowledge_worker_handoff_with_authority_at E s' t digest authority later
        = (Inr (ack\<lparr>wak_already_acknowledged := True\<rparr>), s')"
proof -
  obtain d' where tx: "acknowledge_tx E (max_payload_bytes s) t digest authority now_ms (conn s) = Inr (ack, d')"
    and s': "s' = s\<lparr>conn := d'\<rparr>"
    using run by (auto simp: acknowledge_worker_handoff_with_authority_at_def with_tx_def split: sum.splits)
  obtain raw existing where r: "require_handoff_tx E d' t (max_payload_bytes s) = Inr raw" "worker_handoff_tuple.truncate raw = t"
    "rh_state raw = HAcknowledged" "rh_terminal raw = Some existing" "te_terminal_digest existing = digest"
    "authority_checked E d' raw authority"
    by (rule acknowledged_reads [OF tx inv])
  obtain raw0 where g: "validate_tuple E t = Inr ()" "validate_digest_value digest ''terminal digest'' = Inr ()"
    using tx by (rule acknowledge_tx_guards)
  have replay: "acknowledge_worker_handoff_with_authority_at E s' t digest authority later
      = (Inr \<lparr>wak_handoff_id = tu_handoff_id t, wak_terminal_digest = digest, wak_already_acknowledged = True\<rparr>, s')"
    using acknowledge_tx_replay [OF g r(1,2,6,3-5)]
    by (simp add: acknowledge_worker_handoff_with_authority_at_def with_tx_def s')
  from tx show ?thesis
  proof (cases rule: acknowledge_tx_cases)
    case (repeated r raw existing)
    then show ?thesis using replay s' found_handoff [OF repeated(1)] raw_handoff_receipt(1) [OF repeated(2,5)] by auto
  next
    case (acknowledged r raw existing job)
    then show ?thesis
      using replay s' found_handoff [OF acknowledged(1)] raw_handoff_receipt(1) [OF acknowledged(2,5)]
      by (auto simp: insert_audit_tx_Inr)
  qed
qed

section \<open>Concrete runs\<close>

theorem complete_worker_handoff_once_witness:
  "\<exists>c s'. complete_worker_handoff_with_authority_at externals_worker sample_dispatched sample_tuple (sample_receipt TCompleted)
       OriginalIncarnation 8 = (Inr c, s') \<and> \<not> wcp_already_completed c
     \<and> complete_worker_handoff_with_authority_at externals_worker s' sample_tuple (sample_receipt TCompleted)
         OriginalIncarnation 3 = (Inr (c\<lparr>wcp_already_completed := True\<rparr>), s')"
proof -
  obtain c au where run: "complete_worker_handoff_with_authority_at externals_worker sample_dispatched sample_tuple
    (sample_receipt TCompleted) OriginalIncarnation 8 = (Inr c, sample_settled TCompleted au)" "\<not> wcp_already_completed c"
    using sample_complete_run by blast
  have "handoffs_inv (worker_handoffs (conn sample_dispatched))" using sample_handoffs_inv(1) by simp
  from complete_worker_handoff_once [OF run(1) this, of 3] run show ?thesis by blast
qed

theorem acknowledge_worker_handoff_once_witness:
  "\<exists>ack s'. acknowledge_worker_handoff_with_authority_at externals_worker (sample_settled TCompleted []) sample_tuple
       WORKER_HANDOFF_PAYLOAD_DIGEST OriginalIncarnation 9 = (Inr ack, s') \<and> \<not> wak_already_acknowledged ack
     \<and> acknowledge_worker_handoff_with_authority_at externals_worker s' sample_tuple
         WORKER_HANDOFF_PAYLOAD_DIGEST OriginalIncarnation 4 = (Inr (ack\<lparr>wak_already_acknowledged := True\<rparr>), s')"
proof -
  obtain s' where run: "acknowledge_worker_handoff_with_authority_at externals_worker (sample_settled TCompleted []) sample_tuple
     WORKER_HANDOFF_PAYLOAD_DIGEST OriginalIncarnation 9
   = (Inr \<lparr>wak_handoff_id = ''h'', wak_terminal_digest = WORKER_HANDOFF_PAYLOAD_DIGEST, wak_already_acknowledged = False\<rparr>, s')"
    using sample_acknowledge_run by blast
  have "handoffs_inv (worker_handoffs (conn (sample_settled TCompleted [])))" using sample_handoffs_inv(2) by simp
  from acknowledge_worker_handoff_once [OF run this, of 4] run show ?thesis by force
qed

end
