(* ===== verification/Operator_Ledger.thy ===== *)
theory Operator_Ledger
  imports Store_Jobs
begin

text \<open>
  \<^verbatim>\<open>storage_admin/*.rs\<close>, \<^verbatim>\<open>storage_retry_admin.rs\<close>, \<^verbatim>\<open>storage_quarantine_admin.rs\<close> and the ledger part
  of \<^verbatim>\<open>storage_backup_admin.rs\<close>: the durable operator command ledger. What \<^verbatim>\<open>ensure_owner_lock\<close>
  answered for the presented lock is the argument \<open>owner\<close>. The lemmas show that a retained command
  is replayed with its first response and never reapplied, that the ledger stays within its
  bounds with a slot reserved for stop, that a retry re-queues only a known failure, and that
  every admission moves the job tables by transitions of the job contract.
\<close>

section \<open>Value types\<close>

definition MAX_OPERATOR_COMMANDS :: nat where
  "MAX_OPERATOR_COMMANDS = 256"

definition RESERVED_STOP_COMMANDS :: nat where
  "RESERVED_STOP_COMMANDS = 1"

definition MAX_OPERATOR_COMMANDS_WITH_STOP_RESERVE :: nat where
  "MAX_OPERATOR_COMMANDS_WITH_STOP_RESERVE = MAX_OPERATOR_COMMANDS + RESERVED_STOP_COMMANDS"

definition RESERVED_LIFECYCLE_COMMANDS :: nat where
  "RESERVED_LIFECYCLE_COMMANDS = 8"

definition MAX_OPERATOR_RESPONSE_BYTES :: nat where
  "MAX_OPERATOR_RESPONSE_BYTES = 8 * 1024"

record operator_context =
  oc_request_id :: string
  oc_idempotency_key :: string
  oc_principal :: string
  oc_capability :: operator_capability
  oc_command_fingerprint :: string

record operator_receipt =
  re_sequence :: u64
  re_request_id :: string
  re_idempotency_key :: string
  re_principal :: string
  re_capability :: operator_capability
  re_command :: operator_command
  re_command_fingerprint :: string
  re_desired_mode :: "desired_mode option"
  re_response :: json
  re_recorded_at_ms :: u64
  re_replayed :: bool

datatype operator_outcome =
    ReadOnly
  | Accepted operator_receipt
  | Replayed operator_receipt

definition validate_uuid_v4 :: "externals \<Rightarrow> string \<Rightarrow> string \<Rightarrow> unit result" where
  "validate_uuid_v4 E value name =
     bindE (map_err (\<lambda>_. InvalidInput (name @ '' must be a UUIDv4'')) (uuid_parse_str E value)) (\<lambda>parsed.
     ensure (uuid_version_num parsed = 4) (InvalidInput (name @ '' must be a UUIDv4'')))"

definition context_validate :: "externals \<Rightarrow> operator_context \<Rightarrow> unit result" where
  "context_validate E context =
     bindE (validate_uuid_v4 E (oc_request_id context) ''request id'') (\<lambda>_.
     bindE (validate_name (oc_idempotency_key context) ''idempotency key'' 128) (\<lambda>_.
     bindE (validate_name (oc_principal context) ''operator principal'' 128) (\<lambda>_.
     map_err InvalidInput (validate_digest (oc_command_fingerprint context)))))"

definition context_new ::
  "externals \<Rightarrow> string \<Rightarrow> string \<Rightarrow> string \<Rightarrow> operator_capability \<Rightarrow> string \<Rightarrow> operator_context result" where
  "context_new E request_id idempotency_key principal_name capability fingerprint =
     (let context = \<lparr>oc_request_id = request_id, oc_idempotency_key = idempotency_key,
                     oc_principal = principal_name, oc_capability = capability,
                     oc_command_fingerprint = fingerprint\<rparr> in
      bindE (context_validate E context) (\<lambda>_. Inr context))"


section \<open>Receipts\<close>

definition operator_receipt_from_row :: "externals \<Rightarrow> operator_row \<Rightarrow> operator_receipt sqlite_result" where
  "operator_receipt_from_row E r =
     (bindE (to_sql E (validate_uuid_v4 E (o_request_id r) ''operator request id'')) (\<lambda>_.
      bindE (to_sql E (validate_name (o_idempotency_key r) ''operator idempotency key'' 128)) (\<lambda>_.
      bindE (to_sql E (validate_name (o_principal r) ''operator principal'' 128)) (\<lambda>_.
      bindE (to_sql E (operator_capability_parse (operator_capability_as_str (o_capability r)))) (\<lambda>capability.
      bindE (ensure (capability = CapAdmin)
               (to_sqlite_error ''operator ledger contains a non-mutating capability'')) (\<lambda>_.
      bindE (to_sql E (operator_command_parse (operator_command_as_str (o_command r)))) (\<lambda>command.
      bindE (ensure (\<not> is_read_only command)
               (to_sqlite_error ''operator ledger contains a read-only command'')) (\<lambda>_.
      bindE (ensure (length (o_response_json r) \<le> MAX_OPERATOR_RESPONSE_BYTES)
               (to_sqlite_error ''operator response exceeds its persisted bound'')) (\<lambda>_.
      bindE (map_err to_sqlite_error (validate_digest (o_command_fingerprint r))) (\<lambda>_.
      bindE (to_sql E (transposeE parse_mode (map_option mode_as_str (o_desired_mode r)))) (\<lambda>mode.
      bindE (ensure (mode = command_desired_mode command)
               (to_sqlite_error ''operator ledger desired mode does not match its command'')) (\<lambda>_.
      bindE (map_err to_sqlite_error (json_from_str E (o_response_json r))) (\<lambda>response.
      bindE (ensure (response \<noteq> JNull) (to_sqlite_error ''operator response must not be null'')) (\<lambda>_.
      bindE (sqlite_u64 (o_sequence r) ''operator command sequence'') (\<lambda>sequence.
      bindE (ensure (sequence \<noteq> 0) (to_sqlite_error ''operator command sequence must be positive'')) (\<lambda>_.
      bindE (sqlite_u64 (o_recorded_at_ms r) ''operator recorded_at_ms'') (\<lambda>recorded.
      Inr \<lparr>re_sequence = sequence, re_request_id = o_request_id r,
           re_idempotency_key = o_idempotency_key r, re_principal = o_principal r,
           re_capability = capability, re_command = command,
           re_command_fingerprint = o_command_fingerprint r, re_desired_mode = mode,
           re_response = response, re_recorded_at_ms = recorded, re_replayed = False\<rparr>)))))))))))))))))"

definition find_operator_by_key :: "externals \<Rightarrow> db \<Rightarrow> string \<Rightarrow> operator_receipt option result" where
  "find_operator_by_key E d key =
     map_err Sqlite (transposeE (operator_receipt_from_row E)
       (find (\<lambda>r. o_idempotency_key r = key) (operator_commands d)))"

definition find_operator_by_request :: "externals \<Rightarrow> db \<Rightarrow> string \<Rightarrow> operator_receipt option result" where
  "find_operator_by_request E d request_id =
     map_err Sqlite (transposeE (operator_receipt_from_row E)
       (find (\<lambda>r. o_request_id r = request_id) (operator_commands d)))"

definition ledger_limit :: "operator_command \<Rightarrow> nat" where
  "ledger_limit command =
     (if command = CmdStop then MAX_OPERATOR_COMMANDS_WITH_STOP_RESERVE
      else if is_lifecycle command then MAX_OPERATOR_COMMANDS
      else MAX_OPERATOR_COMMANDS - RESERVED_LIFECYCLE_COMMANDS)"

definition enforce_ledger_capacity :: "db \<Rightarrow> operator_command \<Rightarrow> unit result" where
  "enforce_ledger_capacity d command =
     ensure (length (operator_commands d) < ledger_limit command)
       (Busy ''operator command ledger retention bound is full'')"

definition validate_response :: "externals \<Rightarrow> json \<Rightarrow> unit result" where
  "validate_response E response =
     bindE (ensure (response \<noteq> JNull) (InvalidInput ''operator response must not be null'')) (\<lambda>_.
     let bytes = json_to_string E response in
     bindE (ensure (length bytes \<le> MAX_OPERATOR_RESPONSE_BYTES)
              (InvalidInput (''operator response exceeds '' @ show_nat MAX_OPERATOR_RESPONSE_BYTES
                             @ '' bytes''))) (\<lambda>_.
     ensure (\<not> contains_nul bytes) (InvalidInput ''operator response contains NUL'')))"

definition job_id_from_response :: "json \<Rightarrow> string result" where
  "job_id_from_response response =
     bindE (ok_or (Conflict ''job submission receipt has no job id'')
              (Option.bind (Option.bind (Option.bind (json_get response ''value'') json_as_object)
                 (\<lambda>value. map_of value ''job_id'')) json_as_str)) (\<lambda>job_id.
     bindE (validate_name job_id ''job id'' 128) (\<lambda>_. Inr job_id))"

definition with_replayed :: "operator_receipt \<Rightarrow> bool \<Rightarrow> operator_receipt" where
  "with_replayed receipt replayed = receipt\<lparr>re_replayed := replayed\<rparr>"

section \<open>Admission\<close>

text \<open>
  The steps the admissions share: the check of a retained receipt against the presented context,
  the fresh-request check, the \<^verbatim>\<open>INSERT\<close> with its \<^verbatim>\<open>AUTOINCREMENT\<close> sequence, the audit detail and
  the receipt that is returned.
\<close>

definition check_replay :: "operator_receipt \<Rightarrow> operator_context \<Rightarrow> operator_command \<Rightarrow> unit result" where
  "check_replay existing context command =
     bindE (ensure (\<not> (re_principal existing \<noteq> oc_principal context
                       \<or> re_capability existing \<noteq> oc_capability context))
              (Unauthorized ''idempotency key belongs to another operator context'')) (\<lambda>_.
     ensure (\<not> (re_command_fingerprint existing \<noteq> oc_command_fingerprint context
                \<or> re_command existing \<noteq> command))
       (Conflict ''idempotency key was reused with a different command fingerprint''))"

definition check_fresh_request :: "externals \<Rightarrow> db \<Rightarrow> operator_context \<Rightarrow> unit result" where
  "check_fresh_request E d context =
     bindE (find_operator_by_request E d (oc_request_id context)) (\<lambda>existing.
     case existing of
       None \<Rightarrow> Inr ()
     | Some receipt \<Rightarrow>
         Inl (Conflict (''request id already belongs to idempotency key '' @ re_idempotency_key receipt)))"

definition operator_row_of ::
  "i64 \<Rightarrow> operator_context \<Rightarrow> operator_command \<Rightarrow> desired_mode option \<Rightarrow> string \<Rightarrow> i64 \<Rightarrow> operator_row" where
  "operator_row_of sequence context command mode response_text now =
     \<lparr>o_sequence = sequence, o_request_id = oc_request_id context,
      o_idempotency_key = oc_idempotency_key context, o_principal = oc_principal context,
      o_capability = oc_capability context, o_command = command,
      o_command_fingerprint = oc_command_fingerprint context, o_desired_mode = mode,
      o_response_json = response_text, o_recorded_at_ms = now\<rparr>"

definition insert_operator_row ::
  "db \<Rightarrow> operator_context \<Rightarrow> operator_command \<Rightarrow> desired_mode option \<Rightarrow> string \<Rightarrow> u64 \<Rightarrow> (i64 \<times> db) result" where
  "insert_operator_row d context command mode response_text now_ms =
     bindE (sqlite_timestamp now_ms) (\<lambda>now.
     let sequence = operator_seq d + 1 in
     bindE (ensure (operator_seq d < i64_max)
              (Sqlite (ConstraintViolation ''operator_commands.sequence''))) (\<lambda>_.
     bindE (insert_row (\<lambda>r x. o_request_id r = o_request_id x \<or> o_idempotency_key r = o_idempotency_key x)
              ''operator_commands'' (operator_row_of sequence context command mode response_text now)
              (operator_commands d)) (\<lambda>t.
     Inr (sequence, d\<lparr>operator_commands := t, operator_seq := sequence\<rparr>))))"

definition operator_detail :: "i64 \<Rightarrow> operator_context \<Rightarrow> operator_command \<Rightarrow> string" where
  "operator_detail sequence context command =
     ''sequence='' @ show_int sequence @ '';request_id='' @ oc_request_id context
     @ '';key='' @ oc_idempotency_key context @ '';principal='' @ oc_principal context
     @ '';capability='' @ operator_capability_as_str (oc_capability context)
     @ '';command='' @ operator_command_as_str command
     @ '';fingerprint='' @ oc_command_fingerprint context"

definition accepted_receipt ::
  "u64 \<Rightarrow> operator_context \<Rightarrow> operator_command \<Rightarrow> desired_mode option \<Rightarrow> json \<Rightarrow> u64 \<Rightarrow> operator_receipt" where
  "accepted_receipt sequence context command mode response now_ms =
     \<lparr>re_sequence = sequence, re_request_id = oc_request_id context,
      re_idempotency_key = oc_idempotency_key context, re_principal = oc_principal context,
      re_capability = oc_capability context, re_command = command,
      re_command_fingerprint = oc_command_fingerprint context, re_desired_mode = mode,
      re_response = response, re_recorded_at_ms = now_ms, re_replayed = False\<rparr>"

definition record_operator_command ::
  "db \<Rightarrow> operator_context \<Rightarrow> operator_command \<Rightarrow> desired_mode option \<Rightarrow> string \<Rightarrow> json \<Rightarrow> string \<Rightarrow> u64
   \<Rightarrow> (operator_outcome \<times> db) result" where
  "record_operator_command d context command mode response_text response audit_action now_ms =
     bindE (insert_operator_row d context command mode response_text now_ms) (\<lambda>(sequence, d).
     bindE (insert_audit_tx d audit_action (operator_detail sequence context command) now_ms) (\<lambda>d.
     bindE (ensure (0 \<le> sequence) (Conflict ''operator command sequence overflow'')) (\<lambda>_.
     Inr (Accepted (accepted_receipt (word_of_int sequence) context command mode response now_ms), d))))"

definition admit_operator_read ::
  "externals \<Rightarrow> operator_context \<Rightarrow> operator_command \<Rightarrow> unit result" where
  "admit_operator_read E context command =
     bindE (context_validate E context) (\<lambda>_.
     bindE (ensure (is_read_only command)
              (InvalidInput ''operator read admission requires a read-only command'')) (\<lambda>_.
     ensure (oc_capability context \<in> {CapRead, CapAdmin})
       (Unauthorized ''operator capability class is not recognized'')))"

definition admit_mutation_tx ::
  "externals \<Rightarrow> operator_context \<Rightarrow> operator_command \<Rightarrow> json \<Rightarrow> u64 \<Rightarrow> db \<Rightarrow> (operator_outcome \<times> db) result" where
  "admit_mutation_tx E context command response now_ms d =
     (let mode = command_desired_mode command in
      bindE (find_operator_by_key E d (oc_idempotency_key context)) (\<lambda>existing.
      case existing of
        Some receipt \<Rightarrow>
          bindE (check_replay receipt context command) (\<lambda>_.
          Inr (Replayed (with_replayed receipt True), d))
      | None \<Rightarrow>
          bindE (check_fresh_request E d context) (\<lambda>_.
          bindE (enforce_ledger_capacity d command) (\<lambda>_.
          bindE (validate_response E response) (\<lambda>_.
          bindE (case mode of
                   None \<Rightarrow> Inr d
                 | Some m \<Rightarrow>
                     bindE (update_metadata_tx d ''desired_mode'' (mode_as_str m)) (\<lambda>d.
                     update_metadata_tx d ''updated_at_ms'' (show_u64 now_ms))) (\<lambda>d.
          record_operator_command d context command mode (json_to_string E response) response
            (if command = CmdStop then ''operator_command_stop_accepted''
             else ''operator_command_accepted'') now_ms))))))"

definition admit_operator_command ::
  "externals \<Rightarrow> unit result \<Rightarrow> store \<Rightarrow> operator_context \<Rightarrow> operator_command \<Rightarrow> json \<Rightarrow> u64
   \<Rightarrow> operator_outcome result \<times> store" where
  "admit_operator_command E owner s context command response now_ms = with_tx s (\<lambda>d.
     bindE owner (\<lambda>_.
     bindE (context_validate E context) (\<lambda>_.
     if is_read_only command
     then bindE (admit_operator_read E context command) (\<lambda>_. Inr (ReadOnly, d))
     else
       bindE (ensure (oc_capability context = CapAdmin)
                (Unauthorized ''read capability cannot admit a mutating operator command'')) (\<lambda>_.
       admit_mutation_tx E context command response now_ms d))))"

text \<open>Job submission: a replay is compared with the job it created.\<close>

definition job_submitted_response :: "string \<Rightarrow> json" where
  "job_submitted_response job_id =
     JObject [(''kind'', JString ''JobSubmitted''), (''value'', JObject [(''job_id'', JString job_id)])]"

definition check_submission_replay ::
  "db \<Rightarrow> operator_receipt \<Rightarrow> operator_context \<Rightarrow> string \<Rightarrow> string \<Rightarrow> unit result" where
  "check_submission_replay d existing context kind payload_digest =
     bindE (check_replay existing context CmdJobSubmit) (\<lambda>_.
     bindE (job_id_from_response (re_response existing)) (\<lambda>job_id.
     bindE (ok_or (Conflict ''job submission receipt has no durable job row'')
              (find (\<lambda>r. j_id r = job_id) (jobs d))) (\<lambda>stored.
     ensure (\<not> (j_kind stored \<noteq> kind \<or> j_payload_digest stored \<noteq> payload_digest))
       (Conflict ''idempotency key was reused with a different job payload''))))"

definition admit_submission_tx ::
  "externals \<Rightarrow> u64 \<Rightarrow> operator_context \<Rightarrow> string \<Rightarrow> string \<Rightarrow> u64 \<Rightarrow> string \<Rightarrow> db
   \<Rightarrow> (operator_outcome \<times> db) result" where
  "admit_submission_tx E bound context kind encoded now_ms new_job_id d =
     (let payload_digest = hex_digest E encoded;
          response = job_submitted_response new_job_id in
      bindE (find_operator_by_key E d (oc_idempotency_key context)) (\<lambda>existing.
      case existing of
        Some receipt \<Rightarrow>
          bindE (check_submission_replay d receipt context kind payload_digest) (\<lambda>_.
          Inr (Replayed (with_replayed receipt True), d))
      | None \<Rightarrow>
          bindE (check_fresh_request E d context) (\<lambda>_.
          bindE (enforce_ledger_capacity d CmdJobSubmit) (\<lambda>_.
          bindE (validate_response E response) (\<lambda>_.
          bindE (insert_job_tx d new_job_id kind encoded payload_digest bound now_ms) (\<lambda>d.
          record_operator_command d context CmdJobSubmit None (json_to_string E response) response
            ''operator_command_accepted'' now_ms))))))"

definition admit_operator_job_submission ::
  "externals \<Rightarrow> unit result \<Rightarrow> store \<Rightarrow> operator_context \<Rightarrow> string \<Rightarrow> json \<Rightarrow> u64 \<Rightarrow> string
   \<Rightarrow> operator_outcome result \<times> store" where
  "admit_operator_job_submission E owner s context kind payload now_ms new_job_id = with_tx s (\<lambda>d.
     bindE owner (\<lambda>_.
     bindE (context_validate E context) (\<lambda>_.
     bindE (ensure (oc_capability context = CapAdmin)
              (Unauthorized ''read capability cannot admit a job submission'')) (\<lambda>_.
     bindE (validate_name kind ''job kind'' 128) (\<lambda>_.
     let encoded = json_to_string E payload in
     bindE (ensure (length encoded \<le> unat (max_payload_bytes s))
              (InvalidInput (''job payload exceeds '' @ show_u64 (max_payload_bytes s) @ '' bytes''))) (\<lambda>_.
     admit_submission_tx E (max_jobs s) context kind encoded now_ms new_job_id d))))))"

definition get_operator_command :: "externals \<Rightarrow> store \<Rightarrow> string \<Rightarrow> operator_receipt option result" where
  "get_operator_command E s idempotency_key =
     bindE (validate_name idempotency_key ''idempotency key'' 128) (\<lambda>_.
     map_err Sqlite (transposeE (operator_receipt_from_row E)
       (find (\<lambda>r. o_idempotency_key r = idempotency_key) (operator_commands (conn s)))))"

definition list_operator_commands :: "externals \<Rightarrow> store \<Rightarrow> u64 \<Rightarrow> operator_receipt list result" where
  "list_operator_commands E s limit =
     (let limit = min (unat limit) MAX_OPERATOR_COMMANDS_WITH_STOP_RESERVE in
      map_err Sqlite (mapE (operator_receipt_from_row E)
        (take limit (select_ordered (\<lambda>_. True) o_sequence (operator_commands (conn s))))))"

definition operator_command_count :: "store \<Rightarrow> u64 result" where
  "operator_command_count s =
     map_err Sqlite (sqlite_u64 (int (length (operator_commands (conn s)))) ''operator command count'')"

section \<open>Retry and quarantine of an attempt\<close>

definition attempt_with_job :: "db \<Rightarrow> string \<Rightarrow> (attempt_row \<times> job_row) result" where
  "attempt_with_job d attempt_id =
     ok_or (NotFound (''attempt '' @ attempt_id))
       (Option.bind (find (\<lambda>a. a_id a = attempt_id) (attempts d)) (\<lambda>a.
        map_option (\<lambda>j. (a, j)) (find (\<lambda>j. j_id j = a_job_id a) (jobs d))))"

definition check_latest_attempt :: "db \<Rightarrow> string \<Rightarrow> string \<Rightarrow> unit result" where
  "check_latest_attempt d job_id attempt_id =
     bindE (ok_or (Sqlite QueryReturnedNoRows)
              (select_last (\<lambda>a. a_job_id a = job_id) (\<lambda>a. (a_sequence a, a_id a)) (attempts d))) (\<lambda>latest.
     ensure (a_id latest = attempt_id)
       (Conflict ''attempt is not the latest durable attempt for its job''))"

definition admit_retry_tx ::
  "externals \<Rightarrow> operator_context \<Rightarrow> string \<Rightarrow> bool \<Rightarrow> json \<Rightarrow> u64 \<Rightarrow> db \<Rightarrow> (operator_outcome \<times> db) result" where
  "admit_retry_tx E context attempt_id reconstruction response now_ms d =
     bindE (find_operator_by_key E d (oc_idempotency_key context)) (\<lambda>existing.
     case existing of
       Some receipt \<Rightarrow>
         bindE (check_replay receipt context CmdRetry) (\<lambda>_.
         Inr (Replayed (with_replayed receipt True), d))
     | None \<Rightarrow>
         bindE (check_fresh_request E d context) (\<lambda>_.
         bindE (ensure (\<not> reconstruction)
                  (Unsupported ''reconstruction retry requires the harness checkpoint adapter'')) (\<lambda>_.
         bindE (validate_response E response) (\<lambda>_.
         bindE (enforce_ledger_capacity d CmdRetry) (\<lambda>_.
         bindE (attempt_with_job d attempt_id) (\<lambda>(a, j).
         bindE (check_latest_attempt d (a_job_id a) attempt_id) (\<lambda>_.
         bindE (ensure (a_status a \<noteq> AUnknown)
                  (Conflict ''unknown attempt requires authorized reconciliation or reconstruction'')) (\<lambda>_.
         bindE (ensure (\<not> (a_status a \<noteq> AFailed \<or> j_status j \<notin> {JFailed, JQuarantined}))
                  (Conflict (''only a known-failed latest attempt can be requeued: attempt=''
                             @ attempt_status_as_str (a_status a) @ '', job='' @ job_status_as_str (j_status j)))) (\<lambda>_.
         bindE (ensure (\<not> (j_completed_at_ms j \<noteq> None \<or> j_result j \<noteq> None \<or> j_completion_digest j \<noteq> None))
                  (Conflict ''terminal job result cannot be retried by watchdog'')) (\<lambda>_.
         bindE (ensure (\<not> list_ex (\<lambda>h. h_job_id h = a_job_id a \<or> h_attempt_id h = attempt_id) (worker_handoffs d))
                  (Conflict ''worker handoff requires its own terminal reconciliation path'')) (\<lambda>_.
         bindE (sqlite_timestamp now_ms) (\<lambda>now.
         let row = (\<lambda>r. j_id r = a_job_id a \<and> j_status r \<in> {JFailed, JQuarantined}) in
         bindE (ensure (matching row (jobs d) = 1) (Conflict ''job changed before retry admission'')) (\<lambda>_.
         let d1 = d\<lparr>jobs := update_where row
                     (\<lambda>r. r\<lparr>j_status := JQueued, j_next_retry_at_ms := Some now, j_worker_id := None\<rparr>)
                     (jobs d)\<rparr> in
         bindE (insert_audit_tx d1 ''attempt_retry_queued''
                  (''attempt_id='' @ attempt_id @ '';job_id='' @ a_job_id a) now_ms) (\<lambda>d2.
         record_operator_command d2 context CmdRetry None (json_to_string E response) response
           ''operator_command_accepted'' now_ms))))))))))))))"

definition admit_operator_retry ::
  "externals \<Rightarrow> unit result \<Rightarrow> store \<Rightarrow> operator_context \<Rightarrow> string \<Rightarrow> bool \<Rightarrow> json \<Rightarrow> u64
   \<Rightarrow> operator_outcome result \<times> store" where
  "admit_operator_retry E owner s context attempt_id reconstruction response now_ms = with_tx s (\<lambda>d.
     bindE owner (\<lambda>_.
     bindE (context_validate E context) (\<lambda>_.
     bindE (ensure (oc_capability context = CapAdmin)
              (Unauthorized ''read capability cannot retry an attempt'')) (\<lambda>_.
     bindE (validate_name attempt_id ''attempt id'' 128) (\<lambda>_.
     admit_retry_tx E context attempt_id reconstruction response now_ms d)))))"

definition quarantine_attempt ::
  "db \<Rightarrow> attempt_row \<Rightarrow> string \<Rightarrow> string \<Rightarrow> i64 \<Rightarrow> db result" where
  "quarantine_attempt d a attempt_id reason now =
     (if a_status a = ARunning then
        let att = (\<lambda>x. a_id x = attempt_id \<and> a_status x = ARunning) in
        bindE (ensure (matching att (attempts d) = 1)
                 (Conflict ''attempt changed before quarantine admission'')) (\<lambda>_.
        Inr (d\<lparr>attempts := update_where att
                 (\<lambda>x. x\<lparr>a_status := AUnknown, a_finished_at_ms := Some now,
                         a_outcome := Some (''operator_quarantine:'' @ reason)\<rparr>) (attempts d)\<rparr>))
      else Inr d)"

definition admit_quarantine_tx ::
  "externals \<Rightarrow> operator_context \<Rightarrow> string \<Rightarrow> string \<Rightarrow> json \<Rightarrow> u64 \<Rightarrow> db \<Rightarrow> (operator_outcome \<times> db) result" where
  "admit_quarantine_tx E context attempt_id reason response now_ms d =
     bindE (find_operator_by_key E d (oc_idempotency_key context)) (\<lambda>existing.
     case existing of
       Some receipt \<Rightarrow>
         bindE (check_replay receipt context CmdQuarantine) (\<lambda>_.
         Inr (Replayed (with_replayed receipt True), d))
     | None \<Rightarrow>
         bindE (check_fresh_request E d context) (\<lambda>_.
         bindE (enforce_ledger_capacity d CmdQuarantine) (\<lambda>_.
         bindE (validate_response E response) (\<lambda>_.
         bindE (attempt_with_job d attempt_id) (\<lambda>(a, j).
         bindE (ensure (\<not> (a_status a = ACompleted \<or> j_status j = JCompleted))
                  (Conflict ''completed attempt cannot be quarantined'')) (\<lambda>_.
         bindE (ensure (j_status j \<noteq> JQuarantined) (Conflict ''attempt job is already quarantined'')) (\<lambda>_.
         bindE (check_latest_attempt d (a_job_id a) attempt_id) (\<lambda>_.
         bindE (ensure (j_status j \<in> {JRunning, JFailed})
                  (Conflict (''attempt job is '' @ job_status_as_str (j_status j)
                             @ '', not eligible for quarantine''))) (\<lambda>_.
         bindE (sqlite_timestamp now_ms) (\<lambda>now.
         bindE (quarantine_attempt d a attempt_id reason now) (\<lambda>d1.
         let row = (\<lambda>r. j_id r = a_job_id a \<and> j_status r \<in> {JRunning, JFailed}) in
         bindE (ensure (matching row (jobs d1) = 1) (Conflict ''job changed before quarantine admission'')) (\<lambda>_.
         let d2 = d1\<lparr>jobs := update_where row
                     (\<lambda>r. r\<lparr>j_status := JQuarantined, j_next_retry_at_ms := None,
                             j_last_error := Some reason\<rparr>) (jobs d1)\<rparr> in
         bindE (insert_audit_tx d2 ''attempt_quarantined''
                  (''attempt_id='' @ attempt_id @ '';job_id='' @ a_job_id a @ '';reason='' @ reason) now_ms) (\<lambda>d3.
         record_operator_command d3 context CmdQuarantine None (json_to_string E response) response
           ''operator_command_accepted'' now_ms)))))))))))))"

definition admit_operator_quarantine ::
  "externals \<Rightarrow> unit result \<Rightarrow> store \<Rightarrow> operator_context \<Rightarrow> string \<Rightarrow> string \<Rightarrow> json \<Rightarrow> u64
   \<Rightarrow> operator_outcome result \<times> store" where
  "admit_operator_quarantine E owner s context attempt_id reason response now_ms = with_tx s (\<lambda>d.
     bindE owner (\<lambda>_.
     bindE (context_validate E context) (\<lambda>_.
     bindE (ensure (oc_capability context = CapAdmin)
              (Unauthorized ''read capability cannot admit attempt quarantine'')) (\<lambda>_.
     bindE (validate_name attempt_id ''attempt id'' 128) (\<lambda>_.
     bindE (validate_name reason ''quarantine reason'' 512) (\<lambda>_.
     admit_quarantine_tx E context attempt_id reason response now_ms d))))))"

section \<open>The ledger contract\<close>

definition ledger_inv :: "db \<Rightarrow> bool" where
  "ledger_inv d \<longleftrightarrow>
     distinct (map o_idempotency_key (operator_commands d)) \<and> distinct (map o_request_id (operator_commands d))
     \<and> sorted_wrt (<) (map o_sequence (operator_commands d))
     \<and> (\<forall>r \<in> set (operator_commands d). 0 < o_sequence r \<and> o_sequence r \<le> operator_seq d)
     \<and> 0 \<le> operator_seq d \<and> operator_seq d \<le> i64_max
     \<and> length (operator_commands d) \<le> MAX_OPERATOR_COMMANDS_WITH_STOP_RESERVE"

definition ledger_extends :: "db \<Rightarrow> db \<Rightarrow> bool" where
  "ledger_extends d d' \<longleftrightarrow> (\<exists>new. operator_commands d' = operator_commands d @ new) \<and> operator_seq d \<le> operator_seq d'"

lemma ledger_extends_refl [simp, intro]: "ledger_extends d d"
  by (simp add: ledger_extends_def)

lemma ledger_extends_trans: "ledger_extends a b \<Longrightarrow> ledger_extends b c \<Longrightarrow> ledger_extends a c"
  by (auto simp: ledger_extends_def)

interpretation key_table: keyed_table o_idempotency_key
  "\<lambda>r x. o_request_id r = o_request_id x \<or> o_idempotency_key r = o_idempotency_key x"
  by unfold_locales simp

interpretation request_table: keyed_table o_request_id
  "\<lambda>r x. o_request_id r = o_request_id x \<or> o_idempotency_key r = o_idempotency_key x"
  by unfold_locales simp

lemma operator_row_of_simps [simp]:
  "o_idempotency_key (operator_row_of sq ctx cmd mode text now) = oc_idempotency_key ctx"
  "o_request_id (operator_row_of sq ctx cmd mode text now) = oc_request_id ctx"
  "o_sequence (operator_row_of sq ctx cmd mode text now) = sq"
  "o_command (operator_row_of sq ctx cmd mode text now) = cmd"
  "o_response_json (operator_row_of sq ctx cmd mode text now) = text"
  by (simp_all add: operator_row_of_def)

lemma record_operator_command_Inr [result_simps]:
  "record_operator_command d ctx cmd mode text response action now_ms = Inr (out, d') \<longleftrightarrow>
     uint now_ms \<le> i64_max \<and> operator_seq d < i64_max \<and> 0 \<le> operator_seq d + 1
     \<and> (\<forall>x \<in> set (operator_commands d). oc_request_id ctx \<noteq> o_request_id x \<and> oc_idempotency_key ctx \<noteq> o_idempotency_key x)
     \<and> valid_audit action (operator_detail (operator_seq d + 1) ctx cmd)
     \<and> length (audit_log d) < audit_limit action
     \<and> out = Accepted (accepted_receipt (word_of_int (operator_seq d + 1)) ctx cmd mode response now_ms)
     \<and> d' = d\<lparr>operator_commands := operator_commands d @ [operator_row_of (operator_seq d + 1) ctx cmd mode text (uint now_ms)],
              operator_seq := operator_seq d + 1,
              audit_log := audit_log d @ [\<lparr>au_action = action, au_detail = operator_detail (operator_seq d + 1) ctx cmd,
                au_occurred_at_ms = uint now_ms\<rparr>]\<rparr>"
  by (auto simp: record_operator_command_def insert_operator_row_def result_simps Let_def)

lemma ledger_limit_bound: "ledger_limit c \<le> MAX_OPERATOR_COMMANDS_WITH_STOP_RESERVE"
  by (auto simp: ledger_limit_def MAX_OPERATOR_COMMANDS_WITH_STOP_RESERVE_def)

lemma recorded_ledger:
  assumes "record_operator_command d1 ctx cmd mode text response action now_ms = Inr (out, d')"
    and same: "operator_commands d1 = operator_commands d" "operator_seq d1 = operator_seq d"
    and "length (operator_commands d) < ledger_limit cmd"
  shows "ledger_inv d \<Longrightarrow> ledger_inv d'" and "ledger_extends d d'"
proof -
  show "ledger_extends d d'"
    using assms(1) same by (auto simp: record_operator_command_Inr ledger_extends_def)
  assume inv: "ledger_inv d"
  have "Suc (length (operator_commands d)) \<le> MAX_OPERATOR_COMMANDS_WITH_STOP_RESERVE"
    using assms(4) ledger_limit_bound [of cmd] by linarith
  with inv assms(1) show "ledger_inv d'"
    unfolding record_operator_command_Inr same
    by (auto simp: ledger_inv_def sorted_wrt_append image_iff less_le_trans le_less_trans)
qed

text \<open>
  What the transport relies on: an admission keeps every retained command where it is, adds at
  most one, keeps the job contract and extends the audit log.
\<close>

locale ledger_operation = job_operation run E
  for run :: "store \<Rightarrow> 'a result \<times> store" and E :: externals +
  assumes ledger_inv_kept: "run s = (r, s') \<Longrightarrow> ledger_inv (conn s) \<Longrightarrow> ledger_inv (conn s')"
    and ledger_extended: "run s = (r, s') \<Longrightarrow> ledger_extends (conn s) (conn s')"

lemma ledger_tx:
  assumes "\<And>s d x d'. f s d = Inr (x, d') \<Longrightarrow> audit_ok d d'"
    and "\<And>s d x d'. queue_inv E (queue_of d) \<Longrightarrow> f s d = Inr (x, d') \<Longrightarrow>
           (queue_step E)\<^sup>*\<^sup>* (queue_of d) (queue_of d')"
    and "\<And>s d x d'. f s d = Inr (x, d') \<Longrightarrow> ledger_extends d d' \<and> (ledger_inv d \<longrightarrow> ledger_inv d')"
  shows "ledger_operation (\<lambda>s. with_tx s (f s)) E"
proof (rule ledger_operation.intro [OF job_tx])
  show "ledger_operation_axioms (\<lambda>s. with_tx s (f s))"
    by standard (auto elim!: with_tx_conn dest: assms(3))
qed (use assms in auto)

lemma record_operator_audit:
  assumes "record_operator_command d1 ctx cmd mode text response action now_ms = Inr (out, d')"
    and "audit_ok d d1"
  shows "audit_ok d d'"
proof -
  have "audit_ok d1 d'"
    using assms(1) by (auto simp: record_operator_command_Inr audit_ok_defs dest: audit_limit_less)
  with assms(2) show ?thesis by (rule audit_ok_trans)
qed

lemma record_operator_frame:
  assumes "record_operator_command d1 ctx cmd mode text response action now_ms = Inr (out, d')"
  shows "queue_of d' = queue_of d1" "metadata d' = metadata d1" "launch_intents d' = launch_intents d1"
    "worker_handoffs d' = worker_handoffs d1"
  using assms by (auto simp: record_operator_command_Inr)


subsection \<open>Mode commands\<close>

lemma admit_mutation_tx_cases:
  assumes "admit_mutation_tx E ctx cmd response now_ms d = Inr (out, d')"
  obtains
    (replay) receipt where "find_operator_by_key E d (oc_idempotency_key ctx) = Inr (Some receipt)"
      "check_replay receipt ctx cmd = Inr ()" "out = Replayed (with_replayed receipt True)" "d' = d"
  | (admit) d1 where "find_operator_by_key E d (oc_idempotency_key ctx) = Inr None"
      "check_fresh_request E d ctx = Inr ()"
      "length (operator_commands d) < ledger_limit cmd" "validate_response E response = Inr ()"
      "d1 = d\<lparr>metadata := metadata d1\<rparr>"
      "metadata d1 = (case command_desired_mode cmd of None \<Rightarrow> metadata d
         | Some m \<Rightarrow> (metadata d)(''desired_mode'' \<mapsto> mode_as_str m, ''updated_at_ms'' \<mapsto> show_u64 now_ms))"
      "record_operator_command d1 ctx cmd (command_desired_mode cmd) (json_to_string E response) response
         (if cmd = CmdStop then ''operator_command_stop_accepted'' else ''operator_command_accepted'') now_ms
         = Inr (out, d')"
proof -
  from assms obtain existing where ex: "find_operator_by_key E d (oc_idempotency_key ctx) = Inr existing"
    by (auto simp: admit_mutation_tx_def Let_def bindE_Inr)
  show thesis
  proof (cases existing)
    case (Some receipt)
    with assms ex show thesis
      by (intro replay) (auto simp: admit_mutation_tx_def bindE_Inr)
  next
    case None
    with assms ex obtain d1 where "check_fresh_request E d ctx = Inr ()"
      "length (operator_commands d) < ledger_limit cmd" "validate_response E response = Inr ()"
      and meta: "(case command_desired_mode cmd of None \<Rightarrow> Inr d
           | Some m \<Rightarrow> bindE (update_metadata_tx d ''desired_mode'' (mode_as_str m)) (\<lambda>d.
               update_metadata_tx d ''updated_at_ms'' (show_u64 now_ms))) = Inr d1"
      and "record_operator_command d1 ctx cmd (command_desired_mode cmd) (json_to_string E response) response
         (if cmd = CmdStop then ''operator_command_stop_accepted'' else ''operator_command_accepted'') now_ms
         = Inr (out, d')"
      by (auto simp: admit_mutation_tx_def Let_def bindE_Inr enforce_ledger_capacity_def ensure_Inr)
    moreover have "d1 = d\<lparr>metadata := metadata d1\<rparr>"
      "metadata d1 = (case command_desired_mode cmd of None \<Rightarrow> metadata d
         | Some m \<Rightarrow> (metadata d)(''desired_mode'' \<mapsto> mode_as_str m, ''updated_at_ms'' \<mapsto> show_u64 now_ms))"
      using meta by (auto simp: result_simps split: option.splits)
    ultimately show thesis using ex None by (intro admit) auto
  qed
qed

interpretation admission: ledger_operation
  "\<lambda>s. admit_operator_command E owner s ctx cmd response now_ms" E for E owner ctx cmd response now_ms
  unfolding admit_operator_command_def
proof (rule ledger_tx)
  fix d x d'
  assume "bindE owner (\<lambda>_. bindE (context_validate E ctx) (\<lambda>_.
     if is_read_only cmd then bindE (admit_operator_read E ctx cmd) (\<lambda>_. Inr (ReadOnly, d))
     else bindE (ensure (oc_capability ctx = CapAdmin)
       (Unauthorized ''read capability cannot admit a mutating operator command'')) (\<lambda>_.
       admit_mutation_tx E ctx cmd response now_ms d))) = Inr (x, d')"
  then consider "d' = d" | "admit_mutation_tx E ctx cmd response now_ms d = Inr (x, d')"
    by (auto simp: bindE_Inr split: if_splits)
  then have "audit_ok d d' \<and> queue_of d' = queue_of d \<and> ledger_extends d d' \<and> (ledger_inv d \<longrightarrow> ledger_inv d')"
  proof cases
    case 2
    then show ?thesis
    proof (cases rule: admit_mutation_tx_cases)
      case (admit d1)
      have d1: "audit_log d1 = audit_log d" "queue_of d1 = queue_of d"
        "operator_commands d1 = operator_commands d" "operator_seq d1 = operator_seq d"
        by (subst admit(5), simp)+
      show ?thesis
        using record_operator_audit [OF admit(7), of d] record_operator_frame(1) [OF admit(7)]
          recorded_ledger [OF admit(7) d1(3,4) admit(3)] d1 by simp
    qed simp
  qed simp
  then show "audit_ok d d'" "(queue_step E)\<^sup>*\<^sup>* (queue_of d) (queue_of d')"
    "ledger_extends d d' \<and> (ledger_inv d \<longrightarrow> ledger_inv d')" by auto
qed
subsection \<open>Job submission\<close>

lemma admit_submission_tx_cases:
  assumes "admit_submission_tx E bound ctx kind encoded now_ms new_id d = Inr (out, d')"
  obtains
    (replay) receipt where "find_operator_by_key E d (oc_idempotency_key ctx) = Inr (Some receipt)"
      "check_submission_replay d receipt ctx kind (hex_digest E encoded) = Inr ()"
      "out = Replayed (with_replayed receipt True)" "d' = d"
  | (admit) d1 where "find_operator_by_key E d (oc_idempotency_key ctx) = Inr None"
      "check_fresh_request E d ctx = Inr ()" "length (operator_commands d) < ledger_limit CmdJobSubmit"
      "insert_job_tx d new_id kind encoded (hex_digest E encoded) bound now_ms = Inr d1"
      "record_operator_command d1 ctx CmdJobSubmit None (json_to_string E (job_submitted_response new_id))
         (job_submitted_response new_id) ''operator_command_accepted'' now_ms = Inr (out, d')"
proof -
  from assms obtain existing where ex: "find_operator_by_key E d (oc_idempotency_key ctx) = Inr existing"
    by (auto simp: admit_submission_tx_def Let_def bindE_Inr)
  show thesis
  proof (cases existing)
    case (Some receipt)
    with assms ex show thesis
      by (intro replay) (auto simp: admit_submission_tx_def Let_def bindE_Inr)
  next
    case None
    with assms ex obtain d1 where "check_fresh_request E d ctx = Inr ()"
      "length (operator_commands d) < ledger_limit CmdJobSubmit"
      "insert_job_tx d new_id kind encoded (hex_digest E encoded) bound now_ms = Inr d1"
      "record_operator_command d1 ctx CmdJobSubmit None (json_to_string E (job_submitted_response new_id))
         (job_submitted_response new_id) ''operator_command_accepted'' now_ms = Inr (out, d')"
      unfolding admit_submission_tx_def Let_def
      by (clarsimp simp: bindE_Inr enforce_ledger_capacity_def ensure_Inr)
    with ex None show thesis by (intro admit) auto
  qed
qed

lemma admit_submission_tx_keeps:
  assumes "admit_submission_tx E bound ctx kind encoded now_ms new_id d = Inr (out, d')"
  shows "audit_ok d d' \<and> (queue_step E)\<^sup>*\<^sup>* (queue_of d) (queue_of d')
    \<and> ledger_extends d d' \<and> (ledger_inv d \<longrightarrow> ledger_inv d')"
  using assms
proof (cases rule: admit_submission_tx_cases)
  case (admit d1)
  have "operator_commands d1 = operator_commands d" "operator_seq d1 = operator_seq d"
    using admit(4) by (auto simp: insert_job_tx_Inr)
  then show ?thesis
    using record_operator_audit [OF admit(5) insert_job_tx_step(2) [OF admit(4)]]
      record_operator_frame(1) [OF admit(5)] insert_job_tx_step(1) [OF admit(4), of E]
      recorded_ledger [OF admit(5) _ _ admit(3)] by auto
qed simp

interpretation submission: ledger_operation
  "\<lambda>s. admit_operator_job_submission E owner s ctx kind payload now_ms new_id" E
  for E owner ctx kind payload now_ms new_id
  unfolding admit_operator_job_submission_def
  by (rule ledger_tx) (auto simp: bindE_Inr Let_def dest!: admit_submission_tx_keeps)

subsection \<open>Retry\<close>

lemma attempt_with_job_Inr:
  assumes "attempt_with_job d attempt_id = Inr (a, j)"
  shows "a \<in> set (attempts d)" "a_id a = attempt_id" "j \<in> set (jobs d)" "j_id j = a_job_id a"
  using assms unfolding attempt_with_job_def ok_or_Inr
  by (auto simp: bind_eq_Some_conv dest!: find_SomeD)

lemma check_latest_attempt_Inr:
  assumes "check_latest_attempt d job_id attempt_id = Inr ()" and "distinct (map a_id (attempts d))"
    and "a \<in> set (attempts d)" "a_id a = attempt_id" and "x \<in> set (attempts d)" "a_job_id x = job_id"
  shows "a_sequence x \<le> a_sequence a"
proof -
  obtain l where l: "select_last (\<lambda>a. a_job_id a = job_id) (\<lambda>a. (a_sequence a, a_id a)) (attempts d) = Some l"
    "a_id l = attempt_id"
    using assms(1) by (auto simp: check_latest_attempt_def result_simps)
  have "l = a" by (rule key_unique [OF assms(2) select_last_Some(1) [OF l(1)] assms(3)]) (simp add: l(2) assms(4))
  with select_last_Some(3) [OF l(1) assms(5,6)] show ?thesis by auto
qed

lemma admit_retry_tx_cases:
  assumes "admit_retry_tx E ctx attempt_id reconstruction response now_ms d = Inr (out, d')"
  obtains
    (replay) receipt where "find_operator_by_key E d (oc_idempotency_key ctx) = Inr (Some receipt)"
      "check_replay receipt ctx CmdRetry = Inr ()" "out = Replayed (with_replayed receipt True)" "d' = d"
  | (admit) a j d2 where "find_operator_by_key E d (oc_idempotency_key ctx) = Inr None"
      "length (operator_commands d) < ledger_limit CmdRetry" "\<not> reconstruction"
      "attempt_with_job d attempt_id = Inr (a, j)" "check_latest_attempt d (a_job_id a) attempt_id = Inr ()"
      "a_status a = AFailed" "j_status j \<in> {JFailed, JQuarantined}"
      "j_completed_at_ms j = None" "j_result j = None"
      "\<forall>h \<in> set (worker_handoffs d). h_job_id h \<noteq> a_job_id a \<and> h_attempt_id h \<noteq> attempt_id"
      "insert_audit_tx (d\<lparr>jobs := update_where (\<lambda>r. j_id r = a_job_id a \<and> j_status r \<in> {JFailed, JQuarantined})
           (\<lambda>r. r\<lparr>j_status := JQueued, j_next_retry_at_ms := Some (uint now_ms), j_worker_id := None\<rparr>) (jobs d)\<rparr>)
         ''attempt_retry_queued'' (''attempt_id='' @ attempt_id @ '';job_id='' @ a_job_id a) now_ms = Inr d2"
      "record_operator_command d2 ctx CmdRetry None (json_to_string E response) response
         ''operator_command_accepted'' now_ms = Inr (out, d')"
proof -
  from assms obtain existing where ex: "find_operator_by_key E d (oc_idempotency_key ctx) = Inr existing"
    by (auto simp: admit_retry_tx_def bindE_Inr)
  show thesis
  proof (cases existing)
    case (Some receipt)
    with assms ex show thesis
      by (intro replay) (auto simp: admit_retry_tx_def bindE_Inr)
  next
    case None
    show thesis
      using assms unfolding admit_retry_tx_def ex None
      by (clarsimp simp: bindE_Inr enforce_ledger_capacity_def ensure_Inr Let_def sqlite_timestamp_Inr list_ex_iff)
         (rule admit, auto simp: ex None)
  qed
qed

lemma retry_step:
  assumes inv: "queue_inv E (queue_of d)" and aj: "attempt_with_job d attempt_id = Inr (a, j)"
    and latest: "check_latest_attempt d (a_job_id a) attempt_id = Inr ()"
    and st: "a_status a = AFailed" "j_status j \<in> {JFailed, JQuarantined}"
  shows "queue_step E (queue_of d)
    (update_where (\<lambda>r. j_id r = a_job_id a \<and> j_status r \<in> {JFailed, JQuarantined})
       (\<lambda>r. r\<lparr>j_status := JQueued, j_next_retry_at_ms := t, j_worker_id := None\<rparr>) (jobs d), attempts d)"
proof -
  note aj = attempt_with_job_Inr [OF aj] and dist = queue_inv_distinct [OF inv]
  have ok: "job_ok E (attempts d) j"
    using inv aj(3) by (simp add: queue_inv_def queue_of_def)
  have pairs: "distinct (map (\<lambda>a. (a_job_id a, a_sequence a)) (attempts d))"
    using inv by (simp add: queue_inv_def queue_of_def)
  have failed: "a_status x = AFailed" if x: "x \<in> set (attempts d)" "a_job_id x = j_id j" for x
  proof (rule ccontr)
    assume "a_status x \<noteq> AFailed"
    moreover have "attempt_ok j x" using ok x by (simp add: job_ok_def)
    ultimately have "a_sequence x = j_attempt_count j"
      using st(2) by (cases "a_status x") (auto simp: attempt_ok_def)
    moreover have "a_sequence a \<le> j_attempt_count j"
      using ok aj by (simp add: job_ok_def attempt_ok_def)
    moreover have "a_sequence x \<le> a_sequence a"
      by (rule check_latest_attempt_Inr [OF latest dist(2) aj(1,2) x(1)]) (simp add: x(2) aj(4))
    ultimately have "x = a"
      by (intro key_unique [OF pairs x(1) aj(1)]) (simp add: x(2) aj(4))
    with \<open>a_status x \<noteq> AFailed\<close> st(1) show False by simp
  qed
  have "queue_step E (jobs d, attempts d) (update_where (\<lambda>r. j_id r = j_id j)
      (\<lambda>_. j\<lparr>j_status := JQueued, j_next_retry_at_ms := t, j_worker_id := None\<rparr>) (jobs d), attempts d)"
    by (rule queue_step.redispose) (use aj st failed in \<open>auto simp: same_job_def\<close>)
  with replace_keyed [OF dist(1) aj(3), of "\<lambda>r. j_status r \<in> {JFailed, JQuarantined}"] st(2) aj(4)
  show ?thesis by (simp add: queue_of_def)
qed

lemma admit_retry_tx_keeps:
  assumes "admit_retry_tx E ctx attempt_id reconstruction response now_ms d = Inr (out, d')"
  shows "audit_ok d d' \<and> (queue_inv E (queue_of d) \<longrightarrow> (queue_step E)\<^sup>*\<^sup>* (queue_of d) (queue_of d'))
    \<and> ledger_extends d d' \<and> (ledger_inv d \<longrightarrow> ledger_inv d')"
  using assms
proof (cases rule: admit_retry_tx_cases)
  case (admit a j d2)
  have "operator_commands d2 = operator_commands d" "operator_seq d2 = operator_seq d"
    using admit(11) by (auto simp: insert_audit_tx_Inr)
  moreover have "queue_of d2 = (update_where (\<lambda>r. j_id r = a_job_id a \<and> j_status r \<in> {JFailed, JQuarantined})
       (\<lambda>r. r\<lparr>j_status := JQueued, j_next_retry_at_ms := Some (uint now_ms), j_worker_id := None\<rparr>) (jobs d), attempts d)"
    using admit(11) by (auto simp: insert_audit_tx_Inr)
  moreover have "audit_ok d d2" by (rule insert_audit_tx_after [OF admit(11)]) simp
  ultimately show ?thesis
    using record_operator_audit [OF admit(12)] record_operator_frame(1) [OF admit(12)]
      retry_step [OF _ admit(4,5,6,7)] recorded_ledger [OF admit(12) _ _ admit(2)]
    by (auto intro: r_into_rtranclp)
qed simp

interpretation retry: ledger_operation
  "\<lambda>s. admit_operator_retry E owner s ctx attempt_id reconstruction response now_ms" E
  for E owner ctx attempt_id reconstruction response now_ms
  unfolding admit_operator_retry_def
  by (rule ledger_tx) (auto simp: bindE_Inr dest!: admit_retry_tx_keeps)

subsection \<open>Quarantine\<close>

definition quarantined_job :: "string \<Rightarrow> job_row \<Rightarrow> job_row" where
  "quarantined_job reason r = r\<lparr>j_status := JQuarantined, j_next_retry_at_ms := None, j_last_error := Some reason\<rparr>"

definition quarantined_attempt :: "string \<Rightarrow> i64 \<Rightarrow> attempt_row \<Rightarrow> attempt_row" where
  "quarantined_attempt reason now x = x\<lparr>a_status := AUnknown, a_finished_at_ms := Some now,
     a_outcome := Some (''operator_quarantine:'' @ reason)\<rparr>"

lemma admit_quarantine_tx_cases:
  assumes "admit_quarantine_tx E ctx attempt_id reason response now_ms d = Inr (out, d')"
  obtains
    (replay) receipt where "find_operator_by_key E d (oc_idempotency_key ctx) = Inr (Some receipt)"
      "check_replay receipt ctx CmdQuarantine = Inr ()" "out = Replayed (with_replayed receipt True)" "d' = d"
  | (admit) a j d1 d3 where "find_operator_by_key E d (oc_idempotency_key ctx) = Inr None"
      "length (operator_commands d) < ledger_limit CmdQuarantine"
      "attempt_with_job d attempt_id = Inr (a, j)" "check_latest_attempt d (a_job_id a) attempt_id = Inr ()"
      "a_status a \<noteq> ACompleted" "j_status j \<in> {JRunning, JFailed}"
      "quarantine_attempt d a attempt_id reason (uint now_ms) = Inr d1"
      "insert_audit_tx (d1\<lparr>jobs := update_where (\<lambda>r. j_id r = a_job_id a \<and> j_status r \<in> {JRunning, JFailed})
           (quarantined_job reason) (jobs d1)\<rparr>)
         ''attempt_quarantined'' (''attempt_id='' @ attempt_id @ '';job_id='' @ a_job_id a @ '';reason='' @ reason) now_ms = Inr d3"
      "record_operator_command d3 ctx CmdQuarantine None (json_to_string E response) response
         ''operator_command_accepted'' now_ms = Inr (out, d')"
proof -
  from assms obtain existing where ex: "find_operator_by_key E d (oc_idempotency_key ctx) = Inr existing"
    by (auto simp: admit_quarantine_tx_def bindE_Inr)
  show thesis
  proof (cases existing)
    case (Some receipt)
    with assms ex show thesis
      by (intro replay) (auto simp: admit_quarantine_tx_def bindE_Inr)
  next
    case None
    show thesis
      using assms unfolding admit_quarantine_tx_def ex None quarantined_job_def [symmetric]
      by (clarsimp simp: bindE_Inr enforce_ledger_capacity_def ensure_Inr Let_def sqlite_timestamp_Inr)
         (rule admit, auto simp: ex None quarantined_job_def [abs_def])
  qed
qed

lemma quarantine_attempt_Inr:
  assumes "quarantine_attempt d a attempt_id reason now = Inr d1"
  shows "d1 = d\<lparr>attempts := (if a_status a = ARunning
      then update_where (\<lambda>x. a_id x = attempt_id \<and> a_status x = ARunning) (quarantined_attempt reason now) (attempts d)
      else attempts d)\<rparr>"
  using assms by (auto simp: quarantine_attempt_def result_simps Let_def quarantined_attempt_def [abs_def] split: if_splits)

lemma quarantine_step:
  assumes inv: "queue_inv E (queue_of d)" and aj: "attempt_with_job d attempt_id = Inr (a, j)"
    and latest: "check_latest_attempt d (a_job_id a) attempt_id = Inr ()"
    and st: "a_status a \<noteq> ACompleted" "j_status j \<in> {JRunning, JFailed}"
  shows "queue_step E (queue_of d)
    (update_where (\<lambda>r. j_id r = a_job_id a \<and> j_status r \<in> {JRunning, JFailed}) (quarantined_job reason) (jobs d),
     if a_status a = ARunning
     then update_where (\<lambda>x. a_id x = attempt_id \<and> a_status x = ARunning) (quarantined_attempt reason now) (attempts d)
     else attempts d)"
proof -
  note aj = attempt_with_job_Inr [OF aj] and dist = queue_inv_distinct [OF inv]
  have ok: "job_ok E (attempts d) j"
    using inv aj(3) by (simp add: queue_inv_def queue_of_def)
  have pairs: "distinct (map (\<lambda>a. (a_job_id a, a_sequence a)) (attempts d))"
    using inv by (simp add: queue_inv_def queue_of_def)
  show ?thesis
  proof (cases "j_status j = JRunning")
    case True
    then obtain x where x: "x \<in> set (attempts d)" "a_job_id x = j_id j" "a_status x = ARunning"
      using ok by (auto simp: job_ok_def)
    then have "a_sequence x = j_attempt_count j" using ok by (simp add: job_ok_def attempt_ok_def)
    moreover have "a_sequence a \<le> j_attempt_count j"
      using ok aj by (simp add: job_ok_def attempt_ok_def)
    moreover have "a_sequence x \<le> a_sequence a"
      by (rule check_latest_attempt_Inr [OF latest dist(2) aj(1,2) x(1)]) (simp add: x(2) aj(4))
    ultimately have "x = a"
      by (intro key_unique [OF pairs x(1) aj(1)]) (simp add: x(2) aj(4))
    with x(3) have running: "a_status a = ARunning" by simp
    show ?thesis
      using settle_step [OF inv aj(3), of "\<lambda>r. j_status r \<in> {JRunning, JFailed}" a "\<lambda>x. a_status x = ARunning"
          "quarantined_job reason" "quarantined_attempt reason now"] aj running True
      by (simp add: quarantined_job_def quarantined_attempt_def same_job_def same_attempt_def)
  next
    case False
    with st(2) have failed: "j_status j = JFailed" by simp
    have all: "a_status x = AFailed" if "x \<in> set (attempts d)" "a_job_id x = j_id j" for x
      using ok that failed by (cases "a_status x") (auto simp: job_ok_def attempt_ok_def)
    have "queue_step E (jobs d, attempts d)
        (update_where (\<lambda>r. j_id r = j_id j) (\<lambda>_. quarantined_job reason j) (jobs d), attempts d)"
      by (rule queue_step.redispose) (use aj failed all in \<open>auto simp: same_job_def quarantined_job_def\<close>)
    moreover have "a_status a \<noteq> ARunning" using all [OF aj(1)] aj(4) by simp
    moreover have "update_where (\<lambda>r. j_id r = j_id j \<and> j_status r \<in> {JRunning, JFailed}) (quarantined_job reason) (jobs d)
      = update_where (\<lambda>r. j_id r = j_id j) (\<lambda>_. quarantined_job reason j) (jobs d)"
      by (rule replace_keyed [OF dist(1) aj(3)]) (simp add: failed)
    ultimately show ?thesis by (simp add: queue_of_def aj(4))
  qed
qed

lemma admit_quarantine_tx_keeps:
  assumes "admit_quarantine_tx E ctx attempt_id reason response now_ms d = Inr (out, d')"
  shows "audit_ok d d' \<and> (queue_inv E (queue_of d) \<longrightarrow> (queue_step E)\<^sup>*\<^sup>* (queue_of d) (queue_of d'))
    \<and> ledger_extends d d' \<and> (ledger_inv d \<longrightarrow> ledger_inv d')"
  using assms
proof (cases rule: admit_quarantine_tx_cases)
  case (admit a j d1 d3)
  note d1 = quarantine_attempt_Inr [OF admit(7)]
  have "operator_commands d3 = operator_commands d" "operator_seq d3 = operator_seq d"
    using admit(8) d1 by (auto simp: insert_audit_tx_Inr)
  moreover have "queue_of d3 = (update_where (\<lambda>r. j_id r = a_job_id a \<and> j_status r \<in> {JRunning, JFailed})
       (quarantined_job reason) (jobs d), attempts d1)"
    using admit(8) d1 by (auto simp: insert_audit_tx_Inr)
  moreover have "audit_ok d d3"
    by (rule insert_audit_tx_after [OF admit(8)]) (simp add: d1)
  ultimately show ?thesis
    using record_operator_audit [OF admit(9)] record_operator_frame(1) [OF admit(9)]
      quarantine_step [OF _ admit(3,4,5,6), where reason = reason and now = "uint now_ms"]
      recorded_ledger [OF admit(9) _ _ admit(2)] d1
    by (auto intro: r_into_rtranclp)
qed simp

interpretation quarantine: ledger_operation
  "\<lambda>s. admit_operator_quarantine E owner s ctx attempt_id reason response now_ms" E
  for E owner ctx attempt_id reason response now_ms
  unfolding admit_operator_quarantine_def
  by (rule ledger_tx) (auto simp: bindE_Inr dest!: admit_quarantine_tx_keeps)

section \<open>Replay\<close>

lemma validate_uuid_v4_Inr: "validate_uuid_v4 E v n = Inr () \<longleftrightarrow> (\<exists>u. uuid_parse_str E v = Inr u \<and> uuid_version_num u = 4)"
  by (auto simp: validate_uuid_v4_def result_simps)

lemma context_validate_Inr:
  "context_validate E ctx = Inr () \<longleftrightarrow>
     validate_uuid_v4 E (oc_request_id ctx) ''request id'' = Inr ()
     \<and> validate_name (oc_idempotency_key ctx) ''idempotency key'' 128 = Inr ()
     \<and> validate_name (oc_principal ctx) ''operator principal'' 128 = Inr ()
     \<and> validate_digest (oc_command_fingerprint ctx) = Inr ()"
  by (simp add: context_validate_def result_simps)

lemma validate_response_Inr [result_simps]:
  "validate_response E response = Inr () \<longleftrightarrow>
     response \<noteq> JNull \<and> length (json_to_string E response) \<le> MAX_OPERATOR_RESPONSE_BYTES
     \<and> \<not> contains_nul (json_to_string E response)"
  by (simp add: validate_response_def result_simps Let_def)

text \<open>A row that an admission wrote decodes to the receipt it returned.\<close>

lemma admitted_row_decodes:
  assumes "context_validate E ctx = Inr ()" and "oc_capability ctx = CapAdmin" and "\<not> is_read_only cmd"
    and "mode = command_desired_mode cmd" and "validate_response E response = Inr ()"
    and "json_from_str E (json_to_string E response) = Inr response"
    and "0 < sq" and "sq \<le> i64_max"
  shows "operator_receipt_from_row E (operator_row_of sq ctx cmd mode (json_to_string E response) (uint now_ms))
    = Inr (accepted_receipt (word_of_int sq) ctx cmd mode response now_ms)"
proof -
  have "(word_of_int sq :: u64) \<noteq> 0"
    using assms(7,8) by (simp add: i64_max_def word_of_int_eq_0_iff zdvd_not_zless)
  moreover have "validate_name (oc_idempotency_key ctx) n 128 = Inr ()"
    "validate_name (oc_principal ctx) n 128 = Inr ()" "validate_uuid_v4 E (oc_request_id ctx) n = Inr ()" for n
    using assms(1) by (auto simp: context_validate_Inr validate_name_Inr validate_uuid_v4_Inr)
  moreover have "transposeE parse_mode (map_option mode_as_str mode) = Inr mode"
    by (cases mode) auto
  ultimately show ?thesis
    using assms by (simp add: operator_receipt_from_row_def operator_row_of_def accepted_receipt_def
        context_validate_Inr validate_response_Inr sqlite_u64_def operator_capability_parse_def)
qed

lemma find_key_in_ledger:
  assumes "ledger_inv d" and "r \<in> set (operator_commands d)" and "operator_receipt_from_row E r = Inr receipt"
  shows "find_operator_by_key E d (o_idempotency_key r) = Inr (Some receipt)"
proof -
  have "find (\<lambda>x. o_idempotency_key x = o_idempotency_key r) (operator_commands d) = Some r"
    by (rule key_table.find_member) (use assms in \<open>auto simp: ledger_inv_def key_table.keys_distinct_def\<close>)
  with assms(3) show ?thesis by (simp add: find_operator_by_key_def)
qed

lemma check_replay_self [simp]: "check_replay (accepted_receipt sq ctx cmd mode response now_ms) ctx cmd = Inr ()"
  by (simp add: check_replay_def accepted_receipt_def)

lemma ledger_extends_mem: "ledger_extends d d' \<Longrightarrow> r \<in> set (operator_commands d) \<Longrightarrow> r \<in> set (operator_commands d')"
  by (auto simp: ledger_extends_def)


section \<open>Stopping\<close>

lemma operator_detail_valid:
  assumes ctx: "context_validate E ctx = Inr ()" and req: "length (oc_request_id ctx) \<le> 128" "\<not> contains_nul (oc_request_id ctx)"
    and sq: "0 \<le> sq" "sq \<le> i64_max"
  shows "length (operator_detail sq ctx cmd) \<le> max_audit_detail_bytes" "\<not> contains_nul (operator_detail sq ctx cmd)"
proof -
  have len: "length (oc_idempotency_key ctx) \<le> 128" "length (oc_principal ctx) \<le> 128" "length (oc_command_fingerprint ctx) = 64"
    and hex: "list_all (\<lambda>c. is_digit c \<or> (97 \<le> byte c \<and> byte c \<le> 102)) (oc_command_fingerprint ctx)"
    and nul: "\<not> contains_nul (oc_idempotency_key ctx)" "\<not> contains_nul (oc_principal ctx)"
    using ctx by (auto simp: context_validate_Inr validate_name_Inr validate_digest_def ensure_Inr)
  have "length (operator_command_as_str cmd) \<le> 16" "length (operator_capability_as_str (oc_capability ctx)) \<le> 5"
    by (cases cmd; simp) (cases "oc_capability ctx"; simp)
  with len req(1) length_show_int [OF sq] show "length (operator_detail sq ctx cmd) \<le> max_audit_detail_bytes"
    by (simp add: operator_detail_def max_audit_detail_bytes_def)
  have "\<not> contains_nul (oc_command_fingerprint ctx)"
    using hex by (auto simp: contains_nul_def list_all_iff is_digit_def nul_def byte_def)
  moreover have "\<not> contains_nul (operator_command_as_str cmd)" "\<not> contains_nul (operator_capability_as_str (oc_capability ctx))"
    by (cases cmd; simp add: plain_guards plain_def byte_def) (cases "oc_capability ctx"; simp add: plain_guards plain_def byte_def)
  moreover have "\<not> contains_nul ''sequence=''" "\<not> contains_nul '';request_id=''" "\<not> contains_nul '';key=''"
    "\<not> contains_nul '';principal=''" "\<not> contains_nul '';capability=''" "\<not> contains_nul '';command=''" "\<not> contains_nul '';fingerprint=''"
    by (simp_all add: plain_guards plain_def byte_def)
  ultimately show "\<not> contains_nul (operator_detail sq ctx cmd)"
    using nul req(2) show_int_no_nul [OF sq(1)] unfolding operator_detail_def contains_nul_append by blast
qed

text \<open>
  C17: Stop is always admitted. With the ledger filled to its normal bound and the audit log filled
  to its own, a fresh stop command of an administrator is still accepted, and the stored desired
  mode is then stopped.
\<close>

theorem emergency_stop_admitted:
  assumes ctx: "context_validate E ctx = Inr ()" "oc_capability ctx = CapAdmin"
    and req: "length (oc_request_id ctx) \<le> 128" "\<not> contains_nul (oc_request_id ctx)"
    and fresh: "\<forall>r \<in> set (operator_commands (conn s)). o_idempotency_key r \<noteq> oc_idempotency_key ctx
                  \<and> o_request_id r \<noteq> oc_request_id ctx"
    and room: "length (operator_commands (conn s)) \<le> MAX_OPERATOR_COMMANDS"
      "length (audit_log (conn s)) \<le> MAX_AUDIT_RECORDS"
      "0 \<le> operator_seq (conn s)" "operator_seq (conn s) < i64_max"
    and meta: "metadata (conn s) ''desired_mode'' \<noteq> None" "metadata (conn s) ''updated_at_ms'' \<noteq> None"
    and response: "validate_response E response = Inr ()" and now: "uint now_ms \<le> i64_max"
  shows "\<exists>receipt s'. admit_operator_command E (Inr ()) s ctx CmdStop response now_ms = (Inr (Accepted receipt), s')
    \<and> store_desired_mode s' = Inr ModeStopped \<and> re_response receipt = response"
proof -
  let ?d = "(conn s)\<lparr>metadata := (metadata (conn s))(''desired_mode'' \<mapsto> ''stopped'', ''updated_at_ms'' \<mapsto> show_u64 now_ms)\<rparr>"
  have none: "find (\<lambda>r. o_idempotency_key r = oc_idempotency_key ctx) (operator_commands (conn s)) = None"
    "find (\<lambda>r. o_request_id r = oc_request_id ctx) (operator_commands (conn s)) = None"
    using fresh by (auto simp: find_None_iff)
  have "valid_audit ''operator_command_stop_accepted'' (operator_detail (operator_seq (conn s) + 1) ctx CmdStop)"
    using operator_detail_valid [OF ctx(1) req, of "operator_seq (conn s) + 1" CmdStop] room
    by (simp add: valid_audit_def plain_guards plain_def byte_def)
  moreover have "length (audit_log (conn s)) < audit_limit ''operator_command_stop_accepted''"
    using room by (simp add: audit_limit_def is_emergency_stop_audit_action_def RESERVED_STOP_AUDIT_RECORDS_def)
  ultimately obtain out d' where rec: "record_operator_command ?d ctx CmdStop (Some ModeStopped) (json_to_string E response) response
      ''operator_command_stop_accepted'' now_ms = Inr (out, d')"
    and out: "out = Accepted (accepted_receipt (word_of_int (operator_seq (conn s) + 1)) ctx CmdStop (Some ModeStopped) response now_ms)"
    and d': "metadata d' = metadata ?d"
    using record_operator_command_Inr [of ?d ctx CmdStop "Some ModeStopped" "json_to_string E response" response
        "''operator_command_stop_accepted''" now_ms] fresh room now by fastforce
  have "admit_operator_command E (Inr ()) s ctx CmdStop response now_ms = (Inr out, s\<lparr>conn := d'\<rparr>)"
    using ctx none meta response rec room
    by (simp add: admit_operator_command_def admit_mutation_tx_def is_read_only_def find_operator_by_key_def
        check_fresh_request_def find_operator_by_request_def enforce_ledger_capacity_def ledger_limit_def
        MAX_OPERATOR_COMMANDS_WITH_STOP_RESERVE_def RESERVED_STOP_COMMANDS_def update_metadata_tx_def with_tx_def)
  then show ?thesis
    using out d' by (simp add: store_desired_mode_def store_metadata_def metadata_from_conn_def accepted_receipt_def parse_mode_def)
qed

text \<open>The mutations an operator can ask for; a backup is admitted as a command.\<close>

datatype operator_mutation =
    MutCommand operator_command json
  | MutSubmit string json string
  | MutRetry string bool json
  | MutQuarantine string string json

fun mutation_command :: "operator_mutation \<Rightarrow> operator_command" where
  "mutation_command (MutCommand cmd response) = cmd"
| "mutation_command (MutSubmit kind payload new_id) = CmdJobSubmit"
| "mutation_command (MutRetry attempt_id reconstruction response) = CmdRetry"
| "mutation_command (MutQuarantine attempt_id reason response) = CmdQuarantine"

fun admit_mutation ::
  "externals \<Rightarrow> unit result \<Rightarrow> store \<Rightarrow> operator_context \<Rightarrow> operator_mutation \<Rightarrow> u64 \<Rightarrow> operator_outcome result \<times> store" where
  "admit_mutation E owner s ctx (MutCommand cmd response) now_ms = admit_operator_command E owner s ctx cmd response now_ms"
| "admit_mutation E owner s ctx (MutSubmit kind payload new_id) now_ms =
     admit_operator_job_submission E owner s ctx kind payload now_ms new_id"
| "admit_mutation E owner s ctx (MutRetry attempt_id reconstruction response) now_ms =
     admit_operator_retry E owner s ctx attempt_id reconstruction response now_ms"
| "admit_mutation E owner s ctx (MutQuarantine attempt_id reason response) now_ms =
     admit_operator_quarantine E owner s ctx attempt_id reason response now_ms"

text \<open>What each admission checks of its arguments before it looks at the capacity of the ledger.\<close>

fun mutation_valid :: "externals \<Rightarrow> store \<Rightarrow> operator_mutation \<Rightarrow> bool" where
  "mutation_valid E s (MutCommand cmd response) \<longleftrightarrow> \<not> is_read_only cmd"
| "mutation_valid E s (MutSubmit kind payload new_id) \<longleftrightarrow>
     is_ok (validate_name kind ''job kind'' 128) \<and> length (json_to_string E payload) \<le> unat (max_payload_bytes s)"
| "mutation_valid E s (MutRetry attempt_id reconstruction response) \<longleftrightarrow>
     is_ok (validate_name attempt_id ''attempt id'' 128) \<and> \<not> reconstruction \<and> is_ok (validate_response E response)"
| "mutation_valid E s (MutQuarantine attempt_id reason response) \<longleftrightarrow>
     is_ok (validate_name attempt_id ''attempt id'' 128) \<and> is_ok (validate_name reason ''quarantine reason'' 512)"

text \<open>The rows each class of command may find in the ledger.\<close>

lemma ledger_limit_values:
  "ledger_limit cmd = (if cmd = CmdStop then 257 else if cmd \<in> {CmdStart, CmdPause, CmdResume, CmdDrain} then 256 else 248)"
  by (cases cmd)
     (simp_all add: ledger_limit_def is_lifecycle_def MAX_OPERATOR_COMMANDS_WITH_STOP_RESERVE_def MAX_OPERATOR_COMMANDS_def
       RESERVED_STOP_COMMANDS_def RESERVED_LIFECYCLE_COMMANDS_def)

lemma recorded_row:
  assumes "record_operator_command d1 ctx cmd mode body response action now_ms = Inr (out, d')"
    and "operator_commands d1 = operator_commands d"
  shows "\<exists>row. operator_commands d' = operator_commands d @ [row] \<and> o_command row = cmd
    \<and> o_idempotency_key row = oc_idempotency_key ctx"
  using assms by (auto simp: record_operator_command_Inr)

lemma admitted_row:
  assumes "admit_mutation E owner s ctx m now_ms = (Inr (Accepted receipt), s')"
  shows "length (operator_commands (conn s)) < ledger_limit (mutation_command m)
    \<and> (\<exists>row. operator_commands (conn s') = operator_commands (conn s) @ [row] \<and> o_command row = mutation_command m
         \<and> o_idempotency_key row = oc_idempotency_key ctx)"
proof (cases m)
  case (MutCommand cmd response)
  then obtain d' where s': "s' = s\<lparr>conn := d'\<rparr>" and "admit_mutation_tx E ctx cmd response now_ms (conn s) = Inr (Accepted receipt, d')"
    using assms by (auto simp: admit_operator_command_def with_tx_Inr bindE_Inr split: if_splits)
  from this(2) show ?thesis
  proof (cases rule: admit_mutation_tx_cases)
    case (admit d1)
    have same: "operator_commands d1 = operator_commands (conn s)" by (subst admit(5)) simp
    show ?thesis using recorded_row [OF admit(7) same] admit(3) MutCommand s' by simp
  qed simp
next
  case (MutSubmit kind payload new_id)
  then obtain d' encoded where s': "s' = s\<lparr>conn := d'\<rparr>"
      and "admit_submission_tx E (max_jobs s) ctx kind encoded now_ms new_id (conn s) = Inr (Accepted receipt, d')"
    using assms by (auto simp: admit_operator_job_submission_def with_tx_Inr bindE_Inr Let_def)
  from this(2) show ?thesis
  proof (cases rule: admit_submission_tx_cases)
    case (admit d1)
    have same: "operator_commands d1 = operator_commands (conn s)" using admit(4) by (auto simp: insert_job_tx_Inr)
    show ?thesis using recorded_row [OF admit(5) same] admit(3) MutSubmit s' by simp
  qed simp
next
  case (MutRetry attempt_id reconstruction response)
  then obtain d' where s': "s' = s\<lparr>conn := d'\<rparr>"
      and "admit_retry_tx E ctx attempt_id reconstruction response now_ms (conn s) = Inr (Accepted receipt, d')"
    using assms by (auto simp: admit_operator_retry_def with_tx_Inr bindE_Inr)
  from this(2) show ?thesis
  proof (cases rule: admit_retry_tx_cases)
    case (admit a j d2)
    have same: "operator_commands d2 = operator_commands (conn s)" using admit(11) by (auto simp: insert_audit_tx_Inr)
    show ?thesis using recorded_row [OF admit(12) same] admit(2) MutRetry s' by simp
  qed simp
next
  case (MutQuarantine attempt_id reason response)
  then obtain d' where s': "s' = s\<lparr>conn := d'\<rparr>"
      and "admit_quarantine_tx E ctx attempt_id reason response now_ms (conn s) = Inr (Accepted receipt, d')"
    using assms by (auto simp: admit_operator_quarantine_def with_tx_Inr bindE_Inr)
  from this(2) show ?thesis
  proof (cases rule: admit_quarantine_tx_cases)
    case (admit a j d1 d3)
    have same: "operator_commands d3 = operator_commands (conn s)"
      using admit(8) quarantine_attempt_Inr [OF admit(7)] by (auto simp: insert_audit_tx_Inr)
    show ?thesis using recorded_row [OF admit(9) same] admit(2) MutQuarantine s' by simp
  qed simp
qed

text \<open>
  C29: The command ledger is bounded by refusal, never by eviction. A stop is admitted with up to 256 rows
  retained, another lifecycle command (start, pause, resume, drain) with up to 255, and every other
  mutation (submission, retry, quarantine, backup and the rest) with up to 247; each accepted mutation appends
  exactly its own row behind the retained ones. Once its class has no row left, a fresh and
  otherwise well-formed mutation of an administrator is answered with a busy error and changes nothing.
\<close>

theorem ledger_backpressure:
  assumes "rows = length (operator_commands (conn s))"
    and "limit = (if mutation_command m = CmdStop then 257
                  else if mutation_command m \<in> {CmdStart, CmdPause, CmdResume, CmdDrain} then 256 else 248)"
  shows "(\<forall>receipt s'. admit_mutation E owner s ctx m now_ms = (Inr (Accepted receipt), s') \<longrightarrow>
      rows < limit
      \<and> (\<exists>row. operator_commands (conn s') = operator_commands (conn s) @ [row] \<and> o_command row = mutation_command m
           \<and> o_idempotency_key row = oc_idempotency_key ctx))
    \<and> (limit \<le> rows \<and> context_validate E ctx = Inr () \<and> oc_capability ctx = CapAdmin \<and> mutation_valid E s m
       \<and> (\<forall>r \<in> set (operator_commands (conn s)). o_idempotency_key r \<noteq> oc_idempotency_key ctx
            \<and> o_request_id r \<noteq> oc_request_id ctx) \<longrightarrow>
       admit_mutation E (Inr ()) s ctx m now_ms = (Inl (Busy ''operator command ledger retention bound is full''), s))"
proof -
  have limit: "ledger_limit (mutation_command m) = limit" by (simp add: ledger_limit_values assms(2))
  have "admit_mutation E (Inr ()) s ctx m now_ms = (Inl (Busy ''operator command ledger retention bound is full''), s)"
    if full: "limit \<le> rows" and ctx: "context_validate E ctx = Inr ()" "oc_capability ctx = CapAdmin" and m: "mutation_valid E s m"
      and fresh: "\<forall>r \<in> set (operator_commands (conn s)). o_idempotency_key r \<noteq> oc_idempotency_key ctx
            \<and> o_request_id r \<noteq> oc_request_id ctx"
  proof -
    have "find (\<lambda>r. o_idempotency_key r = oc_idempotency_key ctx) (operator_commands (conn s)) = None"
      "find (\<lambda>r. o_request_id r = oc_request_id ctx) (operator_commands (conn s)) = None"
      using fresh by (auto simp: find_None_iff)
    then have keys: "find_operator_by_key E (conn s) (oc_idempotency_key ctx) = Inr None" "check_fresh_request E (conn s) ctx = Inr ()"
      by (simp_all add: find_operator_by_key_def check_fresh_request_def find_operator_by_request_def)
    have "enforce_ledger_capacity (conn s) (mutation_command m) = Inl (Busy ''operator command ledger retention bound is full'')"
      using full limit assms(1) by (simp add: enforce_ledger_capacity_def ensure_def)
    then show ?thesis
      using ctx m keys
      by (cases m)
         (auto simp: admit_operator_command_def admit_operator_job_submission_def admit_operator_retry_def admit_operator_quarantine_def
            admit_mutation_tx_def admit_submission_tx_def admit_retry_tx_def admit_quarantine_tx_def with_tx_def is_ok_iff Let_def)
  qed
  then show ?thesis using admitted_row limit assms(1) by blast
qed

section \<open>Dispositions of an attempt\<close>

text \<open>
  C30: A retry that is accepted re-queued exactly one job, whose latest attempt is a known failure
  with no result and no worker handoff; every attempt row is kept. An attempt whose outcome is
  unknown is never re-queued.
\<close>

theorem retry_requeues_known_failure:
  assumes inv: "queue_inv E (queue_of (conn s))"
    and run: "admit_operator_retry E owner s ctx attempt_id reconstruction response now_ms = (Inr (Accepted receipt), s')"
  shows "\<exists>a \<in> set (attempts (conn s)). \<exists>j \<in> set (jobs (conn s)).
    a_id a = attempt_id \<and> a_job_id a = j_id j \<and> a_status a = AFailed \<and> j_status j \<in> {JFailed, JQuarantined}
    \<and> j_result j = None
    \<and> (\<forall>x \<in> set (attempts (conn s)). a_job_id x = j_id j \<longrightarrow> a_sequence x \<le> a_sequence a \<and> a_status x \<noteq> AUnknown)
    \<and> (\<forall>h \<in> set (worker_handoffs (conn s)). h_job_id h \<noteq> j_id j)
    \<and> attempts (conn s') = attempts (conn s)
    \<and> jobs (conn s') = update_where (\<lambda>r. j_id r = j_id j)
        (\<lambda>_. j\<lparr>j_status := JQueued, j_next_retry_at_ms := Some (uint now_ms), j_worker_id := None\<rparr>) (jobs (conn s))"
proof -
  obtain d' where tx: "admit_retry_tx E ctx attempt_id reconstruction response now_ms (conn s) = Inr (Accepted receipt, d')"
    and s': "s' = s\<lparr>conn := d'\<rparr>"
    using run by (auto simp: admit_operator_retry_def with_tx_Inr bindE_Inr)
  from tx show ?thesis
  proof (cases rule: admit_retry_tx_cases)
    case (admit a j d2)
    note aj = attempt_with_job_Inr [OF admit(4)] and dist = queue_inv_distinct [OF inv]
    have q: "queue_of d' = (update_where (\<lambda>r. j_id r = a_job_id a \<and> j_status r \<in> {JFailed, JQuarantined})
       (\<lambda>r. r\<lparr>j_status := JQueued, j_next_retry_at_ms := Some (uint now_ms), j_worker_id := None\<rparr>) (jobs (conn s)), attempts (conn s))"
      using admit(11) record_operator_frame(1) [OF admit(12)] by (auto simp: insert_audit_tx_Inr)
    have latest: "a_sequence x \<le> a_sequence a" if "x \<in> set (attempts (conn s))" "a_job_id x = j_id j" for x
      by (rule check_latest_attempt_Inr [OF admit(5) dist(2) aj(1,2)]) (use that aj(4) in auto)
    have ok: "job_ok E (attempts (conn s)) j" and pairs: "distinct (map (\<lambda>a. (a_job_id a, a_sequence a)) (attempts (conn s)))"
      using inv aj(3) by (simp_all add: queue_inv_def queue_of_def)
    have known: "a_status x \<noteq> AUnknown" if x: "x \<in> set (attempts (conn s))" "a_job_id x = j_id j" for x
    proof
      assume unknown: "a_status x = AUnknown"
      then have "a_sequence x = j_attempt_count j" using ok x by (simp add: job_ok_def attempt_ok_def)
      moreover have "a_sequence a \<le> j_attempt_count j" using ok aj by (simp add: job_ok_def attempt_ok_def)
      ultimately have "x = a"
        using latest [OF x] by (intro key_unique [OF pairs x(1) aj(1)]) (simp add: x(2) aj(4))
      with unknown admit(6) show False by simp
    qed
    have "jobs d' = update_where (\<lambda>r. j_id r = j_id j)
        (\<lambda>_. j\<lparr>j_status := JQueued, j_next_retry_at_ms := Some (uint now_ms), j_worker_id := None\<rparr>) (jobs (conn s))"
      using q replace_keyed [OF dist(1) aj(3), of "\<lambda>r. j_status r \<in> {JFailed, JQuarantined}"] admit(7) aj(4)
      by (simp add: queue_of_def)
    then show ?thesis
      using aj admit(6,7,9,10) latest known q s' by (intro bexI [of _ a] bexI [of _ j]) (auto simp: queue_of_def)
  qed auto
qed

text \<open>What an accepted quarantine of a running attempt records.\<close>

lemma quarantine_recorded:
  assumes inv: "queue_inv E (queue_of (conn s))"
    and run: "admit_operator_quarantine E owner s ctx attempt_id reason response now_ms = (Inr (Accepted receipt), s')"
    and running: "\<exists>a \<in> set (attempts (conn s)). a_id a = attempt_id \<and> a_status a = ARunning"
  shows "\<exists>a \<in> set (attempts (conn s')). a_id a = attempt_id \<and> a_status a = AUnknown
            \<and> (\<exists>j \<in> set (jobs (conn s')). j_id j = a_job_id a \<and> j_status j = JQuarantined \<and> j_last_error j = Some reason)"
proof -
  obtain d' where tx: "admit_quarantine_tx E ctx attempt_id reason response now_ms (conn s) = Inr (Accepted receipt, d')"
    and s': "s' = s\<lparr>conn := d'\<rparr>"
    using run by (auto simp: admit_operator_quarantine_def with_tx_Inr bindE_Inr)
  from tx obtain a j d1 d3 where aj: "attempt_with_job (conn s) attempt_id = Inr (a, j)" and jst: "j_status j \<in> {JRunning, JFailed}"
    and d1: "quarantine_attempt (conn s) a attempt_id reason (uint now_ms) = Inr d1"
    and d3: "insert_audit_tx (d1\<lparr>jobs := update_where (\<lambda>r. j_id r = a_job_id a \<and> j_status r \<in> {JRunning, JFailed})
           (quarantined_job reason) (jobs d1)\<rparr>)
         ''attempt_quarantined'' (''attempt_id='' @ attempt_id @ '';job_id='' @ a_job_id a @ '';reason='' @ reason) now_ms = Inr d3"
    and rec: "record_operator_command d3 ctx CmdQuarantine None (json_to_string E response) response
         ''operator_command_accepted'' now_ms = Inr (Accepted receipt, d')"
    by (cases rule: admit_quarantine_tx_cases) auto
  note a = attempt_with_job_Inr [OF aj] and dist = queue_inv_distinct [OF inv]
  from running obtain b where b: "b \<in> set (attempts (conn s))" "a_id b = attempt_id" "a_status b = ARunning" by blast
  have "b = a" by (rule key_unique [OF dist(2) b(1) a(1)]) (simp add: b(2) a(2))
  with b have st: "a_status a = ARunning" by simp
  let ?a = "quarantined_attempt reason (uint now_ms) a" and ?j = "quarantined_job reason j"
  have q: "queue_of d' = (update_where (\<lambda>r. j_id r = a_job_id a \<and> j_status r \<in> {JRunning, JFailed}) (quarantined_job reason) (jobs (conn s)),
      update_where (\<lambda>x. a_id x = attempt_id \<and> a_status x = ARunning) (quarantined_attempt reason (uint now_ms)) (attempts (conn s)))"
    using d3 quarantine_attempt_Inr [OF d1] record_operator_frame(1) [OF rec] st by (auto simp: insert_audit_tx_Inr)
  have mem: "?a \<in> set (attempts (conn s'))" "?j \<in> set (jobs (conn s'))"
    using q s' a st jst by (auto simp: queue_of_def set_update_where image_iff intro!: bexI [of _ a] bexI [of _ j])
  have facts: "a_id ?a = attempt_id" "a_status ?a = AUnknown" "a_job_id ?a = a_job_id a" "j_id ?j = a_job_id a"
    "j_status ?j = JQuarantined" "j_last_error ?j = Some reason"
    using a by (simp_all add: quarantined_attempt_def quarantined_job_def)
  show ?thesis using mem facts by (metis (no_types, lifting))
qed

section \<open>Concrete runs\<close>

definition sample_context :: operator_context where
  "sample_context = \<lparr>oc_request_id = ''request'', oc_idempotency_key = ''key'', oc_principal = ''operator'',
     oc_capability = CapAdmin, oc_command_fingerprint = sample_digest\<rparr>"

lemma sample_context_facts [simp]:
  "context_validate externals_sample sample_context = Inr ()" "oc_capability sample_context = CapAdmin"
  "length (oc_request_id sample_context) \<le> 128" "\<not> contains_nul (oc_request_id sample_context)"
  "oc_idempotency_key sample_context = ''key''" "oc_request_id sample_context = ''request''"
  by (simp_all add: sample_context_def context_validate_Inr validate_uuid_v4_Inr externals_sample_def validate_name_Inr
      validate_digest_def list_all_iff is_digit_def plain_guards plain_def byte_def)

lemma sample_response:
  "validate_response externals_sample (JString ''ok'') = Inr ()"
  "json_from_str externals_sample (json_to_string externals_sample (JString ''ok'')) = Inr (JString ''ok'')"
  by (simp_all add: validate_response_Inr externals_sample_def MAX_OPERATOR_RESPONSE_BYTES_def plain_guards plain_def byte_def)

lemma record_sample_command:
  assumes "operator_commands d = []" "operator_seq d = 0" "length (audit_log d) \<le> 4000"
    and "action = ''operator_command_accepted'' \<or> action = ''operator_command_stop_accepted''"
  obtains receipt d' where "record_operator_command d sample_context cmd mode body response action 5 = Inr (Accepted receipt, d')"
proof -
  have "valid_audit action (operator_detail 1 sample_context cmd)"
    using operator_detail_valid [OF sample_context_facts(1,3,4), of 1 cmd] assms(4)
    by (auto simp: valid_audit_def plain_guards plain_def byte_def i64_max_def)
  moreover have "length (audit_log d) < audit_limit action"
    using assms(3) by (simp add: audit_limit_def MAX_AUDIT_RECORDS_def RESERVED_CRITICAL_AUDIT_RECORDS_def)
  ultimately show thesis
    using record_operator_command_Inr [of d sample_context cmd mode body response action 5] assms(1,2)
    by (intro that) (auto simp: i64_max_def)
qed

lemma sample_ledger: "ledger_inv (conn sample_store)" "operator_commands (conn sample_store) = []" "operator_seq (conn sample_store) = 0"
  by (simp_all add: sample_store_def blank_db_def ledger_inv_def i64_max_def)

lemma sample_pause:
  obtains receipt s' where "admit_operator_command externals_sample (Inr ()) sample_store sample_context CmdPause (JString ''ok'') 5
    = (Inr (Accepted receipt), s')"
proof -
  let ?d = "(conn sample_store)\<lparr>metadata := (metadata (conn sample_store))(''desired_mode'' \<mapsto> ''paused'', ''updated_at_ms'' \<mapsto> show_u64 5)\<rparr>"
  obtain receipt d' where "record_operator_command ?d sample_context CmdPause (Some ModePaused)
      (json_to_string externals_sample (JString ''ok'')) (JString ''ok'') ''operator_command_accepted'' 5 = Inr (Accepted receipt, d')"
    by (rule record_sample_command [of ?d "''operator_command_accepted''"]) (use sample_ledger in auto)
  then show thesis
    using sample_response
    by (intro that [of receipt "sample_store\<lparr>conn := d'\<rparr>"])
       (simp add: admit_operator_command_def admit_mutation_tx_def is_read_only_def find_operator_by_key_def
        check_fresh_request_def find_operator_by_request_def enforce_ledger_capacity_def ledger_limit_def is_lifecycle_def
        MAX_OPERATOR_COMMANDS_def update_metadata_tx_def with_tx_def sample_ledger)
qed


theorem emergency_stop_admitted_witness:
  "\<exists>receipt s'. admit_operator_command externals_sample (Inr ()) sample_store sample_context CmdStop (JString ''ok'') 5
      = (Inr (Accepted receipt), s') \<and> store_desired_mode s' = Inr ModeStopped"
proof -
  have "\<exists>receipt s'. admit_operator_command externals_sample (Inr ()) sample_store sample_context CmdStop (JString ''ok'') 5
      = (Inr (Accepted receipt), s') \<and> store_desired_mode s' = Inr ModeStopped \<and> re_response receipt = JString ''ok''"
    by (rule emergency_stop_admitted) (use sample_ledger sample_response in \<open>simp_all add: i64_max_def plain_guards plain_def byte_def\<close>)
  then show ?thesis by blast
qed

definition sample_full_ledger :: store where
  "sample_full_ledger = sample_store\<lparr>conn := (conn sample_store)\<lparr>operator_commands :=
     replicate 248 (operator_row_of 1 (sample_context\<lparr>oc_idempotency_key := ''old'', oc_request_id := ''old''\<rparr>)
       CmdReconcile None ''{}'' 1)\<rparr>\<rparr>"

theorem ledger_backpressure_witness:
  "admit_mutation externals_sample (Inr ()) sample_full_ledger sample_context (MutCommand CmdReconcile (JString ''ok'')) 5
    = (Inl (Busy ''operator command ledger retention bound is full''), sample_full_ledger)
   \<and> admit_mutation externals_sample (Inr ()) sample_full_ledger sample_context (MutRetry ''attempt'' False (JString ''ok'')) 5
    = (Inl (Busy ''operator command ledger retention bound is full''), sample_full_ledger)"
proof -
  have "is_ok (validate_name ''attempt'' ''attempt id'' 128)" by (simp add: is_ok_iff validate_name_Inr plain_guards plain_def byte_def)
  then show ?thesis
    using ledger_backpressure [OF refl refl, where s = sample_full_ledger and m = "MutCommand CmdReconcile (JString ''ok'')" and E = externals_sample and ctx = sample_context]
      ledger_backpressure [OF refl refl, where s = sample_full_ledger and m = "MutRetry ''attempt'' False (JString ''ok'')" and E = externals_sample and ctx = sample_context]
      sample_response(1)
    by (simp add: sample_full_ledger_def is_read_only_def is_ok_iff)
qed

definition sample_failed :: store where
  "sample_failed = sample_store\<lparr>conn := (conn sample_store)
     \<lparr>jobs := [queued_job ''job'' ''kind'' ''{}'' (hex_digest externals_sample ''{}'') 1
                \<lparr>j_status := JQuarantined, j_attempt_count := 1, j_last_error := Some ''error''\<rparr>],
      attempts := [running_attempt ''attempt'' ''job'' 1 ''worker'' 2\<lparr>a_status := AFailed\<rparr>]\<rparr>\<rparr>"

lemma sample_attempt_audit: "valid_audit ''attempt_retry_queued'' ''attempt_id=attempt;job_id=job''"
  "valid_audit ''attempt_quarantined'' ''attempt_id=attempt;job_id=job;reason=why''"
  "length ([] :: audit_row list) < audit_limit a"
  by (simp_all add: valid_audit_def plain_guards plain_def byte_def max_audit_detail_bytes_def audit_limit_def
      MAX_AUDIT_RECORDS_def RESERVED_CRITICAL_AUDIT_RECORDS_def)

lemma sample_attempt_names: "validate_name ''attempt'' n 128 = Inr ()" "validate_name ''why'' n 512 = Inr ()"
  by (simp_all add: validate_name_Inr plain_guards plain_def byte_def)

lemmas sample_admission_defs = find_operator_by_key_def check_fresh_request_def find_operator_by_request_def
  enforce_ledger_capacity_def ledger_limit_def is_lifecycle_def MAX_OPERATOR_COMMANDS_def RESERVED_LIFECYCLE_COMMANDS_def
  attempt_with_job_def check_latest_attempt_def select_last_def select_ordered_def sqlite_timestamp_def
  i64_max_def matching_def update_where_def with_tx_def insert_audit_tx_succeeds

theorem retry_requeues_known_failure_witness:
  "\<exists>receipt s'. admit_operator_retry externals_sample (Inr ()) sample_failed sample_context ''attempt'' False (JString ''ok'') 5
      = (Inr (Accepted receipt), s') \<and> attempts (conn s') = attempts (conn sample_failed)"
proof -
  have inv: "queue_inv externals_sample (queue_of (conn sample_failed))"
    by (simp add: sample_failed_def queue_of_def queue_inv_def one_unresolved_def job_ok_def attempt_ok_def unresolved_def)
  let ?d = "(conn sample_failed)\<lparr>jobs := [queued_job ''job'' ''kind'' ''{}'' (hex_digest externals_sample ''{}'') 1
        \<lparr>j_status := JQueued, j_attempt_count := 1, j_last_error := Some ''error'', j_next_retry_at_ms := Some 5, j_worker_id := None\<rparr>],
      audit_log := [\<lparr>au_action = ''attempt_retry_queued'', au_detail = ''attempt_id=attempt;job_id=job'', au_occurred_at_ms = 5\<rparr>]\<rparr>"
  obtain receipt d' where "record_operator_command ?d sample_context CmdRetry None (json_to_string externals_sample (JString ''ok''))
      (JString ''ok'') ''operator_command_accepted'' 5 = Inr (Accepted receipt, d')"
    by (rule record_sample_command [of ?d "''operator_command_accepted''"]) (simp_all add: sample_failed_def sample_ledger)
  then have "admit_operator_retry externals_sample (Inr ()) sample_failed sample_context ''attempt'' False (JString ''ok'') 5
      = (Inr (Accepted receipt), sample_failed\<lparr>conn := d'\<rparr>)"
    using sample_response(1) sample_attempt_audit sample_attempt_names sample_ledger(2,3)
    by (simp add: admit_operator_retry_def admit_retry_tx_def sample_failed_def sample_admission_defs queued_job_def
        running_attempt_def sample_store_def blank_db_def)
  then show ?thesis using retry_requeues_known_failure [OF inv] by blast
qed

lemma sample_quarantine_run:
  "\<exists>receipt s'. admit_operator_quarantine externals_sample (Inr ()) sample_running sample_context ''attempt'' ''why'' (JString ''ok'') 5
      = (Inr (Accepted receipt), s')"
proof -
  let ?d = "(conn sample_running)\<lparr>jobs := [queued_job ''job'' ''kind'' ''{}'' (hex_digest externals_sample ''{}'') 1
        \<lparr>j_status := JQuarantined, j_attempt_count := 1, j_claimed_at_ms := Some 2, j_worker_id := Some ''worker'',
         j_next_retry_at_ms := None, j_last_error := Some ''why''\<rparr>],
      attempts := [running_attempt ''attempt'' ''job'' 1 ''worker'' 2\<lparr>a_status := AUnknown, a_finished_at_ms := Some 5,
         a_outcome := Some ''operator_quarantine:why''\<rparr>],
      audit_log := [\<lparr>au_action = ''attempt_quarantined'', au_detail = ''attempt_id=attempt;job_id=job;reason=why'', au_occurred_at_ms = 5\<rparr>]\<rparr>"
  obtain receipt d' where "record_operator_command ?d sample_context CmdQuarantine None (json_to_string externals_sample (JString ''ok''))
      (JString ''ok'') ''operator_command_accepted'' 5 = Inr (Accepted receipt, d')"
    by (rule record_sample_command [of ?d "''operator_command_accepted''"]) (simp_all add: sample_running_def sample_ledger)
  then have run: "admit_operator_quarantine externals_sample (Inr ()) sample_running sample_context ''attempt'' ''why'' (JString ''ok'') 5
      = (Inr (Accepted receipt), sample_running\<lparr>conn := d'\<rparr>)"
    using sample_response(1) sample_attempt_audit sample_attempt_names sample_ledger(2,3)
    by (simp add: admit_operator_quarantine_def admit_quarantine_tx_def quarantine_attempt_def sample_running_def sample_admission_defs
        queued_job_def running_attempt_def sample_store_def blank_db_def)
  then show ?thesis by blast
qed

end
