(* ===== verification/Worker_Recovery.thy ===== *)
theory Worker_Recovery
  imports Worker_Protocol Operator_Ledger
begin

text \<open>
  How the quarantine operations of the job queue and of the operator ledger meet the worker handoff: a
  handoff that can no longer be read stays where it is for good.
\<close>

lemma unreadable_handoff_stuck:
  assumes "\<And>raw. require_handoff_tx E (conn s) t (max_payload_bytes s) \<noteq> Inr raw"
  shows "\<exists>e. complete_worker_handoff_with_authority_at E s t receipt authority now_ms = (Inl e, s)"
    "\<exists>e. acknowledge_worker_handoff_with_authority_at E s t digest authority now_ms = (Inl e, s)"
proof -
  obtain e where e: "require_handoff_tx E (conn s) t (max_payload_bytes s) = Inl e"
    using assms by (cases "require_handoff_tx E (conn s) t (max_payload_bytes s)") auto
  have "\<nexists>x. complete_handoff_tx E (max_payload_bytes s) t receipt authority now_ms (conn s) = Inr x"
    unfolding complete_handoff_tx_def e by (auto elim!: bindE_InrE)
  then show "\<exists>e. complete_worker_handoff_with_authority_at E s t receipt authority now_ms = (Inl e, s)"
    by (cases "complete_handoff_tx E (max_payload_bytes s) t receipt authority now_ms (conn s)")
       (simp_all add: complete_worker_handoff_with_authority_at_def with_tx_def bindS_def)
  have "\<nexists>x. acknowledge_tx E (max_payload_bytes s) t digest authority now_ms (conn s) = Inr x"
    unfolding acknowledge_tx_def e by (auto elim!: bindE_InrE)
  then show "\<exists>e. acknowledge_worker_handoff_with_authority_at E s t digest authority now_ms = (Inl e, s)"
    by (cases "acknowledge_tx E (max_payload_bytes s) t digest authority now_ms (conn s)")
       (simp_all add: acknowledge_worker_handoff_with_authority_at_def with_tx_def)
qed

lemma load_attempt_Some:
  assumes "load_attempt E d i = Inr (Some attempt)" and "distinct (map a_id (attempts d))"
    and "a \<in> set (attempts d)" "a_id a = i"
  shows "raw_attempt_from_row E a = Inr attempt"
proof -
  have "find (\<lambda>x. a_id x = i) (attempts d) = Some a"
    using attempt_table.find_member [of "attempts d" a] assms(2-4) by (simp add: attempt_table.keys_distinct_def)
  then show ?thesis using assms(1) by (auto simp: load_attempt_def map_err_Inr bindE_Inr)
qed

lemma load_job_Some:
  assumes "load_job E d i bound = Inr (Some (job, digest))" and "distinct (map j_id (jobs d))"
    and "j \<in> set (jobs d)" "j_id j = i"
  obtains b where "bounded_job_from_row E b j = Inr (job, digest)"
proof -
  have "find (\<lambda>x. j_id x = i) (jobs d) = Some j"
    using job_table.find_member [of "jobs d" j] assms(2-4) by (simp add: job_table.keys_distinct_def)
  then show thesis using that assms(1) by (auto simp: load_job_def bindE_Inr map_err_Inr transposeE_Inr)
qed

lemma bounded_job_status:
  assumes "bounded_job_from_row E b j = Inr (job, digest)"
  shows "jr_status job = j_status j"
proof -
  have parse: "job_status_parse (job_status_as_str st) = Inr st" for st by (cases st) (simp_all add: job_status_parse_def)
  show ?thesis
    using assms unfolding bounded_job_from_row_def Let_def
    by - (elim bindE_InrE, simp only: bounded_required to_sql_Inr sum.inject parse prod.inject, elim conjE, hypsubst,
      simp only: job_record.select_convs)
qed

lemma raw_attempt_fields:
  assumes "raw_attempt_from_row E a = Inr attempt"
  shows "ra_job_id attempt = a_job_id a \<and> \<not> earlier (ra_finished_at_ms attempt) (word_of_int (a_started_at_ms a))
    \<and> 0 \<le> a_started_at_ms a
    \<and> sqlite_optional_u64 (a_finished_at_ms a) ''attempt finished_at_ms'' = Inr (ra_finished_at_ms attempt)"
  using assms unfolding raw_attempt_from_row_def Let_def
  by - (elim bindE_InrE, simp only: bounded_required ensure_Inr sqlite_u64_Inr sum.inject, elim conjE, hypsubst,
    simp only: raw_attempt.select_convs, simp)

text \<open>An attempt whose finish precedes its start makes its handoff unreadable.\<close>

lemma finish_before_start_unreadable:
  assumes "find (\<lambda>h. h_handoff_id h = tu_handoff_id t) (worker_handoffs d) = Some h"
    and "distinct (map a_id (attempts d))" "a \<in> set (attempts d)" "a_id a = h_attempt_id h"
    and "a_finished_at_ms a = Some f" "0 \<le> f" "f < a_started_at_ms a" "a_started_at_ms a \<le> i64_max"
  shows "require_handoff_tx E d t bound \<noteq> Inr raw"
proof
  assume "require_handoff_tx E d t bound = Inr raw"
  then obtain job where raw: "raw_handoff_from_row E h = Inr raw" and agrees: "handoff_agrees E d bound raw job"
    using assms(1) by (auto simp: require_handoff_tx_Inr)
  then obtain attempt where "load_attempt E d (tu_attempt_id raw) = Inr (Some attempt)"
    by (auto simp: handoff_agrees_def)
  then have "raw_attempt_from_row E a = Inr attempt"
    using load_attempt_Some [OF _ assms(2,3)] assms(4) raw_handoff_fields [OF raw] by simp
  note f = raw_attempt_fields [OF this]
  have "ra_finished_at_ms attempt = Some (word_of_int f)"
    using f assms(5,6) by (auto simp: sqlite_optional_u64_def sqlite_u64_def bindE_Inr split: if_splits)
  moreover have "(word_of_int f :: u64) < word_of_int (a_started_at_ms a)"
    using assms(6-8) by (simp add: word_less_alt uint_word_of_int i64_max_def)
  ultimately show False using f by (simp add: earlier_def)
qed

lemma interrupted_attempt:
  assumes run: "quarantine_interrupted_jobs s now_ms = (Inr n, s')" and inv: "queue_inv E (queue_of (conn s))"
    and a: "a \<in> set (attempts (conn s))" "a_status a = ARunning"
  shows "a\<lparr>a_status := AUnknown, a_finished_at_ms := Some (uint now_ms), a_outcome := Some ''daemon_interrupted''\<rparr>
    \<in> set (attempts (conn s')) \<and> worker_handoffs (conn s') = worker_handoffs (conn s)
    \<and> max_payload_bytes s' = max_payload_bytes s"
proof -
  obtain j where j: "j \<in> set (jobs (conn s))" "j_id j = a_job_id a" "j_status j = JRunning"
    using running_attempt_job [of E "jobs (conn s)" "attempts (conn s)" a] inv a by (auto simp: queue_of_def)
  from inv show ?thesis
  proof (cases rule: running_jobs_cases)
    case 1
    then show ?thesis using j by (simp add: filter_empty_conv)
  next
    case (2 x)
    have "j \<in> set (filter (\<lambda>r. j_status r = JRunning) (jobs (conn s)))" using j by simp
    then have "j = x" unfolding 2(1) by simp
    then obtain d' where "quarantine_interrupted_job now_ms (a_job_id a) (conn s) = Inr d'" "s' = s\<lparr>conn := d'\<rparr>"
      using run 2(1) j(2) by (auto simp: quarantine_interrupted_jobs_def with_tx_def bindE_Inr split: sum.splits)
    then show ?thesis
      using a by (auto simp: quarantine_interrupted_job_def result_simps Let_def set_update_where image_iff sqlite_timestamp_def split: if_splits)
  qed
qed

lemma quarantined_rows:
  assumes "admit_quarantine_tx E ctx attempt_id reason response now_ms d = Inr (Accepted receipt, d')"
  shows "\<exists>a j. a \<in> set (attempts d') \<and> a_id a = attempt_id \<and> j \<in> set (jobs d') \<and> j_id j = a_job_id a
    \<and> j_status j = JQuarantined \<and> worker_handoffs d' = worker_handoffs d"
  using assms
proof (cases rule: admit_quarantine_tx_cases)
  case (admit a j d1 d3)
  note aj = attempt_with_job_Inr [OF admit(3)] and d1 = quarantine_attempt_Inr [OF admit(7)]
  let ?a = "if a_status a = ARunning then quarantined_attempt reason (uint now_ms) a else a"
  have "jobs d' = jobs d3" "attempts d' = attempts d3" "worker_handoffs d' = worker_handoffs d3"
    using record_operator_frame [OF admit(9)] by (simp_all add: queue_of_def)
  then have d': "attempts d' = attempts d1" "worker_handoffs d' = worker_handoffs d"
    "jobs d' = update_where (\<lambda>r. j_id r = a_job_id a \<and> j_status r \<in> {JRunning, JFailed}) (quarantined_job reason) (jobs d)"
    using admit(8) d1 by (auto simp: insert_audit_tx_Inr)
  have "?a \<in> set (attempts d')" using aj(1,2) by (auto simp: d' d1 set_update_where image_iff)
  moreover have "quarantined_job reason j \<in> set (jobs d')"
    using aj(3,4) admit(6) by (auto simp: d' set_update_where image_iff)
  ultimately show ?thesis
    using aj d'(2) by (intro exI [of _ ?a] exI [of _ "quarantined_job reason j"])
      (auto simp: quarantined_attempt_def quarantined_job_def)
qed auto

text \<open>
  C40: An operator may quarantine an attempt that the worker has already reported as failed. From then on
  the handoff with its terminal evidence can neither be read nor acknowledged: its job is quarantined
  where a failed handoff requires a failed job.
\<close>

theorem quarantine_strands_failed_handoff:
  assumes run: "admit_operator_quarantine E owner s ctx attempt_id reason response now_ms = (Inr (Accepted receipt), s')"
    and inv: "queue_inv E (queue_of (conn s))"
    and h: "find (\<lambda>h. h_handoff_id h = tu_handoff_id t) (worker_handoffs (conn s)) = Some h" "h_attempt_id h = attempt_id"
      "h_state h = HFailed"
  shows "(\<exists>e. get_worker_handoff E s' (tu_handoff_id t) = Inl e)
    \<and> (\<exists>e. acknowledge_worker_handoff_with_authority_at E s' t digest authority later = (Inl e, s'))"
proof -
  obtain d' where tx: "admit_quarantine_tx E ctx attempt_id reason response now_ms (conn s) = Inr (Accepted receipt, d')"
    and s': "s' = s\<lparr>conn := d'\<rparr>"
    using run by (auto simp: admit_operator_quarantine_def with_tx_Inr bindE_Inr)
  have inv': "queue_inv E (queue_of d')" using quarantine.keeps_queue_inv [OF inv run] s' by simp
  obtain a j where a: "a \<in> set (attempts d')" "a_id a = attempt_id" and j: "j \<in> set (jobs d')" "j_id j = a_job_id a" "j_status j = JQuarantined"
    and hs: "worker_handoffs d' = worker_handoffs (conn s)"
    using quarantined_rows [OF tx] by blast
  have "\<not> handoff_agrees E d' bound raw job" if raw: "raw_handoff_from_row E h = Inr raw" for raw job bound
  proof
    assume "handoff_agrees E d' bound raw job"
    then obtain digest' attempt where l: "load_job E d' (tu_job_id raw) bound = Inr (Some (job, digest'))"
      "load_attempt E d' (tu_attempt_id raw) = Inr (Some attempt)" "validate_handoff_job E raw job attempt digest' = Inr ()"
      by (auto simp: handoff_agrees_def)
    note f = raw_handoff_fields [OF raw]
    have "raw_attempt_from_row E a = Inr attempt"
      using load_attempt_Some [OF l(2) queue_inv_distinct(2) [OF inv'] a(1)] f h(2) a(2) by simp
    then have "ra_job_id attempt = a_job_id a" by (rule raw_attempt_fields [THEN conjunct1])
    moreover have v: "ra_job_id attempt = tu_job_id raw" "jr_status job = JFailed"
      using l(3) f h(3) by (auto simp: validate_handoff_job_def validate_failed_job_def bindE_Inr ensure_Inr)
    ultimately have "j_id j = tu_job_id raw" using j(2) by simp
    then obtain b where "bounded_job_from_row E b j = Inr (job, digest')"
      using load_job_Some [OF l(1) queue_inv_distinct(1) [OF inv'] j(1)] by blast
    from bounded_job_status [OF this] v(2) j(3) show False by simp
  qed
  then have req: "require_handoff_tx E d' t bound \<noteq> Inr raw" and load: "load_handoff E d' (tu_handoff_id t) bound \<noteq> Inr (Some x)"
    for bound raw x
    using h(1) hs by (auto simp: require_handoff_tx_Inr load_handoff_Some)
  have none: "load_handoff E d' (tu_handoff_id t) bound \<noteq> Inr None" for bound
    using h(1) hs by (auto simp: load_handoff_def bindE_Inr map_err_Inr split: option.splits)
  have "get_worker_handoff E s' (tu_handoff_id t) \<noteq> Inr found" for found
    using load none by (cases found) (auto simp: get_worker_handoff_def bindE_Inr s')
  then have "\<exists>e. get_worker_handoff E s' (tu_handoff_id t) = Inl e"
    by (cases "get_worker_handoff E s' (tu_handoff_id t)") auto
  then show ?thesis using unreadable_handoff_stuck(2) [of E s' t digest authority later] req s' by simp
qed

section \<open>Concrete runs\<close>

lemma sample_worker_ledger [simp]:
  "operator_commands (conn (sample_worker_store js as hs au)) = []" "operator_seq (conn (sample_worker_store js as hs au)) = 0"
  by (simp_all add: sample_worker_store_def Let_def sample_bound_def sample_ledger)

lemma sample_worker_admission:
  "context_validate externals_worker sample_context = Inr ()" "validate_response externals_worker (JString ''ok'') = Inr ()"
  using sample_context_facts(1) [unfolded context_validate_Inr] sample_response(1) [unfolded validate_response_Inr]
  by (simp_all add: context_validate_Inr validate_uuid_v4_Inr validate_response_Inr externals_worker_def)

lemma sample_rollback_run: "\<exists>n s'. quarantine_interrupted_jobs sample_dispatched 2 = (Inr n, s')"
proof -
  have inv: "queue_inv externals_worker (queue_of (conn sample_dispatched))"
    by (simp add: queue_of_def queue_inv_def one_unresolved_def job_ok_def attempt_ok_def)
      (simp add: sample_claimed_def claimed_job_def sample_attempt_def running_attempt_def)
  have "valid_audit ''job_quarantined_after_interruption'' ''job''"
    by (simp add: valid_audit_def plain_guards plain_def byte_def max_audit_detail_bytes_def)
  then obtain d' where "quarantine_interrupted_job 2 ''job'' (conn sample_dispatched) = Inr d'"
    using quarantine_interrupted_job_succeeds [OF inv, of sample_claimed 2] sample_audit(2) by (auto simp: i64_max_def)
  then show ?thesis by (simp add: quarantine_interrupted_jobs_def with_tx_def)
qed

theorem quarantine_strands_failed_handoff_witness:
  "\<exists>receipt s' e. admit_operator_quarantine externals_worker (Inr ()) (sample_settled TFailed []) sample_context ''a'' ''why''
       (JString ''ok'') 5 = (Inr (Accepted receipt), s')
     \<and> (\<exists>ack s''. acknowledge_worker_handoff_with_authority_at externals_worker (sample_settled TFailed []) sample_tuple
          WORKER_HANDOFF_PAYLOAD_DIGEST OriginalIncarnation 9 = (Inr ack, s''))
     \<and> acknowledge_worker_handoff_with_authority_at externals_worker s' sample_tuple
          WORKER_HANDOFF_PAYLOAD_DIGEST OriginalIncarnation 9 = (Inl e, s')"
proof -
  let ?j = "terminal_job (sample_receipt TFailed) ''{}'' WORKER_HANDOFF_PAYLOAD_DIGEST 8 sample_claimed"
  let ?a = "settled_attempt (sample_receipt TFailed) 8 sample_attempt"
  have rows: "j_id ?j = ''job''" "j_status ?j = JFailed" "a_id ?a = ''a''" "a_job_id ?a = ''job''" "a_status ?a = AFailed"
    "j_attempt_count ?j = 1" "a_sequence ?a = 1"
    by (simp_all add: settled_attempt_def) (simp_all add: sample_claimed_def claimed_job_def sample_attempt_def running_attempt_def)
  have inv: "queue_inv externals_worker (queue_of (conn (sample_settled TFailed [])))"
    using rows by (simp add: queue_of_def queue_inv_def one_unresolved_def job_ok_def attempt_ok_def del: terminal_job.simps)
  let ?d = "conn (sample_worker_store [quarantined_job ''why'' ?j] [?a] [sample_terminal TFailed]
    [\<lparr>au_action = ''attempt_quarantined'', au_detail = ''attempt_id=a;job_id=job;reason=why'', au_occurred_at_ms = 5\<rparr>])"
  obtain receipt d' where "record_operator_command ?d sample_context CmdQuarantine None (json_to_string externals_worker (JString ''ok''))
      (JString ''ok'') ''operator_command_accepted'' 5 = Inr (Accepted receipt, d')"
    by (rule record_sample_command [of ?d "''operator_command_accepted''"]) simp_all
  moreover have "valid_audit ''attempt_quarantined'' ''attempt_id=a;job_id=job;reason=why''" "validate_name ''a'' n 128 = Inr ()" for n
    by (simp_all add: valid_audit_def validate_name_Inr plain_guards plain_def byte_def max_audit_detail_bytes_def)
  ultimately have run: "admit_operator_quarantine externals_worker (Inr ()) (sample_settled TFailed []) sample_context ''a'' ''why''
      (JString ''ok'') 5 = (Inr (Accepted receipt), (sample_settled TFailed [])\<lparr>conn := d'\<rparr>)"
    using sample_worker_admission sample_attempt_names(2) sample_attempt_audit(3) rows
    by (simp add: admit_operator_quarantine_def admit_quarantine_tx_def quarantine_attempt_def sample_admission_defs
      quarantined_job_def del: terminal_job.simps)
  have "find (\<lambda>h. h_handoff_id h = tu_handoff_id sample_tuple) (worker_handoffs (conn (sample_settled TFailed []))) = Some (sample_terminal TFailed)"
    "h_attempt_id (sample_terminal TFailed) = ''a''" "h_state (sample_terminal TFailed) = HFailed"
    by simp_all (simp add: sample_terminal_def terminal_handoff_def sample_phase_def sample_handoff_def sample_ids_def)
  from quarantine_strands_failed_handoff [OF run inv this] run sample_acknowledge_run [of TFailed] show ?thesis by blast
qed

end
