(* ===== verification/Store_Components.thy ===== *)
theory Store_Components
  imports Job_Lifecycle
begin

text \<open>
  \<^verbatim>\<open>storage_components.rs\<close>: the durable observation of each supervised component, its persisted
  process identity and the restart events behind the restart budget. The monotonic clock of the
  store is an argument. The lemmas show that recording a restart implements the rolling budget
  of the supervisor policy, that the wall clock cannot age it, and that events of earlier
  controller processes stay counted.
\<close>

section \<open>Model\<close>

record component_record =
  cr_id :: string
  cr_state :: component_state
  cr_launch_nonce :: "string option"
  cr_pid :: "u32 option"
  cr_executable_digest :: "string option"
  cr_started_at_ms :: "u64 option"
  cr_restart_attempts :: u32
  cr_last_restart_at_ms :: "u64 option"
  cr_last_error :: "string option"

definition component_record_from_row :: "externals \<Rightarrow> component_row \<Rightarrow> component_record sqlite_result" where
  "component_record_from_row E r =
     bindE (map_err (\<lambda>e. to_sqlite_error (display_error E e)) (component_state_parse (c_state r))) (\<lambda>st.
     bindE (sqlite_optional_u32 (c_pid r) ''component pid'') (\<lambda>pid.
     bindE (sqlite_optional_u64 (c_started_at_ms r) ''component started_at_ms'') (\<lambda>started.
     bindE (sqlite_u32 (c_restart_attempts r) ''component restart_attempts'') (\<lambda>restarts.
     bindE (sqlite_optional_u64 (c_last_restart_at_ms r) ''component last_restart_at_ms'') (\<lambda>restarted.
     Inr \<lparr>cr_id = c_id r, cr_state = st, cr_launch_nonce = c_launch_nonce r, cr_pid = pid,
          cr_executable_digest = c_executable_digest r, cr_started_at_ms = started,
          cr_restart_attempts = restarts, cr_last_restart_at_ms = restarted,
          cr_last_error = c_last_error r\<rparr>)))))"

text \<open>The events the budget counts: those of another epoch, and the recent ones of this epoch.\<close>

definition counted_restart :: "string \<Rightarrow> string \<Rightarrow> i64 \<Rightarrow> restart_row \<Rightarrow> bool" where
  "counted_restart component_id epoch cutoff r \<longleftrightarrow>
     r_component_id r = component_id \<and> (r_clock_epoch r \<noteq> epoch \<or> cutoff \<le> r_clock_elapsed_ms r)"

definition restart_count_u32 :: "nat \<Rightarrow> u32 result" where
  "restart_count_u32 n =
     (if n < 2 ^ 32 then Inr (of_nat n) else Inl (Conflict ''restart count overflow''))"

definition restart_count_with_elapsed :: "store \<Rightarrow> string \<Rightarrow> u64 \<Rightarrow> u64 \<Rightarrow> u32 result" where
  "restart_count_with_elapsed s component_id elapsed_ms window_ms =
     bindE (validate_name component_id ''component id'' 128) (\<lambda>_.
     bindE (sqlite_timestamp (saturating_sub elapsed_ms window_ms)) (\<lambda>cutoff.
     restart_count_u32 (matching (counted_restart component_id (restart_clock_epoch s) cutoff)
                          (restart_events (conn s)))))"

text \<open>The wall-clock argument is ignored, the store's own monotonic clock is read instead.\<close>

definition restart_count :: "store \<Rightarrow> u64 \<Rightarrow> string \<Rightarrow> u64 \<Rightarrow> u64 \<Rightarrow> u32 result" where
  "restart_count s restart_elapsed_ms component_id now_ms window_ms =
     restart_count_with_elapsed s component_id restart_elapsed_ms window_ms"

text \<open>\<^verbatim>\<open>SELECT MAX(clock_elapsed_ms)\<close> over the component's events of this epoch.\<close>

definition in_epoch :: "string \<Rightarrow> string \<Rightarrow> restart_row \<Rightarrow> bool" where
  "in_epoch component_id epoch r \<longleftrightarrow> r_component_id r = component_id \<and> r_clock_epoch r = epoch"

definition max_elapsed :: "string \<Rightarrow> string \<Rightarrow> restart_row list \<Rightarrow> i64 option" where
  "max_elapsed component_id epoch t =
     (case map r_clock_elapsed_ms (filter (in_epoch component_id epoch) t) of
        [] \<Rightarrow> None
      | x # xs \<Rightarrow> Some (fold max xs x))"

definition observed_elapsed_ms :: "i64 option \<Rightarrow> u64 \<Rightarrow> u64" where
  "observed_elapsed_ms current_max elapsed_ms =
     (case current_max of
        None \<Rightarrow> elapsed_ms
      | Some v \<Rightarrow> if 0 \<le> v then max (word_of_int v) elapsed_ms else elapsed_ms)"

definition record_restart_with_elapsed ::
  "store \<Rightarrow> string \<Rightarrow> u64 \<Rightarrow> u64 \<Rightarrow> u64 \<Rightarrow> u32 result \<times> store" where
  "record_restart_with_elapsed s component_id now_ms elapsed_ms window_ms =
     (let epoch = restart_clock_epoch s;
          observed = observed_elapsed_ms (max_elapsed component_id epoch (restart_events (conn s)))
                       elapsed_ms;
          cutoff_ms = saturating_sub observed window_ms in
      bindS (with_tx s (\<lambda>d.
        bindE (validate_name component_id ''component id'' 128) (\<lambda>_.
        bindE (sqlite_timestamp cutoff_ms) (\<lambda>cutoff.
        let kept = filter (\<lambda>r. \<not> (in_epoch component_id epoch r \<and> r_clock_elapsed_ms r < cutoff))
                     (restart_events d) in
        bindE (sqlite_timestamp now_ms) (\<lambda>now.
        bindE (sqlite_timestamp observed) (\<lambda>elapsed.
        let d1 = d\<lparr>restart_events := kept
                    @ [\<lparr>r_component_id = component_id, r_occurred_at_ms = now,
                        r_clock_epoch = epoch, r_clock_elapsed_ms = elapsed\<rparr>]\<rparr> in
        bindE (insert_audit_tx d1 ''component_restart_recorded'' component_id now_ms) (\<lambda>d2.
        Inr (matching (counted_restart component_id epoch cutoff) (restart_events d2), d2)))))))) (\<lambda>count s'.
      (restart_count_u32 count, s')))"

definition record_restart ::
  "store \<Rightarrow> u64 \<Rightarrow> string \<Rightarrow> u64 \<Rightarrow> u64 \<Rightarrow> u32 result \<times> store" where
  "record_restart s restart_elapsed_ms component_id now_ms window_ms =
     record_restart_with_elapsed s component_id now_ms restart_elapsed_ms window_ms"

text \<open>\<^verbatim>\<open>INSERT ... ON CONFLICT(id) DO UPDATE\<close> keeps the identity unless the nonce is cleared.\<close>

definition upsert_component :: "store \<Rightarrow> component_record \<Rightarrow> u64 \<Rightarrow> unit result \<times> store" where
  "upsert_component s rec now_ms = with_tx s (\<lambda>d.
     bindE (validate_name (cr_id rec) ''component id'' 128) (\<lambda>_.
     bindE (case cr_last_error rec of
              None \<Rightarrow> Inr () | Some error \<Rightarrow> validate_detail error ''component error'') (\<lambda>_.
     bindE (transposeE sqlite_timestamp (cr_started_at_ms rec)) (\<lambda>started.
     bindE (transposeE sqlite_timestamp (cr_last_restart_at_ms rec)) (\<lambda>restarted.
     bindE (sqlite_timestamp now_ms) (\<lambda>now.
     let row = \<lparr>c_id = cr_id rec, c_state = component_state_as_str (cr_state rec),
                c_launch_nonce = cr_launch_nonce rec, c_pid = map_option uint (cr_pid rec),
                c_executable_digest = cr_executable_digest rec, c_started_at_ms = started,
                c_restart_attempts = uint (cr_restart_attempts rec),
                c_last_restart_at_ms = restarted, c_last_error = cr_last_error rec,
                c_identity_json = None, c_updated_at_ms = now\<rparr> in
     Inr ((), d\<lparr>components :=
       (if list_ex (\<lambda>r. c_id r = cr_id rec) (components d)
        then update_where (\<lambda>r. c_id r = cr_id rec)
               (\<lambda>r. row\<lparr>c_identity_json :=
                          (if cr_launch_nonce rec = None then None else c_identity_json r)\<rparr>)
               (components d)
        else components d @ [row])\<rparr>)))))))"

definition component :: "externals \<Rightarrow> store \<Rightarrow> string \<Rightarrow> component_record option result" where
  "component E s component_id =
     map_err Sqlite (transposeE (component_record_from_row E)
       (find (\<lambda>r. c_id r = component_id) (components (conn s))))"

definition store_components :: "externals \<Rightarrow> store \<Rightarrow> component_record list result" where
  "store_components E s =
     map_err Sqlite (mapE (component_record_from_row E)
       (select_ordered (\<lambda>_. True) c_id (components (conn s))))"

text \<open>
  The process identity; its derived JSON encoding and decoding are the arguments
  \<open>to_string\<close> and \<open>from_str\<close>.
\<close>

record process_identity =
  pi_pid :: u32
  pi_launch_nonce :: string
  pi_executable :: string
  pi_executable_digest :: string
  pi_started_at_ms :: u64
  pi_creation_fingerprint :: "string option"

text \<open>\<open>to_string\<close> is the derived JSON encoding, which does not fail on a struct of strings and numbers.\<close>

definition persist_component_identity ::
  "(process_identity \<Rightarrow> string) \<Rightarrow> store \<Rightarrow> string \<Rightarrow> process_identity \<Rightarrow> u64 \<Rightarrow> unit result \<times> store" where
  "persist_component_identity to_string s component_id identity now_ms = with_tx s (\<lambda>d.
     let encoded = to_string identity in
     bindE (validate_name component_id ''component id'' 128) (\<lambda>_.
     bindE (ensure (length encoded \<le> 4 * 1024)
              (InvalidInput ''process identity exceeds its bound'')) (\<lambda>_.
     bindE (sqlite_timestamp now_ms) (\<lambda>now.
     bindE (ensure (matching (\<lambda>r. c_id r = component_id) (components d) = 1)
              (NotFound (''component '' @ component_id))) (\<lambda>_.
     Inr ((), d\<lparr>components := update_where (\<lambda>r. c_id r = component_id)
       (\<lambda>r. r\<lparr>c_identity_json := Some encoded, c_launch_nonce := Some (pi_launch_nonce identity),
               c_pid := Some (uint (pi_pid identity)),
               c_executable_digest := Some (pi_executable_digest identity),
               c_updated_at_ms := now\<rparr>) (components d)\<rparr>))))))"

definition component_identity ::
  "(string \<Rightarrow> string + process_identity) \<Rightarrow> store \<Rightarrow> string \<Rightarrow> process_identity option result" where
  "component_identity from_str s component_id =
     map_err Json (transposeE from_str
       (Option.bind (find (\<lambda>r. c_id r = component_id) (components (conn s))) c_identity_json))"

definition clear_component_identity :: "store \<Rightarrow> string \<Rightarrow> u64 \<Rightarrow> unit result \<times> store" where
  "clear_component_identity s component_id now_ms = with_tx s (\<lambda>d.
     bindE (sqlite_timestamp now_ms) (\<lambda>now.
     Inr ((), d\<lparr>components := update_where (\<lambda>r. c_id r = component_id)
       (\<lambda>r. r\<lparr>c_identity_json := None, c_launch_nonce := None, c_pid := None,
               c_executable_digest := None, c_updated_at_ms := now\<rparr>) (components d)\<rparr>)))"


section \<open>Contract\<close>

interpretation component_table: keyed_table c_id "\<lambda>r x. c_id r = c_id x"
  by unfold_locales simp

interpretation upsert: quiet_operation "\<lambda>s. upsert_component s rec now_ms" for rec now_ms
  unfolding upsert_component_def
  by (rule quiet_tx) (auto simp: result_simps Let_def)

interpretation persist_identity: quiet_operation "\<lambda>s. persist_component_identity to_string s cid identity now_ms"
  for to_string cid identity now_ms
  unfolding persist_component_identity_def
  by (rule quiet_tx) (auto simp: result_simps Let_def)

interpretation clear_identity: quiet_operation "\<lambda>s. clear_component_identity s cid now_ms" for cid now_ms
  unfolding clear_component_identity_def
  by (rule quiet_tx) (auto simp: result_simps Let_def)

interpretation restart_recorded: quiet_operation
  "\<lambda>s. record_restart_with_elapsed s cid now_ms elapsed_ms window_ms" for cid now_ms elapsed_ms window_ms
  unfolding record_restart_with_elapsed_def Let_def
  by (rule quiet_bindS [OF quiet_tx])
     (auto simp: result_simps audit_ok_defs dest: audit_limit_less)

section \<open>The identity\<close>

lemma persist_identity_Inr:
  assumes "persist_component_identity to_string s cid identity now_ms = (Inr (), s')"
  obtains r where "components (conn s') = update_where (\<lambda>r. c_id r = cid)
       (\<lambda>r. r\<lparr>c_identity_json := Some (to_string identity), c_launch_nonce := Some (pi_launch_nonce identity),
               c_pid := Some (uint (pi_pid identity)),
               c_executable_digest := Some (pi_executable_digest identity),
               c_updated_at_ms := uint now_ms\<rparr>) (components (conn s))"
    "r \<in> set (components (conn s))" "c_id r = cid"
proof -
  have "matching (\<lambda>r. c_id r = cid) (components (conn s)) \<noteq> 0"
    using assms by (auto simp: persist_component_identity_def result_simps Let_def)
  then obtain r where "r \<in> set (components (conn s))" "c_id r = cid"
    by (auto simp: matching_0)
  with assms show ?thesis
    by (intro that [of r]) (auto simp: persist_component_identity_def result_simps Let_def)
qed

definition component_row_of :: "component_record \<Rightarrow> component_row \<Rightarrow> bool" where
  "component_row_of rec r \<longleftrightarrow>
     c_id r = cr_id rec \<and> c_state r = component_state_as_str (cr_state rec)
     \<and> c_launch_nonce r = cr_launch_nonce rec \<and> c_pid r = map_option uint (cr_pid rec)
     \<and> c_executable_digest r = cr_executable_digest rec
     \<and> c_started_at_ms r = map_option uint (cr_started_at_ms rec)
     \<and> c_restart_attempts r = uint (cr_restart_attempts rec)
     \<and> c_last_restart_at_ms r = map_option uint (cr_last_restart_at_ms rec)
     \<and> c_last_error r = cr_last_error rec"

lemma transposeE_timestamp: "transposeE sqlite_timestamp x = Inr y \<Longrightarrow> y = map_option uint x"
  by (auto simp: result_simps)

lemma transposeE_uint [simp]:
  "sqlite_optional_u64 (map_option uint x) field = Inr x"
  "sqlite_optional_u32 (map_option uint y) field' = Inr y"
  by (cases x; simp add: sqlite_optional_u64_def) (cases y; simp add: sqlite_optional_u32_def)

lemma component_row_of_decodes: "component_row_of rec r \<Longrightarrow> component_record_from_row E r = Inr rec"
  by (simp add: component_row_of_def component_record_from_row_def)

text \<open>
  An observation that was stored is what the store reports for the component, whether the
  component was known before or not; clearing the launch nonce also clears the identity.
\<close>

theorem upsert_component_roundtrip:
  assumes "upsert_component s rec now_ms = (Inr (), s')"
  shows "component E s' (cr_id rec) = Inr (Some rec)
    \<and> (cr_launch_nonce rec = None \<longrightarrow> component_identity from_str s' (cr_id rec) = Inr None)"
proof -
  let ?p = "\<lambda>r. c_id r = cr_id rec"
  obtain started restarted where
    ts: "transposeE sqlite_timestamp (cr_started_at_ms rec) = Inr started"
      "transposeE sqlite_timestamp (cr_last_restart_at_ms rec) = Inr restarted"
    using assms unfolding upsert_component_def by (auto simp: bindE_Inr with_tx_Inr Let_def)
  have "\<exists>r. find ?p (components (conn s')) = Some r \<and> component_row_of rec r
    \<and> (cr_launch_nonce rec = None \<longrightarrow> c_identity_json r = None)"
  proof (cases "find ?p (components (conn s))")
    case None
    then have "\<not> list_ex ?p (components (conn s))" by (simp add: find_None_list_ex)
    with None assms ts show ?thesis
      by (auto simp: upsert_component_def with_tx_Inr bindE_Inr Let_def find_append1
          component_row_of_def sqlite_timestamp_Inr dest!: transposeE_timestamp)
  next
    case (Some x)
    then have "list_ex ?p (components (conn s))"
      using find_None_list_ex [of ?p] by (metis option.distinct(1))
    with Some assms ts show ?thesis
      by (auto simp: upsert_component_def with_tx_Inr bindE_Inr Let_def find_update_where
          component_row_of_def sqlite_timestamp_Inr dest!: transposeE_timestamp)
  qed
  then show ?thesis
    by (auto simp: component_def component_identity_def component_row_of_decodes)
qed

text \<open>
  C36: A persisted process identity reads back unchanged when its encoding parses back, and is
  gone once cleared.
\<close>

theorem component_identity_roundtrip:
  assumes "persist_component_identity to_string s cid identity now_ms = (Inr (), s')"
    and "from_str (to_string identity) = Inr identity"
  shows "component_identity from_str s' cid = Inr (Some identity)
    \<and> (\<forall>now s''. clear_component_identity s' cid now = (Inr (), s'') \<longrightarrow>
         component_identity from_str s'' cid = Inr None)"
proof -
  obtain r where upd: "components (conn s') = update_where (\<lambda>r. c_id r = cid)
       (\<lambda>r. r\<lparr>c_identity_json := Some (to_string identity), c_launch_nonce := Some (pi_launch_nonce identity),
               c_pid := Some (uint (pi_pid identity)),
               c_executable_digest := Some (pi_executable_digest identity),
               c_updated_at_ms := uint now_ms\<rparr>) (components (conn s))"
    and r: "r \<in> set (components (conn s))" "c_id r = cid"
    using persist_identity_Inr [OF assms(1)] by blast
  then obtain x where "find (\<lambda>r. c_id r = cid) (components (conn s)) = Some x"
    by (cases "find (\<lambda>r. c_id r = cid) (components (conn s))") (auto simp: find_None_iff)
  then have x: "\<exists>y. find (\<lambda>r. c_id r = cid) (components (conn s')) = Some y \<and> c_identity_json y = Some (to_string identity)"
    unfolding upd by (simp add: find_update_where)
  have "component_identity from_str s'' cid = Inr None"
    if "clear_component_identity s' cid now = (Inr (), s'')" for now s''
    using that x by (auto simp: clear_component_identity_def component_identity_def result_simps find_update_where)
  with x assms(2) show ?thesis by (auto simp: component_identity_def)
qed

section \<open>Restart accounting\<close>

definition epoch_events :: "store \<Rightarrow> string \<Rightarrow> u64 list" where
  "epoch_events s cid = map (\<lambda>r. word_of_int (r_clock_elapsed_ms r))
     (filter (in_epoch cid (restart_clock_epoch s)) (restart_events (conn s)))"

definition stored_budget :: "store \<Rightarrow> string \<Rightarrow> u32 \<Rightarrow> u64 \<Rightarrow> restart_budget" where
  "stored_budget s cid max_events window_ms =
     \<lparr>rb_max_events = max_events, rb_window_ms = window_ms,
      rb_last_elapsed_ms = fold max (epoch_events s cid) 0, rb_events = epoch_events s cid\<rparr>"

definition restart_events_ok :: "db \<Rightarrow> bool" where
  "restart_events_ok d \<longleftrightarrow>
     (\<forall>r \<in> set (restart_events d). 0 \<le> r_clock_elapsed_ms r \<and> r_clock_elapsed_ms r \<le> i64_max)"

lemma uint_word_of_i64: "0 \<le> i \<Longrightarrow> i \<le> i64_max \<Longrightarrow> uint (word_of_int i :: u64) = i"
  by (simp add: uint_word_of_int i64_max_def)

lemma le_word_of_i64:
  "0 \<le> i \<Longrightarrow> i \<le> i64_max \<Longrightarrow> w \<le> (word_of_int i :: u64) \<longleftrightarrow> uint w \<le> i"
  by (simp add: word_le_def uint_word_of_i64)

lemma word_of_int_max:
  "0 \<le> i \<Longrightarrow> i \<le> i64_max \<Longrightarrow> 0 \<le> j \<Longrightarrow> j \<le> i64_max \<Longrightarrow>
   (word_of_int (max i j) :: u64) = max (word_of_int i) (word_of_int j)"
  by (simp add: max_def word_le_def uint_word_of_i64)

lemma fold_max_bounds: "\<forall>x \<in> set xs. 0 \<le> x \<and> x \<le> b \<Longrightarrow> 0 \<le> a \<Longrightarrow> a \<le> (b :: int) \<Longrightarrow> 0 \<le> fold max xs a \<and> fold max xs a \<le> b"
  by (induction xs arbitrary: a) auto

lemma fold_max_words:
  "\<forall>x \<in> set xs. 0 \<le> x \<and> x \<le> i64_max \<Longrightarrow> 0 \<le> a \<Longrightarrow> a \<le> i64_max \<Longrightarrow>
   (word_of_int (fold max xs a) :: u64) = fold max (map word_of_int xs) (word_of_int a)"
  by (induction xs arbitrary: a) (auto simp: word_of_int_max)

lemma observed_elapsed_budget:
  assumes "restart_events_ok (conn s)"
  shows "observed_elapsed_ms (max_elapsed cid (restart_clock_epoch s) (restart_events (conn s))) e
    = max (fold max (epoch_events s cid) 0) e"
proof (cases "map r_clock_elapsed_ms (filter (in_epoch cid (restart_clock_epoch s)) (restart_events (conn s)))")
  case Nil
  then show ?thesis by (simp add: observed_elapsed_ms_def max_elapsed_def epoch_events_def)
next
  case (Cons x xs)
  have ok: "\<forall>y \<in> set (x # xs). 0 \<le> y \<and> y \<le> i64_max"
    using assms unfolding Cons [symmetric] restart_events_ok_def by auto
  have "epoch_events s cid = map word_of_int (x # xs)"
    unfolding epoch_events_def Cons [symmetric] by simp
  moreover have "0 \<le> fold max xs x"
    using fold_max_bounds [of xs i64_max x] ok by simp
  ultimately show ?thesis
    using Cons fold_max_words [of xs x] ok
    by (simp add: observed_elapsed_ms_def max_elapsed_def)
qed

lemma record_restart_Inr:
  assumes "record_restart_with_elapsed s cid now_ms e w = (Inr n, s')"
  defines "obs \<equiv> observed_elapsed_ms (max_elapsed cid (restart_clock_epoch s) (restart_events (conn s))) e"
  shows "restart_events (conn s') =
      filter (\<lambda>r. \<not> (in_epoch cid (restart_clock_epoch s) r \<and> r_clock_elapsed_ms r < uint (saturating_sub obs w)))
        (restart_events (conn s))
      @ [\<lparr>r_component_id = cid, r_occurred_at_ms = uint now_ms, r_clock_epoch = restart_clock_epoch s,
          r_clock_elapsed_ms = uint obs\<rparr>]"
    and "restart_clock_epoch s' = restart_clock_epoch s" and "uint obs \<le> i64_max"
    and "restart_count_u32 (matching (counted_restart cid (restart_clock_epoch s) (uint (saturating_sub obs w)))
           (restart_events (conn s'))) = Inr n"
    and "uint (saturating_sub obs w) \<le> i64_max" and "validate_name cid ''component id'' 128 = Inr ()"
  using assms(1) unfolding record_restart_with_elapsed_def Let_def obs_def [symmetric]
  by (auto simp: result_simps bindS_def split: prod.splits sum.splits)

lemma stored_budget_record:
  "snd (budget_record (stored_budget s cid m w) e) =
     (let last = max (fold max (epoch_events s cid) 0) e;
          kept = filter (\<lambda>x. saturating_sub last w \<le> x) (epoch_events s cid)
      in \<lparr>rb_max_events = m, rb_window_ms = w, rb_last_elapsed_ms = last,
          rb_events = (if u32_of_len (length kept) < m then kept @ [last] else kept)\<rparr>)"
  by (simp add: budget_record_def budget_observe_def stored_budget_def Let_def)

lemma epoch_events_recorded:
  fixes e :: u64
  assumes rec: "record_restart_with_elapsed s cid now_ms e w = (Inr n, s')"
    and ok: "restart_events_ok (conn s)"
  defines "newest \<equiv> max (fold max (epoch_events s cid) 0) e"
  shows "epoch_events s' cid = filter (\<lambda>x. saturating_sub newest w \<le> x) (epoch_events s cid) @ [newest]"
proof -
  note obs = observed_elapsed_budget [OF ok, of cid e]
  note run = record_restart_Inr [OF rec, unfolded obs, folded newest_def]
  have flt: "filter (in_epoch cid ep) (filter (\<lambda>r. \<not> (in_epoch cid ep r \<and> r_clock_elapsed_ms r < uint c)) t)
      = filter (\<lambda>r. c \<le> word_of_int (r_clock_elapsed_ms r)) (filter (in_epoch cid ep) t)"
    if "\<forall>r \<in> set t. 0 \<le> r_clock_elapsed_ms r \<and> r_clock_elapsed_ms r \<le> i64_max" for ep and c :: u64 and t
    using that by (induction t) (auto simp: le_word_of_i64)
  have new: "in_epoch cid ep \<lparr>r_component_id = cid, r_occurred_at_ms = t, r_clock_epoch = ep, r_clock_elapsed_ms = l\<rparr>" for ep t l
    by (simp add: in_epoch_def)
  show ?thesis
    unfolding epoch_events_def run(1,2) filter_append flt [OF ok [unfolded restart_events_ok_def]] map_append filter_map comp_def
    by (simp add: new)
qed

text \<open>
  C20: Recording a restart in the store implements the rolling budget of the policy while that budget admits
  the restart: the events of the running controller in the store are then those of the budget
  after \<^const>\<open>budget_record\<close>. When the budget is exhausted the two differ, since the store records the restart all the
  same: it then holds the budget's events and the time of this restart behind them.
\<close>

theorem record_restart_refines_budget:
  assumes "restart_events_ok (conn s)"
    and "record_restart_with_elapsed s cid now_ms e w = (Inr n, s')"
  shows "restart_events_ok (conn s')
    \<and> stored_budget s' cid m w =
        (let b = snd (budget_record (stored_budget s cid m w) e)
         in if fst (budget_observe (stored_budget s cid m w) e) < m then b
            else b\<lparr>rb_events := rb_events b @ [rb_last_elapsed_ms b]\<rparr>)"
proof -
  let ?last = "max (fold max (epoch_events s cid) 0) e"
  note ev = epoch_events_recorded [OF assms(2,1)]
  have "x \<le> ?last" if "x \<in> set (epoch_events s cid)" for x
    using fold_max_ge [of 0 "epoch_events s cid"] that by (auto simp: le_max_iff_disj)
  then have "fold max (filter (\<lambda>x. saturating_sub ?last w \<le> x) (epoch_events s cid)) 0 \<le> ?last"
    by (intro fold_max_upper) simp_all
  then have last: "fold max (epoch_events s' cid) 0 = ?last"
    unfolding ev fold_append by (simp add: max.absorb1)
  have "restart_events_ok (conn s')"
    using record_restart_Inr(1,3) [OF assms(2)] assms(1)
    unfolding observed_elapsed_budget [OF assms(1)] by (auto simp: restart_events_ok_def)
  moreover have "fst (budget_observe (stored_budget s cid m w) e)
      = u32_of_len (length (filter (\<lambda>x. saturating_sub ?last w \<le> x) (epoch_events s cid)))"
    by (simp add: budget_observe_def stored_budget_def Let_def)
  ultimately show ?thesis
    unfolding stored_budget_record unfolding stored_budget_def last unfolding ev
    by (simp add: Let_def)
qed

text \<open>
  C35: The restart history is conservative. Recording a restart keeps every event of an earlier
  controller process and of every other component, the count it reports is the one a query at the
  same monotonic time reports, and neither the surviving accounting nor the count depends on the
  wall clock.
\<close>

theorem restart_history_conservative:
  assumes "record_restart_with_elapsed s cid now_ms e w = (Inr n, s')"
    and "restart_events_ok (conn s)"
  shows "filter (\<lambda>r. \<not> in_epoch cid (restart_clock_epoch s) r) (restart_events (conn s'))
           = filter (\<lambda>r. \<not> in_epoch cid (restart_clock_epoch s) r) (restart_events (conn s))
    \<and> restart_count_with_elapsed s' cid (max (fold max (epoch_events s cid) 0) e) w = Inr n
    \<and> (\<forall>now' n' t. record_restart_with_elapsed s cid now' e w = (Inr n', t) \<longrightarrow>
         n' = n \<and> epoch_events t cid = epoch_events s' cid)"
proof (intro conjI allI impI)
  note obs = observed_elapsed_budget [OF assms(2), of cid e]
  note run = record_restart_Inr [OF assms(1), unfolded obs]
  show "filter (\<lambda>r. \<not> in_epoch cid (restart_clock_epoch s) r) (restart_events (conn s'))
      = filter (\<lambda>r. \<not> in_epoch cid (restart_clock_epoch s) r) (restart_events (conn s))"
    unfolding run(1) by (auto simp: in_epoch_def intro!: filter_cong)
  show "restart_count_with_elapsed s' cid (max (fold max (epoch_events s cid) 0) e) w = Inr n"
    using run(2,4,5,6) by (simp add: restart_count_with_elapsed_def sqlite_timestamp_def)
  fix now' n' t assume other: "record_restart_with_elapsed s cid now' e w = (Inr n', t)"
  show "epoch_events t cid = epoch_events s' cid"
    using epoch_events_recorded [OF other assms(2)] epoch_events_recorded [OF assms] by simp
  note run' = record_restart_Inr [OF other, unfolded obs]
  have "matching (counted_restart cid ep c) (restart_events (conn t))
      = matching (counted_restart cid ep c) (restart_events (conn s'))" for ep c
    unfolding run(1) run'(1) by (simp add: matching_def counted_restart_def)
  then show "n' = n" using run(4) run'(4) by simp
qed
section \<open>Concrete runs\<close>

definition sample_component :: component_record where
  "sample_component =
     \<lparr>cr_id = ''harness'', cr_state = Running, cr_launch_nonce = Some ''nonce'', cr_pid = Some 7,
      cr_executable_digest = None, cr_started_at_ms = Some 1, cr_restart_attempts = 0,
      cr_last_restart_at_ms = None, cr_last_error = None\<rparr>"

lemma harness_valid: "validate_name ''harness'' name 128 = Inr ()"
  by (simp add: validate_name_Inr plain_guards plain_def byte_def)

theorem upsert_component_roundtrip_witness:
  "\<exists>s'. upsert_component sample_store sample_component 5 = (Inr (), s')
     \<and> component externals_sample s' ''harness'' = Inr (Some sample_component)"
proof -
  obtain s' where run: "upsert_component sample_store sample_component 5 = (Inr (), s')"
    by (simp add: upsert_component_def sample_component_def harness_valid with_tx_def
        sqlite_timestamp_def i64_max_def Let_def result_defs)
  then show ?thesis
    using upsert_component_roundtrip [OF run, of externals_sample]
    by (auto simp: sample_component_def)
qed

definition sample_observed :: store where
  "sample_observed = sample_store\<lparr>conn := (conn sample_store)\<lparr>components :=
     [\<lparr>c_id = ''harness'', c_state = ''starting'', c_launch_nonce = None, c_pid = None,
       c_executable_digest = None, c_started_at_ms = None, c_restart_attempts = 0,
       c_last_restart_at_ms = None, c_last_error = None, c_identity_json = None,
       c_updated_at_ms = 1\<rparr>]\<rparr>\<rparr>"

definition sample_identity :: process_identity where
  "sample_identity =
     \<lparr>pi_pid = 7, pi_launch_nonce = ''nonce'', pi_executable = ''bin'', pi_executable_digest = ''d'',
      pi_started_at_ms = 1, pi_creation_fingerprint = None\<rparr>"

theorem component_identity_roundtrip_witness:
  "\<exists>s'. persist_component_identity (\<lambda>_. ''id'') sample_observed ''harness'' sample_identity 5 = (Inr (), s')
     \<and> component_identity (\<lambda>_. Inr sample_identity) s' ''harness'' = Inr (Some sample_identity)"
proof -
  obtain s' where run: "persist_component_identity (\<lambda>_. ''id'') sample_observed ''harness'' sample_identity 5 = (Inr (), s')"
    by (simp add: persist_component_identity_def sample_observed_def harness_valid with_tx_def
        sqlite_timestamp_def i64_max_def Let_def result_defs matching_def)
  then show ?thesis
    using component_identity_roundtrip [OF run, of "\<lambda>_. Inr sample_identity"] by auto
qed

lemma sample_restart:
  "\<exists>n s'. record_restart_with_elapsed sample_store ''harness'' 5 10 60000 = (Inr n, s')"
  "restart_events_ok (conn sample_store)"
  "fst (budget_observe (stored_budget sample_store ''harness'' 3 60000) 10) < 3"
proof -
  show "restart_events_ok (conn sample_store)"
    by (simp add: restart_events_ok_def sample_store_def blank_db_def)
  show "fst (budget_observe (stored_budget sample_store ''harness'' 3 60000) 10) < 3"
    by (simp add: budget_observe_def stored_budget_def epoch_events_def sample_store_def blank_db_def Let_def u32_of_len_def)
  have "valid_audit ''component_restart_recorded'' ''harness''"
    by (simp add: valid_audit_def plain_guards plain_def byte_def max_audit_detail_bytes_def)
  then show "\<exists>n s'. record_restart_with_elapsed sample_store ''harness'' 5 10 60000 = (Inr n, s')"
    using sample_audit(2) [of "''component_restart_recorded''"]
    by (simp add: record_restart_with_elapsed_def bindS_def with_tx_def harness_valid Let_def
        sqlite_timestamp_def i64_max_def observed_elapsed_ms_def max_elapsed_def
        saturating_sub_def insert_audit_tx_succeeds matching_def counted_restart_def restart_count_u32_def
        sample_store_def blank_db_def)
qed

theorem record_restart_refines_budget_witness:
  "\<exists>n s'. record_restart_with_elapsed sample_store ''harness'' 5 10 60000 = (Inr n, s')
     \<and> stored_budget s' ''harness'' 3 60000 = snd (budget_record (stored_budget sample_store ''harness'' 3 60000) 10)"
proof -
  obtain n s' where run: "record_restart_with_elapsed sample_store ''harness'' 5 10 60000 = (Inr n, s')"
    using sample_restart(1) by blast
  then show ?thesis
    using record_restart_refines_budget [OF sample_restart(2) run, of 3] sample_restart(3) by (auto simp: Let_def)
qed

theorem restart_history_conservative_witness:
  "\<exists>n s'. record_restart_with_elapsed sample_store ''harness'' 5 10 60000 = (Inr n, s')
     \<and> restart_count_with_elapsed s' ''harness'' (max (fold max (epoch_events sample_store ''harness'') 0) 10) 60000 = Inr n"
  using restart_history_conservative [OF _ sample_restart(2)] sample_restart(1) by blast

end
