(* ===== verification/Store_LaunchIntents.thy ===== *)
theory Store_LaunchIntents
  imports Job_Lifecycle
begin

text \<open>
  \<^verbatim>\<open>storage_launch_intents.rs\<close>: the durable admission of a launch before a process exists, the
  recorded ownership proof, activation and cleanup. The contract is a step relation over the
  intent table; the lemmas show that a component never has two unsettled intents, that only an
  intent with a proof is activated and only under the running mode, and that every row the
  operations write is one the decoder accepts.
\<close>

section \<open>Model\<close>

definition MAX_LAUNCH_PROOF_BYTES :: nat where
  "MAX_LAUNCH_PROOF_BYTES = 8 * 1024"

record launch_intent =
  li_id :: string
  li_deployment_id :: string
  li_component_id :: string
  li_launch_nonce :: string
  li_expected_incarnation :: "string option"
  li_expected_launch_spec_digest :: "string option"
  li_planned_containment_id :: "string option"
  li_state :: launch_intent_state
  li_ownership_proof_json :: "json option"
  li_created_at_ms :: u64
  li_updated_at_ms :: u64

definition require_running_launch_intent :: "db \<Rightarrow> unit result" where
  "require_running_launch_intent d =
     bindE (ok_or (Conflict ''desired mode metadata is missing'') (metadata_from_conn d ''desired_mode''))
       (\<lambda>desired.
     bindE (parse_mode desired) (\<lambda>mode.
     ensure (mode = ModeRunning)
       (Conflict ''durable desired mode does not authorize launch admission or activation'')))"

definition launch_intent_from_row :: "externals \<Rightarrow> intent_row \<Rightarrow> launch_intent sqlite_result" where
  "launch_intent_from_row E r =
     bindE (ensure ((l_expected_incarnation r \<noteq> None) = (l_expected_launch_spec_digest r \<noteq> None))
              (to_sqlite_error ''launch intent has a partially persisted launch binding'')) (\<lambda>_.
     bindE (case l_expected_incarnation r of
              None \<Rightarrow> Inr ()
            | Some incarnation \<Rightarrow>
                validate_name_sqlite incarnation ''expected launch incarnation'' 256) (\<lambda>_.
     bindE (case l_expected_launch_spec_digest r of
              None \<Rightarrow> Inr ()
            | Some digest \<Rightarrow> map_err to_sqlite_error (validate_digest digest)) (\<lambda>_.
     bindE (ensure (\<not> (case l_ownership_proof_json r of
                         None \<Rightarrow> False | Some value \<Rightarrow> MAX_LAUNCH_PROOF_BYTES < length value))
              (to_sqlite_error ''launch ownership proof exceeds its persisted bound'')) (\<lambda>_.
     bindE (map_err to_sqlite_error (transposeE (json_from_str E) (l_ownership_proof_json r))) (\<lambda>parsed_proof.
     bindE (map_err (\<lambda>e. to_sqlite_error (display_error E e))
              (launch_intent_state_parse (launch_intent_state_as_str (l_state r)))) (\<lambda>parsed_state.
     bindE (ensure (\<not> (parsed_state \<in> {LProofRecorded, LActive} \<and> parsed_proof = None))
              (to_sqlite_error ''launch intent state requires a recorded ownership proof'')) (\<lambda>_.
     bindE (ensure (\<not> (parsed_state = LPrepared \<and> parsed_proof \<noteq> None))
              (to_sqlite_error ''prepared launch intent unexpectedly contains an ownership proof'')) (\<lambda>_.
     bindE (sqlite_u64 (l_created_at_ms r) ''launch intent created_at_ms'') (\<lambda>created.
     bindE (sqlite_u64 (l_updated_at_ms r) ''launch intent updated_at_ms'') (\<lambda>updated.
     Inr \<lparr>li_id = l_id r, li_deployment_id = l_deployment_id r, li_component_id = l_component_id r,
          li_launch_nonce = l_launch_nonce r, li_expected_incarnation = l_expected_incarnation r,
          li_expected_launch_spec_digest = l_expected_launch_spec_digest r,
          li_planned_containment_id = l_planned_containment_id r, li_state = parsed_state,
          li_ownership_proof_json = parsed_proof, li_created_at_ms = created,
          li_updated_at_ms = updated\<rparr>))))))))))"

definition get_launch_intent :: "externals \<Rightarrow> store \<Rightarrow> string \<Rightarrow> launch_intent option result" where
  "get_launch_intent E s intent_id =
     bindE (validate_name intent_id ''launch intent id'' 128) (\<lambda>_.
     map_err Sqlite (transposeE (launch_intent_from_row E)
       (find (\<lambda>r. l_id r = intent_id) (launch_intents (conn s)))))"

definition unsettled_launch_intents :: "externals \<Rightarrow> store \<Rightarrow> launch_intent list result" where
  "unsettled_launch_intents E s =
     map_err Sqlite (mapE (launch_intent_from_row E)
       (select_ordered (\<lambda>r. l_state r \<noteq> LCleaned) (\<lambda>r. (l_created_at_ms r, l_id r))
          (launch_intents (conn s))))"

text \<open>The uniqueness constraints: the primary key and the partial index over unsettled rows.\<close>

definition intent_clash :: "intent_row \<Rightarrow> intent_row \<Rightarrow> bool" where
  "intent_clash r x \<longleftrightarrow>
     l_id r = l_id x
     \<or> (l_component_id r = l_component_id x \<and> l_state r \<noteq> LCleaned \<and> l_state x \<noteq> LCleaned)"

text \<open>The row the \<^verbatim>\<open>INSERT\<close> writes.\<close>

definition prepared_intent ::
  "string \<Rightarrow> string \<Rightarrow> string \<Rightarrow> string \<Rightarrow> string \<Rightarrow> string \<Rightarrow> string option \<Rightarrow> i64 \<Rightarrow> intent_row" where
  "prepared_intent new_id deployment_id component_id launch_nonce expected_incarnation
       expected_launch_spec_digest planned_containment_id now =
     \<lparr>l_id = new_id, l_deployment_id = deployment_id, l_component_id = component_id,
      l_launch_nonce = launch_nonce, l_expected_incarnation = Some expected_incarnation,
      l_expected_launch_spec_digest = Some expected_launch_spec_digest,
      l_planned_containment_id = planned_containment_id, l_state = LPrepared,
      l_ownership_proof_json = None, l_created_at_ms = now, l_updated_at_ms = now\<rparr>"

definition prepare_launch_intent_tx ::
  "store \<Rightarrow> string \<Rightarrow> string \<Rightarrow> string \<Rightarrow> string \<Rightarrow> string option \<Rightarrow> u64 \<Rightarrow> string \<Rightarrow> db
   \<Rightarrow> (unit \<times> db) result" where
  "prepare_launch_intent_tx s component_id launch_nonce expected_incarnation
       expected_launch_spec_digest planned_containment_id now_ms new_id d =
     bindE (validate_name component_id ''component id'' 128) (\<lambda>_.
     bindE (validate_name launch_nonce ''launch nonce'' 128) (\<lambda>_.
     bindE (validate_name expected_incarnation ''expected launch incarnation'' 256) (\<lambda>_.
     bindE (map_err InvalidInput (validate_digest expected_launch_spec_digest)) (\<lambda>_.
     bindE (case planned_containment_id of
              None \<Rightarrow> Inr ()
            | Some containment_id \<Rightarrow> validate_name containment_id ''planned containment id'' 256) (\<lambda>_.
     bindE (ok_or (Conflict ''deployment_id metadata is missing'') (store_metadata s ''deployment_id''))
       (\<lambda>deployment_id.
     bindE (validate_metadata_identifier ''deployment_id'' deployment_id) (\<lambda>_.
     bindE (sqlite_timestamp now_ms) (\<lambda>now.
     bindE (require_running_launch_intent d) (\<lambda>_.
     bindE (case find (\<lambda>r. l_component_id r = component_id \<and> l_state r \<noteq> LCleaned) (launch_intents d) of
              None \<Rightarrow> Inr ()
            | Some existing \<Rightarrow>
                Inl (Conflict (''component '' @ component_id
                  @ '' already has an unsettled launch intent '' @ l_id existing))) (\<lambda>_.
     bindE (insert_row intent_clash ''launch_intents''
              (prepared_intent new_id deployment_id component_id launch_nonce expected_incarnation
                 expected_launch_spec_digest planned_containment_id now) (launch_intents d)) (\<lambda>t.
     bindE (insert_audit_tx (d\<lparr>launch_intents := t\<rparr>) ''launch_intent_prepared''
              (component_id @ '':'' @ new_id) now_ms) (\<lambda>d.
     Inr ((), d)))))))))))))"

definition prepare_launch_intent ::
  "externals \<Rightarrow> store \<Rightarrow> string \<Rightarrow> string \<Rightarrow> string \<Rightarrow> string \<Rightarrow> string option \<Rightarrow> u64 \<Rightarrow> string
   \<Rightarrow> launch_intent result \<times> store" where
  "prepare_launch_intent E s component_id launch_nonce expected_incarnation
       expected_launch_spec_digest planned_containment_id now_ms new_id =
     bindS (with_tx s (prepare_launch_intent_tx s component_id launch_nonce expected_incarnation
       expected_launch_spec_digest planned_containment_id now_ms new_id)) (\<lambda>_ s'.
     (bindE (get_launch_intent E s' new_id) (ok_or (Conflict ''launch intent disappeared after commit'')), s'))"

definition record_launch_proof_tx ::
  "externals \<Rightarrow> string \<Rightarrow> json \<Rightarrow> u64 \<Rightarrow> db \<Rightarrow> (unit \<times> db) result" where
  "record_launch_proof_tx E intent_id ownership_proof now_ms d =
     bindE (validate_name intent_id ''launch intent id'' 128) (\<lambda>_.
     bindE (ensure (ownership_proof \<noteq> JNull)
              (InvalidInput ''launch ownership proof must not be null'')) (\<lambda>_.
     let encoded = json_to_string E ownership_proof in
     bindE (ensure (length encoded \<le> MAX_LAUNCH_PROOF_BYTES)
              (InvalidInput ''launch ownership proof exceeds its bound'')) (\<lambda>_.
     bindE (ok_or (NotFound (''launch intent '' @ intent_id))
              (find (\<lambda>r. l_id r = intent_id) (launch_intents d))) (\<lambda>r.
     bindE (ensure (l_expected_incarnation r \<noteq> None \<and> l_expected_launch_spec_digest r \<noteq> None)
              (Conflict (''launch intent '' @ intent_id @ '' has no persisted launch binding''))) (\<lambda>_.
     bindE (ensure (l_state r = LPrepared)
              (Conflict (''launch intent '' @ intent_id @ '' is ''
                         @ launch_intent_state_as_str (l_state r) @ '', not prepared''))) (\<lambda>_.
     bindE (sqlite_timestamp now_ms) (\<lambda>now.
     let d1 = d\<lparr>launch_intents := update_where (\<lambda>x. l_id x = intent_id \<and> l_state x = LPrepared)
                 (\<lambda>x. x\<lparr>l_state := LProofRecorded, l_ownership_proof_json := Some encoded,
                         l_updated_at_ms := now\<rparr>) (launch_intents d)\<rparr> in
     bindE (insert_audit_tx d1 ''launch_proof_recorded'' intent_id now_ms) (\<lambda>d.
     Inr ((), d)))))))))"

definition record_launch_proof ::
  "externals \<Rightarrow> store \<Rightarrow> string \<Rightarrow> json \<Rightarrow> u64 \<Rightarrow> launch_intent result \<times> store" where
  "record_launch_proof E s intent_id ownership_proof now_ms =
     bindS (with_tx s (record_launch_proof_tx E intent_id ownership_proof now_ms)) (\<lambda>_ s'.
     (bindE (get_launch_intent E s' intent_id)
        (ok_or (Conflict ''launch intent disappeared after proof commit'')), s'))"

definition activate_launch_intent_tx ::
  "string \<Rightarrow> u64 \<Rightarrow> db \<Rightarrow> (unit \<times> db) result" where
  "activate_launch_intent_tx intent_id now_ms d =
     bindE (validate_name intent_id ''launch intent id'' 128) (\<lambda>_.
     bindE (require_running_launch_intent d) (\<lambda>_.
     bindE (ok_or (NotFound (''launch intent '' @ intent_id))
              (find (\<lambda>r. l_id r = intent_id) (launch_intents d))) (\<lambda>r.
     bindE (ensure (l_expected_incarnation r \<noteq> None \<and> l_expected_launch_spec_digest r \<noteq> None)
              (Conflict (''launch intent '' @ intent_id @ '' has no persisted launch binding''))) (\<lambda>_.
     bindE (ensure (l_state r = LProofRecorded \<and> l_ownership_proof_json r \<noteq> None)
              (Conflict (''launch intent '' @ intent_id @ '' lacks a recorded ownership proof''))) (\<lambda>_.
     bindE (sqlite_timestamp now_ms) (\<lambda>now.
     let d1 = d\<lparr>launch_intents := update_where (\<lambda>x. l_id x = intent_id \<and> l_state x = LProofRecorded)
                 (\<lambda>x. x\<lparr>l_state := LActive, l_updated_at_ms := now\<rparr>) (launch_intents d)\<rparr> in
     bindE (insert_audit_tx d1 ''launch_intent_activated'' intent_id now_ms) (\<lambda>d.
     Inr ((), d))))))))"

definition activate_launch_intent ::
  "externals \<Rightarrow> store \<Rightarrow> string \<Rightarrow> u64 \<Rightarrow> launch_intent result \<times> store" where
  "activate_launch_intent E s intent_id now_ms =
     bindS (with_tx s (activate_launch_intent_tx intent_id now_ms)) (\<lambda>_ s'.
     (bindE (get_launch_intent E s' intent_id)
        (ok_or (Conflict ''launch intent disappeared after activation'')), s'))"

definition clean_launch_intent_tx ::
  "string \<Rightarrow> u64 \<Rightarrow> db \<Rightarrow> (unit \<times> db) result" where
  "clean_launch_intent_tx intent_id now_ms d =
     bindE (validate_name intent_id ''launch intent id'' 128) (\<lambda>_.
     bindE (ok_or (NotFound (''launch intent '' @ intent_id))
              (find (\<lambda>r. l_id r = intent_id) (launch_intents d))) (\<lambda>r.
     if l_state r = LCleaned then Inr ((), d)
     else
       bindE (sqlite_timestamp now_ms) (\<lambda>now.
       let d1 = d\<lparr>launch_intents := update_where (\<lambda>x. l_id x = intent_id \<and> l_state x = l_state r)
                   (\<lambda>x. x\<lparr>l_state := LCleaned, l_updated_at_ms := now\<rparr>) (launch_intents d)\<rparr> in
       bindE (insert_audit_tx d1 ''launch_intent_cleaned'' intent_id now_ms) (\<lambda>d.
       Inr ((), d)))))"

definition clean_launch_intent ::
  "externals \<Rightarrow> store \<Rightarrow> string \<Rightarrow> u64 \<Rightarrow> launch_intent result \<times> store" where
  "clean_launch_intent E s intent_id now_ms =
     bindS (with_tx s (clean_launch_intent_tx intent_id now_ms)) (\<lambda>_ s'.
     (bindE (get_launch_intent E s' intent_id)
        (ok_or (Conflict ''launch intent disappeared after cleanup'')), s'))"

section \<open>The contract\<close>

definition unsettled :: "intent_row \<Rightarrow> bool" where
  "unsettled r \<longleftrightarrow> l_state r \<noteq> LCleaned"

definition bound_intent :: "intent_row \<Rightarrow> bool" where
  "bound_intent r \<longleftrightarrow> l_expected_incarnation r \<noteq> None \<and> l_expected_launch_spec_digest r \<noteq> None"

text \<open>The columns no operation rewrites.\<close>

definition same_intent :: "intent_row \<Rightarrow> intent_row \<Rightarrow> bool" where
  "same_intent r r' \<longleftrightarrow>
     l_id r' = l_id r \<and> l_deployment_id r' = l_deployment_id r \<and> l_component_id r' = l_component_id r
     \<and> l_launch_nonce r' = l_launch_nonce r \<and> l_expected_incarnation r' = l_expected_incarnation r
     \<and> l_expected_launch_spec_digest r' = l_expected_launch_spec_digest r
     \<and> l_planned_containment_id r' = l_planned_containment_id r
     \<and> l_created_at_ms r' = l_created_at_ms r"

inductive intent_step :: "bool \<Rightarrow> intent_row list \<Rightarrow> intent_row list \<Rightarrow> bool" for authorized where
  prepare:
    "authorized \<Longrightarrow> \<forall>x \<in> set t. l_id x \<noteq> l_id r
     \<Longrightarrow> \<forall>x \<in> set t. l_component_id x = l_component_id r \<longrightarrow> \<not> unsettled x
     \<Longrightarrow> l_state r = LPrepared \<Longrightarrow> l_ownership_proof_json r = None \<Longrightarrow> bound_intent r
     \<Longrightarrow> intent_step authorized t (t @ [r])"
| record_proof:
    "r \<in> set t \<Longrightarrow> l_state r = LPrepared \<Longrightarrow> bound_intent r \<Longrightarrow> same_intent r r'
     \<Longrightarrow> l_state r' = LProofRecorded \<Longrightarrow> l_ownership_proof_json r' \<noteq> None
     \<Longrightarrow> intent_step authorized t (update_where (\<lambda>x. l_id x = l_id r) (\<lambda>_. r') t)"
| activate:
    "authorized \<Longrightarrow> r \<in> set t \<Longrightarrow> l_state r = LProofRecorded \<Longrightarrow> bound_intent r \<Longrightarrow> same_intent r r'
     \<Longrightarrow> l_state r' = LActive \<Longrightarrow> l_ownership_proof_json r' = l_ownership_proof_json r
     \<Longrightarrow> intent_step authorized t (update_where (\<lambda>x. l_id x = l_id r) (\<lambda>_. r') t)"
| clean:
    "r \<in> set t \<Longrightarrow> unsettled r \<Longrightarrow> same_intent r r' \<Longrightarrow> l_state r' = LCleaned
     \<Longrightarrow> l_ownership_proof_json r' = l_ownership_proof_json r
     \<Longrightarrow> intent_step authorized t (update_where (\<lambda>x. l_id x = l_id r) (\<lambda>_. r') t)"

definition intent_row_ok :: "intent_row \<Rightarrow> bool" where
  "intent_row_ok r \<longleftrightarrow>
     (l_state r = LPrepared \<longrightarrow> l_ownership_proof_json r = None)
     \<and> (l_state r \<in> {LProofRecorded, LActive} \<longrightarrow> l_ownership_proof_json r \<noteq> None \<and> bound_intent r)"

definition one_unsettled :: "intent_row list \<Rightarrow> bool" where
  "one_unsettled t \<longleftrightarrow>
     (\<forall>x \<in> set t. \<forall>y \<in> set t. unsettled x \<longrightarrow> unsettled y \<longrightarrow> l_component_id x = l_component_id y \<longrightarrow> x = y)"

definition intents_inv :: "intent_row list \<Rightarrow> bool" where
  "intents_inv t \<longleftrightarrow> distinct (map l_id t) \<and> one_unsettled t \<and> (\<forall>r \<in> set t. intent_row_ok r)"

lemma intents_inv_Nil [simp]: "intents_inv []"
  by (simp add: intents_inv_def one_unsettled_def)

lemma intents_inv_replace:
  assumes inv: "intents_inv t" and r: "r \<in> set t" and same: "same_intent r r'" and ok: "intent_row_ok r'"
    and settle: "unsettled r' \<Longrightarrow> unsettled r"
  shows "intents_inv (update_where (\<lambda>x. l_id x = l_id r) (\<lambda>_. r') t)"
proof -
  let ?t = "update_where (\<lambda>x. l_id x = l_id r) (\<lambda>_. r') t"
  have d: "distinct (map l_id t)" and one: "one_unsettled t" and rows: "\<forall>r \<in> set t. intent_row_ok r"
    using inv by (auto simp: intents_inv_def)
  have id': "l_id r' = l_id r" and cid: "l_component_id r' = l_component_id r"
    using same by (auto simp: same_intent_def)
  note mem = replace_row [OF d r id']
  have "x = y" if x: "x \<in> set ?t" and y: "y \<in> set ?t"
    and u: "unsettled x" "unsettled y" "l_component_id x = l_component_id y" for x y
  proof -
    have old: "z = r' \<or> z \<in> set t \<and> z \<noteq> r" if "z \<in> set ?t" for z
      using that mem [of z] by auto
    have clash: "z = r" if "z \<in> set t" "unsettled z" "l_component_id z = l_component_id r'" "unsettled r'" for z
      using one r settle that cid unfolding one_unsettled_def by metis
    show ?thesis
      using old [OF x] old [OF y] u clash [of x] clash [of y] one unfolding one_unsettled_def by metis
  qed
  then have "one_unsettled ?t" unfolding one_unsettled_def by blast
  moreover have "map l_id ?t = map l_id t" by (rule replace_map [OF d r id'])
  moreover have "intent_row_ok x" if "x \<in> set ?t" for x
    using that mem [of x] rows ok by auto
  ultimately show ?thesis using d by (simp add: intents_inv_def)
qed

lemma intent_step_inv: "intent_step auth t t' \<Longrightarrow> intents_inv t \<Longrightarrow> intents_inv t'"
proof (induction rule: intent_step.induct)
  case (prepare t r)
  then show ?case
    by (auto simp: intents_inv_def one_unsettled_def intent_row_ok_def)
next
  case (record_proof r t r')
  then show ?case
    by (intro intents_inv_replace) (auto simp: intent_row_ok_def unsettled_def bound_intent_def same_intent_def)
next
  case (activate r t r')
  then show ?case
    by (intro intents_inv_replace) (auto simp: intents_inv_def intent_row_ok_def unsettled_def bound_intent_def same_intent_def)
next
  case (clean r t r')
  then show ?case
    by (intro intents_inv_replace) (auto simp: intent_row_ok_def unsettled_def)
qed

lemma intent_steps_inv: "(intent_step auth)\<^sup>*\<^sup>* t t' \<Longrightarrow> intents_inv t \<Longrightarrow> intents_inv t'"
  by (induction rule: rtranclp_induct) (auto dest: intent_step_inv)

definition mode_running :: "db \<Rightarrow> bool" where
  "mode_running d \<longleftrightarrow> require_running_launch_intent d = Inr ()"

lemma require_running_Inr [result_simps]: "require_running_launch_intent d = Inr u \<longleftrightarrow> mode_running d"
  by (simp add: mode_running_def)

text \<open>
  What the launcher relies on: an operation moves the intent table by steps the stored mode
  authorizes, and touches neither the job tables nor the history.
\<close>

locale intent_operation = quiet_operation run
  for run :: "store \<Rightarrow> 'a result \<times> store" +
  assumes admits: "intents_inv (launch_intents (conn s)) \<Longrightarrow> run s = (r, s') \<Longrightarrow>
    (intent_step (mode_running (conn s)))\<^sup>*\<^sup>* (launch_intents (conn s)) (launch_intents (conn s'))"
begin

lemma keeps_intents_inv:
  "intents_inv (launch_intents (conn s)) \<Longrightarrow> run s = (r, s') \<Longrightarrow> intents_inv (launch_intents (conn s'))"
  using admits intent_steps_inv by blast

end

lemma intent_tx:
  assumes "\<And>s d x d'. f s d = Inr (x, d') \<Longrightarrow> audit_ok d d' \<and> queue_of d' = queue_of d"
    and "\<And>s d x d'. intents_inv (launch_intents d) \<Longrightarrow> f s d = Inr (x, d') \<Longrightarrow>
      launch_intents d' = launch_intents d \<or> intent_step (mode_running d) (launch_intents d) (launch_intents d')"
    and "\<And>x s'. snd (g x s') = s'"
  shows "intent_operation (\<lambda>s. bindS (with_tx s (f s)) g)"
proof (rule intent_operation.intro)
  show "quiet_operation (\<lambda>s. bindS (with_tx s (f s)) g)"
    by (rule quiet_bindS [OF quiet_tx]) (use assms in auto)
  show "intent_operation_axioms (\<lambda>s. bindS (with_tx s (f s)) g)"
  proof
    fix s r s'
    assume inv: "intents_inv (launch_intents (conn s))" and "bindS (with_tx s (f s)) g = (r, s')"
    then obtain r' where "with_tx s (f s) = (r', s')" using bindS_state [of g] assms(3) by blast
    then show "(intent_step (mode_running (conn s)))\<^sup>*\<^sup>* (launch_intents (conn s)) (launch_intents (conn s'))"
    proof (rule with_tx_conn)
      fix x d assume "f s (conn s) = Inr (x, d)" and s': "s' = s\<lparr>conn := d\<rparr>"
      then have "launch_intents d = launch_intents (conn s)
          \<or> intent_step (mode_running (conn s)) (launch_intents (conn s)) (launch_intents d)"
        by (intro assms(2) [OF inv])
      with s' show ?thesis by auto
    qed simp
  qed
qed
interpretation intent_table: keyed_table l_id intent_clash
  by unfold_locales (simp add: intent_clash_def)

lemma intents_inv_distinct: "intents_inv t \<Longrightarrow> distinct (map l_id t)"
  by (simp add: intents_inv_def)

lemma find_intent: "find (\<lambda>r. l_id r = i) t = Some r \<Longrightarrow> r \<in> set t \<and> l_id r = i"
  by (rule find_SomeD)

text \<open>A guarded update of the intent found by its identifier replaces exactly that row.\<close>

lemma update_intent:
  assumes "intents_inv t" and "find (\<lambda>r. l_id r = i) t = Some r" and "l_state r = st"
  shows "update_where (\<lambda>x. l_id x = i \<and> l_state x = st) f t = update_where (\<lambda>x. l_id x = l_id r) (\<lambda>_. f r) t"
  using replace_keyed [OF intents_inv_distinct [OF assms(1)], of r "\<lambda>x. l_state x = st" f]
    find_intent [OF assms(2)] assms(3) by auto


lemma prepared_intent_simps [simp]:
  "l_id (prepared_intent i dep cid nonce inc digest cont now) = i"
  "l_component_id (prepared_intent i dep cid nonce inc digest cont now) = cid"
  "l_state (prepared_intent i dep cid nonce inc digest cont now) = LPrepared"
  "l_ownership_proof_json (prepared_intent i dep cid nonce inc digest cont now) = None"
  "bound_intent (prepared_intent i dep cid nonce inc digest cont now)"
  by (simp_all add: prepared_intent_def bound_intent_def)

lemma prepare_intent_tx_Inr:
  assumes "prepare_launch_intent_tx s cid nonce inc digest cont now_ms new_id d = Inr (u, d')"
  obtains dep where
    "d' = d\<lparr>launch_intents := launch_intents d @ [prepared_intent new_id dep cid nonce inc digest cont (uint now_ms)],
            audit_log := audit_log d @ [\<lparr>au_action = ''launch_intent_prepared'', au_detail = cid @ '':'' @ new_id,
              au_occurred_at_ms = uint now_ms\<rparr>]\<rparr>"
    "store_metadata s ''deployment_id'' = Some dep"
    "mode_running d" "length (audit_log d) < audit_limit ''launch_intent_prepared''"
    "\<forall>x \<in> set (launch_intents d). l_id x \<noteq> new_id"
    "\<forall>x \<in> set (launch_intents d). l_component_id x = cid \<longrightarrow> \<not> unsettled x"
    "validate_name inc ''expected launch incarnation'' 256 = Inr ()" "validate_digest digest = Inr ()"
    "uint now_ms \<le> i64_max"
  using assms
  by (auto simp: prepare_launch_intent_tx_def result_simps find_None_iff intent_clash_def unsettled_def split: option.splits)

interpretation prepared: intent_operation
  "\<lambda>s. prepare_launch_intent E s cid nonce inc digest cont now_ms new_id"
  for E cid nonce inc digest cont now_ms new_id
  unfolding prepare_launch_intent_def
  by (rule intent_tx)
     (auto elim!: prepare_intent_tx_Inr intro!: intent_step.prepare simp: audit_ok_defs dest: audit_limit_less)

lemma record_proof_tx_Inr:
  "record_launch_proof_tx E i pf now_ms d = Inr (u, d') \<longleftrightarrow>
     (\<exists>r. find (\<lambda>r. l_id r = i) (launch_intents d) = Some r \<and> bound_intent r \<and> l_state r = LPrepared
     \<and> validate_name i ''launch intent id'' 128 = Inr () \<and> pf \<noteq> JNull
     \<and> length (json_to_string E pf) \<le> MAX_LAUNCH_PROOF_BYTES \<and> uint now_ms \<le> i64_max
     \<and> insert_audit_tx (d\<lparr>launch_intents := update_where (\<lambda>x. l_id x = i \<and> l_state x = LPrepared)
         (\<lambda>x. x\<lparr>l_state := LProofRecorded, l_ownership_proof_json := Some (json_to_string E pf),
                 l_updated_at_ms := uint now_ms\<rparr>) (launch_intents d)\<rparr>) ''launch_proof_recorded'' i now_ms = Inr d')"
  by (auto simp: record_launch_proof_tx_def bindE_Inr ensure_Inr ok_or_Inr sqlite_timestamp_Inr Let_def bound_intent_def)

lemma activate_tx_Inr:
  "activate_launch_intent_tx i now_ms d = Inr (u, d') \<longleftrightarrow>
     (\<exists>r. find (\<lambda>r. l_id r = i) (launch_intents d) = Some r \<and> bound_intent r \<and> l_state r = LProofRecorded
     \<and> l_ownership_proof_json r \<noteq> None \<and> mode_running d
     \<and> validate_name i ''launch intent id'' 128 = Inr () \<and> uint now_ms \<le> i64_max
     \<and> insert_audit_tx (d\<lparr>launch_intents := update_where (\<lambda>x. l_id x = i \<and> l_state x = LProofRecorded)
         (\<lambda>x. x\<lparr>l_state := LActive, l_updated_at_ms := uint now_ms\<rparr>) (launch_intents d)\<rparr>)
         ''launch_intent_activated'' i now_ms = Inr d')"
  by (auto simp: activate_launch_intent_tx_def bindE_Inr ensure_Inr ok_or_Inr sqlite_timestamp_Inr
      require_running_Inr Let_def bound_intent_def)

lemma clean_tx_Inr:
  "clean_launch_intent_tx i now_ms d = Inr (u, d') \<longleftrightarrow>
     validate_name i ''launch intent id'' 128 = Inr ()
     \<and> (\<exists>r. find (\<lambda>r. l_id r = i) (launch_intents d) = Some r
     \<and> (if l_state r = LCleaned then d' = d
        else uint now_ms \<le> i64_max
         \<and> insert_audit_tx (d\<lparr>launch_intents := update_where (\<lambda>x. l_id x = i \<and> l_state x = l_state r)
             (\<lambda>x. x\<lparr>l_state := LCleaned, l_updated_at_ms := uint now_ms\<rparr>) (launch_intents d)\<rparr>)
             ''launch_intent_cleaned'' i now_ms = Inr d'))"
  by (auto simp: clean_launch_intent_tx_def bindE_Inr ensure_Inr ok_or_Inr sqlite_timestamp_Inr Let_def)

lemma insert_audit_tx_frame:
  "insert_audit_tx d action detail now_ms = Inr d' \<Longrightarrow>
     launch_intents d' = launch_intents d \<and> queue_of d' = queue_of d \<and> metadata d' = metadata d"
  by (auto simp: insert_audit_tx_Inr)

lemma intent_update_step:
  assumes "insert_audit_tx (d\<lparr>launch_intents := t\<rparr>) action i now_ms = Inr d'"
  shows "audit_ok d d' \<and> queue_of d' = queue_of d \<and> launch_intents d' = t"
  using insert_audit_tx_after [OF assms, of d] insert_audit_tx_frame [OF assms] by simp

interpretation proof_recorded: intent_operation "\<lambda>s. record_launch_proof E s i pf now_ms" for E i pf now_ms
  unfolding record_launch_proof_def
proof (rule intent_tx)
  fix d x d' assume inv: "intents_inv (launch_intents d)" and "record_launch_proof_tx E i pf now_ms d = Inr (x, d')"
  then show "launch_intents d' = launch_intents d \<or> intent_step (mode_running d) (launch_intents d) (launch_intents d')"
    by (auto simp: record_proof_tx_Inr update_intent [OF inv] same_intent_def
        dest!: intent_update_step intro!: intent_step.record_proof dest: find_intent)
qed (auto simp: record_proof_tx_Inr dest!: intent_update_step)

interpretation activated: intent_operation "\<lambda>s. activate_launch_intent E s i now_ms" for E i now_ms
  unfolding activate_launch_intent_def
proof (rule intent_tx)
  fix d x d' assume inv: "intents_inv (launch_intents d)" and "activate_launch_intent_tx i now_ms d = Inr (x, d')"
  then show "launch_intents d' = launch_intents d \<or> intent_step (mode_running d) (launch_intents d) (launch_intents d')"
    by (auto simp: activate_tx_Inr update_intent [OF inv] same_intent_def
        dest!: intent_update_step intro!: intent_step.activate dest: find_intent)
qed (auto simp: activate_tx_Inr dest!: intent_update_step)

interpretation cleaned: intent_operation "\<lambda>s. clean_launch_intent E s i now_ms" for E i now_ms
  unfolding clean_launch_intent_def
proof (rule intent_tx)
  fix d x d' assume inv: "intents_inv (launch_intents d)" and "clean_launch_intent_tx i now_ms d = Inr (x, d')"
  then show "launch_intents d' = launch_intents d \<or> intent_step (mode_running d) (launch_intents d) (launch_intents d')"
    by (auto simp: clean_tx_Inr update_intent [OF inv] same_intent_def unsettled_def
        dest!: intent_update_step intro!: intent_step.clean dest: find_intent split: if_splits)
qed (auto simp: clean_tx_Inr dest!: intent_update_step split: if_splits)

section \<open>Reading back\<close>

definition intents_readable :: "externals \<Rightarrow> intent_row list \<Rightarrow> bool" where
  "intents_readable E t \<longleftrightarrow> (\<forall>r \<in> set t. is_ok (launch_intent_from_row E r))"

lemma launch_intent_from_row_Inr [result_simps]:
  "launch_intent_from_row E r = Inr li \<longleftrightarrow>
     (\<exists>pf. (l_expected_incarnation r \<noteq> None) = (l_expected_launch_spec_digest r \<noteq> None)
      \<and> (\<forall>i. l_expected_incarnation r = Some i \<longrightarrow> validate_name_sqlite i ''expected launch incarnation'' 256 = Inr ())
      \<and> (\<forall>g. l_expected_launch_spec_digest r = Some g \<longrightarrow> validate_digest g = Inr ())
      \<and> (\<forall>v. l_ownership_proof_json r = Some v \<longrightarrow> length v \<le> MAX_LAUNCH_PROOF_BYTES)
      \<and> transposeE (json_from_str E) (l_ownership_proof_json r) = Inr pf
      \<and> (l_state r \<in> {LProofRecorded, LActive} \<longrightarrow> pf \<noteq> None) \<and> (l_state r = LPrepared \<longrightarrow> pf = None)
      \<and> 0 \<le> l_created_at_ms r \<and> 0 \<le> l_updated_at_ms r
      \<and> li = \<lparr>li_id = l_id r, li_deployment_id = l_deployment_id r, li_component_id = l_component_id r,
          li_launch_nonce = l_launch_nonce r, li_expected_incarnation = l_expected_incarnation r,
          li_expected_launch_spec_digest = l_expected_launch_spec_digest r,
          li_planned_containment_id = l_planned_containment_id r, li_state = l_state r,
          li_ownership_proof_json = pf, li_created_at_ms = word_of_int (l_created_at_ms r),
          li_updated_at_ms = word_of_int (l_updated_at_ms r)\<rparr>)"
  unfolding launch_intent_from_row_def
  by (auto simp: bindE_Inr ensure_Inr map_err_Inr sqlite_u64_Inr not_less split: option.splits)

lemma validate_name_sqlite_weaker: "validate_name v n b = Inr () \<Longrightarrow> validate_name_sqlite v m b = Inr ()"
  by (auto simp: validate_name_Inr validate_name_sqlite_def)

lemma prepared_intent_readable:
  assumes "validate_name inc ''expected launch incarnation'' 256 = Inr ()" "validate_digest digest = Inr ()" "0 \<le> now"
  shows "is_ok (launch_intent_from_row E (prepared_intent i dep cid nonce inc digest cont now))"
  using assms by (simp add: is_ok_iff launch_intent_from_row_Inr prepared_intent_def validate_name_sqlite_weaker)

lemma readableD: "intents_readable E t \<Longrightarrow> r \<in> set t \<Longrightarrow> is_ok (launch_intent_from_row E r)"
  by (simp add: intents_readable_def)

lemma decoded_fields:
  "launch_intent_from_row E r = Inr x \<Longrightarrow> li_state x = l_state r \<and> li_component_id x = l_component_id r
     \<and> li_id x = l_id r \<and> li_expected_incarnation x = l_expected_incarnation r
     \<and> li_expected_launch_spec_digest x = l_expected_launch_spec_digest r
     \<and> (li_ownership_proof_json x = None \<longleftrightarrow> l_ownership_proof_json r = None)"
  unfolding launch_intent_from_row_Inr by (auto simp: transposeE_Inr)

lemma readable_update:
  assumes "intents_readable E t" and "\<And>r. r \<in> set t \<Longrightarrow> p r \<Longrightarrow> is_ok (launch_intent_from_row E (f r))"
  shows "intents_readable E (update_where p f t)"
  using assms by (auto simp: intents_readable_def set_update_where)

lemma readable_proof:
  assumes "is_ok (launch_intent_from_row E r)" and "length v \<le> MAX_LAUNCH_PROOF_BYTES" and "json_from_str E v = Inr j" and "0 \<le> now"
  shows "is_ok (launch_intent_from_row E (r\<lparr>l_state := LProofRecorded, l_ownership_proof_json := Some v, l_updated_at_ms := now\<rparr>))"
  using assms by (auto simp: is_ok_iff launch_intent_from_row_Inr)

lemma readable_state:
  assumes "is_ok (launch_intent_from_row E r)" and "0 \<le> now" and "st = LCleaned \<or> st = LActive \<and> l_state r = LProofRecorded"
  shows "is_ok (launch_intent_from_row E (r\<lparr>l_state := st, l_updated_at_ms := now\<rparr>))"
  using assms by (auto simp: is_ok_iff launch_intent_from_row_Inr)

text \<open>The operations as data, and a sequence of them.\<close>

datatype intent_op =
    Prepare string string string string "string option" u64 string
  | RecordProof string json u64
  | Activate string u64
  | Clean string u64

fun run_intent_op :: "externals \<Rightarrow> store \<Rightarrow> intent_op \<Rightarrow> launch_intent result \<times> store" where
  "run_intent_op E s (Prepare cid nonce inc digest cont now_ms new_id) =
     prepare_launch_intent E s cid nonce inc digest cont now_ms new_id"
| "run_intent_op E s (RecordProof i pf now_ms) = record_launch_proof E s i pf now_ms"
| "run_intent_op E s (Activate i now_ms) = activate_launch_intent E s i now_ms"
| "run_intent_op E s (Clean i now_ms) = clean_launch_intent E s i now_ms"

interpretation intent_ops: intent_operation "\<lambda>s. run_intent_op E s op" for E op
proof (cases op)
  case (Prepare cid nonce inc digest cont now_ms new_id)
  then show "intent_operation (\<lambda>s. run_intent_op E s op)"
    by (simp add: prepared.intent_operation_axioms)
next
  case (RecordProof i pf now_ms)
  then show "intent_operation (\<lambda>s. run_intent_op E s op)"
    by (simp add: proof_recorded.intent_operation_axioms)
next
  case (Activate i now_ms)
  then show "intent_operation (\<lambda>s. run_intent_op E s op)"
    by (simp add: activated.intent_operation_axioms)
next
  case (Clean i now_ms)
  then show "intent_operation (\<lambda>s. run_intent_op E s op)"
    by (simp add: cleaned.intent_operation_axioms)
qed

text \<open>The store an operation leaves is the one its transaction leaves.\<close>

lemma intent_op_state:
  "prepare_launch_intent E s cid nonce inc digest cont now_ms new_id = (r, s') \<Longrightarrow>
     \<exists>r'. with_tx s (prepare_launch_intent_tx s cid nonce inc digest cont now_ms new_id) = (r', s')"
  "record_launch_proof E s i pf now_ms = (p, s') \<Longrightarrow> \<exists>r'. with_tx s (record_launch_proof_tx E i pf now_ms) = (r', s')"
  "activate_launch_intent E s i now_ms = (a, s') \<Longrightarrow> \<exists>r'. with_tx s (activate_launch_intent_tx i now_ms) = (r', s')"
  "clean_launch_intent E s i now_ms = (c, s') \<Longrightarrow> \<exists>r'. with_tx s (clean_launch_intent_tx i now_ms) = (r', s')"
  unfolding prepare_launch_intent_def record_launch_proof_def activate_launch_intent_def clean_launch_intent_def
  by (auto elim!: bindS_state [rotated])

text \<open>
  The text of a recorded proof can be parsed again. \<^verbatim>\<open>serde_json\<close> refuses to parse what is nested too deeply, so
  this is a condition on the proofs and not on the parser.
\<close>

fun op_proof_readable :: "externals \<Rightarrow> intent_op \<Rightarrow> bool" where
  "op_proof_readable E (RecordProof i pf now_ms) = is_ok (json_from_str E (json_to_string E pf))"
| "op_proof_readable E _ = True"

lemma run_intent_op_readable:
  assumes "intents_readable E (launch_intents (conn s))"
    and "op_proof_readable E op"
    and "run_intent_op E s op = (r, s')"
  shows "intents_readable E (launch_intents (conn s'))"
proof (cases op)
  case (Prepare cid nonce inc digest cont now_ms new_id)
  then obtain r' where "with_tx s (prepare_launch_intent_tx s cid nonce inc digest cont now_ms new_id) = (r', s')"
    using assms(3) intent_op_state by fastforce
  then show ?thesis
    by (rule with_tx_conn)
       (use assms(1) in \<open>auto elim!: prepare_intent_tx_Inr simp: intents_readable_def prepared_intent_readable\<close>)
next
  case (RecordProof i pf now_ms)
  obtain j where j: "json_from_str E (json_to_string E pf) = Inr j" using assms(2) RecordProof by (auto simp: is_ok_iff)
  from RecordProof obtain r' where "with_tx s (record_launch_proof_tx E i pf now_ms) = (r', s')"
    using assms(3) intent_op_state by fastforce
  then show ?thesis
    by (rule with_tx_conn)
       (use assms(1) j in \<open>auto simp: record_proof_tx_Inr dest!: intent_update_step
          intro!: readable_update readable_proof dest: readableD\<close>)
next
  case (Activate i now_ms)
  then obtain r' where "with_tx s (activate_launch_intent_tx i now_ms) = (r', s')"
    using assms(3) intent_op_state by fastforce
  then show ?thesis
    by (rule with_tx_conn)
       (use assms(1) in \<open>auto simp: activate_tx_Inr dest!: intent_update_step
          intro!: readable_update readable_state dest: readableD\<close>)
next
  case (Clean i now_ms)
  then obtain r' where "with_tx s (clean_launch_intent_tx i now_ms) = (r', s')"
    using assms(3) intent_op_state by fastforce
  then show ?thesis
    by (rule with_tx_conn)
       (use assms(1) in \<open>auto simp: clean_tx_Inr dest!: intent_update_step split: if_splits
          intro!: readable_update readable_state dest: readableD\<close>)
qed

fun run_intent_ops :: "externals \<Rightarrow> store \<Rightarrow> intent_op list \<Rightarrow> store" where
  "run_intent_ops E s [] = s"
| "run_intent_ops E s (op # ops) = run_intent_ops E (snd (run_intent_op E s op)) ops"

lemma run_intent_ops_keep:
  assumes "intents_inv (launch_intents (conn s))" and "intents_readable E (launch_intents (conn s))"
    and "list_all (op_proof_readable E) ops"
  shows "intents_inv (launch_intents (conn (run_intent_ops E s ops)))
    \<and> intents_readable E (launch_intents (conn (run_intent_ops E s ops)))"
  using assms
proof (induction ops arbitrary: s)
  case (Cons op ops)
  obtain r s' where run: "run_intent_op E s op = (r, s')" by (cases "run_intent_op E s op")
  have "intents_inv (launch_intents (conn s'))"
    by (rule intent_ops.keeps_intents_inv [OF Cons.prems(1) run])
  moreover have "intents_readable E (launch_intents (conn s'))"
    using run_intent_op_readable [OF Cons.prems(2) _ run] Cons.prems(3) by simp
  ultimately show ?case using Cons.IH [of s'] Cons.prems(3) run by simp
qed simp

text \<open>The recovery listing on a table that satisfies the invariant.\<close>

lemma unsettled_listing:
  assumes inv: "intents_inv (launch_intents (conn s))" and readable: "intents_readable E (launch_intents (conn s))"
  obtains l where "unsettled_launch_intents E s = Inr l"
    "\<And>x. x \<in> set l \<longleftrightarrow> (\<exists>r \<in> set (launch_intents (conn s)). l_state r \<noteq> LCleaned \<and> launch_intent_from_row E r = Inr x)"
    "distinct (map li_component_id l)"
proof -
  let ?rows = "select_ordered (\<lambda>r. l_state r \<noteq> LCleaned) (\<lambda>r. (l_created_at_ms r, l_id r)) (launch_intents (conn s))"
  have rows: "set ?rows = {r \<in> set (launch_intents (conn s)). l_state r \<noteq> LCleaned}"
    by (rule select_ordered_set)
  define dec where "dec r = projr (launch_intent_from_row E r)" for r
  have dec: "launch_intent_from_row E r = Inr (dec r)" if "r \<in> set (launch_intents (conn s))" for r
    using readable that by (force simp: intents_readable_def is_ok_iff dec_def)
  then have list: "unsettled_launch_intents E s = Inr (map dec ?rows)"
    unfolding unsettled_launch_intents_def using rows by (subst mapE_total [of _ _ dec]) auto
  have cid: "li_component_id (dec r) = l_component_id r" if "r \<in> set ?rows" for r
  proof -
    have "r \<in> set (launch_intents (conn s))" using that rows by blast
    from decoded_fields [OF dec [OF this]] show ?thesis by simp
  qed
  have "distinct ?rows"
    using inv by (auto simp: select_ordered_def intents_inv_def distinct_map intro: distinct_filter)
  moreover have "inj_on l_component_id (set ?rows)"
    using inv rows by (auto simp: inj_on_def intents_inv_def one_unsettled_def unsettled_def)
  ultimately have "distinct (map l_component_id ?rows)" by (simp add: distinct_map)
  moreover have "map li_component_id (map dec ?rows) = map l_component_id ?rows" using cid by simp
  ultimately have "distinct (map li_component_id (map dec ?rows))" by metis
  moreover have "x \<in> set (map dec ?rows) \<longleftrightarrow>
      (\<exists>r \<in> set (launch_intents (conn s)). l_state r \<noteq> LCleaned \<and> launch_intent_from_row E r = Inr x)" for x
    unfolding set_map rows using dec by force
  ultimately show ?thesis using list by (intro that [of "map dec ?rows"])
qed

text \<open>
  C18: From a table that satisfies the intent invariant and whose rows can be decoded, whatever sequence of
  launch-intent operations ran, with whatever outcomes, as long as the text of each ownership proof
  offered for recording can be parsed again, the recovery listing succeeds, names each component at most
  once, and every intent in it that went past preparation carries its ownership proof and its original
  binding.
\<close>

theorem launch_recovery_listing:
  assumes "intents_inv (launch_intents (conn s))" and "intents_readable E (launch_intents (conn s))"
    and "list_all (op_proof_readable E) ops"
  shows "\<exists>l. unsettled_launch_intents E (run_intent_ops E s ops) = Inr l
    \<and> distinct (map li_component_id l)
    \<and> (\<forall>x \<in> set l. li_state x \<noteq> LCleaned
        \<and> (li_state x \<noteq> LPrepared \<longrightarrow> li_ownership_proof_json x \<noteq> None
             \<and> li_expected_incarnation x \<noteq> None \<and> li_expected_launch_spec_digest x \<noteq> None))"
proof -
  let ?s = "run_intent_ops E s ops"
  have keep: "intents_inv (launch_intents (conn ?s))" "intents_readable E (launch_intents (conn ?s))"
    using run_intent_ops_keep [of s E ops] assms by auto
  obtain l where l: "unsettled_launch_intents E ?s = Inr l" "distinct (map li_component_id l)"
    and mem: "\<And>x. x \<in> set l \<longleftrightarrow> (\<exists>r \<in> set (launch_intents (conn ?s)). l_state r \<noteq> LCleaned \<and> launch_intent_from_row E r = Inr x)"
    using unsettled_listing [OF keep] by metis
  have "li_state x \<noteq> LCleaned \<and> (li_state x \<noteq> LPrepared \<longrightarrow> li_ownership_proof_json x \<noteq> None
      \<and> li_expected_incarnation x \<noteq> None \<and> li_expected_launch_spec_digest x \<noteq> None)" if x: "x \<in> set l" for x
  proof -
    obtain r where r: "r \<in> set (launch_intents (conn ?s))" "l_state r \<noteq> LCleaned" "launch_intent_from_row E r = Inr x"
      using x mem [of x] by blast
    moreover have "intent_row_ok r" using keep(1) r(1) by (simp add: intents_inv_def)
    ultimately show ?thesis
      using decoded_fields [OF r(3)] by (cases "l_state r") (simp_all add: intent_row_ok_def bound_intent_def)
  qed
  with l show ?thesis by blast
qed
text \<open>
  C33: A prepared launch is the component's only unsettled intent, was admitted under the stored
  running mode while the component had none, and is returned as it was requested; when the mode
  is anything else the call fails and changes nothing.
\<close>

theorem prepare_launch_intent_correct:
  "(\<forall>li s'. intents_inv (launch_intents (conn s)) \<and>
        prepare_launch_intent E s cid nonce inc digest cont now_ms new_id = (Inr li, s') \<longrightarrow>
      store_desired_mode s = Inr ModeRunning
      \<and> (\<forall>r \<in> set (launch_intents (conn s)). l_component_id r = cid \<longrightarrow> l_state r = LCleaned)
      \<and> filter (\<lambda>r. l_component_id r = cid \<and> l_state r \<noteq> LCleaned) (launch_intents (conn s'))
          = [prepared_intent new_id (li_deployment_id li) cid nonce inc digest cont (uint now_ms)]
      \<and> li_id li = new_id \<and> li_component_id li = cid \<and> li_state li = LPrepared
      \<and> li_expected_incarnation li = Some inc \<and> li_expected_launch_spec_digest li = Some digest)
   \<and> (store_desired_mode s \<noteq> Inr ModeRunning \<longrightarrow>
        (\<exists>e. prepare_launch_intent E s cid nonce inc digest cont now_ms new_id = (Inl e, s)))"
proof (intro conjI allI impI)
  have mode: "mode_running (conn s) \<longleftrightarrow> store_desired_mode s = Inr ModeRunning"
    by (auto simp: mode_running_def require_running_launch_intent_def store_desired_mode_def
        store_metadata_def metadata_from_conn_def bindE_Inr ensure_Inr)
  {
    fix li s' assume "intents_inv (launch_intents (conn s)) \<and>
        prepare_launch_intent E s cid nonce inc digest cont now_ms new_id = (Inr li, s')"
    then obtain u d where tx: "prepare_launch_intent_tx s cid nonce inc digest cont now_ms new_id (conn s) = Inr (u, d)"
      and s': "s' = s\<lparr>conn := d\<rparr>" and readback: "get_launch_intent E s' new_id = Inr (Some li)"
      by (auto simp: prepare_launch_intent_def bindS_def with_tx_def result_simps split: sum.splits prod.splits)
    obtain dep where d: "launch_intents d = launch_intents (conn s) @ [prepared_intent new_id dep cid nonce inc digest cont (uint now_ms)]"
      and run: "mode_running (conn s)" and fresh: "\<forall>x \<in> set (launch_intents (conn s)). l_id x \<noteq> new_id"
        "\<forall>x \<in> set (launch_intents (conn s)). l_component_id x = cid \<longrightarrow> \<not> unsettled x"
      by (rule prepare_intent_tx_Inr [OF tx]) simp
    have "find (\<lambda>r. l_id r = new_id) (launch_intents (conn s)) = None"
      using fresh(1) by (auto simp: find_None_iff)
    then have dec: "launch_intent_from_row E (prepared_intent new_id dep cid nonce inc digest cont (uint now_ms)) = Inr li"
      using readback s' d by (auto simp: get_launch_intent_def bindE_Inr map_err_Inr transposeE_Inr find_append1)
    then have "li_deployment_id li = dep"
      unfolding launch_intent_from_row_Inr by (auto simp: prepared_intent_def)
    moreover have "filter (\<lambda>r. l_component_id r = cid \<and> l_state r \<noteq> LCleaned) (launch_intents (conn s)) = []"
      using fresh(2) by (auto simp: filter_empty_conv unsettled_def)
    ultimately show "store_desired_mode s = Inr ModeRunning"
      "filter (\<lambda>r. l_component_id r = cid \<and> l_state r \<noteq> LCleaned) (launch_intents (conn s'))
          = [prepared_intent new_id (li_deployment_id li) cid nonce inc digest cont (uint now_ms)]"
      using run mode s' d by simp_all
    show "\<forall>r \<in> set (launch_intents (conn s)). l_component_id r = cid \<longrightarrow> l_state r = LCleaned"
      using fresh(2) by (auto simp: unsettled_def)
    show "li_id li = new_id" "li_component_id li = cid" "li_state li = LPrepared"
      "li_expected_incarnation li = Some inc" "li_expected_launch_spec_digest li = Some digest"
      using decoded_fields [OF dec] by (simp_all add: prepared_intent_def)
  }
  assume "store_desired_mode s \<noteq> Inr ModeRunning"
  then have "prepare_launch_intent_tx s cid nonce inc digest cont now_ms new_id (conn s) \<noteq> Inr x" for x
    using mode by (cases x) (auto elim!: prepare_intent_tx_Inr)
  then obtain e where "prepare_launch_intent_tx s cid nonce inc digest cont now_ms new_id (conn s) = Inl e"
    by (cases "prepare_launch_intent_tx s cid nonce inc digest cont now_ms new_id (conn s)") auto
  then show "\<exists>e. prepare_launch_intent E s cid nonce inc digest cont now_ms new_id = (Inl e, s)"
    by (simp add: prepare_launch_intent_def with_tx_def bindS_def)
qed

text \<open>
  C34: Activation is reached only under the stored running mode from an intent whose ownership
  proof is recorded; it changes nothing of that intent but its state and time, and no other
  intent. A second activation of the same intent is refused and changes nothing.
\<close>

theorem activate_launch_intent_correct:
  assumes inv: "intents_inv (launch_intents (conn s))"
    and run: "activate_launch_intent E s i now_ms = (Inr li, s')"
  shows "store_desired_mode s = Inr ModeRunning
    \<and> (\<exists>r \<in> set (launch_intents (conn s)). l_id r = i \<and> l_state r = LProofRecorded
         \<and> l_ownership_proof_json r \<noteq> None \<and> bound_intent r
         \<and> launch_intents (conn s') = update_where (\<lambda>x. l_id x = i)
             (\<lambda>_. r\<lparr>l_state := LActive, l_updated_at_ms := uint now_ms\<rparr>) (launch_intents (conn s)))
    \<and> li_state li = LActive \<and> li_ownership_proof_json li \<noteq> None
    \<and> (\<forall>now. \<exists>e. activate_launch_intent E s' i now = (Inl e, s'))"
proof -
  obtain u d where tx: "activate_launch_intent_tx i now_ms (conn s) = Inr (u, d)"
    and s': "s' = s\<lparr>conn := d\<rparr>" and readback: "get_launch_intent E s' i = Inr (Some li)"
    using run by (auto simp: activate_launch_intent_def bindS_def with_tx_def result_simps split: sum.splits prod.splits)
  obtain r where r: "find (\<lambda>r. l_id r = i) (launch_intents (conn s)) = Some r" "bound_intent r" "l_state r = LProofRecorded"
      "l_ownership_proof_json r \<noteq> None" and mode: "mode_running (conn s)"
    and d: "launch_intents d = update_where (\<lambda>x. l_id x = i \<and> l_state x = LProofRecorded)
         (\<lambda>x. x\<lparr>l_state := LActive, l_updated_at_ms := uint now_ms\<rparr>) (launch_intents (conn s))"
    using tx by (auto simp: activate_tx_Inr dest!: intent_update_step)
  note mem = find_intent [OF r(1)]
  let ?new = "r\<lparr>l_state := LActive, l_updated_at_ms := uint now_ms\<rparr>"
  have upd: "launch_intents (conn s') = update_where (\<lambda>x. l_id x = i) (\<lambda>_. ?new) (launch_intents (conn s))"
    using update_intent [OF inv r(1,3)] mem d s' by simp
  have found: "find (\<lambda>r. l_id r = i) (launch_intents (conn s')) = Some ?new"
    unfolding upd using mem r(1) by (subst find_update_where) auto
  then have "launch_intent_from_row E ?new = Inr li"
    using readback by (auto simp: get_launch_intent_def bindE_Inr map_err_Inr transposeE_Inr)
  then have "li_state li = LActive" "li_ownership_proof_json li \<noteq> None"
    using decoded_fields [of E ?new li] r(4) by auto
  moreover have "\<exists>e. activate_launch_intent E s' i now = (Inl e, s')" for now
  proof -
    have "activate_launch_intent_tx i now (conn s') \<noteq> Inr x" for x
      using found by (cases x) (auto simp: activate_tx_Inr)
    then show ?thesis
      by (cases "activate_launch_intent_tx i now (conn s')") (auto simp: activate_launch_intent_def bindS_def with_tx_def)
  qed
  moreover have "store_desired_mode s = Inr ModeRunning"
    using mode by (auto simp: mode_running_def require_running_launch_intent_def store_desired_mode_def
        store_metadata_def metadata_from_conn_def bindE_Inr ensure_Inr)
  ultimately show ?thesis using mem r upd by blast
qed

section \<open>Concrete runs\<close>

lemma sample_mode: "mode_running (conn sample_store)" "store_desired_mode sample_store = Inr ModeRunning"
  by (simp_all add: mode_running_def require_running_launch_intent_def store_desired_mode_def
      store_metadata_def metadata_from_conn_def parse_mode_def)

lemma sample_names:
  "validate_name ''harness'' n 128 = Inr ()" "validate_name ''nonce'' n 128 = Inr ()"
  "validate_name ''inc'' n 256 = Inr ()" "validate_name ''intent'' n 128 = Inr ()"
  "validate_metadata_identifier k ''local'' = Inr ()"
  by (simp_all add: validate_name_Inr validate_metadata_identifier_def plain_guards plain_def byte_def)

lemma sample_prepare_run:
  "\<exists>li s'. prepare_launch_intent externals_sample sample_store ''harness'' ''nonce'' ''inc'' sample_digest None 5 ''intent'' = (Inr li, s')"
proof -
  have "valid_audit ''launch_intent_prepared'' (''harness'' @ '':'' @ ''intent'')"
    by (simp add: valid_audit_def plain_guards plain_def byte_def max_audit_detail_bytes_def)
  moreover have "launch_intents (conn sample_store) = []" "audit_log (conn sample_store) = []"
    by (simp_all add: sample_store_def blank_db_def)
  ultimately show ?thesis
    using sample_audit(2) [of "''launch_intent_prepared''"] sample_mode(1) sample_digest_valid
    by (simp add: prepare_launch_intent_def prepare_launch_intent_tx_def sample_names mode_running_def
        store_metadata_def metadata_from_conn_def sqlite_timestamp_def i64_max_def insert_row_def
        insert_audit_tx_succeeds with_tx_def bindS_def get_launch_intent_def launch_intent_from_row_def launch_intent_state_parse_def
        prepared_intent_def validate_name_sqlite_weaker [OF sample_names(3)] sqlite_u64_def)
qed

theorem prepare_launch_intent_correct_witness:
  "\<exists>li s'. prepare_launch_intent externals_sample sample_store ''harness'' ''nonce'' ''inc'' sample_digest None 5 ''intent'' = (Inr li, s')
     \<and> li_state li = LPrepared"
proof -
  have "intents_inv (launch_intents (conn sample_store))"
    by (simp add: sample_store_def blank_db_def)
  then show ?thesis
    using prepare_launch_intent_correct [of sample_store externals_sample "''harness''" "''nonce''" "''inc''" sample_digest None 5 "''intent''"]
      sample_prepare_run by blast
qed

definition sample_proved :: store where
  "sample_proved = sample_store\<lparr>conn := (conn sample_store)\<lparr>launch_intents :=
     [(prepared_intent ''intent'' ''local'' ''harness'' ''nonce'' ''inc'' sample_digest None 1)
        \<lparr>l_state := LProofRecorded, l_ownership_proof_json := Some ''{}''\<rparr>]\<rparr>\<rparr>"

lemma sample_proved_inv: "intents_inv (launch_intents (conn sample_proved))"
  "intents_readable externals_sample (launch_intents (conn sample_proved))"
  by (simp_all add: sample_proved_def intents_inv_def one_unsettled_def intent_row_ok_def prepared_intent_def
      bound_intent_def intents_readable_def is_ok_iff launch_intent_from_row_Inr sample_digest_valid
      validate_name_sqlite_weaker [OF sample_names(3)] MAX_LAUNCH_PROOF_BYTES_def externals_sample_def)

theorem launch_recovery_listing_witness:
  "\<exists>l. unsettled_launch_intents externals_sample
         (run_intent_ops externals_sample sample_proved
            [RecordProof ''intent'' (JObject []) 4, Activate ''intent'' 5, Clean ''intent'' 6]) = Inr l
     \<and> distinct (map li_component_id l)"
proof -
  have "list_all (op_proof_readable externals_sample)
      [RecordProof ''intent'' (JObject []) 4, Activate ''intent'' 5, Clean ''intent'' 6]"
    by (simp add: is_ok_def externals_sample_def split: json.splits)
  from launch_recovery_listing [OF sample_proved_inv this] show ?thesis by blast
qed

theorem activate_launch_intent_correct_witness:
  "\<exists>li s'. activate_launch_intent externals_sample sample_proved ''intent'' 5 = (Inr li, s')
     \<and> li_state li = LActive"
proof -
  have "valid_audit ''launch_intent_activated'' ''intent''"
    by (simp add: valid_audit_def plain_guards plain_def byte_def max_audit_detail_bytes_def)
  then have "\<exists>li s'. activate_launch_intent externals_sample sample_proved ''intent'' 5 = (Inr li, s')"
    using sample_audit(2) [of "''launch_intent_activated''"] sample_digest_valid
    by (simp add: activate_launch_intent_def activate_launch_intent_tx_def sample_proved_def sample_names
        require_running_launch_intent_def metadata_from_conn_def parse_mode_def
        sqlite_timestamp_def i64_max_def Let_def update_where_def
        insert_audit_tx_succeeds with_tx_def bindS_def get_launch_intent_def launch_intent_from_row_def launch_intent_state_parse_def
        prepared_intent_def validate_name_sqlite_weaker [OF sample_names(3)] sqlite_u64_def
        externals_sample_def MAX_LAUNCH_PROOF_BYTES_def)
  then show ?thesis
    using activate_launch_intent_correct [OF sample_proved_inv(1)] by blast
qed

end
