(* ===== verification/Operator_Backup.thy ===== *)
theory Operator_Backup
  imports Operator_Ledger
begin

text \<open>
  \<^verbatim>\<open>storage_backup_admin.rs\<close>: the authenticated backup. The command ledger is the durable intent:
  the receipt is committed as not durable before the snapshot is taken and is completed after the
  snapshot was verified. What the file system and the SQLite backup answer are arguments (record
  \<open>backup_fs\<close>). The lemmas show that a backup is acknowledged only with a verified snapshot of this
  deployment that holds the admitted receipt, and that asking again neither takes a second
  snapshot nor overwrites one.
\<close>

section \<open>Model\<close>

record backup_binding =
  bk_schema_version :: i64
  bk_deployment_id :: string
  bk_config_digest :: string
  bk_config_compat_digest :: string
  bk_approved_release_digest :: "string option"

definition validate_backup_id :: "string \<Rightarrow> unit result" where
  "validate_backup_id backup_id =
     ensure (\<not> (backup_id = [] \<or> 128 < length backup_id \<or> list_ex (\<lambda>c. 128 \<le> byte c) backup_id
                \<or> backup_id = ''.'' \<or> backup_id = ''..''
                \<or> list_ex (\<lambda>c. \<not> (is_alphanumeric c \<or> c \<in> {CHR ''_'', CHR ''-'', CHR ''.''})) backup_id))
       (InvalidInput ''backup_id must be one bounded owner-local path component'')"

definition read_binding :: "db \<Rightarrow> backup_binding result" where
  "read_binding d =
     bindE (ok_or (Conflict ''backup schema metadata is missing'') (metadata_from_conn d ''schema_version'')) (\<lambda>schema_text.
     bindE (parse_metadata_i64 ''schema_version'' schema_text) (\<lambda>schema_version.
     bindE (ok_or (Conflict ''backup deployment metadata is missing'') (metadata_from_conn d ''deployment_id'')) (\<lambda>deployment_id.
     bindE (validate_metadata_identifier ''deployment_id'' deployment_id) (\<lambda>_.
     bindE (ok_or (Conflict ''backup config digest is missing'') (metadata_from_conn d ''config_digest'')) (\<lambda>config_digest.
     bindE (map_err Conflict (validate_digest config_digest)) (\<lambda>_.
     bindE (ok_or (Conflict ''backup compatibility digest is missing'')
              (metadata_from_conn d ''config_compat_digest'')) (\<lambda>config_compat_digest.
     bindE (map_err Conflict (validate_digest config_compat_digest)) (\<lambda>_.
     let approved = metadata_from_conn d ''approved_release_digest'' in
     bindE (case approved of None \<Rightarrow> Inr () | Some digest \<Rightarrow> map_err Conflict (validate_digest digest)) (\<lambda>_.
     Inr \<lparr>bk_schema_version = schema_version, bk_deployment_id = deployment_id,
          bk_config_digest = config_digest, bk_config_compat_digest = config_compat_digest,
          bk_approved_release_digest = approved\<rparr>)))))))))"

definition backup_response_durable :: "json \<Rightarrow> string \<Rightarrow> bool result" where
  "backup_response_durable response backup_id =
     bindE (ok_or (Conflict ''backup ledger response is not an object'') (json_as_object response)) (\<lambda>object.
     bindE (ensure (Option.bind (map_of object ''kind'') json_as_str = Some ''Backup'')
              (Conflict ''backup ledger response has an incompatible result kind'')) (\<lambda>_.
     bindE (ok_or (Conflict ''backup ledger response has no value'')
              (Option.bind (map_of object ''value'') json_as_object)) (\<lambda>value.
     bindE (ensure (Option.bind (map_of value ''backup_id'') json_as_str = Some backup_id)
              (Conflict ''backup ledger response does not match the requested id'')) (\<lambda>_.
     ok_or (Conflict ''backup ledger response lacks durability state'')
       (Option.bind (map_of value ''durable'') json_as_bool)))))"

definition durable_backup_response :: "externals \<Rightarrow> json \<Rightarrow> string \<Rightarrow> json result" where
  "durable_backup_response E response backup_id =
     bindE (backup_response_durable response backup_id) (\<lambda>durable.
     if durable then Inr response
     else
       bindE (ok_or (Conflict ''backup ledger response has no mutable value'')
                (Option.bind (json_as_object response) (\<lambda>object.
                 map_option (\<lambda>value. (object, value))
                   (Option.bind (map_of object ''value'') json_as_object)))) (\<lambda>(object, value).
       let result = JObject (json_insert ''value''
                      (JObject (json_insert ''durable'' (JBool True) value)) object) in
       bindE (validate_response E result) (\<lambda>_. Inr result)))"

text \<open>The logical size of the database and the free space of the owner directory.\<close>

definition MAX_BACKUP_BYTES :: u64 where
  "MAX_BACKUP_BYTES = 512 * 1024 * 1024"

definition BACKUP_HEADROOM_BYTES :: u64 where
  "BACKUP_HEADROOM_BYTES = 64 * 1024 * 1024"

definition checked_mul :: "u64 \<Rightarrow> u64 \<Rightarrow> u64 option" where
  "checked_mul a b = (if unat a * unat b < 2 ^ 64 then Some (a * b) else None)"

definition check_backup_capacity :: "i64 \<Rightarrow> i64 \<Rightarrow> u64 \<Rightarrow> unit result" where
  "check_backup_capacity page_count page_size available =
     bindE (ensure (0 \<le> page_count) (Conflict ''SQLite reported a negative logical page count'')) (\<lambda>_.
     bindE (ensure (0 \<le> page_size) (Conflict ''SQLite reported a negative page size'')) (\<lambda>_.
     bindE (ok_or (Conflict ''SQLite logical database size overflowed'')
              (checked_mul (word_of_int page_count) (word_of_int page_size))) (\<lambda>size.
     bindE (ensure (size \<le> MAX_BACKUP_BYTES) (Conflict ''database exceeds the bounded backup size'')) (\<lambda>_.
     bindE (ok_or (Conflict ''backup capacity calculation overflowed'')
              (Option.bind (checked_mul size 2) (\<lambda>value. checked_add value BACKUP_HEADROOM_BYTES))) (\<lambda>required.
     ensure (required \<le> available)
       (Conflict ''backup headroom is below the bounded database allowance''))))))"

definition verify_backup_receipt :: "externals \<Rightarrow> db \<Rightarrow> operator_receipt \<Rightarrow> string \<Rightarrow> unit result" where
  "verify_backup_receipt E snapshot expected backup_id =
     bindE (ensure (uint (re_sequence expected) \<le> i64_max)
              (Conflict ''operator sequence exceeds SQLite range'')) (\<lambda>_.
     bindE (ok_or (Conflict ''backup snapshot does not contain the admitted command receipt'')
              (find (\<lambda>r. o_sequence r = uint (re_sequence expected)) (operator_commands snapshot))) (\<lambda>r.
     bindE (ensure (\<not> (o_request_id r \<noteq> re_request_id expected
                       \<or> o_idempotency_key r \<noteq> re_idempotency_key expected
                       \<or> o_principal r \<noteq> re_principal expected \<or> o_capability r \<noteq> re_capability expected
                       \<or> o_command r \<noteq> re_command expected
                       \<or> o_command_fingerprint r \<noteq> re_command_fingerprint expected))
              (Conflict ''backup snapshot command receipt differs from the admitted request'')) (\<lambda>_.
     bindE (map_err Json (json_from_str E (o_response_json r))) (\<lambda>response.
     bindE (backup_response_durable response backup_id) (\<lambda>_. Inr ())))))"

text \<open>
  \<^verbatim>\<open>verify_backup\<close> over the opened destination: \<open>opened\<close> is the answer of the file checks, the
  read-only open and the integrity check.
\<close>

definition verify_backup ::
  "externals \<Rightarrow> db result \<Rightarrow> backup_binding \<Rightarrow> operator_receipt \<Rightarrow> string \<Rightarrow> unit result" where
  "verify_backup E opened expected receipt backup_id =
     bindE opened (\<lambda>snapshot.
     bindE (read_binding snapshot) (\<lambda>binding.
     bindE (ensure (binding = expected) (Conflict ''backup binding differs from the current deployment'')) (\<lambda>_.
     verify_backup_receipt E snapshot receipt backup_id)))"

definition complete_backup_tx ::
  "externals \<Rightarrow> operator_receipt \<Rightarrow> json \<Rightarrow> string \<Rightarrow> u64 \<Rightarrow> db \<Rightarrow> (unit \<times> db) result" where
  "complete_backup_tx E receipt response backup_id now_ms d =
     bindE (validate_response E response) (\<lambda>_.
     bindE (ensure (uint (re_sequence receipt) \<le> i64_max)
              (Conflict ''operator sequence exceeds SQLite range'')) (\<lambda>_.
     let row = (\<lambda>r. o_sequence r = uint (re_sequence receipt)) in
     bindE (ok_or (Conflict ''backup intent receipt disappeared'') (find row (operator_commands d))) (\<lambda>r.
     bindE (ensure (\<not> (o_request_id r \<noteq> re_request_id receipt \<or> o_idempotency_key r \<noteq> re_idempotency_key receipt
                       \<or> o_command r \<noteq> CmdBackup \<or> o_command_fingerprint r \<noteq> re_command_fingerprint receipt))
              (Conflict ''backup intent receipt changed before completion'')) (\<lambda>_.
     bindE (map_err Json (json_from_str E (o_response_json r))) (\<lambda>existing.
     bindE (backup_response_durable existing backup_id) (\<lambda>durable.
     if durable then Inr ((), d)
     else
       bindE (ensure (matching row (operator_commands d) = 1)
                (Conflict ''backup completion updated no ledger row'')) (\<lambda>_.
       let d1 = d\<lparr>operator_commands := update_where row
                   (\<lambda>r. r\<lparr>o_response_json := json_to_string E response\<rparr>) (operator_commands d)\<rparr> in
       bindE (insert_audit_tx d1 ''operator_command_backup_completed''
                (''sequence='' @ show_u64 (re_sequence receipt) @ '';key='' @ re_idempotency_key receipt
                 @ '';backup_id='' @ backup_id) now_ms) (\<lambda>d.
       Inr ((), d)))))))))"

definition complete_operator_backup ::
  "externals \<Rightarrow> unit result \<Rightarrow> store \<Rightarrow> operator_receipt \<Rightarrow> json \<Rightarrow> string \<Rightarrow> u64 \<Rightarrow> unit result \<times> store" where
  "complete_operator_backup E owner s receipt response backup_id now_ms =
     with_tx s (\<lambda>d. bindE owner (\<lambda>_. complete_backup_tx E receipt response backup_id now_ms d))"

text \<open>
  What the file system answers to one request: resolving the destination, checking or creating
  the namespace, whether the destination exists, the capacity check, the snapshot itself, and the
  opened destination.
\<close>

record backup_fs =
  fs_located :: "unit result"
  fs_namespace_valid :: "unit result"
  fs_namespace_ready :: "unit result"
  fs_relocated :: "unit result"
  fs_exists :: bool
  fs_capacity :: "unit result"
  fs_backup_to :: "unit result"
  fs_opened :: "db result"

text \<open>
  After the admission: the file effects, which leave the store alone, and whether the completion
  is still to be recorded.
\<close>

definition take_backup ::
  "externals \<Rightarrow> backup_fs \<Rightarrow> store \<Rightarrow> operator_receipt \<Rightarrow> bool \<Rightarrow> string \<Rightarrow> bool result" where
  "take_backup E fs s receipt replayed backup_id =
     bindE (backup_response_durable (re_response receipt) backup_id) (\<lambda>already_durable.
     bindE (read_binding (conn s)) (\<lambda>binding.
     bindE (fs_located fs) (\<lambda>_.
     if already_durable then
       bindE (fs_namespace_valid fs) (\<lambda>_.
       bindE (verify_backup E (fs_opened fs) binding receipt backup_id) (\<lambda>_. Inr False))
     else
       bindE (fs_namespace_ready fs) (\<lambda>_.
       bindE (fs_relocated fs) (\<lambda>_.
       if fs_exists fs then
         bindE (ensure replayed (Conflict ''backup identifier already has a retained destination'')) (\<lambda>_.
         bindE (verify_backup E (fs_opened fs) binding receipt backup_id) (\<lambda>_. Inr True))
       else
         bindE (fs_capacity fs) (\<lambda>_.
         bindE (fs_backup_to fs) (\<lambda>_.
         bindE (verify_backup E (fs_opened fs) binding receipt backup_id) (\<lambda>_. Inr True))))))))"

definition finish_backup ::
  "externals \<Rightarrow> unit result \<Rightarrow> backup_fs \<Rightarrow> operator_receipt \<Rightarrow> bool \<Rightarrow> string \<Rightarrow> u64 \<Rightarrow> store
   \<Rightarrow> bool result \<times> store" where
  "finish_backup E owner fs receipt replayed backup_id now_ms s =
     (case take_backup E fs s receipt replayed backup_id of
        Inl e \<Rightarrow> (Inl e, s)
      | Inr False \<Rightarrow> (Inr True, s)
      | Inr True \<Rightarrow>
          (case durable_backup_response E (re_response receipt) backup_id of
             Inl e \<Rightarrow> (Inl e, s)
           | Inr completed_response \<Rightarrow>
               bindS (complete_operator_backup E owner s receipt completed_response backup_id now_ms)
                 (\<lambda>_ s'. (Inr True, s'))))"

definition perform_operator_backup ::
  "externals \<Rightarrow> unit result \<Rightarrow> backup_fs \<Rightarrow> store \<Rightarrow> operator_context \<Rightarrow> string \<Rightarrow> json \<Rightarrow> u64
   \<Rightarrow> bool result \<times> store" where
  "perform_operator_backup E owner fs s context backup_id pending_response now_ms =
     (case validate_backup_id backup_id of
        Inl e \<Rightarrow> (Inl e, s)
      | Inr _ \<Rightarrow>
          bindS (admit_operator_command E owner s context CmdBackup pending_response now_ms) (\<lambda>outcome s.
          case outcome of
            Accepted receipt \<Rightarrow> finish_backup E owner fs receipt False backup_id now_ms s
          | Replayed receipt \<Rightarrow> finish_backup E owner fs receipt True backup_id now_ms s
          | ReadOnly \<Rightarrow> (Inl (Conflict ''backup admission unexpectedly became read-only''), s)))"

section \<open>Contract\<close>

lemma complete_backup_tx_cases:
  assumes "complete_backup_tx E receipt response backup_id now_ms d = Inr (u, d')"
  obtains
    (already) r v where "find (\<lambda>r. o_sequence r = uint (re_sequence receipt)) (operator_commands d) = Some r"
      "o_idempotency_key r = re_idempotency_key receipt" "o_command r = CmdBackup"
      "json_from_str E (o_response_json r) = Inr v" "backup_response_durable v backup_id = Inr True" "d' = d"
  | (completed) r where "find (\<lambda>r. o_sequence r = uint (re_sequence receipt)) (operator_commands d) = Some r"
      "o_idempotency_key r = re_idempotency_key receipt" "o_command r = CmdBackup"
      "insert_audit_tx (d\<lparr>operator_commands := update_where (\<lambda>r. o_sequence r = uint (re_sequence receipt))
           (\<lambda>r. r\<lparr>o_response_json := json_to_string E response\<rparr>) (operator_commands d)\<rparr>)
         ''operator_command_backup_completed''
         (''sequence='' @ show_u64 (re_sequence receipt) @ '';key='' @ re_idempotency_key receipt
          @ '';backup_id='' @ backup_id) now_ms = Inr d'"
  using assms unfolding complete_backup_tx_def Let_def
  by (clarsimp simp: bindE_Inr ensure_Inr map_err_Inr ok_or_Inr split: if_splits) (metis already completed)+

interpretation backup_completion: quiet_operation
  "\<lambda>s. complete_operator_backup E owner s receipt response backup_id now_ms"
  for E owner receipt response backup_id now_ms
  unfolding complete_operator_backup_def
proof (rule quiet_tx)
  fix d x d' assume "bindE owner (\<lambda>_. complete_backup_tx E receipt response backup_id now_ms d) = Inr (x, d')"
  then have "complete_backup_tx E receipt response backup_id now_ms d = Inr (x, d')" by (auto simp: bindE_Inr)
  then show "audit_ok d d' \<and> queue_of d' = queue_of d"
  proof (cases rule: complete_backup_tx_cases)
    case (completed r)
    show ?thesis
      using insert_audit_tx_after [OF completed(4), of d] completed(4) by (auto simp: insert_audit_tx_Inr)
  qed simp
qed

lemma complete_backup_ledger_inv:
  assumes "complete_operator_backup E owner s receipt response backup_id now_ms = (r, s')" and "ledger_inv (conn s)"
  shows "ledger_inv (conn s')"
  using assms(1) unfolding complete_operator_backup_def
proof (rule with_tx_conn)
  fix x d assume "bindE owner (\<lambda>_. complete_backup_tx E receipt response backup_id now_ms (conn s)) = Inr (x, d)"
    and s': "s' = s\<lparr>conn := d\<rparr>"
  then have "complete_backup_tx E receipt response backup_id now_ms (conn s) = Inr (x, d)" by (auto simp: bindE_Inr)
  then have "ledger_inv d"
  proof (cases rule: complete_backup_tx_cases)
    case (completed r)
    then have d: "operator_commands d = update_where (\<lambda>r. o_sequence r = uint (re_sequence receipt))
           (\<lambda>r. r\<lparr>o_response_json := json_to_string E response\<rparr>) (operator_commands (conn s))"
      "operator_seq d = operator_seq (conn s)"
      by (auto simp: insert_audit_tx_Inr)
    have maps: "map f (operator_commands d) = map f (operator_commands (conn s))"
      if "\<And>r v. f (r\<lparr>o_response_json := v\<rparr>) = f r" for f :: "operator_row \<Rightarrow> 'b"
      unfolding d(1) by (rule map_update_where) (simp add: that)
    have "\<forall>r \<in> set (operator_commands d). 0 < o_sequence r \<and> o_sequence r \<le> operator_seq d"
      using assms(2) unfolding d by (auto simp: ledger_inv_def set_update_where)
    with assms(2) maps [of o_idempotency_key] maps [of o_request_id] maps [of o_sequence] d show ?thesis
      by (simp add: ledger_inv_def)
  qed (use assms(2) in simp)
  with s' show ?thesis by simp
qed (use assms(2) in simp)


section \<open>Acknowledged backups\<close>

lemma backup_admission_frame:
  assumes "admit_operator_command E owner s ctx CmdBackup response now_ms = (Inr out, s')"
  shows "metadata (conn s') = metadata (conn s)"
proof -
  obtain d where "admit_mutation_tx E ctx CmdBackup response now_ms (conn s) = Inr (out, d)" and s': "s' = s\<lparr>conn := d\<rparr>"
    using assms by (auto simp: admit_operator_command_def with_tx_Inr bindE_Inr is_read_only_def)
  then have "metadata d = metadata (conn s)"
    by (cases rule: admit_mutation_tx_cases) (auto dest: record_operator_frame(2))
  with s' show ?thesis by simp
qed

lemma read_binding_metadata: "metadata d' = metadata d \<Longrightarrow> read_binding d' = read_binding d"
  by (simp add: read_binding_def metadata_from_conn_def)

lemma verify_backup_Inr:
  assumes "verify_backup E opened binding receipt backup_id = Inr ()"
  obtains snapshot r where "opened = Inr snapshot" "read_binding snapshot = Inr binding"
    "r \<in> set (operator_commands snapshot)" "o_idempotency_key r = re_idempotency_key receipt"
    "o_command_fingerprint r = re_command_fingerprint receipt"
  using assms
  by (auto simp: verify_backup_def verify_backup_receipt_def bindE_Inr ensure_Inr ok_or_Inr dest!: find_SomeD)

lemma take_backup_Inr:
  assumes "take_backup E fs s receipt replayed backup_id = Inr b"
  shows "\<exists>binding. read_binding (conn s) = Inr binding \<and> verify_backup E (fs_opened fs) binding receipt backup_id = Inr ()"
    and "\<not> b \<Longrightarrow> backup_response_durable (re_response receipt) backup_id = Inr True"
    and "b \<Longrightarrow> \<not> replayed \<Longrightarrow> \<not> fs_exists fs \<and> fs_backup_to fs = Inr ()"
  using assms by (auto simp: take_backup_def bindE_Inr ensure_Inr split: if_splits)

lemma json_insert_lookup: "map_of (json_insert k v kvs) k' = (if k' = k then Some v else map_of kvs k')"
  by (induction kvs) auto

lemma durable_backup_response_durable:
  assumes "durable_backup_response E response backup_id = Inr c"
  shows "backup_response_durable c backup_id = Inr True"
proof -
  obtain durable where dur: "backup_response_durable response backup_id = Inr durable"
    using assms by (auto simp: durable_backup_response_def bindE_Inr)
  show ?thesis
  proof (cases durable)
    case True
    with assms dur show ?thesis by (simp add: durable_backup_response_def)
  next
    case False
    with assms dur show ?thesis
      by (auto simp: durable_backup_response_def backup_response_durable_def bindE_Inr ok_or_Inr ensure_Inr
          bind_eq_Some_conv json_insert_lookup Let_def)
  qed
qed

lemma perform_backup_Inr:
  assumes "perform_operator_backup E owner fs s ctx backup_id pending now_ms = (Inr b, s')"
  obtains receipt replayed s1 where
    "admit_operator_command E owner s ctx CmdBackup pending now_ms
       = (Inr (if replayed then Replayed receipt else Accepted receipt), s1)"
    "finish_backup E owner fs receipt replayed backup_id now_ms s1 = (Inr b, s')"
proof -
  obtain out s1 where adm: "admit_operator_command E owner s ctx CmdBackup pending now_ms = (Inr out, s1)"
    and rest: "(case out of
            Accepted receipt \<Rightarrow> finish_backup E owner fs receipt False backup_id now_ms s1
          | Replayed receipt \<Rightarrow> finish_backup E owner fs receipt True backup_id now_ms s1
          | ReadOnly \<Rightarrow> (Inl (Conflict ''backup admission unexpectedly became read-only''), s1)) = (Inr b, s')"
    using assms by (auto simp: perform_operator_backup_def bindS_def split: sum.splits prod.splits)
  show thesis
  proof (cases out)
    case (Accepted receipt)
    with adm rest show thesis by (intro that [of False receipt s1]) simp_all
  next
    case (Replayed receipt)
    with adm rest show thesis by (intro that [of True receipt s1]) simp_all
  qed (use rest in simp)
qed

lemma admitted_key:
  assumes "admit_operator_command E owner s ctx CmdBackup pending now_ms
       = (Inr (if replayed then Replayed receipt else Accepted receipt), s1)"
  shows "re_idempotency_key receipt = oc_idempotency_key ctx"
    and "re_command_fingerprint receipt = oc_command_fingerprint ctx"
    and "backup_response_durable (re_response receipt) backup_id = Inr True \<Longrightarrow> replayed \<or> backup_response_durable pending backup_id = Inr True"
    and "replayed \<Longrightarrow> \<exists>r \<in> set (operator_commands (conn s1)). o_idempotency_key r = oc_idempotency_key ctx
           \<and> json_from_str E (o_response_json r) = Inr (re_response receipt)"
proof -
  obtain d where tx: "admit_mutation_tx E ctx CmdBackup pending now_ms (conn s)
      = Inr (if replayed then Replayed receipt else Accepted receipt, d)" and s1: "s1 = s\<lparr>conn := d\<rparr>"
    using assms by (auto simp: admit_operator_command_def with_tx_Inr bindE_Inr is_read_only_def)
  have "re_idempotency_key receipt = oc_idempotency_key ctx \<and> re_command_fingerprint receipt = oc_command_fingerprint ctx
    \<and> (replayed \<longrightarrow> (\<exists>r \<in> set (operator_commands (conn s1)). o_idempotency_key r = oc_idempotency_key ctx
           \<and> json_from_str E (o_response_json r) = Inr (re_response receipt)))
    \<and> (\<not> replayed \<longrightarrow> re_response receipt = pending)"
    using tx
  proof (cases rule: admit_mutation_tx_cases)
    case (replay existing)
    then obtain r where r: "find (\<lambda>r. o_idempotency_key r = oc_idempotency_key ctx) (operator_commands (conn s)) = Some r"
      "operator_receipt_from_row E r = Inr existing"
      by (auto simp: find_operator_by_key_def map_err_Inr transposeE_Inr)
    have "re_idempotency_key existing = o_idempotency_key r \<and> json_from_str E (o_response_json r) = Inr (re_response existing)"
      using r(2) by (auto simp: operator_receipt_from_row_def bindE_Inr map_err_Inr to_sql_Inr)
    with replay find_SomeD [OF r(1)] s1 show ?thesis
      by (auto simp: with_replayed_def check_replay_def bindE_Inr ensure_Inr split: if_splits)
  next
    case (admit d1)
    then show ?thesis by (auto simp: record_operator_command_Inr accepted_receipt_def split: if_splits)
  qed
  then show "re_idempotency_key receipt = oc_idempotency_key ctx"
    "re_command_fingerprint receipt = oc_command_fingerprint ctx"
    "replayed \<Longrightarrow> \<exists>r \<in> set (operator_commands (conn s1)). o_idempotency_key r = oc_idempotency_key ctx
           \<and> json_from_str E (o_response_json r) = Inr (re_response receipt)"
    "backup_response_durable (re_response receipt) backup_id = Inr True \<Longrightarrow> replayed \<or> backup_response_durable pending backup_id = Inr True"
    by auto
qed

text \<open>
  C19: A backup is acknowledged only with a verified snapshot. When the request succeeds, the
  destination opens as a database of this deployment that holds the admitted command, and the
  ledger of the live store records the backup as durable, for a caller that did not claim so beforehand.
\<close>

theorem backup_acknowledged_verified:
  assumes run: "perform_operator_backup E owner fs s ctx backup_id pending now_ms = (Inr b, s')"
    and pending: "backup_response_durable pending backup_id \<noteq> Inr True"
  shows "b \<and> (\<exists>snapshot binding r. fs_opened fs = Inr snapshot
      \<and> read_binding snapshot = Inr binding \<and> read_binding (conn s) = Inr binding
      \<and> r \<in> set (operator_commands snapshot) \<and> o_idempotency_key r = oc_idempotency_key ctx
      \<and> o_command_fingerprint r = oc_command_fingerprint ctx)
    \<and> (\<exists>r \<in> set (operator_commands (conn s')). \<exists>v. o_idempotency_key r = oc_idempotency_key ctx
         \<and> backup_response_durable v backup_id = Inr True
         \<and> (o_response_json r = json_to_string E v \<or> json_from_str E (o_response_json r) = Inr v))"
proof -
  obtain receipt replayed s1 where
    adm: "admit_operator_command E owner s ctx CmdBackup pending now_ms
       = (Inr (if replayed then Replayed receipt else Accepted receipt), s1)"
    and fin: "finish_backup E owner fs receipt replayed backup_id now_ms s1 = (Inr b, s')"
    by (rule perform_backup_Inr [OF run])
  note key = admitted_key [OF adm]
  obtain more where take: "take_backup E fs s1 receipt replayed backup_id = Inr more"
    using fin by (auto simp: finish_backup_def split: sum.splits)
  have "b" using fin by (auto simp: finish_backup_def bindS_def split: sum.splits bool.splits prod.splits)
  have bind: "read_binding (conn s1) = read_binding (conn s)"
    by (rule read_binding_metadata) (use backup_admission_frame [OF adm] in simp)
  obtain binding where "read_binding (conn s1) = Inr binding" "verify_backup E (fs_opened fs) binding receipt backup_id = Inr ()"
    using take_backup_Inr(1) [OF take] by blast
  then obtain snapshot r where snap: "fs_opened fs = Inr snapshot" "read_binding snapshot = Inr binding"
    "read_binding (conn s) = Inr binding"
    "r \<in> set (operator_commands snapshot)" "o_idempotency_key r = oc_idempotency_key ctx"
    "o_command_fingerprint r = oc_command_fingerprint ctx"
    using key(1,2) bind by (auto elim!: verify_backup_Inr)
  have "\<exists>r \<in> set (operator_commands (conn s')). \<exists>v. o_idempotency_key r = oc_idempotency_key ctx
         \<and> backup_response_durable v backup_id = Inr True
         \<and> (o_response_json r = json_to_string E v \<or> json_from_str E (o_response_json r) = Inr v)"
  proof (cases more)
    case False
    then have "backup_response_durable (re_response receipt) backup_id = Inr True" "s' = s1"
      using take_backup_Inr(2) [OF take] fin take by (auto simp: finish_backup_def)
    moreover from this have replayed using key(3) [of backup_id] pending by blast
    ultimately show ?thesis using key(4) by blast
  next
    case True
    then obtain c where c: "durable_backup_response E (re_response receipt) backup_id = Inr c"
      and "complete_operator_backup E owner s1 receipt c backup_id now_ms = (Inr (), s')"
      using fin take by (auto simp: finish_backup_def bindS_def split: sum.splits prod.splits)
    then obtain d where s': "s' = s1\<lparr>conn := d\<rparr>" and "complete_backup_tx E receipt c backup_id now_ms (conn s1) = Inr ((), d)"
      by (auto simp: complete_operator_backup_def with_tx_Inr bindE_Inr)
    from this(2) show ?thesis
    proof (cases rule: complete_backup_tx_cases)
      case (already r v)
      then show ?thesis using s' key(1) find_SomeD [OF already(1)] by auto
    next
      case (completed r)
      then have "operator_commands d = update_where (\<lambda>r. o_sequence r = uint (re_sequence receipt))
           (\<lambda>r. r\<lparr>o_response_json := json_to_string E c\<rparr>) (operator_commands (conn s1))"
        by (auto simp: insert_audit_tx_Inr)
      then have "r\<lparr>o_response_json := json_to_string E c\<rparr> \<in> set (operator_commands d)"
        using find_SomeD [OF completed(1)] by (auto simp: set_update_where)
      moreover have "backup_response_durable c backup_id = Inr True" by (rule durable_backup_response_durable [OF c])
      ultimately show ?thesis using s' completed(2) key(1) by (intro bexI) auto
    qed
  qed
  with \<open>b\<close> snap show ?thesis by blast
qed

text \<open>A new request whose destination exists is refused before a snapshot is taken.\<close>

lemma take_backup_existing:
  assumes "fs_exists fs" and "backup_response_durable (re_response receipt) backup_id \<noteq> Inr True"
  shows "\<exists>e. take_backup E fs s receipt False backup_id = Inl e
    \<and> take_backup E (fs\<lparr>fs_capacity := c, fs_backup_to := x, fs_opened := y\<rparr>) s receipt False backup_id = Inl e"
  using assms by (auto simp: take_backup_def bindE_def ensure_def split: sum.splits)

text \<open>
  C32: A backup is never taken twice and never over an existing one. When the ledger holds the command of
  the presented context with a durable response, asking again verifies the retained destination,
  leaves the store alone, and answers the same whatever the capacity check or a new snapshot would
  have answered. When the ledger does not hold the command and the destination exists already, the request
  fails, and neither its answer nor the store it leaves depends on the capacity, on a new snapshot or
  on what the destination holds.
\<close>

theorem backup_not_repeated:
  assumes guards: "context_validate E ctx = Inr ()" "oc_capability ctx = CapAdmin" "validate_backup_id backup_id = Inr ()"
  shows "(\<forall>receipt. find_operator_by_key E (conn s) (oc_idempotency_key ctx) = Inr (Some receipt)
        \<and> check_replay receipt ctx CmdBackup = Inr () \<and> backup_response_durable (re_response receipt) backup_id = Inr True \<longrightarrow>
      snd (perform_operator_backup E (Inr ()) fs s ctx backup_id pending now_ms) = s
      \<and> perform_operator_backup E (Inr ()) (fs\<lparr>fs_capacity := c, fs_backup_to := x\<rparr>) s ctx backup_id pending now_ms
        = perform_operator_backup E (Inr ()) fs s ctx backup_id pending now_ms)
    \<and> (find_operator_by_key E (conn s) (oc_idempotency_key ctx) = Inr None \<and> fs_exists fs
       \<and> backup_response_durable pending backup_id \<noteq> Inr True \<longrightarrow>
      (\<exists>e s'. perform_operator_backup E (Inr ()) fs s ctx backup_id pending now_ms = (Inl e, s')
        \<and> perform_operator_backup E (Inr ()) (fs\<lparr>fs_capacity := c, fs_backup_to := x, fs_opened := y\<rparr>) s ctx backup_id pending now_ms
          = (Inl e, s')))"
proof (intro conjI allI impI)
  fix receipt
  assume found: "find_operator_by_key E (conn s) (oc_idempotency_key ctx) = Inr (Some receipt)
        \<and> check_replay receipt ctx CmdBackup = Inr () \<and> backup_response_durable (re_response receipt) backup_id = Inr True"
  have adm: "admit_operator_command E (Inr ()) s ctx CmdBackup pending now_ms = (Inr (Replayed (with_replayed receipt True)), s)"
    using guards found by (simp add: admit_operator_command_def admit_mutation_tx_def is_read_only_def with_tx_def)
  have resp: "re_response (with_replayed receipt True) = re_response receipt" by (simp add: with_replayed_def)
  have take: "take_backup E (fs\<lparr>fs_capacity := c, fs_backup_to := x\<rparr>) s (with_replayed receipt True) True backup_id
      = take_backup E fs s (with_replayed receipt True) True backup_id"
    "take_backup E fs s (with_replayed receipt True) True backup_id \<noteq> Inr True"
    using found by (auto simp: take_backup_def resp bindE_Inr)
  then show "snd (perform_operator_backup E (Inr ()) fs s ctx backup_id pending now_ms) = s"
    and "perform_operator_backup E (Inr ()) (fs\<lparr>fs_capacity := c, fs_backup_to := x\<rparr>) s ctx backup_id pending now_ms
        = perform_operator_backup E (Inr ()) fs s ctx backup_id pending now_ms"
    using guards(3) by (auto simp: perform_operator_backup_def adm bindS_def finish_backup_def split: sum.splits bool.splits)
next
  assume new: "find_operator_by_key E (conn s) (oc_idempotency_key ctx) = Inr None \<and> fs_exists fs
       \<and> backup_response_durable pending backup_id \<noteq> Inr True"
  obtain r s1 where adm: "admit_operator_command E (Inr ()) s ctx CmdBackup pending now_ms = (r, s1)"
    by (cases "admit_operator_command E (Inr ()) s ctx CmdBackup pending now_ms")
  show "\<exists>e s'. perform_operator_backup E (Inr ()) fs s ctx backup_id pending now_ms = (Inl e, s')
        \<and> perform_operator_backup E (Inr ()) (fs\<lparr>fs_capacity := c, fs_backup_to := x, fs_opened := y\<rparr>) s ctx backup_id pending now_ms
          = (Inl e, s')"
  proof (cases r)
    case (Inl e)
    then show ?thesis using guards(3) by (simp add: perform_operator_backup_def adm bindS_def)
  next
    case (Inr out)
    obtain d where tx: "admit_mutation_tx E ctx CmdBackup pending now_ms (conn s) = Inr (out, d)"
      using adm Inr by (auto simp: admit_operator_command_def with_tx_Inr bindE_Inr is_read_only_def)
    then obtain receipt where out: "out = Accepted receipt" "re_response receipt = pending"
      by (cases rule: admit_mutation_tx_cases)
         (use new in \<open>auto simp: record_operator_command_Inr accepted_receipt_def\<close>)
    have "backup_response_durable (re_response receipt) backup_id \<noteq> Inr True" using new out(2) by simp
    then obtain e where "take_backup E fs s1 receipt False backup_id = Inl e"
        "take_backup E (fs\<lparr>fs_capacity := c, fs_backup_to := x, fs_opened := y\<rparr>) s1 receipt False backup_id = Inl e"
      using take_backup_existing [of fs receipt backup_id E s1] new by blast
    then show ?thesis using guards(3) out(1) Inr by (simp add: perform_operator_backup_def adm bindS_def finish_backup_def)
  qed
qed

section \<open>Concrete runs\<close>

definition sample_backup_response :: "bool \<Rightarrow> json" where
  "sample_backup_response durable = JObject [(''kind'', JString ''Backup''),
     (''value'', JObject [(''backup_id'', JString ''b1''), (''durable'', JBool durable)])]"

definition externals_backup :: "bool \<Rightarrow> externals" where
  "externals_backup durable = externals_sample\<lparr>json_from_str := \<lambda>_. Inr (sample_backup_response durable)\<rparr>"

definition sample_deployed :: "operator_row list \<Rightarrow> store" where
  "sample_deployed rows = sample_store\<lparr>conn := (conn sample_store)
     \<lparr>metadata := (metadata (conn sample_store))(''schema_version'' \<mapsto> ''2'', ''config_digest'' \<mapsto> sample_digest,
        ''config_compat_digest'' \<mapsto> sample_digest),
      operator_commands := rows\<rparr>\<rparr>"

definition sample_backup_row :: operator_row where
  "sample_backup_row = operator_row_of 1 sample_context CmdBackup None ''{}'' 5"

definition sample_fs :: backup_fs where
  "sample_fs = \<lparr>fs_located = Inr (), fs_namespace_valid = Inr (), fs_namespace_ready = Inr (), fs_relocated = Inr (),
     fs_exists = False, fs_capacity = Inr (), fs_backup_to = Inr (),
     fs_opened = Inr (conn (sample_deployed [sample_backup_row]))\<rparr>"

lemma sample_durable: "backup_response_durable (sample_backup_response durable) ''b1'' = Inr durable"
  by (simp add: backup_response_durable_def sample_backup_response_def)

lemma sample_backup_context [simp]: "context_validate (externals_backup durable) sample_context = Inr ()"
  using sample_context_facts(1) by (simp add: context_validate_Inr validate_uuid_v4_Inr externals_backup_def externals_sample_def)

lemma sample_backup_id: "validate_backup_id ''b1'' = Inr ()"
  by (simp add: validate_backup_id_def is_alphanumeric_def is_digit_def byte_def)

lemma parse_two: "parse_i64 ''2'' = Some 2"
  using parse_i64_show_int [of 2] by (simp add: i64_min_def i64_max_def)

lemma sample_binding:
  "\<exists>binding. \<forall>rows. read_binding (conn (sample_deployed rows)) = Inr binding"
  by (simp add: read_binding_def sample_deployed_def metadata_from_conn_def parse_metadata_i64_def parse_two
      validate_metadata_identifier_def plain_guards plain_def byte_def validate_digest_def list_all_iff is_digit_def)

lemma sample_verify:
  assumes "receipt = accepted_receipt 1 sample_context CmdBackup None response now" and "read_binding (conn (sample_deployed rows)) = Inr binding"
  shows "verify_backup (externals_backup durable) (fs_opened sample_fs) binding receipt ''b1'' = Inr ()"
proof -
  have "read_binding (conn (sample_deployed [sample_backup_row])) = Inr binding"
    using assms(2) sample_binding by metis
  then show ?thesis
    by (simp add: verify_backup_def sample_fs_def assms(1) verify_backup_receipt_def accepted_receipt_def
        sample_deployed_def sample_backup_row_def operator_row_of_def i64_max_def externals_backup_def sample_durable)
qed

lemma sample_deployed_simps [simp]:
  "operator_commands (conn (sample_deployed rows)) = rows" "operator_seq (conn (sample_deployed rows)) = 0"
  "audit_log (conn (sample_deployed rows)) = []"
  by (simp_all add: sample_deployed_def sample_ledger)

lemma sample_backup_response_valid:
  "validate_response (externals_backup b) (sample_backup_response durable) = Inr ()"
  by (simp add: validate_response_Inr externals_backup_def externals_sample_def sample_backup_response_def
      MAX_OPERATOR_RESPONSE_BYTES_def plain_guards plain_def byte_def)

lemma sample_backup_admitted:
  obtains receipt d1 where "admit_operator_command (externals_backup False) (Inr ()) (sample_deployed []) sample_context CmdBackup
      (sample_backup_response False) 5 = (Inr (Accepted receipt), (sample_deployed [])\<lparr>conn := d1\<rparr>)"
    "receipt = accepted_receipt 1 sample_context CmdBackup None (sample_backup_response False) 5"
    "operator_commands d1
      = [operator_row_of 1 sample_context CmdBackup None (json_to_string (externals_backup False) (sample_backup_response False)) 5]"
    "metadata d1 = metadata (conn (sample_deployed []))" "length (audit_log d1) = 1"
proof -
  let ?E = "externals_backup False" and ?p = "sample_backup_response False" and ?s = "sample_deployed []"
  obtain receipt d1 where rec: "record_operator_command (conn ?s) sample_context CmdBackup None (json_to_string ?E ?p) ?p
      ''operator_command_accepted'' 5 = Inr (Accepted receipt, d1)"
    by (rule record_sample_command [of "conn ?s" "''operator_command_accepted''"]) simp_all
  have adm: "admit_operator_command ?E (Inr ()) ?s sample_context CmdBackup ?p 5 = (Inr (Accepted receipt), ?s\<lparr>conn := d1\<rparr>)"
    using rec sample_backup_response_valid
    by (simp add: admit_operator_command_def admit_mutation_tx_def is_read_only_def sample_admission_defs)
  show ?thesis by (rule that [OF adm]) (use rec in \<open>auto simp: record_operator_command_Inr\<close>)
qed

theorem backup_acknowledged_verified_witness:
  "\<exists>s'. perform_operator_backup (externals_backup False) (Inr ()) sample_fs (sample_deployed []) sample_context ''b1''
      (sample_backup_response False) 5 = (Inr True, s')
    \<and> (\<exists>r \<in> set (operator_commands (conn s')). o_idempotency_key r = ''key'')"
proof -
  let ?E = "externals_backup False" and ?p = "sample_backup_response False" and ?s = "sample_deployed []"
  note resp = sample_backup_response_valid [of False]
  obtain receipt d1 where adm: "admit_operator_command ?E (Inr ()) ?s sample_context CmdBackup ?p 5 = (Inr (Accepted receipt), ?s\<lparr>conn := d1\<rparr>)"
    and receipt: "receipt = accepted_receipt 1 sample_context CmdBackup None ?p 5"
    and d1: "operator_commands d1 = [operator_row_of 1 sample_context CmdBackup None (json_to_string ?E ?p) 5]"
      "metadata d1 = metadata (conn ?s)" "length (audit_log d1) = 1"
    by (rule sample_backup_admitted)
  obtain binding where bind: "read_binding (conn ?s) = Inr binding" using sample_binding by blast
  then have bind1: "read_binding d1 = Inr binding" using read_binding_metadata [OF d1(2)] by simp
  have dur: "backup_response_durable (re_response receipt) ''b1'' = Inr False"
    by (simp add: receipt accepted_receipt_def sample_durable)
  have take: "take_backup ?E sample_fs (?s\<lparr>conn := d1\<rparr>) receipt False ''b1'' = Inr True"
    using bind1 dur sample_verify [OF receipt bind] by (simp add: take_backup_def sample_fs_def)
  have completed: "durable_backup_response ?E (re_response receipt) ''b1'' = Inr (sample_backup_response True)"
    using dur resp by (simp add: durable_backup_response_def receipt accepted_receipt_def) (simp add: sample_backup_response_def)
  have "valid_audit ''operator_command_backup_completed'' (''sequence='' @ show_u64 1 @ '';key=key;backup_id=b1'')"
    by (simp add: valid_audit_def plain_guards plain_def byte_def max_audit_detail_bytes_def show_u64_def show_nat.simps digit_char_def)
  moreover have "length (audit_log d1) < audit_limit a" for a
    using d1(3) by (simp add: audit_limit_def MAX_AUDIT_RECORDS_def RESERVED_CRITICAL_AUDIT_RECORDS_def)
  ultimately obtain s' where "complete_operator_backup ?E (Inr ()) (?s\<lparr>conn := d1\<rparr>) receipt (sample_backup_response True) ''b1'' 5 = (Inr (), s')"
    using resp d1(1)
    by (simp add: complete_operator_backup_def complete_backup_tx_def receipt accepted_receipt_def operator_row_of_def
        externals_backup_def sample_durable sample_admission_defs sample_context_def)
  then have run: "perform_operator_backup ?E (Inr ()) sample_fs ?s sample_context ''b1'' ?p 5 = (Inr True, s')"
    by (simp add: perform_operator_backup_def sample_backup_id adm bindS_def finish_backup_def take completed)
  have "backup_response_durable ?p ''b1'' \<noteq> Inr True" by (simp add: sample_durable)
  from backup_acknowledged_verified [OF run this] run show ?thesis by auto
qed

theorem backup_not_repeated_witness:
  "snd (perform_operator_backup (externals_backup True) (Inr ()) sample_fs (sample_deployed [sample_backup_row]) sample_context ''b1''
      JNull 9) = sample_deployed [sample_backup_row]
   \<and> (\<exists>e s'. perform_operator_backup (externals_backup False) (Inr ()) (sample_fs\<lparr>fs_exists := True\<rparr>) (sample_deployed []) sample_context
        ''b1'' (sample_backup_response False) 5 = (Inl e, s') \<and> operator_commands (conn s') \<noteq> [])"
proof -
  let ?E = "externals_backup True"
  have row: "operator_receipt_from_row ?E sample_backup_row = Inr (accepted_receipt 1 sample_context CmdBackup None (sample_backup_response True) 5)"
  proof -
    have "json_to_string ?E (sample_backup_response True) = ''{}''" "sample_backup_response True \<noteq> JNull"
      "json_from_str ?E ''{}'' = Inr (sample_backup_response True)"
      by (simp_all add: externals_backup_def externals_sample_def sample_backup_response_def)
    then show ?thesis
      using admitted_row_decodes [of ?E sample_context CmdBackup None "sample_backup_response True" 1 5]
      by (simp add: sample_backup_row_def is_read_only_def validate_response_Inr MAX_OPERATOR_RESPONSE_BYTES_def
          plain_guards plain_def byte_def i64_max_def)
  qed
  have key: "oc_idempotency_key sample_context = o_idempotency_key sample_backup_row"
    by (simp add: sample_backup_row_def)
  have found: "find_operator_by_key ?E (conn (sample_deployed [sample_backup_row])) (oc_idempotency_key sample_context)
      = Inr (Some (accepted_receipt 1 sample_context CmdBackup None (sample_backup_response True) 5))"
    unfolding key find_operator_by_key_def by (simp add: row)
  have "backup_response_durable (re_response (accepted_receipt 1 sample_context CmdBackup None (sample_backup_response True) 5)) ''b1'' = Inr True"
    by (simp add: accepted_receipt_def sample_durable)
  moreover have replayed: "check_replay (accepted_receipt 1 sample_context CmdBackup None (sample_backup_response True) 5) sample_context CmdBackup = Inr ()"
    by (simp add: check_replay_def accepted_receipt_def sample_context_def)
  ultimately have again: "snd (perform_operator_backup ?E (Inr ()) sample_fs (sample_deployed [sample_backup_row]) sample_context ''b1''
      JNull 9) = sample_deployed [sample_backup_row]"
    using backup_not_repeated [OF _ _ sample_backup_id, where E = ?E and ctx = sample_context and s = "sample_deployed [sample_backup_row]"]
      found replayed by auto
  let ?F = "externals_backup False" and ?p = "sample_backup_response False" and ?fs = "sample_fs\<lparr>fs_exists := True\<rparr>"
  have "\<exists>e s'. perform_operator_backup ?F (Inr ()) ?fs (sample_deployed []) sample_context ''b1'' ?p 5 = (Inl e, s')"
    using backup_not_repeated [OF _ _ sample_backup_id, where E = ?F and ctx = sample_context and s = "sample_deployed []" and fs = ?fs
        and pending = ?p and now_ms = 5]
    by (simp add: find_operator_by_key_def sample_durable) blast
  then obtain e s' where run: "perform_operator_backup ?F (Inr ()) ?fs (sample_deployed []) sample_context ''b1'' ?p 5 = (Inl e, s')"
    by blast
  obtain receipt d1 where "admit_operator_command ?F (Inr ()) (sample_deployed []) sample_context CmdBackup ?p 5
      = (Inr (Accepted receipt), (sample_deployed [])\<lparr>conn := d1\<rparr>)" "operator_commands d1 \<noteq> []"
      and receipt: "receipt = accepted_receipt 1 sample_context CmdBackup None ?p 5"
    by (rule sample_backup_admitted) simp
  moreover have "take_backup ?F ?fs ((sample_deployed [])\<lparr>conn := d1\<rparr>) receipt False ''b1'' \<noteq> Inr b" for b
    by (simp add: take_backup_def bindE_Inr ensure_Inr receipt accepted_receipt_def sample_durable)
  ultimately have "operator_commands (conn s') \<noteq> []"
    using run by (auto simp: perform_operator_backup_def sample_backup_id bindS_def finish_backup_def split: sum.splits)
  with again run show ?thesis by blast
qed

end
