(* ===== verification/System_Frames.thy ===== *)
theory System_Frames
  imports Worker_Recovery Store_Components Store_LaunchIntents Operator_Backup
begin

text \<open>
  What each operation of the store leaves alone: the tables of the other components.
\<close>

definition worker_view :: "db \<Rightarrow> handoff_row list \<times> worker_binding_row option \<times> worker_control_row option" where
  "worker_view d = (worker_handoffs d, worker_bindings d, worker_control d)"

definition ledger_view :: "db \<Rightarrow> operator_row list \<times> i64" where
  "ledger_view d = (operator_commands d, operator_seq d)"

definition other_tables where
  "other_tables d = (worker_view d, ledger_view d, launch_intents d)"

lemmas view_defs = other_tables_def worker_view_def ledger_view_def

lemma frame_tx:
  "(\<And>x d'. f (conn s) = Inr (x, d') \<Longrightarrow> v d' = v (conn s)) \<Longrightarrow> v (conn (snd (with_tx s f))) = v (conn s)"
  by (auto simp: with_tx_def split: sum.splits)

lemma frame_bindS:
  "(\<And>x s'. snd (g x s') = s') \<Longrightarrow> v (conn (snd (bindS m g))) = v (conn (snd m))"
  by (cases m) (auto simp: bindS_def split: sum.splits)

lemma metadata_frames:
  "other_tables (conn (snd (set_desired_mode_at s mode now_ms))) = other_tables (conn s)"
  "other_tables (conn (snd (establish_new_generation s now_ms))) = other_tables (conn s)"
  "other_tables (conn (snd (audit s action detail now_ms))) = other_tables (conn s)"
  "other_tables (conn (snd (record_reconciliation_progress s now_ms))) = other_tables (conn s)"
  unfolding set_desired_mode_at_def establish_new_generation_def audit_def record_reconciliation_progress_def
  subgoal by (rule frame_tx, auto simp: result_simps view_defs)
  subgoal by (rule frame_tx, auto simp: result_simps view_defs)
  subgoal by (rule frame_tx, auto simp: result_simps view_defs)
  subgoal by (rule frame_tx, auto simp: bindE_Inr view_defs Let_def upsert_metadata_tx_def)
  done

lemma component_frames:
  "other_tables (conn (snd (upsert_component s rec now_ms))) = other_tables (conn s)"
  "other_tables (conn (snd (persist_component_identity to_string s cid identity now_ms))) = other_tables (conn s)"
  "other_tables (conn (snd (clear_component_identity s cid now_ms))) = other_tables (conn s)"
  unfolding upsert_component_def persist_component_identity_def clear_component_identity_def
  by (rule frame_tx, auto simp: result_simps view_defs Let_def)+

lemma restart_frame:
  "other_tables (conn (snd (record_restart_with_elapsed s cid now_ms elapsed_ms window_ms))) = other_tables (conn s)"
  unfolding record_restart_with_elapsed_def Let_def
  by (subst frame_bindS, simp, rule frame_tx, auto simp: result_simps view_defs Let_def)

lemma claim_ready_job_frame:
  "claim_ready_job E bound worker_id now_ms attempt_id limit r d = Inr (c, d') \<Longrightarrow> other_tables d' = other_tables d"
  by (auto simp: claim_ready_job_def result_simps Let_def view_defs split: if_splits)

lemma complete_running_frame:
  "complete_running job_id attempt_id result encoded digest now_ms job d = Inr (c, d') \<Longrightarrow> other_tables d' = other_tables d"
  by (auto simp: complete_running_def result_simps Let_def view_defs)

lemma quarantine_jobs_loop_frame: "quarantine_jobs_loop now_ms js d = Inr d' \<Longrightarrow> other_tables d' = other_tables d"
proof (induction js arbitrary: d)
  case (Cons j js)
  then obtain d1 where d1: "quarantine_interrupted_job now_ms j d = Inr d1" "quarantine_jobs_loop now_ms js d1 = Inr d'"
    by (auto simp: bindE_Inr)
  have "other_tables d1 = other_tables d"
    using d1(1) by (auto simp: quarantine_interrupted_job_def result_simps Let_def view_defs)
  then show ?case using Cons.IH [OF d1(2)] by simp
qed simp

lemma job_frames:
  "other_tables (conn (snd (submit_job_at E s kind payload now_ms new_id))) = other_tables (conn s)"
  "other_tables (conn (snd (claim_next_job E s worker_id now_ms attempt_id))) = other_tables (conn s)"
  "other_tables (conn (snd (complete_job_at E s job_id attempt_id result now_ms))) = other_tables (conn s)"
  "other_tables (conn (snd (quarantine_interrupted_jobs s now_ms))) = other_tables (conn s)"
proof -
  show "other_tables (conn (snd (submit_job_at E s kind payload now_ms new_id))) = other_tables (conn s)"
    unfolding submit_job_at_def Let_def
    by (subst frame_bindS, simp, rule frame_tx, auto simp: result_simps view_defs)
  show "other_tables (conn (snd (claim_next_job E s worker_id now_ms attempt_id))) = other_tables (conn s)"
    unfolding claim_next_job_def
    by (rule frame_tx, auto simp: bindE_Inr split: if_splits option.splits dest: claim_ready_job_frame)
  show "other_tables (conn (snd (complete_job_at E s job_id attempt_id result now_ms))) = other_tables (conn s)"
    unfolding complete_job_at_def
    by (rule frame_tx) (auto simp: bindE_Inr Let_def split: if_splits dest: complete_running_frame complete_again_unchanged)
  show "other_tables (conn (snd (quarantine_interrupted_jobs s now_ms))) = other_tables (conn s)"
    unfolding quarantine_interrupted_jobs_def
    by (rule frame_tx) (auto simp: bindE_Inr Let_def dest: quarantine_jobs_loop_frame)
qed

lemma fail_job_frame:
  "other_tables (conn (snd (fail_job_at s job_id attempt_id error retry_at_ms now_ms))) = other_tables (conn s)"
  unfolding fail_job_at_def
  by (rule frame_tx) (auto simp: result_simps Let_def view_defs)

lemma intent_frames:
  "worker_view (conn (snd (run_intent_op E s op))) = worker_view (conn s)"
  "ledger_view (conn (snd (run_intent_op E s op))) = ledger_view (conn s)"
proof -
  have "worker_view (conn (snd (run_intent_op E s op))) = worker_view (conn s)
    \<and> ledger_view (conn (snd (run_intent_op E s op))) = ledger_view (conn s)"
    by (cases op)
       (auto simp: prepare_launch_intent_def record_launch_proof_def activate_launch_intent_def clean_launch_intent_def
         frame_bindS record_proof_tx_Inr activate_tx_Inr clean_tx_Inr insert_audit_tx_Inr view_defs
         intro!: frame_tx elim!: prepare_intent_tx_Inr split: if_splits)
  then show "worker_view (conn (snd (run_intent_op E s op))) = worker_view (conn s)"
    "ledger_view (conn (snd (run_intent_op E s op))) = ledger_view (conn s)" by simp_all
qed

definition outside_ledger where
  "outside_ledger d = (worker_view d, launch_intents d)"

lemmas outside_defs = outside_ledger_def worker_view_def

lemma record_operator_outside:
  "record_operator_command d1 ctx cmd mode body response action now_ms = Inr (out, d') \<Longrightarrow> outside_ledger d' = outside_ledger d1"
  by (auto simp: record_operator_command_Inr outside_defs)

lemma admit_mutation_outside:
  assumes "admit_mutation_tx E ctx cmd response now_ms d = Inr (out, d')"
  shows "outside_ledger d' = outside_ledger d"
  using assms
proof (cases rule: admit_mutation_tx_cases)
  case (admit d1)
  have "outside_ledger d1 = outside_ledger d" by (subst admit(5)) (simp add: outside_defs)
  then show ?thesis using record_operator_outside [OF admit(7)] by simp
qed simp

lemma admit_submission_outside:
  assumes "admit_submission_tx E bound ctx kind encoded now_ms new_id d = Inr (out, d')"
  shows "outside_ledger d' = outside_ledger d"
  using assms
proof (cases rule: admit_submission_tx_cases)
  case (admit d1)
  then show ?thesis using record_operator_outside [OF admit(5)] by (auto simp: insert_job_tx_Inr outside_defs)
qed simp

lemma admit_retry_outside:
  assumes "admit_retry_tx E ctx attempt_id reconstruction response now_ms d = Inr (out, d')"
  shows "outside_ledger d' = outside_ledger d"
  using assms
proof (cases rule: admit_retry_tx_cases)
  case (admit a j d2)
  then show ?thesis using record_operator_outside [OF admit(12)] by (auto simp: insert_audit_tx_Inr outside_defs)
qed simp

lemma admit_quarantine_outside:
  assumes "admit_quarantine_tx E ctx attempt_id reason response now_ms d = Inr (out, d')"
  shows "outside_ledger d' = outside_ledger d"
  using assms
proof (cases rule: admit_quarantine_tx_cases)
  case (admit a j d1 d3)
  then show ?thesis
    using record_operator_outside [OF admit(9)] quarantine_attempt_Inr [OF admit(7)] by (auto simp: insert_audit_tx_Inr outside_defs)
qed simp

lemma complete_backup_outside:
  assumes "complete_backup_tx E receipt response backup_id now_ms d = Inr (x, d')"
  shows "outside_ledger d' = outside_ledger d \<and> (ledger_inv d \<longrightarrow> ledger_inv d')"
  using assms
proof (cases rule: complete_backup_tx_cases)
  case (completed r)
  have keys: "map f (update_where p (\<lambda>r. r\<lparr>o_response_json := v\<rparr>) t) = map f t"
    if "\<And>r. f (r\<lparr>o_response_json := v\<rparr>) = f r" for f :: "operator_row \<Rightarrow> 'k" and p t v
    using that by (auto simp: update_where_def)
  show ?thesis using completed(4) by (auto simp: insert_audit_tx_Inr outside_defs ledger_inv_def keys set_update_where)
qed simp

lemma ledger_frames:
  "outside_ledger (conn (snd (admit_operator_command E owner s ctx cmd response now_ms))) = outside_ledger (conn s)"
  "outside_ledger (conn (snd (admit_operator_job_submission E owner s ctx kind payload now_ms new_id))) = outside_ledger (conn s)"
  "outside_ledger (conn (snd (admit_operator_retry E owner s ctx attempt_id reconstruction response now_ms))) = outside_ledger (conn s)"
  "outside_ledger (conn (snd (admit_operator_quarantine E owner s ctx attempt_id reason response now_ms))) = outside_ledger (conn s)"
  "outside_ledger (conn (snd (complete_operator_backup E owner s receipt response backup_id now_ms))) = outside_ledger (conn s)"
  unfolding admit_operator_command_def admit_operator_job_submission_def admit_operator_retry_def admit_operator_quarantine_def
    complete_operator_backup_def
  subgoal by (rule frame_tx) (auto simp: bindE_Inr dest: admit_mutation_outside split: if_splits)
  subgoal by (rule frame_tx) (auto simp: bindE_Inr Let_def dest: admit_submission_outside)
  subgoal by (rule frame_tx) (auto simp: bindE_Inr dest: admit_retry_outside)
  subgoal by (rule frame_tx) (auto simp: bindE_Inr dest: admit_quarantine_outside)
  subgoal by (rule frame_tx) (auto simp: bindE_Inr dest: complete_backup_outside)
  done

definition outside_worker where
  "outside_worker d = (ledger_view d, launch_intents d, worker_bindings d, worker_control d)"

lemmas outside_worker_defs = outside_worker_def ledger_view_def

lemma claim_handoff_outside:
  assumes "claim_handoff_tx E bound witness now_ms ids d = Inr (claimed, d')"
  shows "outside_worker d' = outside_worker d"
  using assms
  by (auto simp: claim_handoff_tx_def claim_worker_job_def commit_worker_claim_def bindE_Inr insert_attempt_row_Inr
      insert_handoff_row_Inr insert_audit_tx_Inr outside_worker_defs split: if_splits option.splits)

lemma worker_frames:
  "outside_worker (conn (snd (claim_next_worker_handoff E s witness now_ms ids))) = outside_worker (conn s)"
  "outside_worker (conn (snd (mark_worker_handoff_may_have_been_dispatched_at E s t now_ms))) = outside_worker (conn s)"
  "outside_worker (conn (snd (mark_worker_handoff_admitted_at E s t now_ms))) = outside_worker (conn s)"
  "outside_worker (conn (snd (complete_worker_handoff_with_authority_at E s t receipt authority now_ms))) = outside_worker (conn s)"
  "outside_worker (conn (snd (acknowledge_worker_handoff_with_authority_at E s t digest authority now_ms))) = outside_worker (conn s)"
  unfolding claim_next_worker_handoff_def mark_worker_handoff_may_have_been_dispatched_at_def mark_worker_handoff_admitted_at_def
    complete_worker_handoff_with_authority_at_def acknowledge_worker_handoff_with_authority_at_def
  subgoal by (subst frame_bindS, simp split: option.splits, rule frame_tx, erule claim_handoff_outside)
  subgoal by (subst frame_bindS, simp, rule frame_tx, erule mark_dispatched_tx_cases) (auto simp: insert_audit_tx_Inr outside_worker_defs)
  subgoal by (subst frame_bindS, simp, rule frame_tx, erule mark_admitted_tx_cases) (auto simp: insert_audit_tx_Inr outside_worker_defs)
  subgoal by (subst frame_bindS, simp, rule frame_tx, erule complete_handoff_tx_cases)
    (auto simp: insert_audit_tx_Inr outside_worker_defs elim!: commit_terminal_cases)
  subgoal by (rule frame_tx, erule acknowledge_tx_cases) (auto simp: insert_audit_tx_Inr outside_worker_defs)
  done

lemma binding_frame:
  "ledger_view (conn (snd (configure_worker_binding_at E s binding now_ms))) = ledger_view (conn s)"
  "launch_intents (conn (snd (configure_worker_binding_at E s binding now_ms))) = launch_intents (conn s)"
  "worker_handoffs (conn (snd (configure_worker_binding_at E s binding now_ms))) = worker_handoffs (conn s)"
  "worker_control (conn (snd (configure_worker_binding_at E s binding now_ms))) = worker_control (conn s)"
  unfolding configure_worker_binding_at_def
  by (rule frame_tx, erule configure_binding_tx_cases, auto simp: insert_audit_tx_Inr ledger_view_def)+

lemma control_frame:
  "ledger_view (conn (snd (set_worker_control_at E s control now_ms))) = ledger_view (conn s)"
  "launch_intents (conn (snd (set_worker_control_at E s control now_ms))) = launch_intents (conn s)"
  "worker_handoffs (conn (snd (set_worker_control_at E s control now_ms))) = worker_handoffs (conn s)"
  "worker_bindings (conn (snd (set_worker_control_at E s control now_ms))) = worker_bindings (conn s)"
  unfolding set_worker_control_at_def
  by (rule frame_tx, erule set_control_tx_cases, auto simp: insert_audit_tx_Inr ledger_view_def)+

section \<open>The frames by table\<close>

lemma other_tables_eq:
  assumes "other_tables d' = other_tables d"
  shows "launch_intents d' = launch_intents d" "ledger_view d' = ledger_view d" "worker_view d' = worker_view d"
  using assms by (simp_all add: other_tables_def)

lemma outside_ledger_eq:
  assumes "outside_ledger d' = outside_ledger d"
  shows "launch_intents d' = launch_intents d" "worker_view d' = worker_view d"
  using assms by (simp_all add: outside_ledger_def)

lemma outside_worker_eq:
  assumes "outside_worker d' = outside_worker d"
  shows "launch_intents d' = launch_intents d" "ledger_view d' = ledger_view d"
    "worker_bindings d' = worker_bindings d" "worker_control d' = worker_control d"
  using assms by (simp_all add: outside_worker_def)

lemmas store_frames = metadata_frames component_frames restart_frame job_frames fail_job_frame

lemmas launch_frames = store_frames [THEN other_tables_eq(1)] ledger_frames [THEN outside_ledger_eq(1)]
  binding_frame(2) control_frame(2) worker_frames [THEN outside_worker_eq(1)]

lemmas ledger_view_frames = store_frames [THEN other_tables_eq(2)] intent_frames(2) binding_frame(1) control_frame(1)
  worker_frames [THEN outside_worker_eq(2)]

lemmas worker_view_frames = store_frames [THEN other_tables_eq(3)] intent_frames(1) ledger_frames [THEN outside_ledger_eq(2)]

end
