(* ===== verification/Watchdog_System.thy ===== *)
theory Watchdog_System
  imports System_Frames
begin

text \<open>
  The store as one system: every operation of its components as data, any sequence of them, and the
  invariant and the history that every sequence keeps.
\<close>

section \<open>Operations\<close>

datatype system_op =
    SetMode desired_mode u64
  | NewGeneration u64
  | AuditEvent string string u64
  | Progress u64
  | Upsert component_record u64
  | PersistIdentity "process_identity \<Rightarrow> string" string process_identity u64
  | ClearIdentity string u64
  | RestartRecorded string u64 u64 u64
  | SubmitJob string json u64 string
  | ClaimJob string u64 string
  | CompleteJob string string json u64
  | FailJob string string string "u64 option" u64
  | QuarantineJobs u64
  | Intent intent_op
  | OperatorCommand "unit result" operator_context operator_command json u64
  | OperatorSubmit "unit result" operator_context string json u64 string
  | OperatorRetry "unit result" operator_context string bool json u64
  | OperatorQuarantine "unit result" operator_context string string json u64
  | BackupCompleted "unit result" operator_receipt json string u64
  | ConfigureBinding worker_binding u64
  | SetControl worker_control_witness u64
  | ClaimHandoff worker_claim_witness u64 handoff_ids
  | MarkDispatched worker_handoff_tuple u64
  | MarkAdmitted worker_handoff_tuple u64
  | CompleteHandoff worker_handoff_tuple worker_terminal_receipt worker_authority u64
  | AcknowledgeHandoff worker_handoff_tuple string worker_authority u64

fun run_op :: "externals \<Rightarrow> system_op \<Rightarrow> store \<Rightarrow> store" where
  "run_op E (SetMode mode now_ms) s = snd (set_desired_mode_at s mode now_ms)"
| "run_op E (NewGeneration now_ms) s = snd (establish_new_generation s now_ms)"
| "run_op E (AuditEvent action detail now_ms) s = snd (audit s action detail now_ms)"
| "run_op E (Progress now_ms) s = snd (record_reconciliation_progress s now_ms)"
| "run_op E (Upsert rec now_ms) s = snd (upsert_component s rec now_ms)"
| "run_op E (PersistIdentity to_string cid identity now_ms) s = snd (persist_component_identity to_string s cid identity now_ms)"
| "run_op E (ClearIdentity cid now_ms) s = snd (clear_component_identity s cid now_ms)"
| "run_op E (RestartRecorded cid now_ms elapsed_ms window_ms) s = snd (record_restart_with_elapsed s cid now_ms elapsed_ms window_ms)"
| "run_op E (SubmitJob kind payload now_ms new_id) s = snd (submit_job_at E s kind payload now_ms new_id)"
| "run_op E (ClaimJob worker_id now_ms attempt_id) s = snd (claim_next_job E s worker_id now_ms attempt_id)"
| "run_op E (CompleteJob job_id attempt_id result now_ms) s = snd (complete_job_at E s job_id attempt_id result now_ms)"
| "run_op E (FailJob job_id attempt_id error retry_at_ms now_ms) s = snd (fail_job_at s job_id attempt_id error retry_at_ms now_ms)"
| "run_op E (QuarantineJobs now_ms) s = snd (quarantine_interrupted_jobs s now_ms)"
| "run_op E (Intent op) s = snd (run_intent_op E s op)"
| "run_op E (OperatorCommand owner ctx cmd response now_ms) s = snd (admit_operator_command E owner s ctx cmd response now_ms)"
| "run_op E (OperatorSubmit owner ctx kind payload now_ms new_id) s =
     snd (admit_operator_job_submission E owner s ctx kind payload now_ms new_id)"
| "run_op E (OperatorRetry owner ctx attempt_id reconstruction response now_ms) s =
     snd (admit_operator_retry E owner s ctx attempt_id reconstruction response now_ms)"
| "run_op E (OperatorQuarantine owner ctx attempt_id reason response now_ms) s =
     snd (admit_operator_quarantine E owner s ctx attempt_id reason response now_ms)"
| "run_op E (BackupCompleted owner receipt response backup_id now_ms) s =
     snd (complete_operator_backup E owner s receipt response backup_id now_ms)"
| "run_op E (ConfigureBinding binding now_ms) s = snd (configure_worker_binding_at E s binding now_ms)"
| "run_op E (SetControl control now_ms) s = snd (set_worker_control_at E s control now_ms)"
| "run_op E (ClaimHandoff witness now_ms new_ids) s = snd (claim_next_worker_handoff E s witness now_ms new_ids)"
| "run_op E (MarkDispatched t now_ms) s = snd (mark_worker_handoff_may_have_been_dispatched_at E s t now_ms)"
| "run_op E (MarkAdmitted t now_ms) s = snd (mark_worker_handoff_admitted_at E s t now_ms)"
| "run_op E (CompleteHandoff t receipt authority now_ms) s =
     snd (complete_worker_handoff_with_authority_at E s t receipt authority now_ms)"
| "run_op E (AcknowledgeHandoff t digest authority now_ms) s =
     snd (acknowledge_worker_handoff_with_authority_at E s t digest authority now_ms)"

definition run_ops :: "externals \<Rightarrow> system_op list \<Rightarrow> store \<Rightarrow> store" where
  "run_ops E ops s = fold (run_op E) ops s"

section \<open>One operation\<close>

lemma job_operation_snd:
  assumes "job_operation run E" and "queue_inv E (queue_of (conn s))"
  shows "(queue_step E)\<^sup>*\<^sup>* (queue_of (conn s)) (queue_of (conn (snd (run s)))) \<and> audit_ok (conn s) (conn (snd (run s)))"
  using job_operation.refines [OF assms, of "fst (run s)" "snd (run s)"]
    audited_operation.audited [OF job_operation.axioms(1) [OF assms(1)], of s "fst (run s)" "snd (run s)"] by simp

lemma handoff_operation_snd:
  assumes "handoff_operation run E" and "queue_inv E (queue_of (conn s))" "handoffs_inv (worker_handoffs (conn s))"
  shows "handoff_step\<^sup>*\<^sup>* (worker_handoffs (conn s)) (worker_handoffs (conn (snd (run s))))"
  using handoff_operation.hands_over [OF assms, of "fst (run s)" "snd (run s)"] by simp

lemma run_op_queue:
  assumes "queue_inv E (queue_of (conn s))"
  shows "(queue_step E)\<^sup>*\<^sup>* (queue_of (conn s)) (queue_of (conn (run_op E op s))) \<and> audit_ok (conn s) (conn (run_op E op s))"
  using job_operation_snd [OF set_mode.job_operation_axioms assms] job_operation_snd [OF new_generation.job_operation_axioms assms]
    job_operation_snd [OF audit_event.job_operation_axioms assms] job_operation_snd [OF progress.job_operation_axioms assms]
    job_operation_snd [OF upsert.job_operation_axioms assms] job_operation_snd [OF persist_identity.job_operation_axioms assms]
    job_operation_snd [OF clear_identity.job_operation_axioms assms] job_operation_snd [OF restart_recorded.job_operation_axioms assms]
    job_operation_snd [OF submit_job.job_operation_axioms assms] job_operation_snd [OF claim_job.job_operation_axioms assms]
    job_operation_snd [OF complete_job.job_operation_axioms assms] job_operation_snd [OF fail_job.job_operation_axioms assms]
    job_operation_snd [OF quarantine_jobs.job_operation_axioms assms] job_operation_snd [OF intent_ops.job_operation_axioms assms]
    job_operation_snd [OF admission.job_operation_axioms assms] job_operation_snd [OF submission.job_operation_axioms assms]
    job_operation_snd [OF retry.job_operation_axioms assms] job_operation_snd [OF quarantine.job_operation_axioms assms]
    job_operation_snd [OF backup_completion.job_operation_axioms assms] job_operation_snd [OF configure_binding.job_operation_axioms assms]
    job_operation_snd [OF set_control.job_operation_axioms assms] job_operation_snd [OF claim_handoff.job_operation_axioms assms]
    job_operation_snd [OF mark_dispatched.job_operation_axioms assms] job_operation_snd [OF mark_admitted.job_operation_axioms assms]
    job_operation_snd [OF complete_handoff.job_operation_axioms assms] job_operation_snd [OF acknowledge_handoff.job_operation_axioms assms]
  by (cases op) (simp_all only: run_op.simps)

lemma worker_view_handoffs: "worker_view d' = worker_view d \<Longrightarrow> worker_handoffs d' = worker_handoffs d"
  by (simp add: worker_view_def)

lemma run_op_handoffs:
  assumes "queue_inv E (queue_of (conn s))" "handoffs_inv (worker_handoffs (conn s))"
  shows "handoff_step\<^sup>*\<^sup>* (worker_handoffs (conn s)) (worker_handoffs (conn (run_op E op s)))"
  by (cases op)
     (simp_all add: worker_view_frames [THEN worker_view_handoffs] binding_frame(3) control_frame(3)
       handoff_operation_snd [OF claim_handoff.handoff_operation_axioms assms]
       handoff_operation_snd [OF mark_dispatched.handoff_operation_axioms assms]
       handoff_operation_snd [OF mark_admitted.handoff_operation_axioms assms]
       handoff_operation_snd [OF complete_handoff.handoff_operation_axioms assms]
       handoff_operation_snd [OF acknowledge_handoff.handoff_operation_axioms assms])

lemma run_op_intents:
  assumes "intents_inv (launch_intents (conn s))"
  shows "intents_inv (launch_intents (conn (run_op E op s)))"
proof -
  have "intents_inv (launch_intents (conn (snd (run_intent_op E s iop))))" for iop
    using intent_ops.keeps_intents_inv [OF assms, of E iop "fst (run_intent_op E s iop)" "snd (run_intent_op E s iop)"] by simp
  then show ?thesis using assms by (cases op) (simp_all add: launch_frames)
qed

section \<open>The operator ledger\<close>

definition frozen :: "operator_row \<Rightarrow> operator_row" where
  "frozen r = r\<lparr>o_response_json := []\<rparr>"

definition ledger_kept :: "db \<Rightarrow> db \<Rightarrow> bool" where
  "ledger_kept d d' \<longleftrightarrow> operator_seq d \<le> operator_seq d'
     \<and> (\<exists>new. map frozen (operator_commands d') = map frozen (operator_commands d) @ new)"

lemma ledger_view_kept: "ledger_view d' = ledger_view d \<Longrightarrow> ledger_kept d d'"
  by (simp add: ledger_kept_def ledger_view_def)

lemma ledger_view_inv: "ledger_view d' = ledger_view d \<Longrightarrow> ledger_inv d \<Longrightarrow> ledger_inv d'"
  by (simp add: ledger_inv_def ledger_view_def)

lemma ledger_extends_kept: "ledger_extends d d' \<Longrightarrow> ledger_kept d d'"
  by (auto simp: ledger_extends_def ledger_kept_def)

lemma ledger_kept_trans: "ledger_kept a b \<Longrightarrow> ledger_kept b c \<Longrightarrow> ledger_kept a c"
  by (auto simp: ledger_kept_def)

lemma backup_ledger_kept:
  "ledger_kept (conn s) (conn (snd (complete_operator_backup E owner s receipt response backup_id now_ms)))"
proof -
  have "ledger_kept d d'" if "complete_backup_tx E receipt response backup_id now_ms d = Inr (x, d')" for d x d'
    using that
  proof (cases rule: complete_backup_tx_cases)
    case (already r v)
    then show ?thesis by (simp add: ledger_view_kept)
  next
    case (completed r)
    have "map frozen (update_where p (\<lambda>r. r\<lparr>o_response_json := v\<rparr>) t) = map frozen t" for p v t
      by (rule map_update_where) (simp add: frozen_def)
    then show ?thesis using completed(4) by (auto simp: insert_audit_tx_Inr ledger_kept_def)
  qed
  then show ?thesis
    by (auto simp: complete_operator_backup_def with_tx_def bindE_Inr ledger_view_kept split: sum.splits)
qed

lemma backup_ledger_inv:
  "ledger_inv (conn s) \<Longrightarrow> ledger_inv (conn (snd (complete_operator_backup E owner s receipt response backup_id now_ms)))"
  by (rule complete_backup_ledger_inv [OF prod.collapse [symmetric]])

lemma ledger_operation_kept: "ledger_operation run E \<Longrightarrow> ledger_kept (conn s) (conn (snd (run s)))"
  using ledger_operation.ledger_extended [of run E s "fst (run s)" "snd (run s)"] by (simp add: ledger_extends_kept)

lemma ledger_operation_inv: "ledger_operation run E \<Longrightarrow> ledger_inv (conn s) \<Longrightarrow> ledger_inv (conn (snd (run s)))"
  using ledger_operation.ledger_inv_kept [of run E s "fst (run s)" "snd (run s)"] by simp

lemmas ledger_operations = admission.ledger_operation_axioms submission.ledger_operation_axioms retry.ledger_operation_axioms
  quarantine.ledger_operation_axioms

lemma run_op_ledger_kept: "ledger_kept (conn s) (conn (run_op E op s))"
  by (cases op)
     (simp_all only: run_op.simps ledger_view_frames [THEN ledger_view_kept] backup_ledger_kept
       ledger_operations [THEN ledger_operation_kept])

lemma run_op_ledger_inv:
  assumes "ledger_inv (conn s)"
  shows "ledger_inv (conn (run_op E op s))"
  by (cases op)
     (simp_all only: run_op.simps ledger_view_frames [THEN ledger_view_inv, OF assms] backup_ledger_inv [OF assms]
       ledger_operations [THEN ledger_operation_inv, OF assms])

section \<open>The worker's authority\<close>

definition authority_inv :: "db \<Rightarrow> bool" where
  "authority_inv d \<longleftrightarrow> (\<forall>c. worker_control d = Some c \<longrightarrow> 0 < w_mode_sequence c \<and> w_mode_sequence c \<le> i64_max)"

definition authority_kept :: "db \<Rightarrow> db \<Rightarrow> bool" where
  "authority_kept d d' \<longleftrightarrow>
     (\<forall>b. worker_bindings d = Some b \<longrightarrow> worker_bindings d' = Some b)
     \<and> (\<forall>c. worker_control d = Some c \<longrightarrow>
          (\<exists>c'. worker_control d' = Some c' \<and> (c' = c \<or> w_mode_sequence c < w_mode_sequence c')))"

lemma authority_same:
  "worker_bindings d' = worker_bindings d \<Longrightarrow> worker_control d' = worker_control d \<Longrightarrow> authority_inv d \<Longrightarrow>
     authority_inv d' \<and> authority_kept d d'"
  by (simp add: authority_inv_def authority_kept_def)

lemma authority_kept_trans: "authority_kept a b \<Longrightarrow> authority_kept b c \<Longrightarrow> authority_kept a c"
  by (fastforce simp: authority_kept_def)

lemma control_set_later:
  assumes "set_control_tx E control now_ms d = Inr (c, d')" and "worker_control d = Some row"
  shows "d' = d \<or> (0 \<le> w_mode_sequence row \<and> wc_mode_sequence (control_of_row row) < wc_mode_sequence control)"
proof -
  obtain fresh where seq: "check_control_sequence E control now_ms d = Inr fresh" and no: "\<not> fresh \<Longrightarrow> d' = d"
    using assms(1) by (auto simp: set_control_tx_def bindE_Inr split: if_splits)
  from seq show ?thesis
    by (cases rule: check_control_sequence_cases) (use assms(2) no in \<open>auto dest: control_from_row_Inr\<close>)
qed

lemma set_control_authority:
  assumes run: "set_control_tx E control now_ms d = Inr (c, d')" and inv: "authority_inv d"
  shows "authority_inv d' \<and> authority_kept d d'"
  using run
proof (cases rule: set_control_tx_cases)
  case (repeat row)
  then show ?thesis using inv by (simp add: authority_same)
next
  case (fresh b)
  let ?row = "control_row_of control (uint (wc_mode_sequence control)) (uint now_ms)"
  have new: "worker_control d' = Some ?row" "worker_bindings d' = worker_bindings d"
    using fresh(6) by (auto simp: insert_audit_tx_Inr)
  have seq: "w_mode_sequence ?row = uint (wc_mode_sequence control)" by (simp add: control_row_of_def)
  have range: "0 < uint (wc_mode_sequence control)" "uint (wc_mode_sequence control) \<le> i64_max"
    using fresh(2)
    by (auto simp: validate_control_def bindE_Inr ensure_Inr MAX_WORKER_WIRE_INTEGER_def i64_max_def word_le_def
        not_less word_neq_0_conv word_less_def)
  have "d' = d \<or> w_mode_sequence row < uint (wc_mode_sequence control)" if row: "worker_control d = Some row" for row
  proof -
    have "w_mode_sequence row \<le> i64_max" using inv row by (simp add: authority_inv_def)
    then show ?thesis
      using control_set_later [OF run row]
      by (auto simp: control_of_row_def word_less_def i64_max_def uint_word_of_int mod_pos_pos_trivial)
  qed
  then show ?thesis using new seq range by (auto simp: authority_inv_def authority_kept_def)
qed

lemma run_op_authority:
  assumes "authority_inv (conn s)"
  shows "authority_inv (conn (run_op E op s)) \<and> authority_kept (conn s) (conn (run_op E op s))"
proof -
  have kept: "authority_inv d' \<and> authority_kept (conn s) d'" if "worker_view d' = worker_view (conn s)" for d'
    using that assms by (simp add: worker_view_def authority_same)
  have view: "authority_inv d' \<and> authority_kept (conn s) d'" if "outside_worker d' = outside_worker (conn s)" for d'
    using that assms by (simp add: outside_worker_def authority_same)
  have bind: "authority_inv (conn (snd (configure_worker_binding_at E s binding now_ms)))
      \<and> authority_kept (conn s) (conn (snd (configure_worker_binding_at E s binding now_ms)))" for binding now_ms
  proof -
    have "authority_inv d' \<and> authority_kept (conn s) d'"
      if "configure_binding_tx E binding now_ms (conn s) = Inr (b, d')" for b d'
      using that assms
      by (cases rule: configure_binding_tx_cases) (auto simp: insert_audit_tx_Inr authority_inv_def authority_kept_def)
    then show ?thesis using kept by (auto simp: configure_worker_binding_at_def with_tx_def split: sum.splits)
  qed
  have ctl: "authority_inv (conn (snd (set_worker_control_at E s control now_ms)))
      \<and> authority_kept (conn s) (conn (snd (set_worker_control_at E s control now_ms)))" for control now_ms
    using kept set_control_authority [OF _ assms] by (auto simp: set_worker_control_at_def with_tx_def split: sum.splits)
  show ?thesis
    by (cases op) (simp_all only: run_op.simps worker_view_frames [THEN kept] worker_frames [THEN view] bind ctl)
qed

section \<open>Every sequence of operations\<close>

definition system_inv :: "externals \<Rightarrow> store \<Rightarrow> bool" where
  "system_inv E s \<longleftrightarrow> queue_inv E (queue_of (conn s)) \<and> handoffs_inv (worker_handoffs (conn s))
     \<and> intents_inv (launch_intents (conn s)) \<and> ledger_inv (conn s) \<and> audit_bounded (conn s) \<and> authority_inv (conn s)"

definition system_kept :: "store \<Rightarrow> store \<Rightarrow> bool" where
  "system_kept s s' \<longleftrightarrow> history_kept (queue_of (conn s)) (queue_of (conn s'))
     \<and> handoffs_kept (worker_handoffs (conn s)) (worker_handoffs (conn s'))
     \<and> ledger_kept (conn s) (conn s') \<and> audit_extends (conn s) (conn s') \<and> authority_kept (conn s) (conn s')"

lemma run_op_system:
  assumes "system_inv E s"
  shows "system_inv E (run_op E op s)" "system_kept s (run_op E op s)"
proof -
  have q: "queue_inv E (queue_of (conn s))" and h: "handoffs_inv (worker_handoffs (conn s))"
    and rest: "intents_inv (launch_intents (conn s))" "ledger_inv (conn s)" "authority_inv (conn s)" "audit_bounded (conn s)"
    using assms by (simp_all add: system_inv_def)
  note queue = run_op_queue [OF q, of op] and kept = handoff_steps_keep [OF run_op_handoffs [OF q h, of op] h]
  note jobs = queue_steps_keep [OF conjunct1 [OF queue] q]
  show "system_inv E (run_op E op s)" "system_kept s (run_op E op s)"
    using queue kept jobs rest run_op_intents run_op_ledger_inv run_op_ledger_kept run_op_authority
    by (simp_all add: system_inv_def system_kept_def audit_ok_def)
qed

lemma system_kept_trans: "system_kept a b \<Longrightarrow> system_kept b c \<Longrightarrow> system_kept a c"
  unfolding system_kept_def
  using history_kept_trans handoffs_kept_trans ledger_kept_trans audit_extends_trans authority_kept_trans by metis

lemma run_ops_system:
  assumes "system_inv E s"
  shows "system_inv E (run_ops E ops s) \<and> system_kept s (run_ops E ops s)"
  using assms
proof (induction ops arbitrary: s)
  case Nil
  then show ?case
    by (auto simp: run_ops_def system_kept_def history_kept_def attempts_kept_def jobs_kept_def handoffs_kept_def
        ledger_view_kept authority_kept_def)
next
  case (Cons op ops)
  then show ?case
    using run_op_system [OF Cons.prems, of op] Cons.IH [of "run_op E op s"] system_kept_trans
    by (auto simp: run_ops_def)
qed

section \<open>Facts across operations\<close>

lemma run_ops_handoffs:
  assumes "system_inv E s" and "h \<in> set (worker_handoffs (conn s))"
  obtains h' where "h' \<in> set (worker_handoffs (conn (run_ops E ops s)))" "same_handoff h h'"
    "handoff_rank (h_state h) \<le> handoff_rank (h_state h')"
    "handoff_is_terminal (h_state h) \<Longrightarrow> handoff_is_terminal (h_state h') \<and> same_evidence h h'"
proof -
  have "handoffs_kept (worker_handoffs (conn s)) (worker_handoffs (conn (run_ops E ops s)))"
    using run_ops_system [OF assms(1)] by (simp add: system_kept_def)
  with assms(2) show thesis using that unfolding handoffs_kept_def by blast
qed

lemma run_ops_found:
  assumes "system_inv E s" and "find (\<lambda>h. h_handoff_id h = i) (worker_handoffs (conn s)) = Some h"
    and "find (\<lambda>h. h_handoff_id h = i) (worker_handoffs (conn (run_ops E ops s))) = Some h'"
  shows "handoff_rank (h_state h) \<le> handoff_rank (h_state h')"
    "handoff_is_terminal (h_state h) \<Longrightarrow> handoff_is_terminal (h_state h') \<and> same_evidence h h'"
proof -
  note h = found_handoff [OF assms(2)] and h' = found_handoff [OF assms(3)]
  obtain x where x: "x \<in> set (worker_handoffs (conn (run_ops E ops s)))" "same_handoff h x"
    "handoff_rank (h_state h) \<le> handoff_rank (h_state x)"
    "handoff_is_terminal (h_state h) \<Longrightarrow> handoff_is_terminal (h_state x) \<and> same_evidence h x"
    using run_ops_handoffs [OF assms(1)] h by blast
  have "distinct (map h_handoff_id (worker_handoffs (conn (run_ops E ops s))))"
    using run_ops_system [OF assms(1)] by (simp add: system_inv_def handoffs_inv_def)
  then have "x = h'" by (rule key_unique [OF _ x(1) conjunct1 [OF h']]) (use x(2) h h' in \<open>simp add: same_handoff_def\<close>)
  with x show "handoff_rank (h_state h) \<le> handoff_rank (h_state h')"
    "handoff_is_terminal (h_state h) \<Longrightarrow> handoff_is_terminal (h_state h') \<and> same_evidence h h'" by simp_all
qed

text \<open>What a successful step of the worker protocol leaves in the handoff table.\<close>

lemma find_updated:
  assumes "\<And>h. h_handoff_id (f h) = h_handoff_id h"
    and "find (\<lambda>h. h_handoff_id h = i) hs = Some r" and "p r"
  shows "find (\<lambda>h. h_handoff_id h = i) (update_where (\<lambda>h. h_handoff_id h = i \<and> p h) f hs) = Some (f r)"
  using assms(2) by (induction hs) (auto simp: update_where_def assms(1,3) split: if_splits)

lemma dispatch_recorded:
  assumes "mark_worker_handoff_may_have_been_dispatched_at E s t now_ms = (Inr w, s')"
  obtains h where "find (\<lambda>h. h_handoff_id h = tu_handoff_id t) (worker_handoffs (conn s')) = Some h"
    "h_state h = HMayHaveBeenDispatched"
proof -
  obtain u d' where tx: "mark_dispatched_tx E (max_payload_bytes s) t now_ms (conn s) = Inr (u, d')"
    and s': "s' = s\<lparr>conn := d'\<rparr>"
    using assms by (auto simp: mark_worker_handoff_may_have_been_dispatched_at_def bindS_def with_tx_def split: sum.splits)
  from tx show thesis
  proof (cases rule: mark_dispatched_tx_cases)
    case (1 r raw job)
    let ?f = "\<lambda>h. h\<lparr>h_state := HMayHaveBeenDispatched, h_dispatched_at_ms := Some (uint now_ms), h_updated_at_ms := uint now_ms\<rparr>"
    have "find (\<lambda>h. h_handoff_id h = tu_handoff_id t) (worker_handoffs (conn s')) = Some (?f r)"
      using 1(7) find_updated [of ?f "tu_handoff_id t", OF _ 1(1), where p = "\<lambda>h. h_state h = HPrepared"] 1(5) s'
      by (auto simp: insert_audit_tx_Inr)
    then show thesis using that by simp
  qed
qed

lemma completion_recorded:
  assumes "complete_worker_handoff_with_authority_at E s t receipt authority now_ms = (Inr c, s')"
  obtains h where "find (\<lambda>h. h_handoff_id h = tu_handoff_id t) (worker_handoffs (conn s')) = Some h"
    "handoff_is_terminal (h_state h)" "h_terminal_digest h = Some (terminal_digest E t receipt)"
    "wcp_terminal_digest c = terminal_digest E t receipt"
    "\<forall>h. find (\<lambda>h. h_handoff_id h = tu_handoff_id t) (worker_handoffs (conn s)) = Some h \<longrightarrow> handoff_is_terminal (h_state h)
       \<longrightarrow> wcp_already_completed c \<and> s' = s"
proof -
  obtain already d' where tx: "complete_handoff_tx E (max_payload_bytes s) t receipt authority now_ms (conn s) = Inr (already, d')"
    and s': "s' = s\<lparr>conn := d'\<rparr>"
    and c: "wcp_terminal_digest c = terminal_digest E t receipt" "wcp_already_completed c = already"
    using assms
    by (auto simp: complete_worker_handoff_with_authority_at_def bindS_def with_tx_def bindE_Inr split: sum.splits)
  from tx show thesis
  proof (cases rule: complete_handoff_tx_cases)
    case (replayed r raw existing)
    show thesis by (rule that [of r]) (use replayed raw_handoff_receipt [OF replayed(2,5)] c s' in auto)
  next
    case (committed r raw job)
    let ?h = "terminal_handoff receipt (json_to_string E (compact_value receipt)) (terminal_digest E t receipt)
        (uint (tr_checkpoint_sequence receipt)) (uint now_ms) r"
    have "h_handoff_id (terminal_handoff receipt v digest cp now h) = h_handoff_id h" for v digest cp now h
      by (simp add: terminal_handoff_def)
    with committed(8) have "find (\<lambda>h. h_handoff_id h = tu_handoff_id t) (worker_handoffs d') = Some ?h"
      using find_updated [OF _ committed(1), where p = "\<lambda>h. h_state h \<in> {HMayHaveBeenDispatched, HAdmitted}"] committed(5)
      by (elim commit_terminal_cases) (simp add: insert_audit_tx_Inr del: insert_iff)
    moreover have "handoff_is_terminal (terminal_state st)" for st by (cases st) (simp_all add: handoff_is_terminal_def)
    moreover have "\<not> handoff_is_terminal (h_state r)" using committed(5) by (auto simp: handoff_is_terminal_def)
    ultimately show thesis by (intro that [of ?h]) (use committed(1) s' c in \<open>auto simp: terminal_handoff_def\<close>)
  qed
qed

lemma claims_need_settled:
  "claim_next_job E s worker_id now_ms attempt_id = (Inr (Some c), s') \<Longrightarrow> \<forall>a \<in> set (attempts (conn s)). \<not> unresolved a"
  "claim_next_worker_handoff E s witness now_ms ids = (Inr (Some h), s') \<Longrightarrow> \<forall>a \<in> set (attempts (conn s)). \<not> unresolved a"
proof -
  show "\<forall>a \<in> set (attempts (conn s)). \<not> unresolved a"
    if "claim_next_job E s worker_id now_ms attempt_id = (Inr (Some c), s')"
    using that by (rule claim_next_job_cases) (simp_all add: unresolved_attempt_None)
  show "\<forall>a \<in> set (attempts (conn s)). \<not> unresolved a"
    if run: "claim_next_worker_handoff E s witness now_ms ids = (Inr (Some h), s')"
  proof -
    obtain i d' where "claim_handoff_tx E (max_payload_bytes s) witness now_ms ids (conn s) = Inr (Some i, d')"
      using run by (auto simp: claim_next_worker_handoff_def bindS_def with_tx_def split: sum.splits option.splits)
    then show ?thesis by (cases rule: claim_handoff_tx_cases) auto
  qed
qed

lemma claims_settle:
  assumes "system_inv E s" and "a \<in> set (attempts (conn s))"
    and "(\<exists>w n i c s2. claim_next_job E (run_ops E ops s) w n i = (Inr (Some c), s2))
         \<or> (\<exists>witness n ids h s2. claim_next_worker_handoff E (run_ops E ops s) witness n ids = (Inr (Some h), s2))"
  obtains a' where "a' \<in> set (attempts (conn (run_ops E ops s)))" "a_id a' = a_id a" "a_job_id a' = a_job_id a"
    "a_status a' \<in> {ACompleted, AFailed}"
proof -
  have "attempts_kept (attempts (conn s)) (attempts (conn (run_ops E ops s)))"
    using run_ops_system [OF assms(1)] by (simp add: system_kept_def history_kept_def queue_of_def)
  with assms(2) obtain a' where a': "a' \<in> set (attempts (conn (run_ops E ops s)))" "a_id a' = a_id a" "a_job_id a' = a_job_id a"
    unfolding attempts_kept_def same_attempt_def by metis
  moreover have "\<not> unresolved a'" using assms(3) a'(1) claims_need_settled by blast
  ultimately show thesis by (intro that [of a']) (cases "a_status a'"; simp add: unresolved_def)+
qed

lemma claimed_attempt:
  assumes "system_inv E s" and "claim_next_job E s worker_id now_ms attempt_id = (Inr (Some c), s')"
  obtains a where "a \<in> set (attempts (conn s'))" "a_id a = attempt_id" "a_job_id a = jr_id (jc_job c)"
  using assms(2)
proof (cases rule: claim_next_job_cases)
  case (2 limit j d')
  have ids: "distinct (map j_id (jobs (conn s)))" using assms(1) by (simp add: system_inv_def queue_inv_def queue_of_def)
  obtain n where "jr_id (jc_job c) = j_id j"
    "attempts d' = attempts (conn s) @ [running_attempt attempt_id (j_id j) n worker_id (uint now_ms)]"
    by (rule claim_ready_job_Some [OF 2(4) ready_job_Some(1,2) [OF 2(3)] ids]) simp
  then show thesis using that [of "running_attempt attempt_id (j_id j) n worker_id (uint now_ms)"] 2(5) by simp
qed simp

section \<open>Concrete runs\<close>

lemma sample_worker_tables [simp]:
  "launch_intents (conn (sample_worker_store js as hs au)) = []" "operator_commands (conn (sample_worker_store js as hs au)) = []"
  "operator_seq (conn (sample_worker_store js as hs au)) = 0"
  "worker_control (conn (sample_worker_store js as hs au)) = Some (control_row_of (sample_control 1) 1 1)"
  by (simp_all add: sample_worker_store_def Let_def) (simp_all add: sample_bound_def sample_store_def blank_db_def)

lemma sample_worker_system:
  assumes "queue_inv externals_worker (js, as)" and "handoffs_inv hs"
  shows "system_inv externals_worker (sample_worker_store js as hs [])"
  using assms by (simp add: system_inv_def queue_of_def audit_bounded_def authority_inv_def ledger_inv_def control_row_of_def
    i64_max_def)

lemma sample_running_queue: "queue_inv externals_worker ([sample_claimed], [sample_attempt])"
  by (simp add: queue_inv_def one_unresolved_def job_ok_def attempt_ok_def sample_claimed_def claimed_job_def
      sample_worker_job_def queued_job_def sample_attempt_def running_attempt_def)

abbreviation sample_prepared :: store where
  "sample_prepared \<equiv> sample_worker_store [sample_claimed] [sample_attempt] [sample_phase HPrepared None None 5] []"

lemma sample_system_inv:
  "system_inv externals_worker (sample_worker_store [sample_worker_job] [] [] [])"
  "system_inv externals_worker sample_prepared"
  "system_inv externals_worker sample_dispatched"
proof -
  show "system_inv externals_worker (sample_worker_store [sample_worker_job] [] [] [])"
    using sample_worker_inv by (simp add: sample_worker_system queue_of_def)
  have "handoffs_inv [sample_phase HPrepared None None 5]"
    by (simp add: handoffs_inv_def handoff_columns_def sample_phase_def sample_handoff_def prepared_handoff_def handoff_is_terminal_def)
  then show "system_inv externals_worker sample_prepared" by (rule sample_worker_system [OF sample_running_queue])
  show "system_inv externals_worker sample_dispatched"
    by (rule sample_worker_system [OF sample_running_queue sample_handoffs_inv(1)])
qed

lemma sample_dispatch_run:
  "\<exists>w s'. mark_worker_handoff_may_have_been_dispatched_at externals_worker sample_prepared sample_tuple 6 = (Inr w, s')"
proof -
  let ?h = "sample_phase HMayHaveBeenDispatched (Some 6) None 6"
  have "valid_audit ''worker_handoff_may_have_been_dispatched'' ''h''"
    by (simp add: valid_audit_def plain_guards plain_def byte_def max_audit_detail_bytes_def)
  then obtain au where audit: "insert_audit_tx (conn (sample_worker_store js as hs [])) ''worker_handoff_may_have_been_dispatched'' ''h'' 6
      = Inr (conn (sample_worker_store js as hs au))" for js as hs
    using insert_audit_tx_succeeds [of _ _ "conn (sample_worker_store _ _ _ [])" 6]
      sample_audit(2) [of "''worker_handoff_may_have_been_dispatched''"] by (simp add: i64_max_def)
  have read: "require_handoff_tx externals_worker (conn sample_prepared) sample_tuple 1024 = Inr (sample_raw HPrepared None None 5)"
    unfolding require_handoff_tx_Inr using sample_phase_read(1) sample_agreements(1) by fastforce
  have "load_handoff externals_worker (conn (sample_worker_store [sample_claimed] [sample_attempt] [?h] au)) ''h'' 1024
    = Inr (Some (handoff_of (sample_raw HMayHaveBeenDispatched (Some 6) None 6) (sample_job_record JRunning)))"
    unfolding load_handoff_Some using sample_phase_read(2) sample_agreements(2) by fastforce
  moreover have "validate_dispatch_control_tx externals_worker (conn sample_prepared) (sample_raw HPrepared None None 5) = Inr ()"
    by (simp add: validate_dispatch_control_tx_def sample_raw_def worker_handoff_tuple.defs sample_tuple_def sample_binding_def
        sample_control_def metadata_from_conn_def parse_mode_def)
  moreover have "validate_handoff_transition_time (sample_raw HPrepared None None 5) 6 ''dispatch'' = Inr ()"
    "rh_state (sample_raw HPrepared None None 5) = HPrepared"
    by (simp_all add: validate_handoff_transition_time_def prior_phase_at_ms_def sample_raw_def worker_handoff_tuple.defs)
  moreover have "(sample_phase HPrepared None None 5)\<lparr>h_state := HMayHaveBeenDispatched, h_dispatched_at_ms := Some 6,
      h_updated_at_ms := 6\<rparr> = ?h" by (simp add: sample_phase_def)
  ultimately show ?thesis using read sample_raw_tuple(1) audit
    by (simp add: mark_worker_handoff_may_have_been_dispatched_at_def mark_dispatched_tx_def with_tx_def bindS_def
        sqlite_timestamp_def i64_max_def Let_def matching_def update_where_def get_worker_handoff_def)
qed

lemma sample_complete_again:
  "\<exists>c. complete_worker_handoff_with_authority_at externals_worker (sample_settled TCompleted au) sample_tuple (sample_receipt TCompleted)
     OriginalIncarnation 9 = (Inr c, sample_settled TCompleted au)"
proof -
  have "compact_terminal_result externals_worker (sample_receipt TCompleted) = Inr (''{}'', WORKER_HANDOFF_PAYLOAD_DIGEST)"
    by (simp add: compact_terminal_result_def compact_value_def MAX_WORKER_RESULT_BYTES_def)
  moreover have "terminal_digest externals_worker sample_tuple (sample_receipt TCompleted) = WORKER_HANDOFF_PAYLOAD_DIGEST"
    by (simp add: terminal_digest_def)
  moreover have "validate_terminal_receipt (sample_receipt TCompleted) = Inr ()"
    by (simp add: validate_terminal_receipt_def sample_receipt_def validate_name_def plain_guards plain_def byte_def
       MAX_TERMINAL_REF_BYTES_def validate_digest_value_def sample_digest_valid MAX_WORKER_WIRE_INTEGER_def)
  moreover have "rh_state (sample_terminal_raw TCompleted) = HCompleted" "rh_terminal (sample_terminal_raw TCompleted)
      = Some (worker_terminal_receipt.extend (sample_receipt TCompleted) \<lparr>te_terminal_digest = WORKER_HANDOFF_PAYLOAD_DIGEST\<rparr>)"
    by (simp_all add: sample_terminal_raw_def sample_raw_def worker_handoff_tuple.defs)
  ultimately show ?thesis
    using sample_settled_read [of TCompleted au] sample_raw_tuple(2) sample_incarnation(2)
    by (simp add: complete_worker_handoff_with_authority_at_def with_tx_def bindS_def complete_handoff_tx_def Let_def
      handoff_is_terminal_def worker_terminal_receipt.defs del: terminal_job.simps)
qed

lemma sample_queued_inv: "system_inv externals_sample sample_queued"
  by (simp add: system_inv_def sample_queued_def sample_store_def blank_db_def queue_of_def queue_inv_def one_unresolved_def
      job_ok_def audit_bounded_def authority_inv_def ledger_inv_def i64_max_def)

lemma sample_running_system: "system_inv externals_sample sample_running"
proof -
  have "worker_handoffs (conn sample_running) = []" "launch_intents (conn sample_running) = []" "operator_commands (conn sample_running) = []"
    "operator_seq (conn sample_running) = 0" "audit_log (conn sample_running) = []" "worker_control (conn sample_running) = None"
    by (simp_all add: sample_running_def sample_store_def blank_db_def)
  then show ?thesis using sample_running_inv by (simp add: system_inv_def audit_bounded_def authority_inv_def ledger_inv_def i64_max_def)
qed

lemma sample_reclaim_run:
  "\<exists>c s1 c' s2. claim_next_job externals_sample sample_queued ''worker'' 5 ''attempt'' = (Inr (Some c), s1)
     \<and> claim_next_job externals_sample (run_ops externals_sample [FailJob ''job'' ''attempt'' ''error'' (Some 7) 6] s1) ''worker'' 8 ''second''
       = (Inr (Some c'), s2)"
  by (simp add: claim_next_job_def claim_ready_job_def ready_job_def unresolved_attempt_def eval_defs
        sample_queued_def sample_store_def blank_db_def queued_job_def parse_mode_def payload_read_limit_def
        checked_add_def select_first_def select_ordered_def validate_claim_payload_def externals_sample_def
        is_continuation_def matching_def insert_attempt_row_def insert_row_def update_where_def run_ops_def fail_job_at_def
        running_attempt_def)

end
