(* ===== verification/Worker_Stranding.thy ===== *)
theory Worker_Stranding
  imports Watchdog_System
begin

text \<open>
  What becomes of an attempt that was recorded as unknown: only the completion of its handoff can settle
  it, so an attempt whose handoff cannot be read stays unknown in every run of the store.
\<close>

section \<open>Unknown attempts\<close>

definition unknowns_kept :: "db \<Rightarrow> db \<Rightarrow> bool" where
  "unknowns_kept d d' \<longleftrightarrow> (\<forall>a \<in> set (attempts d). a_status a = AUnknown \<longrightarrow> a \<in> set (attempts d'))"

lemma unknowns_same: "attempts d' = attempts d \<Longrightarrow> unknowns_kept d d'"
  by (simp add: unknowns_kept_def)

lemma unknowns_refl [simp]: "unknowns_kept d d"
  by (simp add: unknowns_kept_def)

lemma unknowns_quiet: "queue_of d' = queue_of d \<Longrightarrow> unknowns_kept d d'"
  by (simp add: queue_of_def unknowns_same)

lemma unknowns_appended: "attempts d' = attempts d @ new \<Longrightarrow> unknowns_kept d d'"
  by (simp add: unknowns_kept_def)

lemma unknowns_updated:
  "attempts d' = update_where p f (attempts d) \<Longrightarrow> (\<And>a. p a \<Longrightarrow> a_status a \<noteq> AUnknown) \<Longrightarrow> unknowns_kept d d'"
  by (auto simp: unknowns_kept_def set_update_where image_iff intro: rev_bexI)

lemma unknowns_tx:
  "(\<And>x d'. f (conn s) = Inr (x, d') \<Longrightarrow> unknowns_kept (conn s) d') \<Longrightarrow> unknowns_kept (conn s) (conn (snd (with_tx s f)))"
  by (auto simp: with_tx_def unknowns_same split: sum.splits)

lemma unknowns_bindS:
  assumes "\<And>x s'. snd (g x s') = s'" and "unknowns_kept d (conn (snd m))"
  shows "unknowns_kept d (conn (snd (bindS m g)))"
  using assms by (cases m) (auto simp: bindS_def split: sum.splits)

lemma quiet_unknowns: "quiet_operation run \<Longrightarrow> unknowns_kept (conn s) (conn (snd (run s)))"
  using quiet_operation.quiet [of run s "fst (run s)" "snd (run s)"] by (simp add: unknowns_quiet)

lemma quarantine_loop_unknowns: "quarantine_jobs_loop now_ms js d = Inr d' \<Longrightarrow> unknowns_kept d d'"
proof (induction js arbitrary: d)
  case (Cons j js)
  then obtain d1 where d1: "quarantine_interrupted_job now_ms j d = Inr d1" "quarantine_jobs_loop now_ms js d1 = Inr d'"
    by (auto simp: bindE_Inr)
  have "unknowns_kept d d1"
    using d1(1) by (auto simp: quarantine_interrupted_job_def result_simps Let_def intro: unknowns_updated)
  then show ?case using Cons.IH [OF d1(2)] by (simp add: unknowns_kept_def)
qed (simp add: unknowns_same)

lemma job_unknowns:
  "unknowns_kept (conn s) (conn (snd (submit_job_at E s kind payload now_ms new_id)))"
  "unknowns_kept (conn s) (conn (snd (claim_next_job E s worker_id now_ms attempt_id)))"
  "unknowns_kept (conn s) (conn (snd (complete_job_at E s job_id attempt_id result now_ms)))"
  "unknowns_kept (conn s) (conn (snd (fail_job_at s job_id attempt_id error retry_at_ms now_ms)))"
  "unknowns_kept (conn s) (conn (snd (quarantine_interrupted_jobs s now_ms)))"
proof -
  show "unknowns_kept (conn s) (conn (snd (submit_job_at E s kind payload now_ms new_id)))"
    unfolding submit_job_at_def Let_def
    by (rule unknowns_bindS, simp, rule unknowns_tx, auto simp: result_simps intro: unknowns_same)
  have "unknowns_kept d d'" if "claim_ready_job E bound worker_id now_ms attempt_id limit r d = Inr (c, d')" for bound limit r d c d'
    using that by (auto simp: claim_ready_job_def result_simps Let_def split: if_splits intro: unknowns_appended unknowns_same)
  then show "unknowns_kept (conn s) (conn (snd (claim_next_job E s worker_id now_ms attempt_id)))"
    unfolding claim_next_job_def
    by (intro unknowns_tx) (auto simp: bindE_Inr unknowns_same split: if_splits option.splits)
  have "unknowns_kept d d'" if "complete_running job_id attempt_id result encoded digest now_ms job d = Inr (c, d')"
    for encoded digest job d c d'
    using that by (auto simp: complete_running_def result_simps Let_def intro: unknowns_updated)
  then show "unknowns_kept (conn s) (conn (snd (complete_job_at E s job_id attempt_id result now_ms)))"
    unfolding complete_job_at_def
    by (intro unknowns_tx) (auto simp: bindE_Inr Let_def unknowns_same split: if_splits dest: complete_again_unchanged)
  show "unknowns_kept (conn s) (conn (snd (fail_job_at s job_id attempt_id error retry_at_ms now_ms)))"
    unfolding fail_job_at_def
    by (rule unknowns_tx) (auto simp: result_simps Let_def intro: unknowns_updated)
  show "unknowns_kept (conn s) (conn (snd (quarantine_interrupted_jobs s now_ms)))"
    unfolding quarantine_interrupted_jobs_def
    by (rule unknowns_tx) (auto simp: bindE_Inr Let_def dest: quarantine_loop_unknowns)
qed

lemma recorded_unknowns:
  assumes "record_operator_command d1 ctx cmd mode body response action now_ms = Inr (out, d')" and "unknowns_kept d d1"
  shows "unknowns_kept d d'"
  using record_operator_frame(1) [OF assms(1)] assms(2) by (simp add: unknowns_kept_def queue_of_def)

lemma admit_tx_unknowns:
  "admit_mutation_tx E ctx cmd response now_ms d = Inr (out, d') \<Longrightarrow> unknowns_kept d d'"
  "admit_submission_tx E bound ctx kind encoded now_ms new_id d = Inr (out, d') \<Longrightarrow> unknowns_kept d d'"
  "admit_retry_tx E ctx attempt_id reconstruction response now_ms d = Inr (out, d') \<Longrightarrow> unknowns_kept d d'"
  "admit_quarantine_tx E ctx attempt_id reason response now_ms d = Inr (out, d') \<Longrightarrow> unknowns_kept d d'"
proof -
  show "unknowns_kept d d'" if "admit_mutation_tx E ctx cmd response now_ms d = Inr (out, d')"
    using that
  proof (cases rule: admit_mutation_tx_cases)
    case (admit d1)
    have "unknowns_kept d d1" by (subst admit(5)) (simp add: unknowns_kept_def)
    then show ?thesis by (rule recorded_unknowns [OF admit(7)])
  qed (simp add: unknowns_same)
  show "unknowns_kept d d'" if "admit_submission_tx E bound ctx kind encoded now_ms new_id d = Inr (out, d')"
    using that
  proof (cases rule: admit_submission_tx_cases)
    case (admit d1)
    have "unknowns_kept d d1" using admit(4) by (auto simp: insert_job_tx_Inr unknowns_kept_def)
    then show ?thesis by (rule recorded_unknowns [OF admit(5)])
  qed (simp add: unknowns_same)
  show "unknowns_kept d d'" if "admit_retry_tx E ctx attempt_id reconstruction response now_ms d = Inr (out, d')"
    using that
  proof (cases rule: admit_retry_tx_cases)
    case (admit a j d2)
    have "unknowns_kept d d2" using admit(11) by (auto simp: insert_audit_tx_Inr unknowns_kept_def)
    then show ?thesis by (rule recorded_unknowns [OF admit(12)])
  qed (simp add: unknowns_same)
  show "unknowns_kept d d'" if "admit_quarantine_tx E ctx attempt_id reason response now_ms d = Inr (out, d')"
    using that
  proof (cases rule: admit_quarantine_tx_cases)
    case (admit a j d1 d3)
    have "unknowns_kept d d1"
      by (cases "a_status a = ARunning")
         (simp_all add: quarantine_attempt_Inr [OF admit(7)] unknowns_updated [OF _, where p = "\<lambda>x. a_id x = attempt_id \<and> a_status x = ARunning"])
    then have "unknowns_kept d d3" using admit(8) by (auto simp: insert_audit_tx_Inr unknowns_kept_def)
    then show ?thesis by (rule recorded_unknowns [OF admit(9)])
  qed (simp add: unknowns_same)
qed

lemma ledger_unknowns:
  "unknowns_kept (conn s) (conn (snd (admit_operator_command E owner s ctx cmd response now_ms)))"
  "unknowns_kept (conn s) (conn (snd (admit_operator_job_submission E owner s ctx kind payload now_ms new_id)))"
  "unknowns_kept (conn s) (conn (snd (admit_operator_retry E owner s ctx attempt_id reconstruction response now_ms)))"
  "unknowns_kept (conn s) (conn (snd (admit_operator_quarantine E owner s ctx attempt_id reason response now_ms)))"
  unfolding admit_operator_command_def admit_operator_job_submission_def admit_operator_retry_def admit_operator_quarantine_def
  subgoal by (rule unknowns_tx) (auto simp: bindE_Inr dest: admit_tx_unknowns(1) split: if_splits)
  subgoal by (rule unknowns_tx) (auto simp: bindE_Inr Let_def dest: admit_tx_unknowns(2))
  subgoal by (rule unknowns_tx) (auto simp: bindE_Inr dest: admit_tx_unknowns(3))
  subgoal by (rule unknowns_tx) (auto simp: bindE_Inr dest: admit_tx_unknowns(4))
  done

lemma claim_tx_unknowns:
  assumes "claim_handoff_tx E bound witness now_ms ids d = Inr (claimed, d')"
  shows "unknowns_kept d d'"
  using assms
  by (auto simp: claim_handoff_tx_def claim_worker_job_def commit_worker_claim_def bindE_Inr insert_attempt_row_Inr
      insert_handoff_row_Inr insert_audit_tx_Inr unknowns_kept_def split: if_splits option.splits)

lemma worker_unknowns:
  "unknowns_kept (conn s) (conn (snd (claim_next_worker_handoff E s witness now_ms ids)))"
  "unknowns_kept (conn s) (conn (snd (mark_worker_handoff_may_have_been_dispatched_at E s t now_ms)))"
  "unknowns_kept (conn s) (conn (snd (mark_worker_handoff_admitted_at E s t now_ms)))"
  "unknowns_kept (conn s) (conn (snd (acknowledge_worker_handoff_with_authority_at E s t digest authority now_ms)))"
  unfolding claim_next_worker_handoff_def mark_worker_handoff_may_have_been_dispatched_at_def mark_worker_handoff_admitted_at_def
    acknowledge_worker_handoff_with_authority_at_def
  subgoal by (rule unknowns_bindS, simp split: option.splits, rule unknowns_tx, erule claim_tx_unknowns)
  subgoal by (rule unknowns_bindS, simp, rule unknowns_tx, erule mark_dispatched_tx_cases) (auto simp: insert_audit_tx_Inr unknowns_kept_def)
  subgoal by (rule unknowns_bindS, simp, rule unknowns_tx, erule mark_admitted_tx_cases) (auto simp: insert_audit_tx_Inr unknowns_kept_def)
  subgoal by (rule unknowns_tx, erule acknowledge_tx_cases) (auto simp: insert_audit_tx_Inr unknowns_kept_def)
  done

lemmas quiet_operations = set_mode.quiet_operation_axioms new_generation.quiet_operation_axioms audit_event.quiet_operation_axioms
  progress.quiet_operation_axioms upsert.quiet_operation_axioms persist_identity.quiet_operation_axioms
  clear_identity.quiet_operation_axioms restart_recorded.quiet_operation_axioms intent_ops.quiet_operation_axioms
  backup_completion.quiet_operation_axioms configure_binding.quiet_operation_axioms set_control.quiet_operation_axioms

text \<open>Every operation but the completion of a handoff keeps the unknown attempts as they are.\<close>

lemma run_op_unknowns:
  assumes "\<And>t receipt authority now_ms. op \<noteq> CompleteHandoff t receipt authority now_ms"
  shows "unknowns_kept (conn s) (conn (run_op E op s))"
proof (cases op)
  case (CompleteHandoff t receipt authority now_ms)
  then show ?thesis using assms by blast
qed (simp_all add: quiet_operations [THEN quiet_unknowns] job_unknowns ledger_unknowns worker_unknowns)

section \<open>Stranded handoffs\<close>

definition finished_early :: "attempt_row \<Rightarrow> bool" where
  "finished_early a \<longleftrightarrow> a_started_at_ms a \<le> i64_max
     \<and> (case a_finished_at_ms a of None \<Rightarrow> False | Some f \<Rightarrow> 0 \<le> f \<and> f < a_started_at_ms a)"

definition stranded :: "store \<Rightarrow> string \<Rightarrow> attempt_row \<Rightarrow> bool" where
  "stranded s i a \<longleftrightarrow> a \<in> set (attempts (conn s)) \<and> a_status a = AUnknown \<and> finished_early a
     \<and> (\<exists>h \<in> set (worker_handoffs (conn s)). h_handoff_id h = i \<and> h_attempt_id h = a_id a)"

lemma stranded_unreadable:
  assumes "system_inv E s" and "stranded s (tu_handoff_id t) a"
  shows "require_handoff_tx E (conn s) t bound \<noteq> Inr raw"
proof -
  obtain h where h: "h \<in> set (worker_handoffs (conn s))" "h_handoff_id h = tu_handoff_id t" "h_attempt_id h = a_id a"
    and a: "a \<in> set (attempts (conn s))" "finished_early a"
    using assms(2) by (auto simp: stranded_def)
  have d: "distinct (map h_handoff_id (worker_handoffs (conn s)))" "distinct (map a_id (attempts (conn s)))"
    using assms(1) by (simp_all add: system_inv_def handoffs_inv_def queue_inv_def queue_of_def)
  have "find (\<lambda>x. h_handoff_id x = tu_handoff_id t) (worker_handoffs (conn s)) \<noteq> None"
    using h by (auto simp: find_None_iff)
  then obtain x where x: "find (\<lambda>x. h_handoff_id x = tu_handoff_id t) (worker_handoffs (conn s)) = Some x" by blast
  have "x = h" by (rule key_unique [OF d(1)]) (use found_handoff [OF x] h in auto)
  then show ?thesis
    using finish_before_start_unreadable [OF x d(2) a(1)] h(3) a(2) by (auto simp: finished_early_def split: option.splits)
qed

lemma stranded_completion:
  assumes "system_inv E s" and "stranded s (tu_handoff_id t) a"
  shows "\<exists>e. complete_worker_handoff_with_authority_at E s t receipt authority now_ms = (Inl e, s)"
  by (rule unreadable_handoff_stuck(1)) (rule stranded_unreadable [OF assms])

lemma completion_spares:
  assumes inv: "system_inv E s" and st: "stranded s i a"
  shows "a \<in> set (attempts (conn (snd (complete_worker_handoff_with_authority_at E s t receipt authority now_ms))))"
proof (cases "tu_handoff_id t = i")
  case True
  then obtain e where "complete_worker_handoff_with_authority_at E s t receipt authority now_ms = (Inl e, s)"
    using stranded_completion [OF inv] st by blast
  then show ?thesis using st by (simp add: stranded_def)
next
  case False
  obtain h where h: "h \<in> set (worker_handoffs (conn s))" "h_handoff_id h = i" "h_attempt_id h = a_id a" and a: "a \<in> set (attempts (conn s))"
    using st by (auto simp: stranded_def)
  have "a \<in> set (attempts d')" if "complete_handoff_tx E (max_payload_bytes s) t receipt authority now_ms (conn s) = Inr (already, d')"
    for already d'
    using that
  proof (cases rule: complete_handoff_tx_cases)
    case (committed r raw job)
    have "tu_attempt_id t = h_attempt_id r" using raw_handoff_fields [OF committed(2)] committed(3) by (auto simp: worker_handoff_tuple.defs)
    moreover have "h_attempt_id r \<noteq> a_id a"
    proof
      assume eq: "h_attempt_id r = a_id a"
      have "distinct (map h_attempt_id (worker_handoffs (conn s)))" using inv by (simp add: system_inv_def handoffs_inv_def)
      then have "r = h" by (rule key_unique) (use found_handoff [OF committed(1)] h eq in auto)
      then show False using found_handoff [OF committed(1)] h(2) False by simp
    qed
    ultimately show ?thesis
      using committed(8) a by (elim commit_terminal_cases) (auto simp: insert_audit_tx_Inr set_update_where image_iff intro!: rev_bexI [OF a])
  qed (simp add: a)
  then show ?thesis
    using a by (auto simp: complete_worker_handoff_with_authority_at_def with_tx_def bindS_def split: sum.splits)
qed

lemma run_op_stranded:
  assumes inv: "system_inv E s" and st: "stranded s i a"
  shows "stranded (run_op E op s) i a"
proof -
  have "a \<in> set (attempts (conn (run_op E op s)))"
  proof (cases "\<exists>t receipt authority now_ms. op = CompleteHandoff t receipt authority now_ms")
    case True
    then show ?thesis using completion_spares [OF assms] by auto
  next
    case False
    then have "unknowns_kept (conn s) (conn (run_op E op s))" by (intro run_op_unknowns) blast
    then show ?thesis using st by (simp add: stranded_def unknowns_kept_def)
  qed
  moreover obtain h where h: "h \<in> set (worker_handoffs (conn s))" "h_handoff_id h = i" "h_attempt_id h = a_id a"
    using st by (auto simp: stranded_def)
  have "handoffs_kept (worker_handoffs (conn s)) (worker_handoffs (conn (run_op E op s)))"
    using run_op_system(2) [OF inv] by (simp add: system_kept_def)
  then obtain h' where "h' \<in> set (worker_handoffs (conn (run_op E op s)))" "same_handoff h h'"
    using h(1) unfolding handoffs_kept_def by blast
  ultimately show ?thesis using st h unfolding stranded_def same_handoff_def by metis
qed

lemma run_ops_stranded:
  "system_inv E s \<Longrightarrow> stranded s i a \<Longrightarrow> stranded (run_ops E ops s) i a"
proof (induction ops arbitrary: s)
  case (Cons op ops)
  then show ?case
    using Cons.IH [OF run_op_system(1) [OF Cons.prems(1)] run_op_stranded [OF Cons.prems]] by (simp add: run_ops_def)
qed (simp add: run_ops_def)

text \<open>A clock that was set back makes the quarantine of interrupted work strand the handoff.\<close>

lemma rollback_strands:
  assumes inv: "system_inv E s" and run: "quarantine_interrupted_jobs s now_ms = (Inr n, s')"
    and a: "a \<in> set (attempts (conn s))" "a_status a = ARunning"
    and rollback: "uint now_ms < a_started_at_ms a" "a_started_at_ms a \<le> i64_max"
    and h: "h \<in> set (worker_handoffs (conn s))" "h_attempt_id h = a_id a"
  obtains b where "stranded s' (h_handoff_id h) b" "a_id b = a_id a"
proof -
  let ?a = "a\<lparr>a_status := AUnknown, a_finished_at_ms := Some (uint now_ms), a_outcome := Some ''daemon_interrupted''\<rparr>"
  have "queue_inv E (queue_of (conn s))" using inv by (simp add: system_inv_def)
  from interrupted_attempt [OF run this a]
  have "?a \<in> set (attempts (conn s'))" "worker_handoffs (conn s') = worker_handoffs (conn s)" by simp_all
  then show thesis by (intro that [of ?a]) (use rollback h in \<open>auto simp: stranded_def finished_early_def\<close>)
qed

end
