(* ===== verification/Bootstrap_Frames.thy ===== *)
theory Bootstrap_Frames
  imports Watchdog_Prelude
begin

text \<open>
  The two frames a child reads from its standard input: the worker bootstrap
  (\<^verbatim>\<open>worker_bootstrap.rs\<close>, \<^verbatim>\<open>worker_bootstrap/\<close>), a length-prefixed closed JSON document, and the
  Gateway health bootstrap (\<^verbatim>\<open>platform/gateway_health.rs\<close>), a fixed layout of nonce and key.
\<close>

section \<open>Bytes\<close>

text \<open>\<^verbatim>\<open>u32::to_be_bytes\<close> and \<^verbatim>\<open>u32::from_be_bytes\<close>.\<close>

definition u32_to_be_bytes :: "u32 \<Rightarrow> string" where
  "u32_to_be_bytes w =
     map (\<lambda>shift. char_of (unat w div 2 ^ shift mod 256)) [24, 16, 8, 0]"

definition u32_from_be_bytes :: "string \<Rightarrow> u32" where
  "u32_from_be_bytes bs = of_nat (foldl (\<lambda>n c. 256 * n + byte c) 0 (take 4 bs))"

lemma u32_be_length [simp]: "length (u32_to_be_bytes w) = 4"
  by (simp add: u32_to_be_bytes_def)

lemma u32_be_roundtrip: "u32_from_be_bytes (u32_to_be_bytes w @ rest) = w"
proof -
  let ?n = "unat w"
  have "?n < 4294967296" using unsigned_less [of w, where ?'a = nat] by simp
  then have top: "?n div 16777216 mod 256 = ?n div 16777216" by simp
  have bytes: "256 * (?n div 256) + ?n mod 256 = ?n" "256 * (?n div 65536) + ?n div 256 mod 256 = ?n div 256"
    "256 * (?n div 16777216) + ?n div 65536 mod 256 = ?n div 65536"
    using div_mult2_eq [of ?n 256 256] div_mult2_eq [of ?n 65536 256] by simp_all
  have "256 * (256 * (256 * (?n div 16777216) + ?n div 65536 mod 256) + ?n div 256 mod 256) + ?n mod 256 = ?n"
    by (simp only: bytes)
  then have "foldl (\<lambda>n c. 256 * n + byte c) 0 (take 4 (u32_to_be_bytes w @ rest)) = ?n"
    by (simp add: u32_to_be_bytes_def byte_def top)
  then show ?thesis by (simp only: u32_from_be_bytes_def) simp
qed

section \<open>Worker bootstrap\<close>

subsection \<open>Values\<close>

datatype bootstrap_error =
    FrameTooLarge | InvalidMagic | Truncated | InvalidLength | TrailingBytes | InvalidJson
  | InvalidSchema | InvalidUuid | InvalidComponent | InvalidPeer | InvalidPath | InvalidDigest
  | InvalidToken | InvalidNumber | Serialization

type_synonym 'a bootstrap_result = "bootstrap_error + 'a"

definition WORKER_MAGIC :: string where "WORKER_MAGIC = ''ASC-WB01''"
definition WORKER_VERSION :: u64 where "WORKER_VERSION = 1"
definition MAX_PAYLOAD_BYTES :: nat where "MAX_PAYLOAD_BYTES = 16384"
definition FRAME_PREFIX_BYTES :: nat where "FRAME_PREFIX_BYTES = length WORKER_MAGIC + 4"
definition MAX_WORKER_FRAME_BYTES :: nat where "MAX_WORKER_FRAME_BYTES = FRAME_PREFIX_BYTES + MAX_PAYLOAD_BYTES"
definition MAX_COMPONENT_ID_BYTES :: nat where "MAX_COMPONENT_ID_BYTES = 128"
definition MAX_EXECUTABLE_PATH_BYTES :: nat where "MAX_EXECUTABLE_PATH_BYTES = 4096"
definition MAX_SID_BYTES :: nat where "MAX_SID_BYTES = 184"
definition MAX_SID_SUBAUTHORITIES :: nat where "MAX_SID_SUBAUTHORITIES = 15"
definition MAX_SID_AUTHORITY :: u64 where "MAX_SID_AUTHORITY = 2 ^ 48 - 1"
definition MAX_JSON_DEPTH :: nat where "MAX_JSON_DEPTH = 16"

record linux_peer =
  lx_pid :: u32
  lx_creation_token :: string
  lx_executable :: string
  lx_executable_sha256 :: string
  lx_uid :: u32
  lx_gid :: u32

record windows_peer =
  wx_pid :: u32
  wx_creation_token :: string
  wx_executable :: string
  wx_executable_sha256 :: string
  wx_session_id :: u32
  wx_sid :: string

datatype expected_peer = LinuxPeer linux_peer | WindowsPeer windows_peer

record worker_bootstrap =
  wbs_version :: u64
  wbs_launch_nonce :: uuid
  wbs_watchdog_boot_id :: uuid
  wbs_component_id :: string
  wbs_expected_peer :: expected_peer

subsection \<open>Validation\<close>

definition uuid_is_nil :: "uuid \<Rightarrow> bool" where
  "uuid_is_nil u = (uuid_to_string u = ''00000000-0000-0000-0000-000000000000'')"

definition validate_uuid :: "uuid \<Rightarrow> unit bootstrap_result" where
  "validate_uuid value =
     ensure (\<not> (uuid_is_nil value \<or> uuid_variant_of value \<noteq> RFC4122 \<or> uuid_version_num value \<noteq> 4)) InvalidUuid"

definition parse_uuid :: "externals \<Rightarrow> string \<Rightarrow> uuid bootstrap_result" where
  "parse_uuid E value =
     bindE (map_err (\<lambda>_. InvalidUuid) (uuid_parse_str E value)) (\<lambda>u.
     bindE (ensure (uuid_to_string u = value) InvalidUuid) (\<lambda>_.
     bindE (validate_uuid u) (\<lambda>_. Inr u)))"

definition validate_component_id :: "string \<Rightarrow> unit bootstrap_result" where
  "validate_component_id value =
     ensure (\<not> (value = [] \<or> MAX_COMPONENT_ID_BYTES < length value \<or> value = ''.'' \<or> value = ''..''
               \<or> \<not> list_all (\<lambda>c. is_alphanumeric c \<or> c \<in> {CHR ''_'', CHR ''-'', CHR ''.''}) value))
       InvalidComponent"

definition parse_creation_token :: "string \<Rightarrow> u64 bootstrap_result" where
  "parse_creation_token value =
     bindE (ensure (\<not> (value = [] \<or> 20 < length value \<or> hd value = CHR ''0'' \<or> \<not> list_all is_digit value))
              InvalidToken) (\<lambda>_.
     ok_or InvalidToken (parse_u64 value))"

definition validate_linux_path :: "string \<Rightarrow> unit bootstrap_result" where
  "validate_linux_path value =
     ensure (\<not> (MAX_EXECUTABLE_PATH_BYTES < length value \<or> (value = [] \<or> hd value \<noteq> CHR ''/'') \<or> contains_nul value))
       InvalidPath"

text \<open>\<^verbatim>\<open>u8::is_ascii_alphabetic\<close>.\<close>

definition is_alphabetic :: "char \<Rightarrow> bool" where
  "is_alphabetic c \<longleftrightarrow> (65 \<le> byte c \<and> byte c \<le> 90) \<or> (97 \<le> byte c \<and> byte c \<le> 122)"

definition validate_windows_path :: "string \<Rightarrow> unit bootstrap_result" where
  "validate_windows_path value =
     ensure (\<not> (MAX_EXECUTABLE_PATH_BYTES < length value \<or> length value < 3
               \<or> \<not> is_alphabetic (value ! 0) \<or> value ! 1 \<noteq> CHR '':'' \<or> value ! 2 \<noteq> CHR 0x5C
               \<or> contains_nul value))
       InvalidPath"

definition validate_frame_sha256 :: "string \<Rightarrow> unit bootstrap_result" where
  "validate_frame_sha256 value = map_err (\<lambda>_. InvalidDigest) (validate_digest value)"

definition parse_canonical_decimal :: "string \<Rightarrow> u64 option" where
  "parse_canonical_decimal value =
     (if value = [] \<or> (1 < length value \<and> hd value = CHR ''0'') \<or> \<not> list_all is_digit value then None
      else parse_u64 value)"

text \<open>\<^verbatim>\<open>str::split\<close> at a character.\<close>

fun split_at :: "char \<Rightarrow> string \<Rightarrow> string list" where
  "split_at s [] = [[]]"
| "split_at s (c # cs) =
     (if c = s then [] # split_at s cs
      else (case split_at s cs of [] \<Rightarrow> [[c]] | f # fs \<Rightarrow> (c # f) # fs))"

definition validate_sid :: "string \<Rightarrow> unit bootstrap_result" where
  "validate_sid value =
     bindE (ensure (\<not> (value = [] \<or> MAX_SID_BYTES < length value \<or> \<not> list_all (\<lambda>c. byte c < 128) value))
              InvalidPeer) (\<lambda>_.
     case split_at (CHR ''-'') value of
       s # one # authority # subauthorities \<Rightarrow>
         bindE (ensure (s = ''S'' \<and> one = ''1'') InvalidPeer) (\<lambda>_.
         bindE (ensure (case parse_canonical_decimal authority of None \<Rightarrow> False | Some a \<Rightarrow> a \<le> MAX_SID_AUTHORITY) InvalidPeer) (\<lambda>_.
         bindE (ensure (\<not> (subauthorities = [] \<or> MAX_SID_SUBAUTHORITIES < length subauthorities)) InvalidPeer) (\<lambda>_.
         ensure (list_all (\<lambda>f. case parse_canonical_decimal f of None \<Rightarrow> False | Some v \<Rightarrow> v \<le> 4294967295) subauthorities) InvalidPeer)))
     | _ \<Rightarrow> Inl InvalidPeer)"

definition validate_linux_peer :: "linux_peer \<Rightarrow> unit bootstrap_result" where
  "validate_linux_peer peer =
     bindE (ensure (lx_pid peer \<noteq> 0) InvalidNumber) (\<lambda>_.
     bindE (parse_creation_token (lx_creation_token peer)) (\<lambda>_.
     bindE (validate_linux_path (lx_executable peer)) (\<lambda>_.
     validate_frame_sha256 (lx_executable_sha256 peer))))"

definition validate_windows_peer :: "windows_peer \<Rightarrow> unit bootstrap_result" where
  "validate_windows_peer peer =
     bindE (ensure (wx_pid peer \<noteq> 0) InvalidNumber) (\<lambda>_.
     bindE (parse_creation_token (wx_creation_token peer)) (\<lambda>_.
     bindE (validate_windows_path (wx_executable peer)) (\<lambda>_.
     bindE (validate_frame_sha256 (wx_executable_sha256 peer)) (\<lambda>_.
     validate_sid (wx_sid peer)))))"

definition worker_bootstrap_validate :: "worker_bootstrap \<Rightarrow> unit bootstrap_result" where
  "worker_bootstrap_validate frame =
     bindE (ensure (wbs_version frame = WORKER_VERSION) InvalidSchema) (\<lambda>_.
     bindE (validate_uuid (wbs_launch_nonce frame)) (\<lambda>_.
     bindE (validate_uuid (wbs_watchdog_boot_id frame)) (\<lambda>_.
     bindE (validate_component_id (wbs_component_id frame)) (\<lambda>_.
     case wbs_expected_peer frame of
       LinuxPeer peer \<Rightarrow> validate_linux_peer peer
     | WindowsPeer peer \<Rightarrow> validate_windows_peer peer))))"

definition worker_bootstrap_new :: "uuid \<Rightarrow> uuid \<Rightarrow> string \<Rightarrow> expected_peer \<Rightarrow> worker_bootstrap bootstrap_result" where
  "worker_bootstrap_new launch_nonce watchdog_boot_id component_id expected_peer =
     (let frame = \<lparr>wbs_version = WORKER_VERSION, wbs_launch_nonce = launch_nonce,
                   wbs_watchdog_boot_id = watchdog_boot_id, wbs_component_id = component_id,
                   wbs_expected_peer = expected_peer\<rparr> in
      bindE (worker_bootstrap_validate frame) (\<lambda>_. Inr frame))"

subsection \<open>Decoding\<close>

text \<open>
  \<^verbatim>\<open>parse_strict_json\<close>: the parser of \<^verbatim>\<open>serde_json\<close> keeps the members of an object in text order; the
  visitor refuses duplicate members and nesting beyond the bound.
\<close>

fun strict_at_depth :: "nat \<Rightarrow> json \<Rightarrow> bool" where
  "strict_at_depth depth (JObject kvs) \<longleftrightarrow>
     depth < MAX_JSON_DEPTH \<and> distinct (map fst kvs) \<and> list_all (\<lambda>kv. strict_at_depth (depth + 1) (snd kv)) kvs"
| "strict_at_depth depth (JArray vs) \<longleftrightarrow> depth < MAX_JSON_DEPTH \<and> list_all (strict_at_depth (depth + 1)) vs"
| "strict_at_depth depth v \<longleftrightarrow> True"

text \<open>
  The parser behind \<^const>\<open>json_from_str\<close> keeps duplicate members; the source refuses them, and nesting,
  while it reads, with the same error.
\<close>

definition parse_strict_json :: "externals \<Rightarrow> string \<Rightarrow> json bootstrap_result" where
  "parse_strict_json E bytes =
     bindE (map_err (\<lambda>_. InvalidJson) (json_from_str E bytes)) (\<lambda>value.
     bindE (ensure (strict_at_depth 0 value) InvalidJson) (\<lambda>_. Inr value))"

definition require_exact_fields :: "(string \<times> json) list \<Rightarrow> string list \<Rightarrow> nat \<Rightarrow> unit bootstrap_result" where
  "require_exact_fields object allowed expected_count =
     ensure (\<not> (length object \<noteq> expected_count \<or> list_ex (\<lambda>key. key \<notin> set allowed) (map fst object))) InvalidSchema"

definition string_field :: "(string \<times> json) list \<Rightarrow> string \<Rightarrow> string bootstrap_result" where
  "string_field object field = ok_or InvalidSchema (Option.bind (map_of object field) json_as_str)"

fun json_as_u64 :: "json \<Rightarrow> u64 option" where
  "json_as_u64 (JNumber i) = (if 0 \<le> i \<and> i < 2 ^ 64 then Some (word_of_int i) else None)"
| "json_as_u64 _ = None"

definition unsigned_number :: "json option \<Rightarrow> u64 bootstrap_result" where
  "unsigned_number value = ok_or InvalidNumber (Option.bind value json_as_u64)"

definition u32_number :: "json option \<Rightarrow> u32 bootstrap_result" where
  "u32_number value =
     bindE (unsigned_number value) (\<lambda>number.
     bindE (ensure (uint number < 2 ^ 32) InvalidNumber) (\<lambda>_. Inr (ucast number)))"

definition positive_pid :: "json option \<Rightarrow> u32 bootstrap_result" where
  "positive_pid value = bindE (u32_number value) (\<lambda>pid. bindE (ensure (pid \<noteq> 0) InvalidNumber) (\<lambda>_. Inr pid))"

definition TOP_LEVEL_FIELDS :: "string list" where
  "TOP_LEVEL_FIELDS = [''version'', ''launch_nonce'', ''watchdog_boot_id'', ''component_id'', ''expected_peer'']"

definition LINUX_FIELDS :: "string list" where
  "LINUX_FIELDS = [''platform'', ''pid'', ''creation_token'', ''executable'', ''executable_sha256'', ''uid'', ''gid'']"

definition WINDOWS_FIELDS :: "string list" where
  "WINDOWS_FIELDS =
     [''platform'', ''pid'', ''creation_token'', ''executable'', ''executable_sha256'', ''session_id'', ''sid'']"

definition parse_expected_peer :: "json option \<Rightarrow> expected_peer bootstrap_result" where
  "parse_expected_peer value =
     bindE (ok_or InvalidSchema value) (\<lambda>value.
     bindE (ok_or InvalidPeer (json_as_object value)) (\<lambda>object.
     bindE (string_field object ''platform'') (\<lambda>platform.
     if platform = ''linux'' then
       bindE (require_exact_fields object LINUX_FIELDS (length LINUX_FIELDS)) (\<lambda>_.
       bindE (positive_pid (map_of object ''pid'')) (\<lambda>pid.
       bindE (string_field object ''creation_token'') (\<lambda>creation_token.
       bindE (string_field object ''executable'') (\<lambda>executable.
       bindE (string_field object ''executable_sha256'') (\<lambda>executable_sha256.
       bindE (u32_number (map_of object ''uid'')) (\<lambda>uid.
       bindE (u32_number (map_of object ''gid'')) (\<lambda>gid.
       let peer = \<lparr>lx_pid = pid, lx_creation_token = creation_token, lx_executable = executable,
                   lx_executable_sha256 = executable_sha256, lx_uid = uid, lx_gid = gid\<rparr> in
       bindE (validate_linux_peer peer) (\<lambda>_. Inr (LinuxPeer peer)))))))))
     else if platform = ''windows'' then
       bindE (require_exact_fields object WINDOWS_FIELDS (length WINDOWS_FIELDS)) (\<lambda>_.
       bindE (positive_pid (map_of object ''pid'')) (\<lambda>pid.
       bindE (string_field object ''creation_token'') (\<lambda>creation_token.
       bindE (string_field object ''executable'') (\<lambda>executable.
       bindE (string_field object ''executable_sha256'') (\<lambda>executable_sha256.
       bindE (u32_number (map_of object ''session_id'')) (\<lambda>session_id.
       bindE (string_field object ''sid'') (\<lambda>sid.
       let peer = \<lparr>wx_pid = pid, wx_creation_token = creation_token, wx_executable = executable,
                   wx_executable_sha256 = executable_sha256, wx_session_id = session_id, wx_sid = sid\<rparr> in
       bindE (validate_windows_peer peer) (\<lambda>_. Inr (WindowsPeer peer)))))))))
     else Inl InvalidPeer)))"

definition decode_payload :: "externals \<Rightarrow> string \<Rightarrow> worker_bootstrap bootstrap_result" where
  "decode_payload E payload =
     bindE (parse_strict_json E payload) (\<lambda>value.
     bindE (ok_or InvalidSchema (json_as_object value)) (\<lambda>object.
     bindE (require_exact_fields object TOP_LEVEL_FIELDS (length TOP_LEVEL_FIELDS)) (\<lambda>_.
     bindE (unsigned_number (map_of object ''version'')) (\<lambda>version.
     bindE (ensure (version = WORKER_VERSION) InvalidSchema) (\<lambda>_.
     bindE (string_field object ''launch_nonce'') (\<lambda>nonce_text.
     bindE (parse_uuid E nonce_text) (\<lambda>launch_nonce.
     bindE (string_field object ''watchdog_boot_id'') (\<lambda>boot_text.
     bindE (parse_uuid E boot_text) (\<lambda>watchdog_boot_id.
     bindE (string_field object ''component_id'') (\<lambda>component_id.
     bindE (validate_component_id component_id) (\<lambda>_.
     bindE (parse_expected_peer (map_of object ''expected_peer'')) (\<lambda>expected_peer.
     let frame = \<lparr>wbs_version = version, wbs_launch_nonce = launch_nonce, wbs_watchdog_boot_id = watchdog_boot_id,
                  wbs_component_id = component_id, wbs_expected_peer = expected_peer\<rparr> in
     bindE (worker_bootstrap_validate frame) (\<lambda>_. Inr frame)))))))))))))"

definition decode_frame :: "externals \<Rightarrow> string \<Rightarrow> worker_bootstrap bootstrap_result" where
  "decode_frame E bytes =
     bindE (ensure (\<not> MAX_WORKER_FRAME_BYTES < length bytes) FrameTooLarge) (\<lambda>_.
     bindE (ensure (\<not> length bytes < FRAME_PREFIX_BYTES) Truncated) (\<lambda>_.
     bindE (ensure (take (length WORKER_MAGIC) bytes = WORKER_MAGIC) InvalidMagic) (\<lambda>_.
     let payload_len = unat (u32_from_be_bytes (drop (length WORKER_MAGIC) bytes)) in
     bindE (ensure (\<not> (payload_len = 0 \<or> MAX_PAYLOAD_BYTES < payload_len)) InvalidLength) (\<lambda>_.
     let expected_len = FRAME_PREFIX_BYTES + payload_len in
     bindE (ensure (\<not> length bytes < expected_len) Truncated) (\<lambda>_.
     bindE (ensure (\<not> expected_len < length bytes) TrailingBytes) (\<lambda>_.
     decode_payload E (drop FRAME_PREFIX_BYTES bytes)))))))"

subsection \<open>Encoding\<close>

fun peer_to_value :: "expected_peer \<Rightarrow> json" where
  "peer_to_value (LinuxPeer peer) = JObject
     [(''creation_token'', JString (lx_creation_token peer)), (''executable'', JString (lx_executable peer)),
      (''executable_sha256'', JString (lx_executable_sha256 peer)), (''gid'', JNumber (uint (lx_gid peer))),
      (''pid'', JNumber (uint (lx_pid peer))), (''platform'', JString ''linux''), (''uid'', JNumber (uint (lx_uid peer)))]"
| "peer_to_value (WindowsPeer peer) = JObject
     [(''creation_token'', JString (wx_creation_token peer)), (''executable'', JString (wx_executable peer)),
      (''executable_sha256'', JString (wx_executable_sha256 peer)), (''pid'', JNumber (uint (wx_pid peer))),
      (''platform'', JString ''windows''), (''session_id'', JNumber (uint (wx_session_id peer))), (''sid'', JString (wx_sid peer))]"

definition worker_to_value :: "worker_bootstrap \<Rightarrow> json" where
  "worker_to_value frame = JObject
     [(''component_id'', JString (wbs_component_id frame)), (''expected_peer'', peer_to_value (wbs_expected_peer frame)),
      (''launch_nonce'', JString (uuid_to_string (wbs_launch_nonce frame))), (''version'', JNumber (uint (wbs_version frame))),
      (''watchdog_boot_id'', JString (uuid_to_string (wbs_watchdog_boot_id frame)))]"

text \<open>Serializing a \<^verbatim>\<open>Value\<close> whose keys are strings does not fail.\<close>

definition encode_frame :: "externals \<Rightarrow> worker_bootstrap \<Rightarrow> string bootstrap_result" where
  "encode_frame E frame =
     bindE (worker_bootstrap_validate frame) (\<lambda>_.
     let payload = json_to_string E (worker_to_value frame) in
     bindE (ensure (\<not> (payload = [] \<or> MAX_PAYLOAD_BYTES < length payload)) FrameTooLarge) (\<lambda>_.
     bindE (ensure (length payload < 2 ^ 32) InvalidLength) (\<lambda>_.
     Inr (WORKER_MAGIC @ u32_to_be_bytes (of_nat (length payload)) @ payload))))"

record worker_bootstrap_launch =
  wbl_bootstrap :: worker_bootstrap
  wbl_frame :: string
  wbl_frame_sha256 :: string

definition worker_bootstrap_launch_new :: "externals \<Rightarrow> worker_bootstrap \<Rightarrow> worker_bootstrap_launch bootstrap_result" where
  "worker_bootstrap_launch_new E bootstrap =
     bindE (encode_frame E bootstrap) (\<lambda>frame.
     Inr \<lparr>wbl_bootstrap = bootstrap, wbl_frame = frame, wbl_frame_sha256 = hex_digest E frame\<rparr>)"

section \<open>Gateway health bootstrap\<close>

datatype gateway_frame_error =
    GInvalidNonce | GInvalidKey | GInvalidLength | GInvalidMagic | GInvalidFrameNonce | GWrongRole | GNonceMismatch

definition GATEWAY_MAGIC :: string where "GATEWAY_MAGIC = ''STS2GH01''"
definition NONCE_BYTES :: nat where "NONCE_BYTES = 16"
definition KEY_BYTES :: nat where "KEY_BYTES = 32"
definition GATEWAY_FRAME_BYTES :: nat where "GATEWAY_FRAME_BYTES = length GATEWAY_MAGIC + NONCE_BYTES + KEY_BYTES"

text \<open>\<^verbatim>\<open>Uuid::from_bytes\<close> and \<^verbatim>\<open>Uuid::as_bytes\<close> of the \<^verbatim>\<open>uuid\<close> crate.\<close>

record uuid_bytes =
  uuid_from_bytes :: "string \<Rightarrow> uuid"
  uuid_as_bytes :: "uuid \<Rightarrow> string"

record gateway_bootstrap =
  gb_launch_nonce :: uuid
  gb_key :: string

definition validate_gateway_nonce :: "uuid \<Rightarrow> gateway_frame_error + unit" where
  "validate_gateway_nonce nonce =
     ensure (\<not> (uuid_is_nil nonce \<or> uuid_version_num nonce \<noteq> 4 \<or> uuid_variant_of nonce \<noteq> RFC4122)) GInvalidNonce"

definition validate_key :: "string \<Rightarrow> gateway_frame_error + unit" where
  "validate_key key = ensure (\<not> list_all (\<lambda>c. byte c = 0) key) GInvalidKey"

definition gateway_bootstrap_new :: "uuid \<Rightarrow> string \<Rightarrow> gateway_frame_error + gateway_bootstrap" where
  "gateway_bootstrap_new launch_nonce key =
     bindE (validate_gateway_nonce launch_nonce) (\<lambda>_.
     bindE (validate_key key) (\<lambda>_. Inr \<lparr>gb_launch_nonce = launch_nonce, gb_key = key\<rparr>))"

definition gateway_from_frame :: "uuid_bytes \<Rightarrow> string \<Rightarrow> gateway_frame_error + gateway_bootstrap" where
  "gateway_from_frame U frame =
     bindE (ensure (length frame = GATEWAY_FRAME_BYTES) GInvalidLength) (\<lambda>_.
     bindE (ensure (take (length GATEWAY_MAGIC) frame = GATEWAY_MAGIC) GInvalidMagic) (\<lambda>_.
     let launch_nonce = uuid_from_bytes U (take NONCE_BYTES (drop (length GATEWAY_MAGIC) frame)) in
     bindE (map_err (\<lambda>_. GInvalidFrameNonce) (validate_gateway_nonce launch_nonce)) (\<lambda>_.
     gateway_bootstrap_new launch_nonce (drop (length GATEWAY_MAGIC + NONCE_BYTES) frame))))"

definition gateway_encoded_frame :: "uuid_bytes \<Rightarrow> gateway_bootstrap \<Rightarrow> string" where
  "gateway_encoded_frame U b = GATEWAY_MAGIC @ uuid_as_bytes U (gb_launch_nonce b) @ gb_key b"

definition gateway_frame_sha256 :: "externals \<Rightarrow> uuid_bytes \<Rightarrow> gateway_bootstrap \<Rightarrow> string" where
  "gateway_frame_sha256 E U b = hex_digest E (gateway_encoded_frame U b)"

section \<open>Round trips\<close>

lemma parse_uuid_of:
  assumes "uuid_parse_str E (uuid_to_string u) = Inr u" and "validate_uuid u = Inr ()"
  shows "parse_uuid E (uuid_to_string u) = Inr u"
  using assms by (simp add: parse_uuid_def)

lemma u32_number_of [simp]: "u32_number (Some (JNumber (uint (w :: u32)))) = Inr w"
proof -
  have w: "uint w < 4294967296" using uint_lt2p [of w] by simp
  then have "uint (word_of_int (uint w) :: u64) = uint w" by (simp only: uint_word_of_int) (simp add: mod_pos_pos_trivial)
  moreover have "(ucast (word_of_int (uint w) :: u64) :: u32) = w" by (simp add: unsigned_ucast_eq take_bit_word_eq_self)
  ultimately show ?thesis using w by (simp only: u32_number_def unsigned_number_def json_as_u64.simps bind.simps) simp
qed

lemma peer_roundtrip:
  assumes "(case peer of LinuxPeer p \<Rightarrow> validate_linux_peer p | WindowsPeer p \<Rightarrow> validate_windows_peer p) = Inr ()"
  shows "parse_expected_peer (Some (peer_to_value peer)) = Inr peer"
proof (cases peer)
  case (LinuxPeer p)
  moreover from LinuxPeer assms have "validate_linux_peer p = Inr ()" "lx_pid p \<noteq> 0"
    by (auto simp: validate_linux_peer_def bindE_Inr ensure_Inr)
  ultimately show ?thesis
    by (cases p) (simp add: parse_expected_peer_def string_field_def require_exact_fields_def LINUX_FIELDS_def positive_pid_def)
next
  case (WindowsPeer p)
  moreover from WindowsPeer assms have "validate_windows_peer p = Inr ()" "wx_pid p \<noteq> 0"
    by (auto simp: validate_windows_peer_def bindE_Inr ensure_Inr)
  ultimately show ?thesis
    by (cases p) (simp add: parse_expected_peer_def string_field_def require_exact_fields_def WINDOWS_FIELDS_def positive_pid_def)
qed

lemma peer_value_strict: "strict_at_depth 1 (peer_to_value peer)"
  by (cases peer) (simp_all add: MAX_JSON_DEPTH_def)

lemma payload_roundtrip:
  assumes valid: "worker_bootstrap_validate frame = Inr ()"
    and json: "json_from_str E (json_to_string E (worker_to_value frame)) = Inr (worker_to_value frame)"
    and nonce: "uuid_parse_str E (uuid_to_string (wbs_launch_nonce frame)) = Inr (wbs_launch_nonce frame)"
    and boot: "uuid_parse_str E (uuid_to_string (wbs_watchdog_boot_id frame)) = Inr (wbs_watchdog_boot_id frame)"
  shows "decode_payload E (json_to_string E (worker_to_value frame)) = Inr frame"
proof -
  have v: "wbs_version frame = WORKER_VERSION" "validate_uuid (wbs_launch_nonce frame) = Inr ()"
    "validate_uuid (wbs_watchdog_boot_id frame) = Inr ()" "validate_component_id (wbs_component_id frame) = Inr ()"
    "(case wbs_expected_peer frame of LinuxPeer p \<Rightarrow> validate_linux_peer p | WindowsPeer p \<Rightarrow> validate_windows_peer p) = Inr ()"
    using valid by (auto simp: worker_bootstrap_validate_def bindE_Inr ensure_Inr)
  have strict: "strict_at_depth 0 (worker_to_value frame)"
    using peer_value_strict [of "wbs_expected_peer frame"] by (simp add: worker_to_value_def MAX_JSON_DEPTH_def)
  have version: "unsigned_number (Some (JNumber (uint (wbs_version frame)))) = Inr WORKER_VERSION"
    by (simp add: unsigned_number_def v(1) WORKER_VERSION_def)
  have "parse_strict_json E (json_to_string E (worker_to_value frame)) = Inr (worker_to_value frame)"
    using json strict by (simp add: parse_strict_json_def)
  then show ?thesis
    using parse_uuid_of [OF nonce v(2)] parse_uuid_of [OF boot v(3)] peer_roundtrip [OF v(5)] version v(1,4) valid
    by (cases frame) (simp add: decode_payload_def worker_to_value_def string_field_def require_exact_fields_def TOP_LEVEL_FIELDS_def)
qed

text \<open>
  C16: A worker bootstrap frame means what was encoded and nothing else. Decoding an encoded frame
  gives back the very bootstrap; every proper prefix of it is refused as truncated, and the frame
  followed by any further byte is refused. The hypotheses are that \<^verbatim>\<open>serde_json\<close> parses what it
  prints and \<^verbatim>\<open>uuid\<close> parses what it prints, for the values at hand.
\<close>

theorem worker_frame_roundtrip:
  assumes enc: "encode_frame E frame = Inr bytes"
    and json: "json_from_str E (json_to_string E (worker_to_value frame)) = Inr (worker_to_value frame)"
    and nonce: "uuid_parse_str E (uuid_to_string (wbs_launch_nonce frame)) = Inr (wbs_launch_nonce frame)"
    and boot: "uuid_parse_str E (uuid_to_string (wbs_watchdog_boot_id frame)) = Inr (wbs_watchdog_boot_id frame)"
  shows "decode_frame E bytes = Inr frame
    \<and> (\<forall>n < length bytes. decode_frame E (take n bytes) = Inl Truncated)
    \<and> (\<forall>c cs. decode_frame E (bytes @ c # cs) \<in> {Inl TrailingBytes, Inl FrameTooLarge})"
proof -
  let ?payload = "json_to_string E (worker_to_value frame)"
  have valid: "worker_bootstrap_validate frame = Inr ()" and len: "0 < length ?payload" "length ?payload \<le> MAX_PAYLOAD_BYTES"
    and bytes: "bytes = WORKER_MAGIC @ u32_to_be_bytes (of_nat (length ?payload)) @ ?payload"
    using enc by (auto simp: encode_frame_def bindE_Inr ensure_Inr Let_def)
  have size: "length WORKER_MAGIC = 8" "FRAME_PREFIX_BYTES = 12" "MAX_WORKER_FRAME_BYTES = 16396" "MAX_PAYLOAD_BYTES = 16384"
    by (simp_all add: WORKER_MAGIC_def FRAME_PREFIX_BYTES_def MAX_WORKER_FRAME_BYTES_def MAX_PAYLOAD_BYTES_def)
  have n: "unat (of_nat (length ?payload) :: u32) = length ?payload"
    using len size by (simp add: unat_of_nat)
  have total: "length bytes = 12 + length ?payload" using size by (simp add: bytes)
  have whole: "decode_frame E (bytes @ rest) = (if MAX_WORKER_FRAME_BYTES < length (bytes @ rest) then Inl FrameTooLarge
      else if rest = [] then decode_payload E ?payload else Inl TrailingBytes)" for rest
    using len size n total
    by (simp add: decode_frame_def bytes u32_be_roundtrip ensure_def)
  have part: "decode_frame E (take k bytes) = Inl Truncated" if "k < length bytes" for k
  proof (cases "k < 12")
    case True
    then show ?thesis using that size total len by (simp add: decode_frame_def ensure_def)
  next
    case False
    have "take k bytes = WORKER_MAGIC @ u32_to_be_bytes (of_nat (length ?payload)) @ take (k - 12) ?payload"
      using False size by (simp add: bytes)
    then show ?thesis using that False size total len n by (simp add: decode_frame_def ensure_def u32_be_roundtrip)
  qed
  show ?thesis
    using whole [of "[]"] whole payload_roundtrip [OF valid json nonce boot] part total len size by (auto split: if_splits)
qed

text \<open>
  The Gateway health frame carries its nonce and key exactly, and whatever decodes is the encoding of the
  value it decodes to: there is one frame per nonce and key.
\<close>

lemma gateway_frame_encoded:
  assumes "gateway_bootstrap_new nonce key = Inr b" and "length key = KEY_BYTES"
    and "length (uuid_as_bytes U nonce) = 16" and "uuid_from_bytes U (uuid_as_bytes U nonce) = nonce"
  shows "gateway_from_frame U (gateway_encoded_frame U b) = Inr b"
  using assms
  by (auto simp: gateway_from_frame_def gateway_encoded_frame_def gateway_bootstrap_new_def GATEWAY_FRAME_BYTES_def
      NONCE_BYTES_def bindE_Inr)

lemma gateway_frame_decoded:
  assumes "gateway_from_frame U frame = Inr b"
    and "uuid_as_bytes U (gb_launch_nonce b) = take NONCE_BYTES (drop (length GATEWAY_MAGIC) frame)"
  shows "gateway_encoded_frame U b = frame" "\<not> list_all (\<lambda>c. byte c = 0) (gb_key b)"
proof -
  have b: "gb_key b = drop (length GATEWAY_MAGIC + NONCE_BYTES) frame" "take (length GATEWAY_MAGIC) frame = GATEWAY_MAGIC"
    and key: "\<not> list_all (\<lambda>c. byte c = 0) (gb_key b)"
    using assms(1) by (auto simp: gateway_from_frame_def gateway_bootstrap_new_def validate_key_def bindE_Inr ensure_Inr Let_def)
  have "take NONCE_BYTES (drop (length GATEWAY_MAGIC) frame) @ drop (length GATEWAY_MAGIC + NONCE_BYTES) frame
      = drop (length GATEWAY_MAGIC) frame"
    using append_take_drop_id [of NONCE_BYTES "drop (length GATEWAY_MAGIC) frame"] by (simp add: add.commute)
  then show "gateway_encoded_frame U b = frame"
    using append_take_drop_id [of "length GATEWAY_MAGIC" frame] b assms(2) by (simp add: gateway_encoded_frame_def)
  show "\<not> list_all (\<lambda>c. byte c = 0) (gb_key b)" by (rule key)
qed

section \<open>Concrete runs\<close>

definition sample_uuid :: uuid where
  "sample_uuid = \<lparr>uuid_version_num = 4, uuid_variant_of = RFC4122, uuid_to_string = ''3f2504e0-4f89-41d3-9a0c-0305e82c3301''\<rparr>"

definition sample_peer :: linux_peer where
  "sample_peer = \<lparr>lx_pid = 7, lx_creation_token = ''42'', lx_executable = ''/usr/bin/watchdog'',
     lx_executable_sha256 = replicate 64 (CHR ''a''), lx_uid = 1000, lx_gid = 1000\<rparr>"

definition sample_bootstrap :: worker_bootstrap where
  "sample_bootstrap = \<lparr>wbs_version = 1, wbs_launch_nonce = sample_uuid, wbs_watchdog_boot_id = sample_uuid,
     wbs_component_id = ''harness'', wbs_expected_peer = LinuxPeer sample_peer\<rparr>"

text \<open>Functions that parse exactly the document and the identifier at hand.\<close>

definition externals_frames :: externals where
  "externals_frames =
     \<lparr>sha256 = \<lambda>_. ''digest'', json_to_string = \<lambda>_. ''{}'', json_from_str = \<lambda>_. Inr (worker_to_value sample_bootstrap),
      uuid_parse_str = \<lambda>_. Inr sample_uuid, sqlite_display = \<lambda>_. []\<rparr>"

theorem worker_frame_roundtrip_witness:
  "\<exists>bytes. encode_frame externals_frames sample_bootstrap = Inr bytes
     \<and> decode_frame externals_frames bytes = Inr sample_bootstrap
     \<and> decode_frame externals_frames (take 9 bytes) = Inl Truncated"
proof -
  have valid: "worker_bootstrap_validate sample_bootstrap = Inr ()"
    by (simp add: worker_bootstrap_validate_def sample_bootstrap_def sample_peer_def sample_uuid_def WORKER_VERSION_def
        validate_uuid_def uuid_is_nil_def validate_component_id_def MAX_COMPONENT_ID_BYTES_def is_alphanumeric_def is_digit_def byte_def
        validate_linux_peer_def parse_creation_token_def parse_u64_def parse_digits_def digit_value_def validate_linux_path_def
        MAX_EXECUTABLE_PATH_BYTES_def contains_nul_def nul_def char_of_def validate_frame_sha256_def validate_digest_def list_all_iff)
  have enc: "encode_frame externals_frames sample_bootstrap = Inr (WORKER_MAGIC @ u32_to_be_bytes 2 @ ''{}'')"
    by (simp add: encode_frame_def valid externals_frames_def MAX_PAYLOAD_BYTES_def)
  have "decode_frame externals_frames (WORKER_MAGIC @ u32_to_be_bytes 2 @ ''{}'') = Inr sample_bootstrap
    \<and> (\<forall>n < length (WORKER_MAGIC @ u32_to_be_bytes 2 @ ''{}'').
        decode_frame externals_frames (take n (WORKER_MAGIC @ u32_to_be_bytes 2 @ ''{}'')) = Inl Truncated)"
    using worker_frame_roundtrip [OF enc] by (simp add: externals_frames_def sample_bootstrap_def)
  moreover have "9 < length (WORKER_MAGIC @ u32_to_be_bytes 2 @ ''{}'')" by (simp add: WORKER_MAGIC_def)
  ultimately show ?thesis using enc by blast
qed

end
