(* ===== verification/Broker_Protocol.thy ===== *)
theory Broker_Protocol
  imports Bootstrap_Frames
begin

text \<open>
  The closed vocabulary of the root-owned Linux launch broker: its errors and bounds
  (\<^verbatim>\<open>linux_broker.rs\<close>), requests and fixed launch policies (\<^verbatim>\<open>protocol.rs\<close>), the protected
  file checks and the authentication of the connected peer (\<^verbatim>\<open>peer.rs\<close>), the queued job
  binding (\<^verbatim>\<open>ledger_binding.rs\<close>) and the unit observation (\<^verbatim>\<open>broker.rs\<close>). What the operating
  system answers is an argument.
\<close>

unbundle bit_operations_syntax

section \<open>Errors, bounds and paths\<close>

datatype broker_error =
    BInvalid string
  | BUnauthorized string
  | BConflict string
  | BUnavailable string
  | BIo string

type_synonym 'a broker_result = "broker_error + 'a"

fun broker_error_display :: "broker_error \<Rightarrow> string" where
  "broker_error_display (BInvalid message) = ''invalid broker request: '' @ message"
| "broker_error_display (BUnauthorized message) = ''unauthorized broker request: '' @ message"
| "broker_error_display (BConflict message) = ''broker conflict: '' @ message"
| "broker_error_display (BUnavailable message) = ''broker unavailable: '' @ message"
| "broker_error_display (BIo message) = ''broker I/O error: '' @ message"

definition MAX_FRAME_BYTES :: nat where "MAX_FRAME_BYTES = 16 * 1024"
definition MAX_IDENTITY_BYTES :: nat where "MAX_IDENTITY_BYTES = 128"
definition MAX_ARGUMENTS :: nat where "MAX_ARGUMENTS = 64"
definition MAX_ARGUMENT_BYTES :: nat where "MAX_ARGUMENT_BYTES = 8 * 1024"
definition MAX_ENVIRONMENT :: nat where "MAX_ENVIRONMENT = 64"
definition MAX_ENVIRONMENT_BYTES :: nat where "MAX_ENVIRONMENT_BYTES = 8 * 1024"
definition MAX_POLICY_COMPONENTS :: nat where "MAX_POLICY_COMPONENTS = 8"
definition MAX_HASH_BYTES :: nat where "MAX_HASH_BYTES = 256 * 1024 * 1024"
definition MAX_TASKS :: u64 where "MAX_TASKS = 4096"
definition MAX_MEMORY_BYTES :: u64 where "MAX_MEMORY_BYTES = 64 * 1024 * 1024 * 1024"
definition MAX_RECEIPTS :: nat where "MAX_RECEIPTS = 128"
definition MAX_ACTIVE_PROCESSES :: nat where "MAX_ACTIVE_PROCESSES = 64"
definition MAX_LEDGER_REQUESTS :: nat where "MAX_LEDGER_REQUESTS = MAX_RECEIPTS"
definition MAX_LEDGER_TRANSITIONS :: nat where "MAX_LEDGER_TRANSITIONS = MAX_LEDGER_REQUESTS * 4"
definition MAX_LEDGER_BYTES :: nat where "MAX_LEDGER_BYTES = MAX_LEDGER_TRANSITIONS * (MAX_FRAME_BYTES + 1)"
definition BROKER_PROTOCOL_VERSION :: nat where "BROKER_PROTOCOL_VERSION = 1"

text \<open>A \<^verbatim>\<open>Duration\<close> is its number of nanoseconds.\<close>

definition MAX_TIMEOUT :: nat where "MAX_TIMEOUT = 2 * 60 * 1000000000"

text \<open>
  A \<^verbatim>\<open>PathBuf\<close> is what its equality compares: whether it has a root, and its components without
  repeated separators and inner dots.
\<close>

datatype path_part = NormalPart string | ParentPart | CurPart

datatype path_buf = PathBuf (path_root: bool) (path_parts: "path_part list")

datatype file_kind = RegularFile | Directory | SymbolicLink | SocketFile | OtherFile

record file_metadata =
  md_kind :: file_kind
  md_uid :: u32
  md_mode :: u32

text \<open>
  What the file system answers: \<^verbatim>\<open>symlink_metadata\<close>, and \<^verbatim>\<open>open\<close> with the length in the metadata and
  the bytes a complete read yields. An error is its text.
\<close>

type_synonym opened_file = "string + nat \<times> (string + string)"

record file_system =
  fs_symlink_metadata :: "path_buf \<Rightarrow> string + file_metadata"
  fs_open :: "path_buf \<Rightarrow> opened_file"

section \<open>Requests\<close>

datatype broker_component = Gateway | Harness | HostBroker | Synthetic

fun broker_component_as_str :: "broker_component \<Rightarrow> string" where
  "broker_component_as_str Gateway = ''gateway''"
| "broker_component_as_str Harness = ''harness''"
| "broker_component_as_str HostBroker = ''hostbroker''"
| "broker_component_as_str Synthetic = ''synthetic''"

datatype broker_request = BrokerRequest
  (rq_component: broker_component)
  (rq_instance: string)
  (rq_incarnation: string)
  (rq_nonce: string)

text \<open>The derived orders: by declaration, and field by field.\<close>

fun component_rank :: "broker_component \<Rightarrow> nat" where
  "component_rank Gateway = 0"
| "component_rank Harness = 1"
| "component_rank HostBroker = 2"
| "component_rank Synthetic = 3"

lemma component_rank_inject [simp]: "component_rank a = component_rank b \<longleftrightarrow> a = b"
  by (cases a; cases b) simp_all

instantiation broker_component :: linorder
begin

definition less_eq_broker_component :: "broker_component \<Rightarrow> broker_component \<Rightarrow> bool" where
  "less_eq_broker_component a b = (component_rank a \<le> component_rank b)"

definition less_broker_component :: "broker_component \<Rightarrow> broker_component \<Rightarrow> bool" where
  "less_broker_component a b = (component_rank a < component_rank b)"

instance
  by standard (auto simp: less_eq_broker_component_def less_broker_component_def)

end

definition request_fields :: "broker_request \<Rightarrow> broker_component \<times> string \<times> string \<times> string" where
  "request_fields r = (rq_component r, rq_instance r, rq_incarnation r, rq_nonce r)"

lemma request_fields_inject [simp]: "request_fields a = request_fields b \<longleftrightarrow> a = b"
  by (auto simp: request_fields_def intro: broker_request.expand)

instantiation broker_request :: linorder
begin

definition less_eq_broker_request :: "broker_request \<Rightarrow> broker_request \<Rightarrow> bool" where
  "less_eq_broker_request a b = (request_fields a \<le> request_fields b)"

definition less_broker_request :: "broker_request \<Rightarrow> broker_request \<Rightarrow> bool" where
  "less_broker_request a b = (request_fields a < request_fields b)"

instance
  by standard (auto simp: less_eq_broker_request_def less_broker_request_def less_le)

end

definition validate_identity :: "string \<Rightarrow> string \<Rightarrow> unit broker_result" where
  "validate_identity label value =
     ensure (\<not> (value = [] \<or> MAX_IDENTITY_BYTES < length value
               \<or> list_ex (\<lambda>c. \<not> (is_alphanumeric c \<or> c \<in> {CHR ''.'', CHR ''_'', CHR ''-''})) value))
       (BInvalid (label @ '' is not a bounded identifier''))"

definition request_validate :: "broker_request \<Rightarrow> unit broker_result" where
  "request_validate r =
     bindE (validate_identity ''instance'' (rq_instance r)) (\<lambda>_.
     bindE (validate_identity ''incarnation'' (rq_incarnation r)) (\<lambda>_.
     validate_identity ''nonce'' (rq_nonce r)))"

datatype lifecycle_operation = LifecycleInspect | LifecycleStop

datatype lifecycle_state = LifecycleActive | LifecycleStopped

record lifecycle_request =
  lq_version :: nat
  lq_operation :: lifecycle_operation
  lq_request :: broker_request

definition lifecycle_request_validate :: "lifecycle_request \<Rightarrow> unit broker_result" where
  "lifecycle_request_validate q =
     bindE (ensure (lq_version q = BROKER_PROTOCOL_VERSION)
              (BInvalid ''unsupported broker lifecycle protocol version'')) (\<lambda>_.
     request_validate (lq_request q))"

text \<open>\<^verbatim>\<open>u8::is_ascii_hexdigit\<close>.\<close>

definition is_hexdigit :: "char \<Rightarrow> bool" where
  "is_hexdigit c \<longleftrightarrow> is_digit c \<or> (65 \<le> byte c \<and> byte c \<le> 70) \<or> (97 \<le> byte c \<and> byte c \<le> 102)"

definition validate_sha256 :: "string \<Rightarrow> unit broker_result" where
  "validate_sha256 value =
     ensure (\<not> (length value \<noteq> 64 \<or> list_ex (\<lambda>c. \<not> is_hexdigit c) value))
       (BInvalid ''SHA-256 digest is not canonical'')"

section \<open>Protected files\<close>

text \<open>The release build's rule: only root owns protected files.\<close>

definition is_protected_owner :: "u32 \<Rightarrow> bool" where
  "is_protected_owner uid = (uid = 0)"

fun push_part :: "path_buf \<Rightarrow> path_part \<Rightarrow> path_buf" where
  "push_part (PathBuf root parts) p = PathBuf root (parts @ [p])"

text \<open>The loop over the components: \<open>current\<close> is the path walked so far.\<close>

fun check_ancestors :: "file_system \<Rightarrow> path_buf \<Rightarrow> string \<Rightarrow> path_buf \<Rightarrow> path_part list \<Rightarrow> unit broker_result" where
  "check_ancestors F path label current [] = Inr ()"
| "check_ancestors F path label current (NormalPart part # rest) =
     (let current = push_part current (NormalPart part) in
      bindE (map_err BIo (fs_symlink_metadata F current)) (\<lambda>metadata.
      bindE (ensure (\<not> ((md_kind metadata \<noteq> Directory \<or> \<not> is_protected_owner (md_uid metadata)
                        \<or> md_mode metadata AND 18 \<noteq> 0) \<and> current \<noteq> path))
               (BInvalid (label @ '' path has an unsafe ancestor''))) (\<lambda>_.
      bindE (ensure (\<not> (current \<noteq> path \<and> md_kind metadata = SymbolicLink))
               (BInvalid (label @ '' path has a symlinked ancestor''))) (\<lambda>_.
      check_ancestors F path label current rest))))"
| "check_ancestors F path label current (_ # rest) = check_ancestors F path label current rest"

definition validate_protected_ancestors :: "file_system \<Rightarrow> path_buf \<Rightarrow> string \<Rightarrow> unit broker_result" where
  "validate_protected_ancestors F path label =
     bindE (ensure (path_root path) (BInvalid (label @ '' path must be absolute''))) (\<lambda>_.
     bindE (ensure (\<not> list_ex (\<lambda>part. part = CurPart \<or> part = ParentPart) (path_parts path))
              (BInvalid (label @ '' path contains a non-canonical component''))) (\<lambda>_.
     check_ancestors F path label (PathBuf True []) (path_parts path)))"

definition validate_protected_file :: "file_system \<Rightarrow> path_buf \<Rightarrow> string \<Rightarrow> unit broker_result" where
  "validate_protected_file F path label =
     bindE (validate_protected_ancestors F path label) (\<lambda>_.
     bindE (map_err BIo (fs_symlink_metadata F path)) (\<lambda>metadata.
     ensure (\<not> (md_kind metadata \<noteq> RegularFile \<or> \<not> is_protected_owner (md_uid metadata)
               \<or> md_mode metadata AND 18 \<noteq> 0))
       (BInvalid (label @ '' must be a root-owned non-writable regular file''))))"

definition validate_protected_directory :: "file_system \<Rightarrow> path_buf \<Rightarrow> string \<Rightarrow> unit broker_result" where
  "validate_protected_directory F path label =
     bindE (validate_protected_ancestors F path label) (\<lambda>_.
     bindE (map_err BIo (fs_symlink_metadata F path)) (\<lambda>metadata.
     ensure (\<not> (md_kind metadata \<noteq> Directory \<or> \<not> is_protected_owner (md_uid metadata)
               \<or> md_mode metadata AND 18 \<noteq> 0))
       (BInvalid (label @ '' must be a root-owned non-writable directory''))))"

text \<open>The deadline of the loop that reads the file is not modelled.\<close>

definition hash_open_file_until :: "externals \<Rightarrow> nat \<times> (string + string) \<Rightarrow> string broker_result" where
  "hash_open_file_until E file =
     bindE (ensure (\<not> MAX_HASH_BYTES < fst file) (BInvalid ''executable exceeds hash bound'')) (\<lambda>_.
     bindE (map_err BIo (snd file)) (\<lambda>bytes.
     bindE (ensure (\<not> MAX_HASH_BYTES < length bytes) (BInvalid ''executable exceeds hash bound'')) (\<lambda>_.
     Inr (hex_digest E bytes))))"

definition hash_file :: "externals \<Rightarrow> file_system \<Rightarrow> path_buf \<Rightarrow> string broker_result" where
  "hash_file E F path = bindE (map_err BIo (fs_open F path)) (hash_open_file_until E)"

definition read_bounded_file :: "file_system \<Rightarrow> path_buf \<Rightarrow> nat \<Rightarrow> string \<Rightarrow> string broker_result" where
  "read_bounded_file F path maximum label =
     bindE (map_err BIo (fs_open F path)) (\<lambda>file.
     bindE (ensure (\<not> maximum < fst file) (BInvalid (label @ '' exceeds size bound''))) (\<lambda>_.
     bindE (map_err BIo (snd file)) (\<lambda>bytes.
     bindE (ensure (\<not> maximum < length (take (maximum + 1) bytes)) (BInvalid (label @ '' exceeds size bound''))) (\<lambda>_.
     Inr (take (maximum + 1) bytes)))))"

section \<open>Policies\<close>

record peer_policy =
  pp_uid :: u32
  pp_gid :: u32
  pp_executable :: path_buf
  pp_executable_sha256 :: string

record capability_policy =
  cap_bounding_set :: u64
  cap_ambient_set :: u64
  cap_no_new_privileges :: bool

record cgroup_policy =
  cg_tasks_max :: u64
  cg_memory_max_bytes :: u64

record launch_policy =
  lp_executable :: path_buf
  lp_executable_sha256 :: string
  lp_arguments :: "string list"
  lp_working_directory :: path_buf
  lp_environment :: "(string \<times> string) list"
  lp_target_uid :: u32
  lp_target_gid :: u32
  lp_capabilities :: capability_policy
  lp_cgroup :: cgroup_policy
  lp_timeout :: nat

text \<open>A \<^verbatim>\<open>BTreeMap\<close> is its list of entries in the order of the keys.\<close>

record broker_policy =
  bp_peer :: peer_policy
  bp_components :: "(broker_component \<times> launch_policy) list"

definition validate_peer :: "externals \<Rightarrow> file_system \<Rightarrow> peer_policy \<Rightarrow> unit broker_result" where
  "validate_peer E F peer =
     bindE (ensure (\<not> (pp_uid peer = 0 \<or> pp_gid peer = 0))
              (BInvalid ''broker peer must be a distinct non-root UID/GID'')) (\<lambda>_.
     bindE (validate_sha256 (pp_executable_sha256 peer)) (\<lambda>_.
     bindE (validate_protected_file F (pp_executable peer) ''broker peer executable'') (\<lambda>_.
     bindE (hash_file E F (pp_executable peer)) (\<lambda>actual.
     ensure (actual = pp_executable_sha256 peer)
       (BInvalid ''broker peer executable digest does not match policy'')))))"

definition validate_launch_policy :: "externals \<Rightarrow> file_system \<Rightarrow> launch_policy \<Rightarrow> unit broker_result" where
  "validate_launch_policy E F policy =
     bindE (validate_sha256 (lp_executable_sha256 policy)) (\<lambda>_.
     bindE (validate_protected_file F (lp_executable policy) ''launch executable'') (\<lambda>_.
     bindE (hash_file E F (lp_executable policy)) (\<lambda>actual.
     bindE (ensure (actual = lp_executable_sha256 policy)
              (BInvalid ''launch executable digest does not match policy'')) (\<lambda>_.
     bindE (validate_protected_directory F (lp_working_directory policy) ''working directory'') (\<lambda>_.
     bindE (ensure (\<not> (lp_target_uid policy = 0 \<or> lp_target_gid policy = 0))
              (BInvalid ''launch target UID/GID must not be root'')) (\<lambda>_.
     bindE (ensure (\<not> (MAX_ARGUMENTS < length (lp_arguments policy)
                       \<or> list_ex (\<lambda>argument. MAX_ARGUMENT_BYTES < length argument \<or> contains_nul argument)
                            (lp_arguments policy)))
              (BInvalid ''launch arguments exceed bounds'')) (\<lambda>_.
     bindE (ensure (\<not> (MAX_ENVIRONMENT < length (lp_environment policy)
                       \<or> list_ex (\<lambda>(name, value). name = [] \<or> CHR ''='' \<in> set name \<or> contains_nul name
                              \<or> contains_nul value \<or> MAX_ENVIRONMENT_BYTES < length name + length value)
                            (lp_environment policy)))
              (BInvalid ''launch environment exceeds bounds'')) (\<lambda>_.
     bindE (ensure (\<not> (lp_timeout policy = 0 \<or> MAX_TIMEOUT < lp_timeout policy))
              (BInvalid ''launch timeout is out of bounds'')) (\<lambda>_.
     bindE (ensure (\<not> (\<not> cap_no_new_privileges (lp_capabilities policy)
                       \<or> cap_bounding_set (lp_capabilities policy) \<noteq> 0
                       \<or> cap_ambient_set (lp_capabilities policy) \<noteq> 0))
              (BInvalid ''launch capability policy must have zero capability sets and retain no-new-privileges'')) (\<lambda>_.
     ensure (\<not> (cg_tasks_max (lp_cgroup policy) = 0 \<or> MAX_TASKS < cg_tasks_max (lp_cgroup policy)
               \<or> cg_memory_max_bytes (lp_cgroup policy) = 0
               \<or> MAX_MEMORY_BYTES < cg_memory_max_bytes (lp_cgroup policy)))
       (BInvalid ''launch cgroup limits are out of bounds'')))))))))))"

fun validate_components ::
  "externals \<Rightarrow> file_system \<Rightarrow> u32 list \<Rightarrow> u32 list \<Rightarrow> launch_policy list \<Rightarrow> unit broker_result" where
  "validate_components E F uids gids [] = Inr ()"
| "validate_components E F uids gids (policy # rest) =
     bindE (validate_launch_policy E F policy) (\<lambda>_.
     bindE (ensure (lp_target_uid policy \<notin> set uids)
              (BInvalid ''component target UIDs must be distinct from the peer and each other'')) (\<lambda>_.
     bindE (ensure (lp_target_gid policy \<notin> set gids)
              (BInvalid ''component target GIDs must be distinct from the peer and each other'')) (\<lambda>_.
     validate_components E F (lp_target_uid policy # uids) (lp_target_gid policy # gids) rest)))"

definition broker_policy_new ::
  "externals \<Rightarrow> file_system \<Rightarrow> peer_policy \<Rightarrow> (broker_component \<times> launch_policy) list \<Rightarrow> broker_policy broker_result" where
  "broker_policy_new E F peer components =
     bindE (ensure (\<not> (components = [] \<or> MAX_POLICY_COMPONENTS < length components))
              (BInvalid ''component policy count is out of bounds'')) (\<lambda>_.
     bindE (validate_peer E F peer) (\<lambda>_.
     bindE (validate_components E F [pp_uid peer] [pp_gid peer] (map snd components)) (\<lambda>_.
     Inr \<lparr>bp_peer = peer, bp_components = components\<rparr>)))"

definition policy_component :: "broker_policy \<Rightarrow> broker_component \<Rightarrow> launch_policy broker_result" where
  "policy_component policy component =
     ok_or (BUnauthorized ''component is not in the fixed policy'') (map_of (bp_components policy) component)"

text \<open>The document of the policy file: the same fields, with the timeout in milliseconds.\<close>

record launch_policy_document =
  ld_policy :: launch_policy
  ld_timeout_ms :: u64

record policy_document =
  pd_peer :: peer_policy
  pd_components :: "(broker_component \<times> launch_policy_document) list"

text \<open>
  \<^verbatim>\<open>parse_json\<close>: the text parsed by \<^verbatim>\<open>serde_json\<close> with every object's members in text order, the
  refusal of duplicate members, and the typed deserialization (a parameter). The position that
  \<^verbatim>\<open>serde_json\<close> appends to the refusal is left out.
\<close>

fun strict_json :: "json \<Rightarrow> bool" where
  "strict_json (JObject kvs) \<longleftrightarrow> distinct (map fst kvs) \<and> list_all (\<lambda>kv. strict_json (snd kv)) kvs"
| "strict_json (JArray vs) \<longleftrightarrow> list_all strict_json vs"
| "strict_json v \<longleftrightarrow> True"

text \<open>
  \<open>from_slice\<close> keeps duplicate members; the source refuses a duplicate while it reads, so the two may report
  different errors for a text that is malformed behind a duplicate.
\<close>

definition parse_json ::
  "(string \<Rightarrow> string + json) \<Rightarrow> (json \<Rightarrow> string + 'a) \<Rightarrow> string \<Rightarrow> string \<Rightarrow> 'a broker_result" where
  "parse_json from_slice from_value bytes label =
     bindE (map_err (\<lambda>error. BInvalid (label @ '' is invalid: '' @ error)) (from_slice bytes)) (\<lambda>value.
     bindE (ensure (strict_json value)
              (BInvalid (label @ '' is invalid: duplicate JSON object member is not allowed''))) (\<lambda>_.
     map_err (\<lambda>error. BInvalid (label @ '' schema is invalid: '' @ error)) (from_value value)))"

definition broker_policy_from_file ::
  "externals \<Rightarrow> file_system \<Rightarrow> (string \<Rightarrow> string + json) \<Rightarrow> (json \<Rightarrow> string + policy_document) \<Rightarrow> path_buf
   \<Rightarrow> broker_policy broker_result" where
  "broker_policy_from_file E F from_slice from_value path =
     bindE (validate_protected_file F path ''broker policy'') (\<lambda>_.
     bindE (read_bounded_file F path MAX_FRAME_BYTES ''broker policy'') (\<lambda>bytes.
     bindE (parse_json from_slice from_value bytes ''broker policy JSON'') (\<lambda>document.
     broker_policy_new E F (pd_peer document)
       (map (\<lambda>(component, entry).
          (component, (ld_policy entry)\<lparr>lp_timeout := unat (ld_timeout_ms entry) * 1000000\<rparr>))
          (pd_components document)))))"

section \<open>The connected peer\<close>

record peer_credentials =
  pc_pid :: u32
  pc_uid :: u32
  pc_gid :: u32

text \<open>
  What the kernel answers while a peer is authenticated: whether the deadline has expired at the
  n-th look at the clock, the process handle, the start token at the first and the second look,
  the link to the executable and its content.
\<close>

record peer_os =
  po_expired :: "nat \<Rightarrow> bool"
  po_pidfd_open :: "u32 \<Rightarrow> string + unit"
  po_start_token :: "nat \<Rightarrow> u32 \<Rightarrow> string broker_result"
  po_read_exe_link :: "u32 \<Rightarrow> string + path_buf"
  po_open_exe :: "u32 \<Rightarrow> opened_file"

definition remaining :: "peer_os \<Rightarrow> nat \<Rightarrow> unit broker_result" where
  "remaining K n = ensure (\<not> po_expired K n) (BUnavailable ''broker operation deadline expired'')"

definition authenticate_peer :: "externals \<Rightarrow> peer_os \<Rightarrow> peer_credentials \<Rightarrow> peer_policy \<Rightarrow> unit broker_result" where
  "authenticate_peer E K credentials policy =
     bindE (remaining K 0) (\<lambda>_.
     bindE (ensure (\<not> (pc_pid credentials = 0 \<or> pc_uid credentials \<noteq> pp_uid policy
                       \<or> pc_gid credentials \<noteq> pp_gid policy))
              (BUnauthorized ''peer credentials are not approved'')) (\<lambda>_.
     bindE (ensure (uint (pc_pid credentials) < 2 ^ 31) (BUnauthorized ''peer PID is out of bounds'')) (\<lambda>_.
     bindE (map_err (\<lambda>error. BUnauthorized (''peer process identity is unavailable: '' @ error))
              (po_pidfd_open K (pc_pid credentials))) (\<lambda>_.
     bindE (remaining K 1) (\<lambda>_.
     bindE (po_start_token K 0 (pc_pid credentials)) (\<lambda>start_before.
     bindE (map_err BIo (po_read_exe_link K (pc_pid credentials))) (\<lambda>executable.
     bindE (ensure (executable = pp_executable policy) (BUnauthorized ''peer executable path is not approved'')) (\<lambda>_.
     bindE (map_err BIo (po_open_exe K (pc_pid credentials))) (\<lambda>file.
     bindE (hash_open_file_until E file) (\<lambda>actual.
     bindE (remaining K 2) (\<lambda>_.
     bindE (po_start_token K 1 (pc_pid credentials)) (\<lambda>start_after.
     bindE (ensure (start_before = start_after)
              (BUnauthorized ''peer process identity changed during authentication'')) (\<lambda>_.
     ensure (actual = pp_executable_sha256 policy)
       (BUnauthorized ''peer executable digest is not approved''))))))))))))))"

section \<open>Units, jobs, receipts and bootstrap bindings\<close>

definition unit_name :: "externals \<Rightarrow> broker_request \<Rightarrow> string" where
  "unit_name E request =
     ''ascension-watchdog-'' @ broker_component_as_str (rq_component request) @ ''-''
     @ take 24 (hex_digest E (broker_component_as_str (rq_component request) @ [nul] @ rq_instance request @ [nul]
         @ rq_incarnation request @ [nul] @ rq_nonce request))
     @ ''.service''"

definition MAX_JOB_PATH_BYTES :: nat where "MAX_JOB_PATH_BYTES = 128"

definition SYSTEMD_JOB_PATH_PREFIX :: string where
  "SYSTEMD_JOB_PATH_PREFIX = ''/org/freedesktop/systemd1/job/''"

record job_binding =
  jb_unit :: string
  jb_job_id :: u32
  jb_job_path :: string

text \<open>\<^verbatim>\<open>str::parse::<u32>\<close> on decimal digits.\<close>

definition parse_u32_digits :: "string \<Rightarrow> u32 option" where
  "parse_u32_digits s =
     (case parse_digits s of None \<Rightarrow> None | Some n \<Rightarrow> if n < 2 ^ 32 then Some (of_nat n) else None)"

definition strip_prefix :: "string \<Rightarrow> string \<Rightarrow> string option" where
  "strip_prefix p s = (if take (length p) s = p then Some (drop (length p) s) else None)"

definition ends_with :: "string \<Rightarrow> string \<Rightarrow> bool" where
  "ends_with s p = (length p \<le> length s \<and> drop (length s - length p) s = p)"

definition parse_job_path :: "string \<Rightarrow> u32 broker_result" where
  "parse_job_path job_path =
     bindE (ensure (\<not> (MAX_JOB_PATH_BYTES < length job_path \<or> contains_nul job_path))
              (BInvalid ''systemd job object path exceeds its bound'')) (\<lambda>_.
     bindE (ok_or (BInvalid ''systemd job object path is not canonical'')
              (strip_prefix SYSTEMD_JOB_PATH_PREFIX job_path)) (\<lambda>id_text.
     bindE (ensure (\<not> (id_text = [] \<or> 10 < length id_text \<or> id_text = ''0'' \<or> hd id_text = CHR ''0''
                       \<or> list_ex (\<lambda>c. \<not> is_digit c) id_text))
              (BInvalid ''systemd job object path has an invalid ID'')) (\<lambda>_.
     ok_or (BInvalid ''systemd job object path ID is out of bounds'') (parse_u32_digits id_text))))"

definition job_validate_syntax :: "job_binding \<Rightarrow> unit broker_result" where
  "job_validate_syntax job =
     bindE (ensure (\<not> (jb_unit job = [] \<or> MAX_IDENTITY_BYTES < length (jb_unit job)))
              (BInvalid ''systemd job unit binding is out of bounds'')) (\<lambda>_.
     bindE (parse_job_path (jb_job_path job)) (\<lambda>parsed.
     ensure (parsed = jb_job_id job) (BConflict ''systemd job ID does not match its object path'')))"

definition job_from_object_path :: "string \<Rightarrow> string \<Rightarrow> job_binding broker_result" where
  "job_from_object_path unit job_path =
     bindE (parse_job_path job_path) (\<lambda>job_id.
     let binding = \<lparr>jb_unit = unit, jb_job_id = job_id, jb_job_path = job_path\<rparr> in
     bindE (job_validate_syntax binding) (\<lambda>_. Inr binding))"

definition job_validate_for_request :: "externals \<Rightarrow> job_binding \<Rightarrow> broker_request \<Rightarrow> unit broker_result" where
  "job_validate_for_request E job request =
     bindE (request_validate request) (\<lambda>_.
     bindE (job_validate_syntax job) (\<lambda>_.
     ensure (jb_unit job = unit_name E request)
       (BConflict ''systemd job binding does not match the generated unit'')))"

record unit_observation =
  uo_unit :: string
  uo_pid :: u32
  uo_creation_token :: string
  uo_executable :: path_buf
  uo_executable_sha256 :: string
  uo_uid :: u32
  uo_gid :: u32
  uo_capability_bounding_set :: u64
  uo_ambient_capabilities :: u64
  uo_no_new_privileges :: bool
  uo_control_group :: string

definition observation_verify :: "unit_observation \<Rightarrow> string \<Rightarrow> launch_policy \<Rightarrow> unit broker_result" where
  "observation_verify ob unit policy =
     ensure (\<not> (uo_unit ob \<noteq> unit \<or> uo_pid ob = 0 \<or> uo_creation_token ob = []
               \<or> uo_executable ob \<noteq> lp_executable policy
               \<or> uo_executable_sha256 ob \<noteq> lp_executable_sha256 policy
               \<or> uo_uid ob \<noteq> lp_target_uid policy \<or> uo_gid ob \<noteq> lp_target_gid policy
               \<or> uo_capability_bounding_set ob \<noteq> cap_bounding_set (lp_capabilities policy)
               \<or> uo_ambient_capabilities ob \<noteq> cap_ambient_set (lp_capabilities policy)
               \<or> uo_no_new_privileges ob \<noteq> cap_no_new_privileges (lp_capabilities policy)
               \<or> \<not> ends_with (uo_control_group ob) (''/'' @ unit)))
       (BConflict ''systemd unit postcondition does not match fixed policy'')"

record launch_receipt =
  lc_request :: broker_request
  lc_unit :: string
  lc_pid :: u32
  lc_creation_token :: string
  lc_executable :: path_buf
  lc_executable_sha256 :: string
  lc_uid :: u32
  lc_gid :: u32
  lc_capability_bounding_set :: u64
  lc_ambient_capabilities :: u64
  lc_control_group :: string
  lc_duplicate :: bool

definition receipt_from :: "broker_request \<Rightarrow> unit_observation \<Rightarrow> bool \<Rightarrow> launch_receipt" where
  "receipt_from request ob duplicate =
     \<lparr>lc_request = request, lc_unit = uo_unit ob, lc_pid = uo_pid ob, lc_creation_token = uo_creation_token ob,
      lc_executable = uo_executable ob, lc_executable_sha256 = uo_executable_sha256 ob, lc_uid = uo_uid ob,
      lc_gid = uo_gid ob, lc_capability_bounding_set = uo_capability_bounding_set ob,
      lc_ambient_capabilities = uo_ambient_capabilities ob, lc_control_group = uo_control_group ob,
      lc_duplicate = duplicate\<rparr>"

definition verify_receipt_identity ::
  "launch_receipt \<Rightarrow> broker_request \<Rightarrow> string \<Rightarrow> launch_policy \<Rightarrow> unit broker_result" where
  "verify_receipt_identity receipt request unit policy =
     ensure (\<not> (lc_request receipt \<noteq> request \<or> lc_unit receipt \<noteq> unit \<or> lc_pid receipt = 0
               \<or> lc_creation_token receipt = [] \<or> lc_executable receipt \<noteq> lp_executable policy
               \<or> lc_executable_sha256 receipt \<noteq> lp_executable_sha256 policy
               \<or> lc_uid receipt \<noteq> lp_target_uid policy \<or> lc_gid receipt \<noteq> lp_target_gid policy
               \<or> lc_capability_bounding_set receipt \<noteq> cap_bounding_set (lp_capabilities policy)
               \<or> lc_ambient_capabilities receipt \<noteq> cap_ambient_set (lp_capabilities policy)
               \<or> \<not> ends_with (lc_control_group receipt) (''/'' @ unit)))
       (BConflict ''durable lifecycle receipt does not match fixed policy'')"

datatype bootstrap_kind = GatewayHealth | Worker

definition BOOTSTRAP_BINDING_VERSION :: nat where "BOOTSTRAP_BINDING_VERSION = 2"

record bootstrap_binding =
  bb_version :: nat
  bb_kind :: bootstrap_kind
  bb_watchdog_boot_id :: string
  bb_frame_sha256 :: string

definition broker_uuid4 :: "externals \<Rightarrow> string \<Rightarrow> string \<Rightarrow> uuid broker_result" where
  "broker_uuid4 E value label =
     bindE (map_err (\<lambda>_. BInvalid label) (uuid_parse_str E value)) (\<lambda>u.
     bindE (ensure (\<not> (uuid_is_nil u \<or> uuid_variant_of u \<noteq> RFC4122 \<or> uuid_version_num u \<noteq> 4 \<or> uuid_to_string u \<noteq> value))
              (BInvalid label)) (\<lambda>_. Inr u))"

definition bootstrap_digest :: "string \<Rightarrow> unit broker_result" where
  "bootstrap_digest value =
     ensure (\<not> (length value \<noteq> 64 \<or> \<not> list_all (\<lambda>c. is_digit c \<or> (97 \<le> byte c \<and> byte c \<le> 102)) value))
       (BInvalid ''broker bootstrap frame digest is invalid'')"

definition binding_validate :: "externals \<Rightarrow> bootstrap_binding \<Rightarrow> broker_request \<Rightarrow> unit broker_result" where
  "binding_validate E b request =
     bindE (request_validate request) (\<lambda>_.
     bindE (ensure (bb_version b = BOOTSTRAP_BINDING_VERSION)
              (BInvalid ''unsupported broker bootstrap binding version'')) (\<lambda>_.
     bindE (ensure (rq_component request = (case bb_kind b of GatewayHealth \<Rightarrow> Gateway | Worker \<Rightarrow> Harness))
              (BInvalid ''broker bootstrap role does not match the request'')) (\<lambda>_.
     bindE (broker_uuid4 E (rq_nonce request) ''broker bootstrap launch nonce'') (\<lambda>_.
     bindE (broker_uuid4 E (bb_watchdog_boot_id b) ''broker bootstrap watchdog boot id'') (\<lambda>_.
     bootstrap_digest (bb_frame_sha256 b))))))"

record bootstrap_launch =
  bl_binding :: bootstrap_binding
  bl_frame :: string

definition validate_frame_digest :: "externals \<Rightarrow> bootstrap_binding \<Rightarrow> string \<Rightarrow> unit broker_result" where
  "validate_frame_digest E b frame =
     ensure (hex_digest E frame = bb_frame_sha256 b) (BInvalid ''broker bootstrap frame digest differs'')"

definition validate_gateway_frame ::
  "externals \<Rightarrow> uuid_bytes \<Rightarrow> broker_request \<Rightarrow> bootstrap_binding \<Rightarrow> string \<Rightarrow> unit broker_result" where
  "validate_gateway_frame E U request b frame =
     bindE (map_err (\<lambda>_. BInvalid ''broker Gateway health bootstrap frame is invalid'') (gateway_from_frame U frame)) (\<lambda>decoded.
     bindE (ensure (uuid_to_string (gb_launch_nonce decoded) = rq_nonce request)
              (BInvalid ''broker Gateway health bootstrap nonce differs'')) (\<lambda>_.
     validate_frame_digest E b frame))"

definition validate_worker_frame :: "externals \<Rightarrow> broker_request \<Rightarrow> bootstrap_binding \<Rightarrow> string \<Rightarrow> unit broker_result" where
  "validate_worker_frame E request b frame =
     bindE (map_err (\<lambda>_. BInvalid ''broker worker bootstrap frame is invalid'') (decode_frame E frame)) (\<lambda>decoded.
     bindE (ensure (uuid_to_string (wbs_launch_nonce decoded) = rq_nonce request)
              (BInvalid ''broker worker bootstrap nonce differs'')) (\<lambda>_.
     bindE (ensure (uuid_to_string (wbs_watchdog_boot_id decoded) = bb_watchdog_boot_id b)
              (BInvalid ''broker worker bootstrap watchdog boot differs'')) (\<lambda>_.
     bindE (ensure (wbs_component_id decoded = rq_instance request)
              (BInvalid ''broker worker bootstrap component differs'')) (\<lambda>_.
     bindE (ensure (case wbs_expected_peer decoded of LinuxPeer _ \<Rightarrow> True | WindowsPeer _ \<Rightarrow> False)
              (BInvalid ''broker worker bootstrap expected peer is not Linux'')) (\<lambda>_.
     validate_frame_digest E b frame)))))"

definition launch_from_frame ::
  "externals \<Rightarrow> uuid_bytes \<Rightarrow> broker_request \<Rightarrow> bootstrap_binding \<Rightarrow> string \<Rightarrow> bootstrap_launch broker_result" where
  "launch_from_frame E U request b frame =
     bindE (binding_validate E b request) (\<lambda>_.
     bindE (ensure (\<not> (frame = [] \<or> MAX_WORKER_FRAME_BYTES < length frame))
              (BInvalid ''broker bootstrap frame exceeds its size bound'')) (\<lambda>_.
     bindE (case bb_kind b of
              GatewayHealth \<Rightarrow> validate_gateway_frame E U request b frame
            | Worker \<Rightarrow> validate_worker_frame E request b frame) (\<lambda>_.
     Inr \<lparr>bl_binding = b, bl_frame = frame\<rparr>)))"

definition launch_validate_for_request ::
  "externals \<Rightarrow> uuid_bytes \<Rightarrow> bootstrap_launch \<Rightarrow> broker_request \<Rightarrow> unit broker_result" where
  "launch_validate_for_request E U bootstrap request =
     bindE (launch_from_frame E U request (bl_binding bootstrap) (bl_frame bootstrap)) (\<lambda>_. Inr ())"

definition HEALTH_NONCE_ENV :: string where
  "HEALTH_NONCE_ENV = ''STS2_GATEWAY_WATCHDOG_LAUNCH_NONCE''"

definition launch_environment ::
  "externals \<Rightarrow> uuid_bytes \<Rightarrow> launch_policy \<Rightarrow> broker_request \<Rightarrow> bootstrap_launch option \<Rightarrow> string list broker_result" where
  "launch_environment E U policy request bootstrap =
     (let environment = map (\<lambda>(name, value). name @ ''='' @ value) (lp_environment policy) in
      case bootstrap of
        None \<Rightarrow> Inr environment
      | Some bootstrap \<Rightarrow>
          bindE (launch_validate_for_request E U bootstrap request) (\<lambda>_.
          if bb_kind (bl_binding bootstrap) = GatewayHealth then
            bindE (ensure (\<not> MAX_ENVIRONMENT \<le> length (lp_environment policy))
                     (BInvalid ''generated health nonce would exceed the environment bound'')) (\<lambda>_.
            bindE (ensure (\<not> list_ex (\<lambda>(name, _). name = HEALTH_NONCE_ENV) (lp_environment policy))
                     (BInvalid ''fixed broker policy may not override the generated health nonce'')) (\<lambda>_.
            Inr (environment @ [HEALTH_NONCE_ENV @ ''='' @ rq_nonce request])))
          else Inr environment))"

text \<open>
  The controller named in a worker frame must be the authenticated peer. \<open>path_of\<close> reads a path from its
  text as \<^verbatim>\<open>Path::new\<close> does; the birth token is looked up once more.
\<close>

definition rsplit_colon :: "string \<Rightarrow> string option" where
  "rsplit_colon s = (if CHR '':'' \<in> set s then Some (rev (takeWhile (\<lambda>c. c \<noteq> CHR '':'') (rev s))) else None)"

definition authenticate_worker_peer ::
  "externals \<Rightarrow> peer_os \<Rightarrow> (string \<Rightarrow> path_buf) \<Rightarrow> bootstrap_launch \<Rightarrow> peer_credentials \<Rightarrow> peer_policy \<Rightarrow> unit broker_result" where
  "authenticate_worker_peer E K path_of bootstrap credentials policy =
     (if bb_kind (bl_binding bootstrap) \<noteq> Worker then Inr ()
      else
        bindE (map_err (\<lambda>_. BInvalid ''worker bootstrap frame is invalid'') (decode_frame E (bl_frame bootstrap))) (\<lambda>worker.
        case wbs_expected_peer worker of
          WindowsPeer _ \<Rightarrow> Inl (BInvalid ''broker worker bootstrap requires a Linux controller'')
        | LinuxPeer peer \<Rightarrow>
            bindE (remaining K 3) (\<lambda>_.
            bindE (po_start_token K 2 (pc_pid credentials)) (\<lambda>birth.
            bindE (ok_or (BUnauthorized ''broker controller birth identity is invalid'') (rsplit_colon birth)) (\<lambda>start_ticks.
            bindE (ensure (\<not> (lx_pid peer \<noteq> pc_pid credentials \<or> lx_uid peer \<noteq> pc_uid credentials
                              \<or> lx_gid peer \<noteq> pc_gid credentials \<or> path_of (lx_executable peer) \<noteq> pp_executable policy
                              \<or> lx_executable_sha256 peer \<noteq> pp_executable_sha256 policy
                              \<or> lx_creation_token peer \<noteq> start_ticks))
                     (BUnauthorized ''worker bootstrap controller differs from the authenticated peer'')) (\<lambda>_.
            remaining K 4))))))"

text \<open>The simplifier leaves the text of an error message alone.\<close>

lemma broker_error_cong [cong]:
  "BInvalid m = BInvalid m" "BUnauthorized m = BUnauthorized m" "BConflict m = BConflict m" "BUnavailable m = BUnavailable m"
  "BIo m = BIo m"
  by simp_all

end
