(* ===== verification/Broker_Ledger.thy ===== *)
theory Broker_Ledger
  imports Broker_Protocol
begin

text \<open>
  The durable idempotence journal of the launch broker: its records and their strict decoder
  (\<^verbatim>\<open>ledger_records.rs\<close>), and the state with every transition (\<^verbatim>\<open>ledger_store.rs\<close>). A transition is
  appended to the journal file before it is visible in memory.
\<close>

section \<open>Ordered maps\<close>

text \<open>A \<^verbatim>\<open>BTreeMap\<close> is its list of entries in the order of the keys; \<^verbatim>\<open>get\<close> is \<^const>\<open>map_of\<close>.\<close>

fun btree_insert :: "'k::linorder \<Rightarrow> 'v \<Rightarrow> ('k \<times> 'v) list \<Rightarrow> ('k \<times> 'v) list" where
  "btree_insert k v [] = [(k, v)]"
| "btree_insert k v ((k', v') # m) =
     (if k < k' then (k, v) # (k', v') # m
      else if k = k' then (k, v) # m
      else (k', v') # btree_insert k v m)"

definition btree :: "('k::linorder \<times> 'v) list \<Rightarrow> bool" where
  "btree m \<longleftrightarrow> sorted_wrt (<) (map fst m)"

lemma btree_Nil [simp]: "btree []"
  by (simp add: btree_def)

lemma map_of_btree_insert [simp]: "map_of (btree_insert k v m) = (map_of m)(k \<mapsto> v)"
  by (induction m) auto

lemma set_btree_insert: "set (btree_insert k v m) \<subseteq> insert (k, v) (set m)"
  by (induction m) (auto split: if_splits)

lemma fst_btree_insert: "fst ` set (btree_insert k v m) = insert k (fst ` set m)"
proof (induction m)
  case (Cons e m)
  then show ?case by (cases e) (simp add: insert_commute)
qed simp

lemma btree_btree_insert [simp]: "btree m \<Longrightarrow> btree (btree_insert k v m)"
proof (induction m)
  case (Cons e m)
  obtain k' v' where e: "e = (k', v')" by (cases e)
  have "\<forall>x \<in> fst ` set (btree_insert k v m). k' < x" if "k' < k"
    using Cons.prems that by (auto simp: e btree_def fst_btree_insert)
  then show ?case using Cons by (auto simp: e btree_def)
qed (simp add: btree_def)

lemma length_btree_insert:
  "btree m \<Longrightarrow> length (btree_insert k v m) = (if map_of m k = None then Suc (length m) else length m)"
proof (induction m)
  case (Cons e m)
  obtain k' v' where e: "e = (k', v')" by (cases e)
  have "map_of m k = None" if "k < k'"
    using Cons.prems that by (force simp: e btree_def map_of_eq_None_iff)
  then show ?case using Cons by (auto simp: e btree_def)
qed simp

lemma btree_lookup: "btree m \<Longrightarrow> (k, v) \<in> set m \<longleftrightarrow> map_of m k = Some v"
  by (simp add: btree_def strict_sorted_iff)

section \<open>Records\<close>

datatype ledger_state = LPending | LCommitted | LStopPending | LStopped

record launch_identity =
  li_executable :: path_buf
  li_executable_sha256 :: string
  li_arguments :: "string list"
  li_working_directory :: path_buf
  li_environment :: "(string \<times> string) list"
  li_target_uid :: u32
  li_target_gid :: u32
  li_capability_bounding_set :: u64
  li_ambient_capabilities :: u64
  li_no_new_privileges :: bool
  li_tasks_max :: u64
  li_memory_max_bytes :: u64
  li_timeout_nanos :: u64

definition identity_from_policy :: "launch_policy \<Rightarrow> launch_identity" where
  "identity_from_policy policy =
     \<lparr>li_executable = lp_executable policy, li_executable_sha256 = lp_executable_sha256 policy,
      li_arguments = lp_arguments policy, li_working_directory = lp_working_directory policy,
      li_environment = lp_environment policy, li_target_uid = lp_target_uid policy,
      li_target_gid = lp_target_gid policy,
      li_capability_bounding_set = cap_bounding_set (lp_capabilities policy),
      li_ambient_capabilities = cap_ambient_set (lp_capabilities policy),
      li_no_new_privileges = cap_no_new_privileges (lp_capabilities policy),
      li_tasks_max = cg_tasks_max (lp_cgroup policy), li_memory_max_bytes = cg_memory_max_bytes (lp_cgroup policy),
      li_timeout_nanos = (if lp_timeout policy < 2 ^ 64 then of_nat (lp_timeout policy) else - 1)\<rparr>"

definition matches_policy :: "launch_identity \<Rightarrow> launch_policy \<Rightarrow> bool" where
  "matches_policy identity policy = (identity = identity_from_policy policy)"

record ledger_record =
  lr_request :: broker_request
  lr_unit :: string
  lr_identity :: launch_identity
  lr_bootstrap :: "bootstrap_binding option"
  lr_job :: "job_binding option"
  lr_cancel_requested :: "bool option"
  lr_state :: ledger_state
  lr_receipt :: "launch_receipt option"

type_synonym ledger_records = "(broker_request \<times> ledger_record) list"

datatype lifecycle_record =
    RecPending
  | RecCommitted launch_receipt
  | RecStopPending launch_receipt
  | RecStopped launch_receipt

definition same_process_binding :: "launch_receipt \<Rightarrow> launch_receipt \<Rightarrow> bool" where
  "same_process_binding previous current \<longleftrightarrow>
     lc_request previous = lc_request current \<and> lc_unit previous = lc_unit current
     \<and> lc_pid previous = lc_pid current \<and> lc_creation_token previous = lc_creation_token current
     \<and> lc_executable previous = lc_executable current
     \<and> lc_executable_sha256 previous = lc_executable_sha256 current
     \<and> lc_uid previous = lc_uid current \<and> lc_gid previous = lc_gid current
     \<and> lc_capability_bounding_set previous = lc_capability_bounding_set current
     \<and> lc_ambient_capabilities previous = lc_ambient_capabilities current
     \<and> lc_control_group previous = lc_control_group current"

section \<open>Decoding\<close>

text \<open>
  The codec of a record: \<^verbatim>\<open>serde_json\<close>'s parser, the derived deserialization and the derived
  serialization of \<^verbatim>\<open>LedgerRecord\<close>.
\<close>

record ledger_codec =
  lk_from_slice :: "string \<Rightarrow> string + json"
  lk_from_value :: "json \<Rightarrow> string + ledger_record"
  lk_to_vec :: "ledger_record \<Rightarrow> string + string"

definition newline :: char where
  "newline = CHR 0x0A"

text \<open>The match on the previous record of the request, the new state and the new receipt.\<close>

fun successor_of :: "ledger_state \<Rightarrow> ledger_state \<Rightarrow> bool" where
  "successor_of LCommitted previous = (previous = LPending)"
| "successor_of LStopPending previous = (previous = LCommitted)"
| "successor_of LStopped previous = (previous = LStopPending)"
| "successor_of LPending previous = False"

definition check_receipt_step :: "ledger_record \<Rightarrow> ledger_record \<Rightarrow> launch_receipt \<Rightarrow> unit broker_result" where
  "check_receipt_step previous record receipt =
     (let failed_launch_cleanup = (lr_state record = LStopPending \<and> lr_state previous = LPending \<and> lr_receipt previous = None) in
      ensure (\<not> ((\<not> failed_launch_cleanup \<and> \<not> successor_of (lr_state record) (lr_state previous))
                \<or> lr_unit previous \<noteq> lr_unit record \<or> lr_identity previous \<noteq> lr_identity record
                \<or> lr_bootstrap previous \<noteq> lr_bootstrap record \<or> lr_job previous \<noteq> lr_job record
                \<or> lr_cancel_requested previous \<noteq> lr_cancel_requested record
                \<or> (case lr_receipt previous of None \<Rightarrow> False | Some prior \<Rightarrow> \<not> same_process_binding prior receipt)
                \<or> lc_request receipt \<noteq> lr_request record \<or> lc_unit receipt \<noteq> lr_unit record
                \<or> lc_executable receipt \<noteq> li_executable (lr_identity record)
                \<or> lc_executable_sha256 receipt \<noteq> li_executable_sha256 (lr_identity record)
                \<or> lc_pid receipt = 0 \<or> lc_creation_token receipt = []
                \<or> lc_uid receipt \<noteq> li_target_uid (lr_identity record) \<or> lc_gid receipt \<noteq> li_target_gid (lr_identity record)
                \<or> lc_capability_bounding_set receipt \<noteq> li_capability_bounding_set (lr_identity record)
                \<or> lc_ambient_capabilities receipt \<noteq> li_ambient_capabilities (lr_identity record)
                \<or> \<not> ends_with (lc_control_group receipt) (''/'' @ lr_unit record)))
        (BConflict ''broker ledger committed record is inconsistent''))"

definition check_pending_step :: "ledger_record \<Rightarrow> ledger_record \<Rightarrow> unit broker_result" where
  "check_pending_step previous record =
     (let job_binding_extension = (lr_state previous = LPending \<and> lr_receipt previous = None \<and> lr_job previous = None
            \<and> lr_job record \<noteq> None \<and> lr_cancel_requested previous = lr_cancel_requested record);
          cancel_intent_extension = (lr_state previous = LPending \<and> lr_receipt previous = None
            \<and> lr_cancel_requested previous = None \<and> lr_cancel_requested record = Some True
            \<and> lr_job previous = lr_job record) in
      ensure (\<not> ((\<not> job_binding_extension \<and> \<not> cancel_intent_extension) \<or> lr_unit previous \<noteq> lr_unit record
                \<or> lr_identity previous \<noteq> lr_identity record \<or> lr_bootstrap previous \<noteq> lr_bootstrap record))
        (BInvalid ''broker ledger has a duplicate or regressed pending record''))"

definition check_transition :: "ledger_record option \<Rightarrow> ledger_record \<Rightarrow> unit broker_result" where
  "check_transition previous record =
     (case (previous, lr_state record, lr_receipt record) of
        (None, LPending, None) \<Rightarrow>
          ensure (lr_cancel_requested record = None)
            (BInvalid ''broker cancellation intent lacks a pending predecessor'')
      | (None, LCommitted, _) \<Rightarrow> Inl (BInvalid ''broker ledger committed record lacks a pending predecessor'')
      | (None, LStopPending, _) \<Rightarrow> Inl (BInvalid ''broker ledger lifecycle record lacks a committed predecessor'')
      | (None, LStopped, _) \<Rightarrow> Inl (BInvalid ''broker ledger lifecycle record lacks a committed predecessor'')
      | (None, LPending, Some _) \<Rightarrow> Inl (BInvalid ''pending broker ledger record must not have a receipt'')
      | (Some previous, LPending, None) \<Rightarrow> check_pending_step previous record
      | (Some _, LPending, Some _) \<Rightarrow> Inl (BInvalid ''broker ledger has a duplicate or regressed pending record'')
      | (Some previous, _, Some receipt) \<Rightarrow> check_receipt_step previous record receipt
      | (Some _, _, None) \<Rightarrow> Inl (BInvalid ''terminal broker ledger record lacks a receipt''))"

definition check_record :: "externals \<Rightarrow> ledger_record \<Rightarrow> unit broker_result" where
  "check_record E record =
     bindE (request_validate (lr_request record)) (\<lambda>_.
     bindE (case lr_bootstrap record of None \<Rightarrow> Inr () | Some b \<Rightarrow> binding_validate E b (lr_request record)) (\<lambda>_.
     bindE (case lr_job record of None \<Rightarrow> Inr () | Some job \<Rightarrow> job_validate_for_request E job (lr_request record)) (\<lambda>_.
     ensure (lr_unit record = unit_name E (lr_request record))
       (BConflict ''broker ledger unit does not match request identity''))))"

fun parse_lines ::
  "externals \<Rightarrow> ledger_codec \<Rightarrow> nat \<Rightarrow> ledger_records \<Rightarrow> (string \<times> broker_request) list \<Rightarrow> string list
   \<Rightarrow> ledger_records broker_result" where
  "parse_lines E C count records units [] = Inr records"
| "parse_lines E C count records units (line # lines) =
     (if line = [] then parse_lines E C count records units lines
      else
        bindE (ensure (\<not> MAX_LEDGER_TRANSITIONS < count + 1)
                 (BInvalid ''broker ledger transition count exceeds bound'')) (\<lambda>_.
        bindE (parse_json (lk_from_slice C) (lk_from_value C) line ''broker ledger record'') (\<lambda>record.
        bindE (check_record E record) (\<lambda>_.
        bindE (ensure (case map_of units (lr_unit record) of None \<Rightarrow> True | Some request \<Rightarrow> request = lr_request record)
                 (BConflict ''broker ledger unit is claimed by multiple requests'')) (\<lambda>_.
        bindE (ensure (\<not> (map_of records (lr_request record) = None \<and> MAX_LEDGER_REQUESTS \<le> length records))
                 (BInvalid ''broker ledger distinct request count exceeds bound'')) (\<lambda>_.
        bindE (check_transition (map_of records (lr_request record)) record) (\<lambda>_.
        parse_lines E C (count + 1) (btree_insert (lr_request record) record records)
          (btree_insert (lr_unit record) (lr_request record) units) lines)))))))"

definition parse_records :: "externals \<Rightarrow> ledger_codec \<Rightarrow> string \<Rightarrow> ledger_records broker_result" where
  "parse_records E C bytes = parse_lines E C 0 [] [] (split_at newline bytes)"

section \<open>The ledger\<close>

text \<open>
  The rest of a function after a fallible step that may have changed the state.
\<close>

definition bindM :: "('e + 'a) \<times> 's \<Rightarrow> ('a \<Rightarrow> 's \<Rightarrow> ('e + 'b) \<times> 's) \<Rightarrow> ('e + 'b) \<times> 's" where
  "bindM m f = (case m of (Inl e, s) \<Rightarrow> (Inl e, s) | (Inr x, s) \<Rightarrow> f x s)"

text \<open>
  What the operating system does with one append to the journal: everything succeeds; the parent, the
  file or its ownership is refused before a byte is written; the record, the newline after it or the
  synchronization fails, after some bytes were written.
\<close>

datatype append_io =
    AppendDone
  | AppendRefused broker_error
  | AppendPartial nat string
  | AppendNoNewline nat string
  | AppendNoSync string

text \<open>
  \<^verbatim>\<open>BrokerLedger\<close>; \<open>lg_file\<close> is the content of the journal file and \<open>lg_io\<close> what happens to the next
  appends (all succeed when the list is empty).
\<close>

record broker_ledger =
  lg_path :: "path_buf option"
  lg_records :: ledger_records
  lg_poisoned :: bool
  lg_file :: string
  lg_io :: "append_io list"

definition ledger_memory :: broker_ledger where
  "ledger_memory = \<lparr>lg_path = None, lg_records = [], lg_poisoned = False, lg_file = [], lg_io = []\<rparr>"

definition next_io :: "broker_ledger \<Rightarrow> append_io" where
  "next_io lg = (case lg_io lg of [] \<Rightarrow> AppendDone | io # _ \<Rightarrow> io)"

definition append_record :: "ledger_codec \<Rightarrow> broker_ledger \<Rightarrow> ledger_record \<Rightarrow> unit broker_result \<times> broker_ledger" where
  "append_record C lg record =
     (case lk_to_vec C record of
        Inl error \<Rightarrow> (Inl (BIo error), lg)
      | Inr bytes \<Rightarrow>
          if MAX_FRAME_BYTES < length bytes
          then (Inl (BInvalid ''broker ledger record exceeds size bound''), lg)
          else (case lg_path lg of
             None \<Rightarrow> (Inr (), lg)
           | Some _ \<Rightarrow>
               let io = next_io lg; lg = lg\<lparr>lg_io := tl (lg_io lg)\<rparr> in
               (case io of
                  AppendRefused error \<Rightarrow> (Inl error, lg)
                | _ \<Rightarrow>
                    if MAX_LEDGER_BYTES < length (lg_file lg) + (length bytes + 1)
                    then (Inl (BUnavailable ''broker ledger aggregate size exceeds its reopen bound''), lg)
                    else (case io of
                       AppendPartial n error \<Rightarrow>
                         (Inl (BIo error), lg\<lparr>lg_file := lg_file lg @ take n bytes, lg_poisoned := True\<rparr>)
                     | AppendNoNewline n error \<Rightarrow>
                         (Inl (BIo error), lg\<lparr>lg_file := lg_file lg @ bytes @ take n [newline], lg_poisoned := True\<rparr>)
                     | AppendNoSync error \<Rightarrow>
                         (Inl (BIo error), lg\<lparr>lg_file := lg_file lg @ bytes @ [newline], lg_poisoned := True\<rparr>)
                     | _ \<Rightarrow> (Inr (), lg\<lparr>lg_file := lg_file lg @ bytes @ [newline]\<rparr>)))))"

text \<open>\<^verbatim>\<open>self.append(&record)?; self.records.insert(request, record)\<close>\<close>

definition persist :: "ledger_codec \<Rightarrow> broker_ledger \<Rightarrow> broker_request \<Rightarrow> ledger_record \<Rightarrow> unit broker_result \<times> broker_ledger" where
  "persist C lg request record =
     bindM (append_record C lg record) (\<lambda>_ lg.
     (Inr (), lg\<lparr>lg_records := btree_insert request record (lg_records lg)\<rparr>))"

definition ensure_healthy :: "broker_ledger \<Rightarrow> unit broker_result" where
  "ensure_healthy lg =
     ensure (\<not> lg_poisoned lg)
       (BUnavailable ''broker ledger is poisoned; reopen it from verified durable state'')"

definition ledger_contains :: "broker_ledger \<Rightarrow> broker_request \<Rightarrow> bool" where
  "ledger_contains lg request = (map_of (lg_records lg) request \<noteq> None)"

definition ledger_lifecycle_record ::
  "broker_ledger \<Rightarrow> broker_request \<Rightarrow> string \<Rightarrow> launch_policy \<Rightarrow> lifecycle_record option broker_result" where
  "ledger_lifecycle_record lg request unit policy =
     (case map_of (lg_records lg) request of
        None \<Rightarrow> Inr None
      | Some record \<Rightarrow>
          bindE (ensure (\<not> (lr_unit record \<noteq> unit \<or> \<not> matches_policy (lr_identity record) policy))
                   (BConflict ''lifecycle request conflicts with its immutable launch identity'')) (\<lambda>_.
          case lr_state record of
            LPending \<Rightarrow> Inr (Some RecPending)
          | LCommitted \<Rightarrow>
              bindE (ok_or (BConflict ''broker committed record has no persisted receipt'') (lr_receipt record))
                (\<lambda>receipt. Inr (Some (RecCommitted receipt)))
          | LStopPending \<Rightarrow>
              bindE (ok_or (BConflict ''broker stop-pending record has no persisted receipt'') (lr_receipt record))
                (\<lambda>receipt. Inr (Some (RecStopPending receipt)))
          | LStopped \<Rightarrow>
              bindE (ok_or (BConflict ''broker stopped record has no persisted receipt'') (lr_receipt record))
                (\<lambda>receipt. Inr (Some (RecStopped receipt)))))"

definition begin_stop ::
  "ledger_codec \<Rightarrow> broker_ledger \<Rightarrow> broker_request \<Rightarrow> launch_receipt \<Rightarrow> unit broker_result \<times> broker_ledger" where
  "begin_stop C lg request receipt =
     (case bindE (ensure_healthy lg) (\<lambda>_.
           bindE (ok_or (BConflict ''broker stop has no durable launch reservation'')
                    (map_of (lg_records lg) request)) (\<lambda>previous.
           if lr_state previous = LStopPending then
             bindE (ok_or (BConflict ''broker stop-pending record has no persisted receipt'') (lr_receipt previous))
               (\<lambda>previous_receipt.
             bindE (ensure (same_process_binding previous_receipt receipt)
                      (BConflict ''broker stop-pending record has a different process identity'')) (\<lambda>_. Inr None))
           else
             bindE (ensure (lr_state previous = LCommitted) (BConflict ''broker launch is not committed for stop'')) (\<lambda>_.
             bindE (ok_or (BConflict ''broker committed record has no persisted receipt'') (lr_receipt previous))
               (\<lambda>previous_receipt.
             bindE (ensure (\<not> (\<not> same_process_binding previous_receipt receipt \<or> lr_unit previous \<noteq> lc_unit receipt
                               \<or> lc_request receipt \<noteq> request))
                      (BConflict ''broker stop receipt does not match durable reservation'')) (\<lambda>_.
             Inr (Some previous)))))) of
        Inl error \<Rightarrow> (Inl error, lg)
      | Inr None \<Rightarrow> (Inr (), lg)
      | Inr (Some previous) \<Rightarrow>
          persist C lg request
            (previous\<lparr>lr_request := request, lr_unit := lc_unit receipt, lr_cancel_requested := None,
               lr_state := LStopPending, lr_receipt := Some receipt\<rparr>))"

definition begin_failed_launch_cleanup ::
  "externals \<Rightarrow> ledger_codec \<Rightarrow> broker_ledger \<Rightarrow> broker_request \<Rightarrow> launch_receipt \<Rightarrow> launch_policy
   \<Rightarrow> unit broker_result \<times> broker_ledger" where
  "begin_failed_launch_cleanup E C lg request receipt policy =
     (case bindE (ensure_healthy lg) (\<lambda>_.
           ok_or (BConflict ''failed launch has no durable reservation'') (map_of (lg_records lg) request)) of
        Inl error \<Rightarrow> (Inl error, lg)
      | Inr previous \<Rightarrow>
          if lr_state previous \<noteq> LPending then begin_stop C lg request receipt
          else
            (case bindE (ensure (\<not> (\<not> matches_policy (lr_identity previous) policy \<or> lr_unit previous \<noteq> unit_name E request))
                           (BConflict ''failed launch policy differs from reservation'')) (\<lambda>_.
                  verify_receipt_identity receipt request (lr_unit previous) policy) of
               Inl error \<Rightarrow> (Inl error, lg)
             | Inr _ \<Rightarrow>
                 persist C lg request
                   (previous\<lparr>lr_request := request, lr_state := LStopPending, lr_receipt := Some receipt\<rparr>)))"

definition mark_stopped ::
  "ledger_codec \<Rightarrow> broker_ledger \<Rightarrow> broker_request \<Rightarrow> launch_receipt \<Rightarrow> unit broker_result \<times> broker_ledger" where
  "mark_stopped C lg request receipt =
     (case bindE (ensure_healthy lg) (\<lambda>_.
           bindE (ok_or (BConflict ''broker stop has no durable launch reservation'')
                    (map_of (lg_records lg) request)) (\<lambda>previous.
           bindE (ok_or (BConflict ''broker stop-pending record has no persisted receipt'') (lr_receipt previous))
             (\<lambda>previous_receipt.
           bindE (ensure (\<not> (lr_state previous \<noteq> LStopPending \<or> \<not> same_process_binding previous_receipt receipt))
                    (BConflict ''broker stopped receipt does not match the pending stop binding'')) (\<lambda>_.
           Inr previous)))) of
        Inl error \<Rightarrow> (Inl error, lg)
      | Inr previous \<Rightarrow>
          persist C lg request
            (previous\<lparr>lr_request := request, lr_unit := lc_unit receipt, lr_state := LStopped, lr_receipt := Some receipt\<rparr>))"

definition unresolved_records :: "ledger_records \<Rightarrow> nat" where
  "unresolved_records records = length (filter (\<lambda>(_, record). lr_state record \<noteq> LStopped) records)"

text \<open>The value says whether the nonce was newly reserved.\<close>

definition reserve_with_bootstrap ::
  "externals \<Rightarrow> ledger_codec \<Rightarrow> broker_ledger \<Rightarrow> broker_request \<Rightarrow> string \<Rightarrow> launch_policy \<Rightarrow> bootstrap_binding option
   \<Rightarrow> bool broker_result \<times> broker_ledger" where
  "reserve_with_bootstrap E C lg request unit policy bootstrap =
     (case bindE (ensure_healthy lg) (\<lambda>_.
           bindE (case bootstrap of None \<Rightarrow> Inr () | Some b \<Rightarrow> binding_validate E b request) (\<lambda>_.
           case map_of (lg_records lg) request of
             Some record \<Rightarrow>
               bindE (ensure (\<not> (lr_unit record \<noteq> unit \<or> \<not> matches_policy (lr_identity record) policy))
                        (BConflict ''broker ledger identity conflicts with current launch policy'')) (\<lambda>_.
               bindE (ensure (lr_bootstrap record = bootstrap)
                        (BConflict ''broker launch bootstrap conflicts with its durable binding'')) (\<lambda>_.
               bindE (ensure (lr_state record \<notin> {LStopPending, LStopped})
                        (BConflict ''broker lifecycle stop owns this launch nonce'')) (\<lambda>_.
               bindE (ensure (lr_cancel_requested record \<noteq> Some True)
                        (BConflict ''broker launch cancellation owns this pending nonce'')) (\<lambda>_.
               Inr False))))
           | None \<Rightarrow>
               bindE (ensure (\<not> MAX_LEDGER_REQUESTS \<le> length (lg_records lg))
                        (BUnavailable ''broker idempotence ledger capacity is exhausted'')) (\<lambda>_.
               bindE (ensure (\<not> MAX_ACTIVE_PROCESSES \<le> unresolved_records (lg_records lg))
                        (BUnavailable ''broker unresolved-process capacity is exhausted'')) (\<lambda>_.
               Inr True)))) of
        Inl error \<Rightarrow> (Inl error, lg)
      | Inr False \<Rightarrow> (Inr False, lg)
      | Inr True \<Rightarrow>
          bindM (persist C lg request
            \<lparr>lr_request = request, lr_unit = unit, lr_identity = identity_from_policy policy, lr_bootstrap = bootstrap,
             lr_job = None, lr_cancel_requested = None, lr_state = LPending, lr_receipt = None\<rparr>) (\<lambda>_ lg.
          (Inr True, lg)))"

definition reserve ::
  "externals \<Rightarrow> ledger_codec \<Rightarrow> broker_ledger \<Rightarrow> broker_request \<Rightarrow> string \<Rightarrow> launch_policy \<Rightarrow> bool broker_result \<times> broker_ledger" where
  "reserve E C lg request unit policy = reserve_with_bootstrap E C lg request unit policy None"

definition bind_job ::
  "externals \<Rightarrow> ledger_codec \<Rightarrow> broker_ledger \<Rightarrow> broker_request \<Rightarrow> launch_policy \<Rightarrow> job_binding \<Rightarrow> unit broker_result \<times> broker_ledger" where
  "bind_job E C lg request policy job =
     (case bindE (ensure_healthy lg) (\<lambda>_.
           bindE (job_validate_for_request E job request) (\<lambda>_.
           bindE (ok_or (BConflict ''broker job binding has no durable launch reservation'')
                    (map_of (lg_records lg) request)) (\<lambda>previous.
           bindE (ensure (\<not> (lr_unit previous \<noteq> jb_unit job \<or> \<not> matches_policy (lr_identity previous) policy))
                    (BConflict ''broker job binding conflicts with its launch identity'')) (\<lambda>_.
           case lr_job previous of
             Some existing \<Rightarrow>
               bindE (ensure (existing = job) (BConflict ''broker launch has a different durable job binding'')) (\<lambda>_. Inr None)
           | None \<Rightarrow>
               bindE (ensure (lr_state previous = LPending)
                        (BConflict ''broker job binding can only extend a pending launch'')) (\<lambda>_. Inr (Some previous)))))) of
        Inl error \<Rightarrow> (Inl error, lg)
      | Inr None \<Rightarrow> (Inr (), lg)
      | Inr (Some previous) \<Rightarrow> persist C lg request (previous\<lparr>lr_request := request, lr_job := Some job\<rparr>))"

definition ledger_job_binding ::
  "externals \<Rightarrow> broker_ledger \<Rightarrow> broker_request \<Rightarrow> launch_policy \<Rightarrow> job_binding option broker_result" where
  "ledger_job_binding E lg request policy =
     bindE (ensure_healthy lg) (\<lambda>_.
     case map_of (lg_records lg) request of
       None \<Rightarrow> Inr None
     | Some record \<Rightarrow>
         bindE (ensure (\<not> (lr_unit record \<noteq> unit_name E request \<or> \<not> matches_policy (lr_identity record) policy))
                  (BConflict ''broker job lookup conflicts with its launch identity'')) (\<lambda>_.
         bindE (case lr_job record of None \<Rightarrow> Inr () | Some job \<Rightarrow> job_validate_for_request E job request) (\<lambda>_.
         Inr (lr_job record))))"

definition request_pending_stop ::
  "externals \<Rightarrow> ledger_codec \<Rightarrow> broker_ledger \<Rightarrow> broker_request \<Rightarrow> launch_policy \<Rightarrow> unit broker_result \<times> broker_ledger" where
  "request_pending_stop E C lg request policy =
     (case bindE (ensure_healthy lg) (\<lambda>_.
           bindE (ok_or (BConflict ''pending stop has no durable launch reservation'')
                    (map_of (lg_records lg) request)) (\<lambda>previous.
           bindE (ensure (lr_state previous = LPending)
                    (BConflict ''pending stop requires a pending launch reservation'')) (\<lambda>_.
           bindE (ensure (\<not> (lr_unit previous \<noteq> unit_name E request \<or> \<not> matches_policy (lr_identity previous) policy))
                    (BConflict ''pending stop conflicts with its immutable launch identity'')) (\<lambda>_.
           Inr previous)))) of
        Inl error \<Rightarrow> (Inl error, lg)
      | Inr previous \<Rightarrow>
          if lr_cancel_requested previous = Some True then (Inr (), lg)
          else persist C lg request (previous\<lparr>lr_request := request, lr_cancel_requested := Some True\<rparr>))"

definition pending_cancel_requested ::
  "externals \<Rightarrow> broker_ledger \<Rightarrow> broker_request \<Rightarrow> launch_policy \<Rightarrow> bool broker_result" where
  "pending_cancel_requested E lg request policy =
     bindE (ensure_healthy lg) (\<lambda>_.
     case map_of (lg_records lg) request of
       None \<Rightarrow> Inr False
     | Some record \<Rightarrow>
         if lr_state record \<noteq> LPending then Inr False
         else
           bindE (ensure (\<not> (lr_unit record \<noteq> unit_name E request \<or> \<not> matches_policy (lr_identity record) policy))
                    (BConflict ''pending cancellation conflicts with its immutable launch identity'')) (\<lambda>_.
           Inr (lr_cancel_requested record = Some True)))"

definition pending_job_binding ::
  "externals \<Rightarrow> broker_ledger \<Rightarrow> broker_request \<Rightarrow> launch_policy \<Rightarrow> job_binding option broker_result" where
  "pending_job_binding E lg request policy =
     (case map_of (lg_records lg) request of
        None \<Rightarrow> Inr None
      | Some record \<Rightarrow> if lr_state record \<noteq> LPending then Inr None else ledger_job_binding E lg request policy)"

definition commit_launch ::
  "ledger_codec \<Rightarrow> broker_ledger \<Rightarrow> broker_request \<Rightarrow> launch_receipt \<Rightarrow> unit broker_result \<times> broker_ledger" where
  "commit_launch C lg request receipt =
     (case bindE (ensure_healthy lg) (\<lambda>_.
           bindE (ok_or (BConflict ''broker launch has no durable reservation'') (map_of (lg_records lg) request)) (\<lambda>previous.
           bindE (ensure (lr_state previous \<notin> {LStopPending, LStopped})
                    (BConflict ''broker lifecycle stop owns this launch nonce'')) (\<lambda>_.
           bindE (ensure (\<not> (lr_unit previous \<noteq> lc_unit receipt \<or> lc_request receipt \<noteq> request))
                    (BConflict ''broker receipt does not match durable reservation'')) (\<lambda>_.
           if lr_state previous = LCommitted then
             bindE (ok_or (BConflict ''broker committed record has no persisted receipt'') (lr_receipt previous))
               (\<lambda>previous_receipt.
             bindE (ensure (same_process_binding previous_receipt receipt)
                      (BConflict ''broker duplicate receipt has a different process identity'')) (\<lambda>_. Inr None))
           else Inr (Some previous))))) of
        Inl error \<Rightarrow> (Inl error, lg)
      | Inr None \<Rightarrow> (Inr (), lg)
      | Inr (Some previous) \<Rightarrow>
          persist C lg request
            (previous\<lparr>lr_request := request, lr_unit := lc_unit receipt, lr_state := LCommitted, lr_receipt := Some receipt\<rparr>))"

text \<open>The identities that may bind inherited containment after a restart, in the order of the requests.\<close>

fun recoverable_loop ::
  "externals \<Rightarrow> broker_ledger \<Rightarrow> broker_policy \<Rightarrow> ledger_records \<Rightarrow> launch_receipt list broker_result" where
  "recoverable_loop E lg policy [] = Inr []"
| "recoverable_loop E lg policy ((request, record) # rest) =
     (if lr_state record \<notin> {LCommitted, LStopPending} then recoverable_loop E lg policy rest
      else
        bindE (policy_component policy (rq_component request)) (\<lambda>launch_policy.
        bindE (ledger_lifecycle_record lg request (unit_name E request) launch_policy) (\<lambda>found.
        bindE (case found of
                 Some (RecCommitted receipt) \<Rightarrow> Inr receipt
               | Some (RecStopPending receipt) \<Rightarrow> Inr receipt
               | _ \<Rightarrow> Inl (BConflict ''recovery ledger state changed'')) (\<lambda>receipt.
        bindE (verify_receipt_identity receipt request (unit_name E request) launch_policy) (\<lambda>_.
        bindE (recoverable_loop E lg policy rest) (\<lambda>receipts. Inr (receipt # receipts)))))))"

definition recoverable_receipts ::
  "externals \<Rightarrow> broker_ledger \<Rightarrow> broker_policy \<Rightarrow> launch_receipt list broker_result" where
  "recoverable_receipts E lg policy =
     bindE (ensure_healthy lg) (\<lambda>_. recoverable_loop E lg policy (lg_records lg))"

section \<open>Opening and creating a journal\<close>

text \<open>
  Errors of the file system are their texts; \<open>not_found\<close> tells the ones whose kind is \<^verbatim>\<open>NotFound\<close>. The
  ledger that \<^verbatim>\<open>open\<close> returns holds the bytes that were read, and \<open>io\<close> is what the coming appends meet.
\<close>

definition path_parent :: "path_buf \<Rightarrow> path_buf option" where
  "path_parent path = (if path_parts path = [] then None else Some (PathBuf (path_root path) (butlast (path_parts path))))"

definition mode_0600 :: "file_metadata \<Rightarrow> bool" where
  "mode_0600 metadata \<longleftrightarrow> is_protected_owner (md_uid metadata) \<and> md_mode metadata AND 63 = 0"

definition validate_protected_ledger_path ::
  "file_system \<Rightarrow> (string \<Rightarrow> bool) \<Rightarrow> path_buf \<Rightarrow> unit broker_result" where
  "validate_protected_ledger_path F not_found path =
     bindE (ok_or (BInvalid ''broker ledger has no parent'') (path_parent path)) (\<lambda>parent.
     bindE (validate_protected_directory F parent ''broker ledger directory'') (\<lambda>_.
     case fs_symlink_metadata F path of
       Inr metadata \<Rightarrow>
         if md_kind metadata = SymbolicLink then Inl (BInvalid ''broker ledger must not be a symlink'')
         else if md_kind metadata \<noteq> RegularFile then Inl (BInvalid ''broker ledger must be a regular file'')
         else if \<not> mode_0600 metadata then Inl (BInvalid ''broker ledger must be root-owned and mode 0600'')
         else Inr ()
     | Inl error \<Rightarrow> if not_found error then Inr () else Inl (BIo error)))"

definition ledger_open ::
  "externals \<Rightarrow> ledger_codec \<Rightarrow> file_system \<Rightarrow> (string \<Rightarrow> bool) \<Rightarrow> append_io list \<Rightarrow> path_buf \<Rightarrow> broker_ledger broker_result" where
  "ledger_open E C F not_found io path =
     bindE (validate_protected_ledger_path F not_found path) (\<lambda>_.
     bindE (case fs_symlink_metadata F path of
              Inr metadata \<Rightarrow> Inr (Some metadata)
            | Inl error \<Rightarrow> if not_found error then Inr None else Inl (BIo error)) (\<lambda>found.
     bindE (ok_or (BUnavailable ''broker ledger is missing; initialize it explicitly before opening'') found) (\<lambda>metadata.
     bindE (ensure (md_kind metadata = RegularFile \<and> mode_0600 metadata)
              (BInvalid ''broker ledger must be a root-owned mode-0600 regular file'')) (\<lambda>_.
     bindE (read_bounded_file F path MAX_LEDGER_BYTES ''broker ledger'') (\<lambda>bytes.
     bindE (parse_records E C bytes) (\<lambda>records.
     Inr \<lparr>lg_path = Some path, lg_records = records, lg_poisoned = False, lg_file = bytes, lg_io = io\<rparr>))))))"

text \<open>
  \<^verbatim>\<open>init\<close>: the exclusive creation yields an error or the metadata of the new file, then the file and its
  directory are synchronized; \<open>F'\<close> is the file system once the file exists.
\<close>

definition ledger_init ::
  "externals \<Rightarrow> ledger_codec \<Rightarrow> file_system \<Rightarrow> (string \<Rightarrow> bool) \<Rightarrow> string + (string + file_metadata)
   \<Rightarrow> string + unit \<Rightarrow> string + unit \<Rightarrow> file_system \<Rightarrow> append_io list \<Rightarrow> path_buf \<Rightarrow> broker_ledger broker_result" where
  "ledger_init E C F not_found created synced directory_synced F' io path =
     bindE (ok_or (BInvalid ''broker ledger has no parent'') (path_parent path)) (\<lambda>parent.
     bindE (validate_protected_directory F parent ''broker ledger directory'') (\<lambda>_.
     bindE (case fs_symlink_metadata F path of
              Inr _ \<Rightarrow> Inl (BConflict ''broker ledger already exists; refusing to replace it'')
            | Inl error \<Rightarrow> if not_found error then Inr () else Inl (BIo error)) (\<lambda>_.
     bindE (map_err BIo created) (\<lambda>file.
     bindE (map_err BIo file) (\<lambda>metadata.
     bindE (ensure (md_kind metadata = RegularFile \<and> mode_0600 metadata)
              (BUnauthorized ''broker ledger initialization produced unsafe ownership or mode'')) (\<lambda>_.
     bindE (map_err BIo synced) (\<lambda>_.
     bindE (map_err BIo directory_synced) (\<lambda>_.
     ledger_open E C F' not_found io path))))))))"

end
