(* ===== verification/Broker_Journal.thy ===== *)
theory Broker_Journal
  imports Broker_Ledger
begin

text \<open>
  What the broker's ledger operations do to the journal. Replaying is the decoder without its bound on
  the number of transitions; every operation either leaves the ledger alone or persists one record
  that the decoder accepts after the records already there. An append may also stop after any of its bytes:
  then the ledger is poisoned, and the journal holds the records in memory, those and the new one, or a
  torn line that the decoder refuses. A journal that can be read always replays to the records of a healthy
  ledger; one that cannot stays unreadable.
\<close>

section \<open>Steps of the decoder\<close>

lemma bindM_simps [simp]: "bindM (Inl e, s) f = (Inl e, s)" "bindM (Inr x, s) f = f x s"
  by (simp_all add: bindM_def)

definition decode_record :: "ledger_codec \<Rightarrow> string \<Rightarrow> ledger_record broker_result" where
  "decode_record C line = parse_json (lk_from_slice C) (lk_from_value C) line ''broker ledger record''"

definition admit_record ::
  "externals \<Rightarrow> ledger_records \<Rightarrow> (string \<times> broker_request) list \<Rightarrow> ledger_record \<Rightarrow> unit broker_result" where
  "admit_record E records units record =
     bindE (check_record E record) (\<lambda>_.
     bindE (ensure (case map_of units (lr_unit record) of None \<Rightarrow> True | Some request \<Rightarrow> request = lr_request record)
              (BConflict ''broker ledger unit is claimed by multiple requests'')) (\<lambda>_.
     bindE (ensure (\<not> (map_of records (lr_request record) = None \<and> MAX_LEDGER_REQUESTS \<le> length records))
              (BInvalid ''broker ledger distinct request count exceeds bound'')) (\<lambda>_.
     check_transition (map_of records (lr_request record)) record)))"

fun replay_lines ::
  "externals \<Rightarrow> ledger_codec \<Rightarrow> ledger_records \<Rightarrow> (string \<times> broker_request) list \<Rightarrow> string list
   \<Rightarrow> (ledger_records \<times> (string \<times> broker_request) list) broker_result" where
  "replay_lines E C records units [] = Inr (records, units)"
| "replay_lines E C records units (line # lines) =
     (if line = [] then replay_lines E C records units lines
      else
        bindE (decode_record C line) (\<lambda>record.
        bindE (admit_record E records units record) (\<lambda>_.
        replay_lines E C (btree_insert (lr_request record) record records)
          (btree_insert (lr_unit record) (lr_request record) units) lines)))"

definition replay ::
  "externals \<Rightarrow> ledger_codec \<Rightarrow> string \<Rightarrow> (ledger_records \<times> (string \<times> broker_request) list) broker_result" where
  "replay E C bytes = replay_lines E C [] [] (split_at newline bytes)"

text \<open>The number of transitions in a journal.\<close>

definition transitions :: "string \<Rightarrow> nat" where
  "transitions bytes = length (filter (\<lambda>line. line \<noteq> []) (split_at newline bytes))"

lemma parse_lines_Cons:
  "parse_lines E C count records units (line # lines) =
     (if line = [] then parse_lines E C count records units lines
      else
        bindE (ensure (\<not> MAX_LEDGER_TRANSITIONS < count + 1)
                 (BInvalid ''broker ledger transition count exceeds bound'')) (\<lambda>_.
        bindE (decode_record C line) (\<lambda>record.
        bindE (admit_record E records units record) (\<lambda>_.
        parse_lines E C (count + 1) (btree_insert (lr_request record) record records)
          (btree_insert (lr_unit record) (lr_request record) units) lines))))"
  by (simp only: parse_lines.simps decode_record_def admit_record_def bindE_assoc)

declare parse_lines.simps(2) [simp del]

lemma parse_lines_replay:
  assumes "replay_lines E C records units lines = Inr (records', units')"
    and "count \<le> MAX_LEDGER_TRANSITIONS"
  shows "parse_lines E C count records units lines =
    (if count + length (filter (\<lambda>line. line \<noteq> []) lines) \<le> MAX_LEDGER_TRANSITIONS then Inr records'
     else Inl (BInvalid ''broker ledger transition count exceeds bound''))"
  using assms
proof (induction lines arbitrary: count records units)
  case (Cons line lines)
  show ?case
  proof (cases "line = []")
    case True
    then show ?thesis using Cons by (simp add: parse_lines_Cons)
  next
    case False
    with Cons.prems(1) obtain r where rec: "decode_record C line = Inr r"
        "admit_record E records units r = Inr ()"
        "replay_lines E C (btree_insert (lr_request r) r records)
           (btree_insert (lr_unit r) (lr_request r) units) lines = Inr (records', units')"
      by (auto elim!: bindE_InrE)
    show ?thesis
      using False rec Cons.prems(2) Cons.IH [OF rec(3), of "count + 1"]
      by (cases "count < MAX_LEDGER_TRANSITIONS") (auto simp: parse_lines_Cons ensure_def bindE_def)
  qed
qed simp

lemma replay_lines_parse:
  assumes "parse_lines E C count records units lines = Inr records'"
  shows "\<exists>units'. replay_lines E C records units lines = Inr (records', units')"
  using assms
proof (induction lines arbitrary: count records units)
  case (Cons line lines)
  then show ?case
    by (cases "line = []") (auto simp: parse_lines_Cons bindE_def elim!: bindE_InrE split: sum.splits)
qed simp

lemma parse_records_replay:
  "replay E C bytes = Inr (records, units) \<Longrightarrow>
   parse_records E C bytes =
     (if transitions bytes \<le> MAX_LEDGER_TRANSITIONS then Inr records
      else Inl (BInvalid ''broker ledger transition count exceeds bound''))"
  using parse_lines_replay [of E C "[]" "[]" "split_at newline bytes" records units 0]
  by (simp add: replay_def parse_records_def transitions_def)

lemma replay_parse_records: "parse_records E C bytes = Inr records \<Longrightarrow> \<exists>units. replay E C bytes = Inr (records, units)"
  unfolding replay_def parse_records_def by (rule replay_lines_parse)

lemma replay_lines_append:
  "replay_lines E C records units (xs @ ys) =
   bindE (replay_lines E C records units xs) (\<lambda>(records, units). replay_lines E C records units ys)"
proof (induction xs arbitrary: records units)
  case (Cons x xs)
  then show ?case by (simp add: bindE_assoc)
qed (simp add: bindE_def)

section \<open>Complete journals\<close>

text \<open>Every line ends with its newline.\<close>

definition complete :: "string \<Rightarrow> bool" where
  "complete bytes \<longleftrightarrow> bytes = [] \<or> last bytes = newline"

lemma split_at_ne [simp]: "split_at c s \<noteq> []"
  by (cases s) (auto split: list.splits)

lemma split_at_append_sep: "split_at c (s @ c # t) = split_at c s @ split_at c t"
proof (induction s)
  case (Cons x s)
  then show ?case by (cases "split_at c s") (auto split: list.splits)
qed simp

lemma split_at_free: "c \<notin> set s \<Longrightarrow> split_at c s = [s]"
  by (induction s) auto

lemma split_complete:
  assumes "complete bytes" and "newline \<notin> set line"
  shows "\<exists>lines. split_at newline bytes = lines @ [[]] \<and> split_at newline (bytes @ line @ [newline]) = lines @ [line, []]"
proof (cases "bytes = []")
  case True
  then show ?thesis using assms(2) split_at_append_sep [of newline line "[]"]
    by (intro exI [of _ "[]"]) (simp add: split_at_free)
next
  case False
  then obtain s where s: "bytes = s @ [newline]"
    using assms(1) by (metis append_butlast_last_id complete_def)
  then have "split_at newline bytes = split_at newline s @ [[]]"
    using split_at_append_sep [of newline s "[]"] by simp
  moreover have "split_at newline (bytes @ line @ [newline]) = split_at newline s @ [line, []]"
    using split_at_append_sep [of newline s "line @ [newline]"] split_at_append_sep [of newline line "[]"] assms(2)
    by (simp add: s split_at_free)
  ultimately show ?thesis by blast
qed

lemma complete_append [simp]: "complete (bytes @ line @ [newline])" "complete []"
  by (simp_all add: complete_def)

text \<open>What the codec promises: a record is one line that decodes to it.\<close>

definition codec_ok :: "ledger_codec \<Rightarrow> bool" where
  "codec_ok C \<longleftrightarrow> (\<forall>record bytes. lk_to_vec C record = Inr bytes \<longrightarrow>
     bytes \<noteq> [] \<and> newline \<notin> set bytes \<and> decode_record C bytes = Inr record)"

text \<open>
  A reader of the codec takes exactly one record from a line: a record that is cut short is refused, and
  so is a record with the beginning of another behind it.
\<close>

definition bad_line :: "ledger_codec \<Rightarrow> string \<Rightarrow> bool" where
  "bad_line C line \<longleftrightarrow> line \<noteq> [] \<and> (\<exists>e. decode_record C line = Inl e)"

definition codec_strict :: "ledger_codec \<Rightarrow> bool" where
  "codec_strict C \<longleftrightarrow> (\<forall>record bytes. lk_to_vec C record = Inr bytes \<longrightarrow>
     (\<forall>n. 0 < n \<longrightarrow> n < length bytes \<longrightarrow> (\<exists>e. decode_record C (take n bytes) = Inl e))
     \<and> (\<forall>record' bytes' n. lk_to_vec C record' = Inr bytes' \<longrightarrow> 0 < n \<longrightarrow>
          (\<exists>e. decode_record C (bytes @ take n bytes') = Inl e)))"

lemma codec_okD:
  assumes "codec_ok C" and "lk_to_vec C record = Inr bytes"
  shows "bytes \<noteq> []" "newline \<notin> set bytes" "decode_record C bytes = Inr record"
  using assms by (auto simp: codec_ok_def)

lemma codec_strict_cut:
  "codec_strict C \<Longrightarrow> lk_to_vec C record = Inr bytes \<Longrightarrow> 0 < n \<Longrightarrow> n < length bytes \<Longrightarrow> bad_line C (take n bytes)"
  by (auto simp: codec_strict_def bad_line_def)

lemma codec_strict_fused:
  "codec_strict C \<Longrightarrow> codec_ok C \<Longrightarrow> lk_to_vec C record = Inr bytes \<Longrightarrow> lk_to_vec C record' = Inr bytes' \<Longrightarrow> 0 < n
   \<Longrightarrow> bad_line C (bytes @ take n bytes')"
  by (auto simp: codec_strict_def codec_ok_def bad_line_def)

lemma replay_lines_bad: "line \<in> set lines \<Longrightarrow> bad_line C line \<Longrightarrow> replay_lines E C records units lines \<noteq> Inr x"
proof (induction lines arbitrary: records units)
  case (Cons l lines)
  then show ?case by (auto simp: bad_line_def elim!: bindE_InrE)
qed simp

section \<open>Journals with a torn line\<close>

definition last_line :: "string \<Rightarrow> string" where
  "last_line bytes = last (split_at newline bytes)"

text \<open>A line that no record can be read from, and that no later append can complete.\<close>

definition jammed :: "ledger_codec \<Rightarrow> string \<Rightarrow> bool" where
  "jammed C bytes \<longleftrightarrow> list_ex (bad_line C) (butlast (split_at newline bytes))"

text \<open>The journal ends with a newline or with a whole record.\<close>

definition ended :: "ledger_codec \<Rightarrow> string \<Rightarrow> bool" where
  "ended C bytes \<longleftrightarrow> complete bytes \<or> (\<exists>record. lk_to_vec C record = Inr (last_line bytes))"

lemma split_at_append:
  "split_at c (s @ t) = butlast (split_at c s) @ (last (split_at c s) @ hd (split_at c t)) # tl (split_at c t)"
proof (induction s)
  case (Cons x s)
  then show ?case by (cases "split_at c s") (auto split: list.splits)
qed simp

lemma split_lines: "split_at newline bytes = butlast (split_at newline bytes) @ [last_line bytes]"
  by (simp add: last_line_def)

lemma complete_last_line: "complete bytes \<longleftrightarrow> last_line bytes = []"
proof (cases bytes rule: rev_cases)
  case (snoc s x)
  show ?thesis
    by (cases "x = newline") (simp_all add: snoc complete_def last_line_def split_at_append)
qed (simp add: complete_def last_line_def)

lemma jammed_append: "jammed C bytes \<Longrightarrow> jammed C (bytes @ extra)"
  by (auto simp: jammed_def split_at_append butlast_append)

lemma jammed_replay: "jammed C bytes \<Longrightarrow> replay E C bytes \<noteq> Inr x"
  unfolding jammed_def replay_def list_ex_iff by (blast dest: in_set_butlastD replay_lines_bad)

lemma last_line_replay: "bad_line C (last_line bytes) \<Longrightarrow> replay E C bytes \<noteq> Inr x"
  unfolding replay_def last_line_def using last_in_set [OF split_at_ne] by (rule replay_lines_bad)

lemma split_torn:
  assumes "newline \<notin> set line"
  shows "split_at newline (bytes @ take k (line @ [newline])) =
    butlast (split_at newline bytes)
    @ (if k \<le> length line then [last_line bytes @ take k line] else [last_line bytes @ line, []])"
proof -
  have "newline \<notin> set (take k line)" using assms by (auto dest: in_set_takeD)
  then show ?thesis
    using split_at_append_sep [of newline line "[]"] assms
    by (auto simp: split_at_append [of newline bytes] last_line_def split_at_free Suc_le_eq not_le)
qed

lemma replay_admit:
  assumes "replay_lines E C [] [] lines = Inr (records, units)" and "codec_ok C" and "lk_to_vec C record = Inr line"
    and "admit_record E records units record = Inr ()" and "rest \<in> {[], [[]]}"
  shows "replay_lines E C [] [] (lines @ line # rest) =
           Inr (btree_insert (lr_request record) record records, btree_insert (lr_unit record) (lr_request record) units)"
  using assms codec_okD [OF assms(2,3)] by (auto simp: replay_lines_append bindE_def)

lemma replay_complete:
  assumes "complete bytes" and "replay E C bytes = Inr (records, units)"
  shows "replay_lines E C [] [] (butlast (split_at newline bytes)) = Inr (records, units)"
proof -
  have "split_at newline bytes = butlast (split_at newline bytes) @ [[]]"
    using split_lines [of bytes] assms(1) by (simp add: complete_last_line)
  then have "replay_lines E C [] [] (butlast (split_at newline bytes) @ [[]]) = Inr (records, units)"
    using assms(2) by (simp add: replay_def)
  then show ?thesis by (auto simp: replay_lines_append elim!: bindE_InrE)
qed

text \<open>
  What an append of a record leaves of a journal that can be read, when only the first \<open>k\<close> of its bytes are
  written: the journal unchanged, the record added, or a line that cannot be read.
\<close>

lemma torn_append:
  assumes "ended C bytes" and "replay E C bytes = Inr (records, units)"
    and "codec_ok C" and "k = 0 \<or> length line < k \<and> complete bytes \<or> codec_strict C"
    and "lk_to_vec C record = Inr line" and "admit_record E records units record = Inr ()"
    and f: "file = bytes @ take k (line @ [newline])"
  shows "file = bytes
    \<or> replay E C file = Inr (btree_insert (lr_request record) record records, btree_insert (lr_unit record) (lr_request record) units)
        \<and> ended C file \<and> (length line < k \<longrightarrow> complete file)
    \<or> k \<le> length line \<and> \<not> complete bytes \<and> bad_line C (last_line file)
    \<or> k < length line \<and> bad_line C (last_line file)
    \<or> \<not> complete bytes \<and> jammed C file"
proof -
  note line = codec_okD [OF assms(3,5)]
  note lines = split_torn [OF line(2), of bytes k, folded f]
  consider "k = 0" | "complete bytes" "length line \<le> k" | "complete bytes" "0 < k" "k < length line"
    | prior where "\<not> complete bytes" "lk_to_vec C prior = Inr (last_line bytes)" "0 < k"
    using assms(1) unfolding ended_def by (metis gr_zeroI not_le)
  then show ?thesis
  proof cases
    case 1
    then show ?thesis by (simp add: f)
  next
    case 2
    have "split_at newline file = butlast (split_at newline bytes) @ line # (if length line < k then [[]] else [])"
      using lines 2 by (auto simp: complete_last_line)
    moreover from this have "last_line file = (if length line < k then [] else line)" by (simp add: last_line_def)
    ultimately show ?thesis
      using replay_admit [OF replay_complete [OF 2(1) assms(2)] assms(3,5,6), of "if length line < k then [[]] else []"] assms(5)
      by (auto simp: replay_def ended_def complete_last_line)
  next
    case 3
    then show ?thesis
      using codec_strict_cut [OF _ assms(5), of k] assms(4) lines by (auto simp: last_line_def complete_last_line)
  next
    case 4
    have strict: "codec_strict C" using assms(4) 4 by auto
    show ?thesis
    proof (cases "k \<le> length line")
      case True
      then show ?thesis
        using codec_strict_fused [OF strict assms(3) 4(2) assms(5) 4(3)] 4(1) lines by (simp add: last_line_def)
    next
      case False
      then have "bad_line C (last_line bytes @ line)"
        using codec_strict_fused [OF strict assms(3) 4(2) assms(5) 4(3)] by simp
      then show ?thesis using False 4(1) lines by (simp add: jammed_def butlast_append)
    qed
  qed
qed

lemma transitions_append:
  assumes "complete bytes" and "newline \<notin> set line" and "line \<noteq> []"
  shows "transitions (bytes @ line @ [newline]) = Suc (transitions bytes)"
proof -
  obtain lines where "split_at newline bytes = lines @ [[]]" "split_at newline (bytes @ line @ [newline]) = lines @ [line, []]"
    using split_complete [OF assms(1,2)] by blast
  then show ?thesis using assms(3) by (simp add: transitions_def)
qed

section \<open>Invariants of the records\<close>

definition receipt_of :: "ledger_record \<Rightarrow> launch_receipt \<Rightarrow> bool" where
  "receipt_of r receipt \<longleftrightarrow>
     lc_request receipt = lr_request r \<and> lc_unit receipt = lr_unit r
     \<and> lc_executable receipt = li_executable (lr_identity r)
     \<and> lc_executable_sha256 receipt = li_executable_sha256 (lr_identity r)
     \<and> lc_pid receipt \<noteq> 0 \<and> lc_creation_token receipt \<noteq> []
     \<and> lc_uid receipt = li_target_uid (lr_identity r) \<and> lc_gid receipt = li_target_gid (lr_identity r)
     \<and> lc_capability_bounding_set receipt = li_capability_bounding_set (lr_identity r)
     \<and> lc_ambient_capabilities receipt = li_ambient_capabilities (lr_identity r)
     \<and> ends_with (lc_control_group receipt) (''/'' @ lr_unit r)"

definition record_inv :: "externals \<Rightarrow> ledger_record \<Rightarrow> bool" where
  "record_inv E r \<longleftrightarrow> check_record E r = Inr ()
     \<and> (lr_state r = LPending \<longrightarrow> lr_receipt r = None \<and> lr_cancel_requested r \<in> {None, Some True})
     \<and> (lr_state r \<noteq> LPending \<longrightarrow> (\<exists>receipt. lr_receipt r = Some receipt \<and> receipt_of r receipt))
     \<and> (lr_state r = LCommitted \<longrightarrow> lr_cancel_requested r = None)"

text \<open>\<open>R\<close> is a set that holds every request of the run.\<close>

definition records_inv :: "externals \<Rightarrow> broker_request set \<Rightarrow> ledger_records \<Rightarrow> bool" where
  "records_inv E R records \<longleftrightarrow> btree records \<and> length records \<le> MAX_LEDGER_REQUESTS
     \<and> (\<forall>k r. map_of records k = Some r \<longrightarrow> lr_request r = k \<and> record_inv E r \<and> k \<in> R)"

definition step_ok :: "externals \<Rightarrow> broker_request set \<Rightarrow> ledger_records \<Rightarrow> ledger_record \<Rightarrow> bool" where
  "step_ok E R records r \<longleftrightarrow> check_transition (map_of records (lr_request r)) r = Inr ()
     \<and> record_inv E r \<and> lr_request r \<in> R
     \<and> (map_of records (lr_request r) = None \<longrightarrow> length records < MAX_LEDGER_REQUESTS)"

definition put_record :: "ledger_record \<Rightarrow> ledger_records \<Rightarrow> ledger_records" where
  "put_record r records = btree_insert (lr_request r) r records"

lemma records_inv_Nil [simp]: "records_inv E R []"
  by (simp add: records_inv_def)

lemma map_of_put_record [simp]: "map_of (put_record r records) = (map_of records)(lr_request r \<mapsto> r)"
  by (simp add: put_record_def)

lemma records_inv_put:
  "records_inv E R records \<Longrightarrow> step_ok E R records r \<Longrightarrow> records_inv E R (put_record r records)"
  by (auto simp: records_inv_def step_ok_def put_record_def length_btree_insert)

lemma records_invD:
  assumes "records_inv E R records" and "map_of records k = Some r"
  shows "lr_request r = k" "record_inv E r" "k \<in> R"
  using assms by (auto simp: records_inv_def)

definition units_ok :: "externals \<Rightarrow> ledger_records \<Rightarrow> (string \<times> broker_request) list \<Rightarrow> bool" where
  "units_ok E records units \<longleftrightarrow>
     (\<forall>u q. map_of units u = Some q \<longrightarrow> u = unit_name E q \<and> map_of records q \<noteq> None)"

lemma check_record_unit: "check_record E r = Inr () \<Longrightarrow> lr_unit r = unit_name E (lr_request r)"
  by (auto simp: check_record_def ensure_def elim!: bindE_InrE split: if_splits)

lemma record_inv_unit: "record_inv E r \<Longrightarrow> lr_unit r = unit_name E (lr_request r)"
  by (simp add: record_inv_def check_record_unit)

lemma units_ok_put:
  assumes "units_ok E records units" and "record_inv E r"
  shows "units_ok E (put_record r records) (btree_insert (lr_unit r) (lr_request r) units)"
  using assms record_inv_unit [OF assms(2)] by (auto simp: units_ok_def split: if_splits)

lemma admit_step:
  assumes "step_ok E R records r" and "records_inv E R records" and "units_ok E records units"
    and "inj_on (unit_name E) R"
  shows "admit_record E records units r = Inr ()"
proof -
  have unit: "lr_unit r = unit_name E (lr_request r)" and check: "check_record E r = Inr ()" and R: "lr_request r \<in> R"
    using assms(1) by (auto simp: step_ok_def record_inv_def check_record_unit)
  have "q = lr_request r" if "map_of units (lr_unit r) = Some q" for q
  proof -
    have "unit_name E q = unit_name E (lr_request r)" and "map_of records q \<noteq> None"
      using assms(3) that unit by (auto simp: units_ok_def)
    then show ?thesis using assms(2,4) R by (auto simp: records_inv_def inj_on_def)
  qed
  then show ?thesis
    using assms(1) check
    by (auto simp: admit_record_def step_ok_def ensure_def bindE_def split: option.splits)
qed

section \<open>The journal of a ledger\<close>

text \<open>An append that is written whole or not at all.\<close>

fun whole :: "append_io \<Rightarrow> bool" where
  "whole (AppendPartial _ _) = False"
| "whole (AppendNoNewline _ _) = False"
| "whole _ = True"

text \<open>The records that a replay of the journal yields, none when it cannot be read.\<close>

definition durable :: "externals \<Rightarrow> ledger_codec \<Rightarrow> broker_ledger \<Rightarrow> ledger_records" where
  "durable E C lg = (case replay E C (lg_file lg) of Inl _ \<Rightarrow> [] | Inr (records, _) \<Rightarrow> records)"

text \<open>
  The journal can be read: it holds the records in memory or, after an append whose outcome is not known,
  those and one more.
\<close>

definition intact :: "externals \<Rightarrow> ledger_codec \<Rightarrow> broker_request set \<Rightarrow> broker_ledger \<Rightarrow> bool" where
  "intact E C R lg \<longleftrightarrow> ended C (lg_file lg)
     \<and> (\<exists>records units. replay E C (lg_file lg) = Inr (records, units) \<and> units_ok E records units \<and> records_inv E R records
          \<and> (records = lg_records lg
             \<or> lg_poisoned lg \<and> (\<exists>r. step_ok E R (lg_records lg) r \<and> records = put_record r (lg_records lg))))"

text \<open>The journal cannot be read, now or after any later append.\<close>

definition broken :: "ledger_codec \<Rightarrow> broker_ledger \<Rightarrow> bool" where
  "broken C lg \<longleftrightarrow> jammed C (lg_file lg) \<or> lg_poisoned lg \<and> bad_line C (last_line (lg_file lg))"

text \<open>\<open>torn\<close> says whether an append may be torn.\<close>

definition journal_inv :: "bool \<Rightarrow> externals \<Rightarrow> ledger_codec \<Rightarrow> broker_request set \<Rightarrow> broker_ledger \<Rightarrow> bool" where
  "journal_inv torn E C R lg \<longleftrightarrow> records_inv E R (lg_records lg) \<and> lg_path lg \<noteq> None
     \<and> (intact E C R lg \<or> broken C lg)
     \<and> (torn \<or> list_all whole (lg_io lg) \<and> complete (lg_file lg) \<and> intact E C R lg)"

lemma broken_replay: "broken C lg \<Longrightarrow> replay E C (lg_file lg) \<noteq> Inr x"
  by (auto simp: broken_def dest: jammed_replay last_line_replay)

lemma journal_inv_readable:
  "journal_inv False E C R lg \<Longrightarrow> \<not> lg_poisoned lg \<Longrightarrow> \<exists>units. replay E C (lg_file lg) = Inr (lg_records lg, units)"
  by (auto simp: journal_inv_def intact_def)

lemma journal_replay:
  assumes "journal_inv torn E C R lg" and "replay E C (lg_file lg) = Inr (records, units)"
  shows "records_inv E R records"
    and "records = lg_records lg
      \<or> lg_poisoned lg \<and> (\<exists>r. step_ok E R (lg_records lg) r \<and> records = put_record r (lg_records lg))"
    and "dom (map_of (lg_records lg)) \<subseteq> dom (map_of records)"
    and "intact E C R lg"
proof -
  show i: "intact E C R lg" using assms broken_replay by (auto simp: journal_inv_def)
  then show "records_inv E R records" "records = lg_records lg
      \<or> lg_poisoned lg \<and> (\<exists>r. step_ok E R (lg_records lg) r \<and> records = put_record r (lg_records lg))"
    using assms(2) by (auto simp: intact_def)
  then show "dom (map_of (lg_records lg)) \<subseteq> dom (map_of records)" by auto
qed

lemma take_short: "take (min n (length xs)) (xs @ ys) = take n xs"
  by (simp add: min_def)

text \<open>What an append does: nothing, or the first bytes of the line, and all of them when it succeeds.\<close>

lemma append_record_cases:
  assumes "append_record C lg r = (res, lg')" and "lg_path lg \<noteq> None"
  obtains "res \<noteq> Inr ()" "lg' = lg\<lparr>lg_io := lg_io lg'\<rparr>" "list_all whole (lg_io lg) \<longrightarrow> list_all whole (lg_io lg')"
  | line k where "lk_to_vec C r = Inr line"
      "lg' = lg\<lparr>lg_io := lg_io lg', lg_file := lg_file lg @ take k (line @ [newline]), lg_poisoned := (lg_poisoned lg \<or> res \<noteq> Inr ())\<rparr>"
      "res = Inr () \<longrightarrow> length line < k" "list_all whole (lg_io lg) \<longrightarrow> list_all whole (lg_io lg') \<and> length line < k"
proof -
  have tl: "list_all whole (lg_io lg) \<longrightarrow> list_all whole (tl (lg_io lg)) \<and> whole (next_io lg)"
    by (cases "lg_io lg") (auto simp: next_io_def)
  have "res \<noteq> Inr () \<and> lg' = lg\<lparr>lg_io := lg_io lg'\<rparr> \<and> (list_all whole (lg_io lg) \<longrightarrow> list_all whole (lg_io lg'))
    \<or> (\<exists>line k. lk_to_vec C r = Inr line
      \<and> lg' = lg\<lparr>lg_io := lg_io lg', lg_file := lg_file lg @ take k (line @ [newline]), lg_poisoned := (lg_poisoned lg \<or> res \<noteq> Inr ())\<rparr>
      \<and> (res = Inr () \<longrightarrow> length line < k) \<and> (list_all whole (lg_io lg) \<longrightarrow> list_all whole (lg_io lg') \<and> length line < k))"
  proof (cases "next_io lg")
    case (AppendPartial n error)
    then show ?thesis using assms tl unfolding append_record_def Let_def
      by (auto split: sum.splits if_splits option.splits simp del: take_append simp: take_short intro!: exI [of _ "min n (length (projr (lk_to_vec C r)))"])
  next
    case (AppendNoNewline n error)
    then show ?thesis using assms tl unfolding append_record_def Let_def
      by (auto split: sum.splits if_splits option.splits intro!: exI [of _ "length (projr (lk_to_vec C r)) + n"])
  next
    case (AppendNoSync error)
    then show ?thesis using assms tl unfolding append_record_def Let_def
      by (auto split: sum.splits if_splits option.splits intro!: exI [of _ "Suc (length (projr (lk_to_vec C r)))"])
  next
    case AppendDone
    then show ?thesis using assms tl unfolding append_record_def Let_def
      by (auto split: sum.splits if_splits option.splits intro!: exI [of _ "Suc (length (projr (lk_to_vec C r)))"])
  next
    case (AppendRefused error)
    then show ?thesis using assms tl unfolding append_record_def Let_def
      by (auto split: sum.splits if_splits option.splits)
  qed
  then show ?thesis using that by blast
qed

lemma journal_appended:
  assumes inv: "journal_inv torn E C R lg" and step: "step_ok E R (lg_records lg) r" and healthy: "\<not> lg_poisoned lg"
    and codec: "codec_ok C" "torn \<longrightarrow> codec_strict C" and inj: "inj_on (unit_name E) R"
    and line: "lk_to_vec C r = Inr line" "ok \<longrightarrow> length line < k"
      "list_all whole (lg_io lg) \<longrightarrow> list_all whole (lg_io lg') \<and> length line < k"
    and fields: "lg_file lg' = lg_file lg @ take k (line @ [newline])" "lg_poisoned lg' = (\<not> ok)" "lg_path lg' = lg_path lg"
      "lg_records lg' = (if ok then put_record r (lg_records lg) else lg_records lg)"
  shows "journal_inv torn E C R lg'
    \<and> (replay E C (lg_file lg') = Inr (records, units) \<longrightarrow> records \<in> {lg_records lg, put_record r (lg_records lg)})"
proof -
  have base: "records_inv E R (lg_records lg)" "lg_path lg' \<noteq> None" and put: "records_inv E R (put_record r (lg_records lg))"
      and strict: "\<not> torn \<longrightarrow> list_all whole (lg_io lg) \<and> complete (lg_file lg) \<and> intact E C R lg"
    using inv records_inv_put [OF _ step] fields(3) by (auto simp: journal_inv_def)
  then have recs: "records_inv E R (lg_records lg')" by (simp add: fields)
  have jam: ?thesis if "jammed C (lg_file lg')" "torn"
    using that recs base(2) jammed_replay [OF that(1), of E "(records, units)"] by (simp add: journal_inv_def broken_def)
  show ?thesis
  proof (cases "intact E C R lg")
    case False
    then have "jammed C (lg_file lg)" "torn" using inv healthy strict by (auto simp: journal_inv_def broken_def)
    then show ?thesis by (intro jam) (simp_all add: fields(1) jammed_append)
  next
    case True
    then obtain us where good: "ended C (lg_file lg)" "replay E C (lg_file lg) = Inr (lg_records lg, us)" "units_ok E (lg_records lg) us"
      using healthy by (auto simp: intact_def)
    note admit = admit_step [OF step base(1) good(3) inj]
    have k: "k = 0 \<or> length line < k \<and> complete (lg_file lg) \<or> codec_strict C" using codec(2) strict line(3) by auto
    consider (same) "lg_file lg' = lg_file lg"
      | (added) "replay E C (lg_file lg') = Inr (put_record r (lg_records lg), btree_insert (lr_unit r) (lr_request r) us)"
          "ended C (lg_file lg')" "length line < k \<longrightarrow> complete (lg_file lg')"
      | (bad) "k \<le> length line" "bad_line C (last_line (lg_file lg'))"
      | (fused) "\<not> complete (lg_file lg)" "jammed C (lg_file lg')"
      using torn_append [OF good(1,2) codec(1) k line(1) admit fields(1)] unfolding put_record_def by fastforce
    then show ?thesis
    proof cases
      case same
      then have "k = 0" by (auto simp: fields(1))
      then have r: "\<not> ok" "torn" using line(2,3) strict by auto
      then show ?thesis using recs base good healthy by (simp add: journal_inv_def intact_def same fields(2,4))
    next
      case added
      have "record_inv E r" using step by (simp add: step_ok_def)
      then have "intact E C R lg'"
        using added(1,2) units_ok_put [OF good(3)] put step by (auto simp: intact_def fields(2,4))
      then show ?thesis using recs base(2) added strict line(3) by (auto simp: journal_inv_def)
    next
      case bad
      then have "\<not> ok" "torn" using line(2,3) strict by auto
      then show ?thesis
        using recs base(2) bad(2) last_line_replay [OF bad(2), of E "(records, units)"]
        by (simp add: journal_inv_def broken_def fields(2))
    next
      case fused
      then show ?thesis using strict by (intro jam) auto
    qed
  qed
qed

lemma persist_journal:
  assumes inv: "journal_inv torn E C R lg" and step: "step_ok E R (lg_records lg) r" and healthy: "\<not> lg_poisoned lg"
    and codec: "codec_ok C" "torn \<longrightarrow> codec_strict C" and inj: "inj_on (unit_name E) R"
    and persist: "persist C lg (lr_request r) r = (res, lg')"
  shows "journal_inv torn E C R lg'"
    and "lg_records lg' = (if res = Inr () then put_record r (lg_records lg) else lg_records lg)"
    and "replay E C (lg_file lg') = Inr (records, units) \<Longrightarrow> records \<in> {lg_records lg, put_record r (lg_records lg)}"
proof -
  obtain res1 lg1 where app: "append_record C lg r = (res1, lg1)" by (cases "append_record C lg r")
  have pers: "res = res1" "lg' = (if res = Inr () then lg1\<lparr>lg_records := put_record r (lg_records lg1)\<rparr> else lg1)"
    using persist by (auto simp: persist_def app bindM_def put_record_def split: sum.splits if_splits)
  have path: "lg_path lg \<noteq> None" using inv by (simp add: journal_inv_def)
  have "journal_inv torn E C R lg' \<and> lg_records lg' = (if res = Inr () then put_record r (lg_records lg) else lg_records lg)
    \<and> (replay E C (lg_file lg') = Inr (records, units) \<longrightarrow> records \<in> {lg_records lg, put_record r (lg_records lg)})"
  proof (rule append_record_cases [OF app path])
    assume unchanged: "res1 \<noteq> Inr ()" "lg1 = lg\<lparr>lg_io := lg_io lg1\<rparr>" "list_all whole (lg_io lg) \<longrightarrow> list_all whole (lg_io lg1)"
    then have lg': "lg' = lg\<lparr>lg_io := lg_io lg1\<rparr>" using pers by simp
    have "journal_inv torn E C R lg'"
      using inv unchanged(3) by (simp add: lg' journal_inv_def intact_def broken_def) blast
    then show ?thesis
      using unchanged(1) pers(1) journal_replay(2) [OF inv, of records units] healthy by (auto simp: lg')
  next
    fix line k
    assume line: "lk_to_vec C r = Inr line"
        "lg1 = lg\<lparr>lg_io := lg_io lg1, lg_file := lg_file lg @ take k (line @ [newline]), lg_poisoned := (lg_poisoned lg \<or> res1 \<noteq> Inr ())\<rparr>"
        "res1 = Inr () \<longrightarrow> length line < k" "list_all whole (lg_io lg) \<longrightarrow> list_all whole (lg_io lg1) \<and> length line < k"
    have fields: "lg_file lg1 = lg_file lg @ take k (line @ [newline])" "lg_poisoned lg1 = (res \<noteq> Inr ())" "lg_path lg1 = lg_path lg"
        "lg_records lg1 = lg_records lg"
      by (subst line(2), simp add: healthy pers(1))+
    have records: "lg_records lg' = (if res = Inr () then put_record r (lg_records lg) else lg_records lg)"
      using fields by (simp add: pers(2))
    show ?thesis
      using journal_appended [OF inv step healthy codec inj line(1), of "res = Inr ()" k lg' records units] fields line(3,4) records
      by (simp add: pers)
  qed
  then show "journal_inv torn E C R lg'"
    and "lg_records lg' = (if res = Inr () then put_record r (lg_records lg) else lg_records lg)"
    and "replay E C (lg_file lg') = Inr (records, units) \<Longrightarrow> records \<in> {lg_records lg, put_record r (lg_records lg)}"
    by blast+
qed

end
