(* ===== verification/Broker_Operations.thy ===== *)
theory Broker_Operations
  imports Broker_Journal
begin

text \<open>
  The contract that every transition of the broker ledger meets: it leaves the ledger alone or
  persists one admissible record. The contract gives the preservation of the journal invariant once
  for all of them.
\<close>

section \<open>The contract\<close>

text \<open>Every record that is in memory or in the journal.\<close>

definition all_records :: "externals \<Rightarrow> ledger_codec \<Rightarrow> broker_ledger \<Rightarrow> (ledger_record \<Rightarrow> bool) \<Rightarrow> bool" where
  "all_records E C lg P \<longleftrightarrow>
     (\<forall>k r. map_of (lg_records lg) k = Some r \<or> map_of (durable E C lg) k = Some r \<longrightarrow> P r)"

definition journal_step ::
  "externals \<Rightarrow> ledger_codec \<Rightarrow> broker_request set \<Rightarrow> (ledger_record \<Rightarrow> bool) \<Rightarrow> broker_ledger \<Rightarrow> broker_ledger \<Rightarrow> bool" where
  "journal_step E C R adds lg lg' \<longleftrightarrow>
     lg' = lg \<or> (\<not> lg_poisoned lg \<and> (\<exists>r res. step_ok E R (lg_records lg) r \<and> adds r
                  \<and> persist C lg (lr_request r) r = (res, lg')))"

text \<open>A stop of the unit is on record, in memory and in a journal that can be read.\<close>

definition stop_owned_in :: "ledger_records \<Rightarrow> string \<Rightarrow> bool" where
  "stop_owned_in records unit \<longleftrightarrow>
     (\<exists>k r. map_of records k = Some r \<and> lr_unit r = unit \<and> lr_state r \<in> {LStopPending, LStopped})"

definition stop_owned :: "externals \<Rightarrow> ledger_codec \<Rightarrow> broker_ledger \<Rightarrow> string \<Rightarrow> bool" where
  "stop_owned E C lg unit \<longleftrightarrow> stop_owned_in (lg_records lg) unit
     \<and> (\<forall>records units. replay E C (lg_file lg) = Inr (records, units) \<longrightarrow> stop_owned_in records unit)"

lemma check_transition_stop:
  assumes "check_transition (Some previous) r = Inr ()" and "lr_state previous \<in> {LStopPending, LStopped}"
  shows "lr_state r \<in> {LStopPending, LStopped} \<and> lr_unit r = lr_unit previous"
  using assms
  by (cases "lr_state r"; cases "lr_receipt r")
     (auto simp: check_transition_def check_pending_step_def check_receipt_step_def ensure_def split: if_splits)

lemma stop_owned_put:
  assumes "step_ok E R records r" and "stop_owned_in records unit"
  shows "stop_owned_in (put_record r records) unit"
proof -
  obtain k r' where k: "map_of records k = Some r'" "lr_unit r' = unit" "lr_state r' \<in> {LStopPending, LStopped}"
    using assms(2) by (auto simp: stop_owned_in_def)
  have "lr_state r \<in> {LStopPending, LStopped} \<and> lr_unit r = unit" if "lr_request r = k"
    using assms(1) k check_transition_stop [of r' r] that by (auto simp: step_ok_def)
  then show ?thesis using k unfolding stop_owned_in_def
    by (intro exI [of _ k] exI [of _ "if lr_request r = k then r else r'"]) auto
qed

locale journal_operation =
  fixes E :: externals and C :: ledger_codec and R :: "broker_request set"
    and pre :: "broker_ledger \<Rightarrow> bool" and adds :: "ledger_record \<Rightarrow> bool"
    and op :: "broker_ledger \<Rightarrow> 'a broker_result \<times> broker_ledger"
  assumes steps: "pre lg \<Longrightarrow> records_inv E R (lg_records lg) \<Longrightarrow> journal_step E C R adds lg (snd (op lg))"
begin

lemma step_cases:
  assumes "pre lg" and "journal_inv torn E C R lg"
  obtains "snd (op lg) = lg"
  | r res where "\<not> lg_poisoned lg" "step_ok E R (lg_records lg) r" "adds r"
      "persist C lg (lr_request r) r = (res, snd (op lg))"
  using steps [OF assms(1)] assms(2) by (auto simp: journal_step_def journal_inv_def)

lemma keeps_journal:
  assumes "pre lg" and inv: "journal_inv torn E C R lg" and codec: "codec_ok C" "torn \<longrightarrow> codec_strict C" "inj_on (unit_name E) R"
  shows "journal_inv torn E C R (snd (op lg))"
    and "dom (map_of (lg_records lg)) \<subseteq> dom (map_of (lg_records (snd (op lg))))"
    and "all_records E C lg P \<Longrightarrow> (\<And>r. adds r \<Longrightarrow> P r) \<Longrightarrow> all_records E C (snd (op lg)) P"
proof -
  have "journal_inv torn E C R (snd (op lg))
    \<and> dom (map_of (lg_records lg)) \<subseteq> dom (map_of (lg_records (snd (op lg))))
    \<and> (all_records E C lg P \<longrightarrow> (\<forall>r. adds r \<longrightarrow> P r) \<longrightarrow> all_records E C (snd (op lg)) P)"
  proof (rule step_cases [OF assms(1) inv])
    fix r res
    assume h: "\<not> lg_poisoned lg" "step_ok E R (lg_records lg) r" "adds r" "persist C lg (lr_request r) r = (res, snd (op lg))"
    note step = persist_journal [OF inv h(2,1) codec h(4)]
    have "dom (map_of (lg_records lg)) \<subseteq> dom (map_of (lg_records (snd (op lg))))" using step(2) by auto
    moreover have "durable E C (snd (op lg)) \<in> {[], lg_records lg, put_record r (lg_records lg)}"
      using step(3) by (auto simp: durable_def split: sum.splits prod.splits)
    then have "all_records E C (snd (op lg)) P" if "all_records E C lg P" "\<forall>r. adds r \<longrightarrow> P r"
      using step(2) that h(3) unfolding all_records_def by (auto split: if_splits)
    ultimately show ?thesis using step(1) by blast
  qed (use inv in simp)
  then show "journal_inv torn E C R (snd (op lg))"
    and "dom (map_of (lg_records lg)) \<subseteq> dom (map_of (lg_records (snd (op lg))))"
    and "all_records E C lg P \<Longrightarrow> (\<And>r. adds r \<Longrightarrow> P r) \<Longrightarrow> all_records E C (snd (op lg)) P"
    by blast+
qed

lemma keeps_stops:
  assumes "pre lg" and inv: "journal_inv torn E C R lg" and codec: "codec_ok C" "torn \<longrightarrow> codec_strict C" "inj_on (unit_name E) R"
    and "stop_owned E C lg unit"
  shows "stop_owned E C (snd (op lg)) unit"
proof (rule step_cases [OF assms(1) inv])
  fix r res
  assume h: "\<not> lg_poisoned lg" "step_ok E R (lg_records lg) r" "adds r" "persist C lg (lr_request r) r = (res, snd (op lg))"
  note step = persist_journal [OF inv h(2,1) codec h(4)]
  have "stop_owned_in (lg_records lg) unit" using assms(6) by (simp add: stop_owned_def)
  then show ?thesis
    using step(2,3) stop_owned_put [OF h(2)] by (fastforce simp: stop_owned_def split: if_splits)
qed (use assms(6) in simp)

end

section \<open>The transitions\<close>

lemma ensure_Inr_iff [simp]: "ensure b e = Inr () \<longleftrightarrow> b"
  by (simp add: ensure_def)

lemma bindE_Inr_iff: "bindE m f = Inr y \<longleftrightarrow> (\<exists>x. m = Inr x \<and> f x = Inr y)"
  by (cases m) (simp_all add: bindE_def)

lemma ok_or_Inr_iff: "ok_or e m = Inr x \<longleftrightarrow> m = Some x"
  by (cases m) (simp_all add: ok_or_def)

lemmas guards = bindE_Inr_iff ok_or_Inr_iff ensure_healthy_def

lemma journal_step_refl [simp]: "journal_step E C R adds lg lg"
  by (simp add: journal_step_def)

lemma journal_step_persist:
  "\<not> lg_poisoned lg \<Longrightarrow> step_ok E R (lg_records lg) r \<Longrightarrow> adds r \<Longrightarrow> lr_request r = request
   \<Longrightarrow> journal_step E C R adds lg (snd (persist C lg request r))"
  unfolding journal_step_def by (metis prod.collapse)

lemma bindM_snd: "(\<And>x s. snd (f x s) = s) \<Longrightarrow> snd (bindM m f) = snd m"
  by (auto simp: bindM_def split: prod.splits sum.splits)

lemma check_record_cong:
  "lr_request r' = lr_request r \<Longrightarrow> lr_unit r' = lr_unit r \<Longrightarrow> lr_bootstrap r' = lr_bootstrap r \<Longrightarrow> lr_job r' = lr_job r
   \<Longrightarrow> check_record E r' = check_record E r"
  by (cases "lr_bootstrap r"; cases "lr_job r") (simp_all add: check_record_def)

lemma receipt_of_binding:
  "receipt_of r receipt \<Longrightarrow> same_process_binding receipt receipt' \<Longrightarrow> lr_request r' = lr_request r \<Longrightarrow> lr_unit r' = lr_unit r
   \<Longrightarrow> lr_identity r' = lr_identity r \<Longrightarrow> receipt_of r' receipt'"
  by (auto simp: receipt_of_def same_process_binding_def)

lemma verify_receipt_of:
  "verify_receipt_identity receipt (lr_request r) (lr_unit r) policy = Inr () \<Longrightarrow> matches_policy (lr_identity r) policy
   \<Longrightarrow> receipt_of r receipt"
  by (auto simp: verify_receipt_identity_def receipt_of_def matches_policy_def identity_from_policy_def)

text \<open>A step that adds a receipt to the previous record of its request.\<close>

lemma step_ok_receipt:
  assumes inv: "records_inv E R records" and prev: "map_of records request = Some previous"
    and r: "r = previous\<lparr>lr_state := st, lr_receipt := Some receipt\<rparr>"
    and state: "successor_of st (lr_state previous) \<or> st = LStopPending \<and> lr_state previous = LPending"
    and receipt: "receipt_of r receipt"
    and binding: "\<And>prior. lr_receipt previous = Some prior \<Longrightarrow> same_process_binding prior receipt"
    and cancel: "st = LCommitted \<Longrightarrow> lr_cancel_requested previous = None"
  shows "step_ok E R records r"
proof -
  note p = records_invD [OF inv prev]
  have "st \<noteq> LPending" using state by auto
  moreover have "check_record E r = Inr ()"
    using p(2) check_record_cong [of r previous E] by (simp add: record_inv_def r)
  moreover have "lr_state previous = LPending \<longrightarrow> lr_receipt previous = None"
    using p(2) by (simp add: record_inv_def)
  ultimately show ?thesis
    using p prev receipt state binding cancel
    by (cases st; cases "lr_receipt previous")
       (auto simp: step_ok_def record_inv_def check_transition_def check_receipt_step_def receipt_of_def r)
qed

lemma persist_receipt_step:
  assumes "records_inv E R (lg_records lg)" and "\<not> lg_poisoned lg" and "map_of (lg_records lg) request = Some previous"
    and "r = previous\<lparr>lr_state := st, lr_receipt := Some receipt\<rparr>"
    and "successor_of st (lr_state previous) \<or> st = LStopPending \<and> lr_state previous = LPending"
    and "receipt_of r receipt" and "\<And>prior. lr_receipt previous = Some prior \<Longrightarrow> same_process_binding prior receipt"
    and "st = LCommitted \<Longrightarrow> lr_cancel_requested previous = None" and "adds r"
  shows "journal_step E C R adds lg (snd (persist C lg request r))"
proof -
  have "step_ok E R (lg_records lg) r" by (rule step_ok_receipt [OF assms(1,3-8)])
  moreover have "lr_request r = request" using records_invD(1) [OF assms(1,3)] assms(4) by simp
  ultimately show ?thesis using assms(2,9) by (intro journal_step_persist)
qed

lemma begin_stop_step:
  assumes inv: "records_inv E R (lg_records lg)"
  shows "journal_step E C R (\<lambda>r. lr_state r \<noteq> LStopped) lg (snd (begin_stop C lg request receipt))"
proof -
  have "journal_step E C R (\<lambda>r. lr_state r \<noteq> LStopped) lg (snd (persist C lg request
      (previous\<lparr>lr_request := request, lr_unit := lc_unit receipt, lr_cancel_requested := None,
               lr_state := LStopPending, lr_receipt := Some receipt\<rparr>)))"
    if h: "\<not> lg_poisoned lg" "map_of (lg_records lg) request = Some previous" "lr_state previous = LCommitted"
      "lr_receipt previous = Some prior" "same_process_binding prior receipt" "lr_unit previous = lc_unit receipt" for previous prior
  proof -
    note p = records_invD [OF inv h(2)]
    have c: "lr_cancel_requested previous = None" and ro: "receipt_of previous prior"
      using p(2) h(3,4) by (auto simp: record_inv_def)
    have eq: "previous\<lparr>lr_request := request, lr_unit := lc_unit receipt, lr_cancel_requested := None,
               lr_state := LStopPending, lr_receipt := Some receipt\<rparr>
            = previous\<lparr>lr_state := LStopPending, lr_receipt := Some receipt\<rparr>"
      using p(1) h(6) c by (cases previous) simp
    show ?thesis unfolding eq
      by (rule persist_receipt_step [OF inv h(1,2) refl]) (use h receipt_of_binding [OF ro h(5)] in auto)
  qed
  then show ?thesis
    by (auto simp: begin_stop_def guards split: sum.splits option.splits if_splits)
qed

lemma mark_stopped_step:
  assumes inv: "records_inv E R (lg_records lg)"
  shows "journal_step E C R (\<lambda>r. lr_receipt r = Some receipt) lg (snd (mark_stopped C lg request receipt))"
proof -
  have "journal_step E C R (\<lambda>r. lr_receipt r = Some receipt) lg (snd (persist C lg request
      (previous\<lparr>lr_request := request, lr_unit := lc_unit receipt, lr_state := LStopped, lr_receipt := Some receipt\<rparr>)))"
    if h: "\<not> lg_poisoned lg" "map_of (lg_records lg) request = Some previous" "lr_state previous = LStopPending"
      "lr_receipt previous = Some prior" "same_process_binding prior receipt" for previous prior
  proof -
    note p = records_invD [OF inv h(2)]
    have ro: "receipt_of previous prior" using p(2) h(3,4) by (auto simp: record_inv_def)
    have eq: "previous\<lparr>lr_request := request, lr_unit := lc_unit receipt, lr_state := LStopped, lr_receipt := Some receipt\<rparr>
            = previous\<lparr>lr_state := LStopped, lr_receipt := Some receipt\<rparr>"
      using p(1) ro h(5) by (cases previous) (simp add: receipt_of_def same_process_binding_def)
    show ?thesis unfolding eq
      by (rule persist_receipt_step [OF inv h(1,2) refl]) (use h receipt_of_binding [OF ro h(5)] in auto)
  qed
  then show ?thesis
    by (auto simp: mark_stopped_def guards split: sum.splits)
qed

lemma begin_failed_launch_cleanup_step:
  assumes inv: "records_inv E R (lg_records lg)"
  shows "journal_step E C R (\<lambda>r. lr_state r \<noteq> LStopped) lg (snd (begin_failed_launch_cleanup E C lg request receipt policy))"
proof -
  have "journal_step E C R (\<lambda>r. lr_state r \<noteq> LStopped) lg (snd (persist C lg request
      (previous\<lparr>lr_request := request, lr_state := LStopPending, lr_receipt := Some receipt\<rparr>)))"
    if h: "\<not> lg_poisoned lg" "map_of (lg_records lg) request = Some previous" "lr_state previous = LPending"
      "matches_policy (lr_identity previous) policy" "verify_receipt_identity receipt request (lr_unit previous) policy = Inr ()"
      for previous
  proof -
    note p = records_invD [OF inv h(2)]
    have eq: "previous\<lparr>lr_request := request, lr_state := LStopPending, lr_receipt := Some receipt\<rparr>
            = previous\<lparr>lr_state := LStopPending, lr_receipt := Some receipt\<rparr>"
      using p(1) by (cases previous) simp
    have "lr_receipt previous = None" using p(2) h(3) by (simp add: record_inv_def)
    then show ?thesis unfolding eq
      by - (rule persist_receipt_step [OF inv h(1,2) refl];
            use h p(1) verify_receipt_of [of receipt "previous\<lparr>lr_state := LStopPending, lr_receipt := Some receipt\<rparr>" policy] in auto)
  qed
  then show ?thesis
    using begin_stop_step [OF inv]
    by (auto simp: begin_failed_launch_cleanup_def guards split: sum.splits)
qed

lemma commit_launch_step:
  assumes inv: "records_inv E R (lg_records lg)"
    and pre: "\<And>previous. map_of (lg_records lg) request = Some previous \<Longrightarrow> lr_state previous = LPending
      \<Longrightarrow> receipt_of previous receipt \<and> lr_cancel_requested previous = None"
  shows "journal_step E C R (\<lambda>r. lr_state r \<noteq> LStopped) lg (snd (commit_launch C lg request receipt))"
proof -
  have "journal_step E C R (\<lambda>r. lr_state r \<noteq> LStopped) lg (snd (persist C lg request
      (previous\<lparr>lr_request := request, lr_unit := lc_unit receipt, lr_state := LCommitted, lr_receipt := Some receipt\<rparr>)))"
    if h: "\<not> lg_poisoned lg" "map_of (lg_records lg) request = Some previous" "lr_state previous = LPending"
      "lr_unit previous = lc_unit receipt" for previous
  proof -
    note p = records_invD [OF inv h(2)]
    have eq: "previous\<lparr>lr_request := request, lr_unit := lc_unit receipt, lr_state := LCommitted, lr_receipt := Some receipt\<rparr>
            = previous\<lparr>lr_state := LCommitted, lr_receipt := Some receipt\<rparr>"
      using p(1) h(4) by (cases previous) simp
    have "lr_receipt previous = None" using p(2) h(3) by (simp add: record_inv_def)
    then show ?thesis unfolding eq
      by - (rule persist_receipt_step [OF inv h(1,2) refl]; use h pre [OF h(2,3)] in \<open>auto simp: receipt_of_def\<close>)
  qed
  moreover have "lr_state previous = LPending" if "lr_state previous \<notin> {LStopPending, LStopped}" "lr_state previous \<noteq> LCommitted"
    for previous using that by (cases "lr_state previous") auto
  ultimately show ?thesis
    by (auto simp: commit_launch_def guards split: sum.splits option.splits if_splits)
qed

text \<open>A step that extends a pending record.\<close>

lemma persist_pending_step:
  assumes inv: "records_inv E R (lg_records lg)" and h: "\<not> lg_poisoned lg" and prev: "map_of (lg_records lg) request = Some previous"
    and pending: "lr_state previous = LPending" and r: "lr_request r = request" and check: "check_record E r = Inr ()"
    and same: "lr_state r = LPending" "lr_receipt r = None" "lr_unit r = lr_unit previous" "lr_identity r = lr_identity previous"
      "lr_bootstrap r = lr_bootstrap previous"
    and ext: "lr_job previous = None \<and> lr_job r \<noteq> None \<and> lr_cancel_requested r = lr_cancel_requested previous
      \<or> lr_cancel_requested previous = None \<and> lr_cancel_requested r = Some True \<and> lr_job r = lr_job previous"
  shows "journal_step E C R (\<lambda>r. lr_state r \<noteq> LStopped) lg (snd (persist C lg request r))"
proof -
  note p = records_invD [OF inv prev]
  have prior: "lr_receipt previous = None" "lr_cancel_requested previous \<in> {None, Some True}"
    using p(2) pending by (simp_all add: record_inv_def)
  have "step_ok E R (lg_records lg) r"
    using p prev pending r check same ext prior
    by (auto simp: step_ok_def record_inv_def check_transition_def check_pending_step_def)
  then show ?thesis using h r same(1) by (intro journal_step_persist) auto
qed

lemma check_record_job:
  "check_record E previous = Inr () \<Longrightarrow> job_validate_for_request E job (lr_request previous) = Inr ()
   \<Longrightarrow> check_record E (previous\<lparr>lr_job := Some job\<rparr>) = Inr ()"
  by (auto simp: check_record_def bindE_Inr_iff cong: option.case_cong)

lemma bind_job_step:
  assumes inv: "records_inv E R (lg_records lg)"
  shows "journal_step E C R (\<lambda>r. lr_state r \<noteq> LStopped) lg (snd (bind_job E C lg request policy job))"
proof -
  have "journal_step E C R (\<lambda>r. lr_state r \<noteq> LStopped) lg
      (snd (persist C lg request (previous\<lparr>lr_request := request, lr_job := Some job\<rparr>)))"
    if h: "\<not> lg_poisoned lg" "map_of (lg_records lg) request = Some previous" "lr_state previous = LPending"
      "lr_job previous = None" "job_validate_for_request E job request = Inr ()" for previous
  proof -
    note p = records_invD [OF inv h(2)]
    have "check_record E previous = Inr ()" "lr_receipt previous = None" using p(2) h(3) by (simp_all add: record_inv_def)
    moreover have "previous\<lparr>lr_request := request\<rparr> = previous" using p(1) by (cases previous) simp
    ultimately show ?thesis
      using h p(1) check_record_job [of E previous job]
      by (intro persist_pending_step [OF inv h(1,2,3)]) auto
  qed
  then show ?thesis
    by (auto simp: bind_job_def guards split: sum.splits option.splits)
qed

lemma request_pending_stop_step:
  assumes inv: "records_inv E R (lg_records lg)"
  shows "journal_step E C R (\<lambda>r. lr_state r \<noteq> LStopped) lg (snd (request_pending_stop E C lg request policy))"
proof -
  have "journal_step E C R (\<lambda>r. lr_state r \<noteq> LStopped) lg
      (snd (persist C lg request (previous\<lparr>lr_request := request, lr_cancel_requested := Some True\<rparr>)))"
    if h: "\<not> lg_poisoned lg" "map_of (lg_records lg) request = Some previous" "lr_state previous = LPending"
      "lr_cancel_requested previous \<noteq> Some True" for previous
  proof -
    note p = records_invD [OF inv h(2)]
    have "check_record E previous = Inr ()" "lr_receipt previous = None" "lr_cancel_requested previous = None"
      using p(2) h(3,4) by (auto simp: record_inv_def)
    then show ?thesis
      using h p(1) check_record_cong [of "previous\<lparr>lr_cancel_requested := Some True\<rparr>" previous E]
        check_record_cong [of "previous\<lparr>lr_request := request, lr_cancel_requested := Some True\<rparr>" previous E]
      by (intro persist_pending_step [OF inv h(1,2,3)]) auto
  qed
  then show ?thesis
    by (auto simp: request_pending_stop_def guards split: sum.splits)
qed

lemma reserve_with_bootstrap_step:
  assumes inv: "records_inv E R (lg_records lg)" and valid: "request_validate request = Inr ()" "request \<in> R"
    and unit: "unit = unit_name E request"
  shows "journal_step E C R (\<lambda>r. lr_state r \<noteq> LStopped) lg (snd (reserve_with_bootstrap E C lg request unit policy bootstrap))"
proof -
  let ?r = "\<lparr>lr_request = request, lr_unit = unit, lr_identity = identity_from_policy policy, lr_bootstrap = bootstrap,
             lr_job = None, lr_cancel_requested = None, lr_state = LPending, lr_receipt = None\<rparr>"
  have "journal_step E C R (\<lambda>r. lr_state r \<noteq> LStopped) lg (snd (persist C lg request ?r))"
    if h: "\<not> lg_poisoned lg" "map_of (lg_records lg) request = None" "length (lg_records lg) < MAX_LEDGER_REQUESTS"
      "(case bootstrap of None \<Rightarrow> Inr () | Some b \<Rightarrow> binding_validate E b request) = Inr ()"
  proof -
    have "check_record E ?r = Inr ()" using valid(1) h(4) unit by (simp add: check_record_def bindE_Inr_iff cong: option.case_cong)
    then have "step_ok E R (lg_records lg) ?r"
      using valid(2) h by (simp add: step_ok_def record_inv_def check_transition_def)
    then show ?thesis using h(1) by (intro journal_step_persist) auto
  qed
  then show ?thesis
    by (auto simp: reserve_with_bootstrap_def guards bindM_snd split: sum.splits option.splits bool.splits)
qed

section \<open>The contract holds\<close>

interpretation begin_stop: journal_operation E C R "\<lambda>_. True" "\<lambda>r. lr_state r \<noteq> LStopped"
  "\<lambda>lg. begin_stop C lg request receipt" for E C R request receipt
  by unfold_locales (rule begin_stop_step)

interpretation failed_launch: journal_operation E C R "\<lambda>_. True" "\<lambda>r. lr_state r \<noteq> LStopped"
  "\<lambda>lg. begin_failed_launch_cleanup E C lg request receipt policy" for E C R request receipt policy
  by unfold_locales (rule begin_failed_launch_cleanup_step)

interpretation mark_stopped: journal_operation E C R "\<lambda>_. True" "\<lambda>r. lr_receipt r = Some receipt"
  "\<lambda>lg. mark_stopped C lg request receipt" for E C R request receipt
  by unfold_locales (rule mark_stopped_step)

interpretation bind_job: journal_operation E C R "\<lambda>_. True" "\<lambda>r. lr_state r \<noteq> LStopped"
  "\<lambda>lg. bind_job E C lg request policy job" for E C R request policy job
  by unfold_locales (rule bind_job_step)

interpretation pending_stop: journal_operation E C R "\<lambda>_. True" "\<lambda>r. lr_state r \<noteq> LStopped"
  "\<lambda>lg. request_pending_stop E C lg request policy" for E C R request policy
  by unfold_locales (rule request_pending_stop_step)

interpretation reserve: journal_operation E C R
  "\<lambda>_. request_validate request = Inr () \<and> request \<in> R" "\<lambda>r. lr_state r \<noteq> LStopped"
  "\<lambda>lg. reserve_with_bootstrap E C lg request (unit_name E request) policy bootstrap" for E C R request policy bootstrap
  by unfold_locales (auto intro: reserve_with_bootstrap_step)

definition committable :: "broker_ledger \<Rightarrow> broker_request \<Rightarrow> launch_receipt \<Rightarrow> bool" where
  "committable lg request receipt \<longleftrightarrow>
     (\<forall>previous. map_of (lg_records lg) request = Some previous \<longrightarrow> lr_state previous = LPending
        \<longrightarrow> receipt_of previous receipt \<and> lr_cancel_requested previous = None)"

interpretation commit_launch: journal_operation E C R "\<lambda>lg. committable lg request receipt" "\<lambda>r. lr_state r \<noteq> LStopped"
  "\<lambda>lg. commit_launch C lg request receipt" for E C R request receipt
  by unfold_locales (rule commit_launch_step, auto simp: committable_def)

section \<open>What the transitions answer\<close>

lemma persist_InrD:
  "persist C lg request r = (Inr (), lg') \<Longrightarrow> map_of (lg_records lg') = (map_of (lg_records lg))(request \<mapsto> r)"
proof -
  assume "persist C lg request r = (Inr (), lg')"
  then obtain lg1 where a: "append_record C lg r = (Inr (), lg1)" "lg' = lg1\<lparr>lg_records := btree_insert request r (lg_records lg1)\<rparr>"
    by (auto simp: persist_def bindM_def split: prod.splits sum.splits)
  have "lg_records lg1 = lg_records lg"
    using a(1) by (auto simp: append_record_def Let_def split: sum.splits if_splits option.splits append_io.splits)
  then show ?thesis by (simp add: a(2))
qed

definition pending_record :: "externals \<Rightarrow> broker_request \<Rightarrow> launch_policy \<Rightarrow> bootstrap_binding option \<Rightarrow> ledger_record" where
  "pending_record E request policy bootstrap =
     \<lparr>lr_request = request, lr_unit = unit_name E request, lr_identity = identity_from_policy policy, lr_bootstrap = bootstrap,
      lr_job = None, lr_cancel_requested = None, lr_state = LPending, lr_receipt = None\<rparr>"

text \<open>A reservation succeeds anew only for a request the ledger does not have.\<close>

lemma reserve_new:
  assumes "reserve_with_bootstrap E C lg request (unit_name E request) policy bootstrap = (Inr True, lg')"
  shows "map_of (lg_records lg) request = None"
    and "map_of (lg_records lg') = (map_of (lg_records lg))(request \<mapsto> pending_record E request policy bootstrap)"
proof -
  have "map_of (lg_records lg) request = None \<and> persist C lg request (pending_record E request policy bootstrap) = (Inr (), lg')"
    using assms unfolding reserve_with_bootstrap_def pending_record_def
    by (auto simp: guards bindM_def split: sum.splits option.splits bool.splits prod.splits)
  then show "map_of (lg_records lg) request = None"
    and "map_of (lg_records lg') = (map_of (lg_records lg))(request \<mapsto> pending_record E request policy bootstrap)"
    using persist_InrD by blast+
qed

lemma reserve_old:
  assumes "reserve_with_bootstrap E C lg request (unit_name E request) policy bootstrap = (Inr False, lg')"
  shows "lg' = lg" and "\<exists>r. map_of (lg_records lg) request = Some r \<and> matches_policy (lr_identity r) policy
    \<and> lr_bootstrap r = bootstrap \<and> lr_state r \<in> {LPending, LCommitted} \<and> lr_cancel_requested r \<noteq> Some True"
proof -
  have state: "lr_state r \<in> {LPending, LCommitted}" if "lr_state r \<notin> {LStopPending, LStopped}" for r
    using that by (cases "lr_state r") auto
  have "lg' = lg \<and> (\<exists>r. map_of (lg_records lg) request = Some r \<and> matches_policy (lr_identity r) policy
    \<and> lr_bootstrap r = bootstrap \<and> lr_state r \<in> {LPending, LCommitted} \<and> lr_cancel_requested r \<noteq> Some True)"
    using assms state unfolding reserve_with_bootstrap_def
    by (auto simp: guards bindM_def split: sum.splits option.splits bool.splits prod.splits)
  then show "lg' = lg" and "\<exists>r. map_of (lg_records lg) request = Some r \<and> matches_policy (lr_identity r) policy
    \<and> lr_bootstrap r = bootstrap \<and> lr_state r \<in> {LPending, LCommitted} \<and> lr_cancel_requested r \<noteq> Some True"
    by blast+
qed

text \<open>Binding the manager's job changes nothing else of the reservation.\<close>

lemma bind_job_InrD:
  assumes "bind_job E C lg request policy job = (Inr (), lg')" and "records_inv E R (lg_records lg)"
    and "map_of (lg_records lg) request = Some r"
  shows "map_of (lg_records lg') request = Some (r\<lparr>lr_job := Some job\<rparr>)"
proof -
  have eq: "r\<lparr>lr_request := request\<rparr> = r" using records_invD(1) [OF assms(2,3)] by (cases r) simp
  have "lg' = lg \<and> lr_job r = Some job \<or> persist C lg request (r\<lparr>lr_request := request, lr_job := Some job\<rparr>) = (Inr (), lg')"
    using assms(1,3) unfolding bind_job_def
    by (auto simp: guards split: sum.splits option.splits if_splits)
  then show ?thesis using assms(3) by (auto simp: eq dest: persist_InrD)
qed

lemma persist_healthy: "persist C lg request r = (Inr (), lg') \<Longrightarrow> lg_poisoned lg' = lg_poisoned lg"
  by (auto simp: persist_def append_record_def bindM_def Let_def
      split: prod.splits sum.splits if_splits option.splits append_io.splits)

lemma persist_state: "persist C lg request r = x \<Longrightarrow> lr_state r = st \<Longrightarrow> \<exists>r. lr_state r = st \<and> persist C lg request r = x"
  by blast

text \<open>After a successful stop transition the intent is on record and the ledger is healthy.\<close>

lemma begin_stop_InrD:
  assumes "begin_stop C lg request receipt = (Inr (), lg')"
  shows "\<not> lg_poisoned lg' \<and> (\<exists>r. map_of (lg_records lg') request = Some r \<and> lr_state r = LStopPending)"
proof -
  have "\<not> lg_poisoned lg \<and> (lg' = lg \<and> (\<exists>r. map_of (lg_records lg) request = Some r \<and> lr_state r = LStopPending)
    \<or> (\<exists>r. lr_state r = LStopPending \<and> persist C lg request r = (Inr (), lg')))"
    using assms unfolding begin_stop_def
    by (auto simp: guards split: sum.splits option.splits if_splits intro: persist_state)
  then show ?thesis by (auto dest: persist_InrD persist_healthy)
qed

lemma begin_failed_launch_cleanup_InrD:
  assumes "begin_failed_launch_cleanup E C lg request receipt policy = (Inr (), lg')"
  shows "\<not> lg_poisoned lg' \<and> (\<exists>r. map_of (lg_records lg') request = Some r \<and> lr_state r = LStopPending)"
proof -
  have "begin_stop C lg request receipt = (Inr (), lg')
    \<or> \<not> lg_poisoned lg \<and> (\<exists>r. lr_state r = LStopPending \<and> persist C lg request r = (Inr (), lg'))"
    using assms unfolding begin_failed_launch_cleanup_def
    by (auto simp: guards split: sum.splits if_splits intro: persist_state)
  then show ?thesis by (auto dest: persist_InrD persist_healthy begin_stop_InrD)
qed

lemma stop_owned_pending:
  assumes "journal_inv torn E C R lg" and "\<not> lg_poisoned lg" and "map_of (lg_records lg) request = Some r"
    and "lr_state r \<in> {LStopPending, LStopped}"
  shows "stop_owned E C lg (unit_name E request)"
proof -
  have inv: "records_inv E R (lg_records lg)" using assms(1) by (simp add: journal_inv_def)
  have "lr_unit r = unit_name E request"
    using records_invD [OF inv assms(3)] record_inv_unit by simp
  then have "stop_owned_in (lg_records lg) (unit_name E request)" using assms(3,4) by (auto simp: stop_owned_in_def)
  then show ?thesis using journal_replay(2) [OF assms(1)] assms(2) by (auto simp: stop_owned_def)
qed

end
