(* ===== verification/Broker_Lifecycle.thy ===== *)
theory Broker_Lifecycle
  imports Broker_Operations
begin

text \<open>
  The launch broker (\<^verbatim>\<open>platform/linux_broker/broker.rs\<close>): admission of a launch, the versioned inspect
  and stop operations and the cleanup of a failed launch, over the ledger and a backend that performs
  the privileged effects. A backend call carries no deadline here; a backend that keeps one has it in its
  own state.
\<close>

section \<open>The backend\<close>

datatype queued_job_resolution = JobQueued | JobGone

datatype queued_job_cancellation = CancelSubmitted | CancelAlreadyGone

text \<open>\<^verbatim>\<open>SystemdBackend\<close> with \<^verbatim>\<open>QueuedJobBackend\<close>; \<open>'b\<close> is the state of the backend and of what it acts on.\<close>

type_synonym ('b, 'a) backend_call = "'b \<Rightarrow> 'a broker_result \<times> 'b"

record 'b systemd_backend =
  bk_start :: "string \<Rightarrow> broker_request \<Rightarrow> launch_policy \<Rightarrow> bootstrap_launch option \<Rightarrow> ('b, unit_observation) backend_call"
  bk_inspect :: "string \<Rightarrow> launch_policy \<Rightarrow> ('b, unit_observation option) backend_call"
  bk_retain_containment :: "broker_request \<Rightarrow> unit_observation \<Rightarrow> launch_policy \<Rightarrow> ('b, unit) backend_call"
  bk_require_containment :: "unit_observation \<Rightarrow> launch_policy \<Rightarrow> ('b, unit) backend_call"
  bk_require_local_containment :: "unit_observation \<Rightarrow> launch_policy \<Rightarrow> ('b, unit) backend_call"
  bk_verify_retirement :: "launch_receipt \<Rightarrow> ('b, bool) backend_call"
  bk_require_retained_containment :: "launch_receipt \<Rightarrow> launch_policy \<Rightarrow> ('b, unit) backend_call"
  bk_stop_retained_containment :: "launch_receipt \<Rightarrow> ('b, unit) backend_call"
  bk_release_retired :: "launch_receipt \<Rightarrow> ('b, unit) backend_call"
  bk_stop :: "string \<Rightarrow> unit_observation \<Rightarrow> ('b, unit) backend_call"
  bk_queued_job_binding :: "string \<Rightarrow> 'b \<Rightarrow> job_binding option"
  bk_take_queued_job_binding :: "string \<Rightarrow> ('b, job_binding) backend_call"
  bk_resolve_queued_job :: "job_binding \<Rightarrow> ('b, queued_job_resolution) backend_call"
  bk_cancel_queued_job :: "job_binding \<Rightarrow> ('b, queued_job_cancellation) backend_call"

section \<open>The broker\<close>

text \<open>The set of active units is its sorted list.\<close>

record 'b broker =
  br_policy :: broker_policy
  br_backend :: 'b
  br_ledger :: broker_ledger
  br_receipts :: "(broker_request \<times> launch_receipt) list"
  br_active_units :: "string list"

record lifecycle_receipt =
  ly_receipt :: launch_receipt
  ly_state :: lifecycle_state
  ly_duplicate :: bool

definition new_with_ledger :: "broker_policy \<Rightarrow> 'b \<Rightarrow> broker_ledger \<Rightarrow> 'b broker" where
  "new_with_ledger policy backend ledger =
     \<lparr>br_policy = policy, br_backend = backend, br_ledger = ledger, br_receipts = [], br_active_units = []\<rparr>"

definition broker_new :: "broker_policy \<Rightarrow> 'b \<Rightarrow> 'b broker" where
  "broker_new policy backend = new_with_ledger policy backend ledger_memory"

text \<open>A call of the backend, an operation of the ledger, and the rest of a function after a check.\<close>

definition on_backend :: "('b, 'a) backend_call \<Rightarrow> 'b broker \<Rightarrow> 'a broker_result \<times> 'b broker" where
  "on_backend call br = (case call (br_backend br) of (r, b) \<Rightarrow> (r, br\<lparr>br_backend := b\<rparr>))"

definition on_ledger :: "(broker_ledger \<Rightarrow> 'a broker_result \<times> broker_ledger) \<Rightarrow> 'b broker \<Rightarrow> 'a broker_result \<times> 'b broker" where
  "on_ledger op br = (case op (br_ledger br) of (r, lg) \<Rightarrow> (r, br\<lparr>br_ledger := lg\<rparr>))"

definition tryM :: "'e + 'a \<Rightarrow> 's \<Rightarrow> ('a \<Rightarrow> ('e + 'c) \<times> 's) \<Rightarrow> ('e + 'c) \<times> 's" where
  "tryM r s f = (case r of Inl e \<Rightarrow> (Inl e, s) | Inr x \<Rightarrow> f x)"

definition active_unit_insert :: "string \<Rightarrow> 'b broker \<Rightarrow> 'b broker" where
  "active_unit_insert unit br = br\<lparr>br_active_units := insort_insert unit (br_active_units br)\<rparr>"

definition active_unit_remove :: "string \<Rightarrow> 'b broker \<Rightarrow> 'b broker" where
  "active_unit_remove unit br = br\<lparr>br_active_units := removeAll unit (br_active_units br)\<rparr>"

definition cache_receipt :: "broker_request \<Rightarrow> launch_receipt \<Rightarrow> 'b broker \<Rightarrow> 'b broker" where
  "cache_receipt request receipt br =
     (if length (br_receipts br) < MAX_RECEIPTS \<or> map_of (br_receipts br) request \<noteq> None
      then br\<lparr>br_receipts := btree_insert request receipt (br_receipts br)\<rparr> else br)"

definition active_capacity :: "'b broker \<Rightarrow> string \<Rightarrow> unit broker_result" where
  "active_capacity br unit =
     ensure (\<not> (unit \<notin> set (br_active_units br) \<and> MAX_ACTIVE_PROCESSES \<le> length (br_active_units br)))
       (BUnavailable ''broker active-process capacity is exhausted'')"

definition cleanup_error :: "broker_error \<Rightarrow> unit broker_result \<Rightarrow> broker_error" where
  "cleanup_error error cleanup =
     (case cleanup of
        Inr _ \<Rightarrow> error
      | Inl cleanup_error \<Rightarrow>
          BConflict (''launch failed and exact-unit cleanup was not proven: '' @ broker_error_display error
            @ ''; cleanup: '' @ broker_error_display cleanup_error))"

definition cleanup_failed_launch ::
  "externals \<Rightarrow> ledger_codec \<Rightarrow> 'b systemd_backend \<Rightarrow> broker_request \<Rightarrow> unit_observation \<Rightarrow> 'b broker
   \<Rightarrow> unit broker_result \<times> 'b broker" where
  "cleanup_failed_launch E C B request expected br =
     tryM (ensure_healthy (br_ledger br)) br (\<lambda>_.
     tryM (policy_component (br_policy br) (rq_component request)) br (\<lambda>policy.
     bindM (on_backend (bk_require_local_containment B expected policy) br) (\<lambda>_ br.
     let receipt = receipt_from request expected False in
     bindM (on_ledger (\<lambda>lg. begin_failed_launch_cleanup E C lg request receipt policy) br) (\<lambda>_ br.
     bindM (on_backend (bk_stop B (uo_unit expected) expected) br) (\<lambda>_ br.
     bindM (on_backend (bk_verify_retirement B receipt) br) (\<lambda>retired br.
     tryM (ensure retired (BConflict ''failed launch containment is not proven empty'')) br (\<lambda>_.
     bindM (on_ledger (\<lambda>lg. mark_stopped C lg request receipt) br) (\<lambda>_ br.
     on_backend (bk_release_retired B receipt) (active_unit_remove (uo_unit expected) br)))))))))"

section \<open>Launch\<close>

text \<open>An old nonce: only an exact live unit is acknowledged, nothing is started.\<close>

definition relaunch_old ::
  "externals \<Rightarrow> ledger_codec \<Rightarrow> 'b systemd_backend \<Rightarrow> broker_request \<Rightarrow> launch_policy \<Rightarrow> 'b broker
   \<Rightarrow> launch_receipt broker_result \<times> 'b broker" where
  "relaunch_old E C B request policy br =
     (let unit = unit_name E request in
      tryM (pending_cancel_requested E (br_ledger br) request policy) br (\<lambda>cancelled.
      tryM (ensure (\<not> cancelled)
              (BConflict ''durable launch cancellation is pending; refusing to relaunch old nonce'')) br (\<lambda>_.
      bindM (on_backend (bk_inspect B unit policy) br) (\<lambda>found br.
      case found of
        Some observation \<Rightarrow>
          tryM (observation_verify observation unit policy) br (\<lambda>_.
          let receipt = receipt_from request observation True in
          bindM (on_backend (bk_require_containment B observation policy) br) (\<lambda>_ br.
          bindM (on_ledger (\<lambda>lg. commit_launch C lg request receipt) br) (\<lambda>_ br.
          (Inr receipt, cache_receipt request receipt (active_unit_insert unit br)))))
      | None \<Rightarrow>
          (Inl (BConflict ''durable launch record has no active unit; refusing to relaunch old nonce''), br)))))"

text \<open>The job object that the manager returned is bound into the journal before anything is acknowledged.\<close>

definition bind_queued_job ::
  "externals \<Rightarrow> ledger_codec \<Rightarrow> 'b systemd_backend \<Rightarrow> broker_request \<Rightarrow> launch_policy \<Rightarrow> 'b broker \<Rightarrow> unit broker_result \<times> 'b broker" where
  "bind_queued_job E C B request policy br =
     (case bk_queued_job_binding B (unit_name E request) (br_backend br) of
        None \<Rightarrow> (Inr (), br)
      | Some job \<Rightarrow>
          bindM (on_ledger (\<lambda>lg. bind_job E C lg request policy job) br) (\<lambda>_ br.
          bindM (on_backend (bk_take_queued_job_binding B (unit_name E request)) br) (\<lambda>consumed br.
          tryM (ensure (consumed = job)
                  (BConflict ''backend queued job changed while binding its durable identity'')) br (\<lambda>_.
          (Inr (), br)))))"

text \<open>A new nonce, already reserved.\<close>

definition launch_new ::
  "externals \<Rightarrow> ledger_codec \<Rightarrow> 'b systemd_backend \<Rightarrow> broker_request \<Rightarrow> launch_policy \<Rightarrow> bootstrap_launch option \<Rightarrow> 'b broker
   \<Rightarrow> launch_receipt broker_result \<times> 'b broker" where
  "launch_new E C B request policy bootstrap br =
     (let unit = unit_name E request in
      case on_backend (bk_start B unit request policy bootstrap) br of (started, br) \<Rightarrow>
      bindM (bind_queued_job E C B request policy br) (\<lambda>_ br.
      tryM started br (\<lambda>observation.
      tryM (observation_verify observation unit policy) br (\<lambda>_.
      case on_backend (bk_retain_containment B request observation policy) br of
        (Inl error, br) \<Rightarrow>
          (case cleanup_failed_launch E C B request observation br of
             (cleanup, br) \<Rightarrow> (Inl (cleanup_error error cleanup), br))
      | (Inr _, br) \<Rightarrow>
          (let receipt = receipt_from request observation False in
           case on_ledger (\<lambda>lg. commit_launch C lg request receipt) br of
             (Inl error, br) \<Rightarrow>
               if lg_poisoned (br_ledger br) then (Inl error, br)
               else (case cleanup_failed_launch E C B request observation br of
                       (cleanup, br) \<Rightarrow> (Inl (cleanup_error error cleanup), br))
           | (Inr _, br) \<Rightarrow> (Inr receipt, cache_receipt request receipt (active_unit_insert unit br)))))))"

definition handle_launch_at_deadline ::
  "externals \<Rightarrow> uuid_bytes \<Rightarrow> ledger_codec \<Rightarrow> 'b systemd_backend \<Rightarrow> peer_os \<Rightarrow> (string \<Rightarrow> path_buf) \<Rightarrow> peer_credentials
   \<Rightarrow> broker_request \<Rightarrow> bootstrap_launch option \<Rightarrow> 'b broker \<Rightarrow> launch_receipt broker_result \<times> 'b broker" where
  "handle_launch_at_deadline E U C B K path_of credentials request bootstrap br =
     tryM (request_validate request) br (\<lambda>_.
     tryM (authenticate_peer E K credentials (bp_peer (br_policy br))) br (\<lambda>_.
     tryM (case bootstrap of
             None \<Rightarrow> Inr ()
           | Some launch \<Rightarrow>
               bindE (launch_validate_for_request E U launch request) (\<lambda>_.
               authenticate_worker_peer E K path_of launch credentials (bp_peer (br_policy br)))) br (\<lambda>_.
     tryM (policy_component (br_policy br) (rq_component request)) br (\<lambda>policy.
     tryM (launch_environment E U policy request bootstrap) br (\<lambda>_.
     tryM (ensure_healthy (br_ledger br)) br (\<lambda>_.
     tryM (active_capacity br (unit_name E request)) br (\<lambda>_.
     bindM (if ledger_contains (br_ledger br) request then (Inr (), br)
            else bindM (on_backend (bk_inspect B (unit_name E request) policy) br) (\<lambda>found br.
                 tryM (ensure (found = None) (BConflict ''active unit has no durable launch reservation'')) br (\<lambda>_.
                 (Inr (), br)))) (\<lambda>_ br.
     bindM (on_ledger (\<lambda>lg.
              case bootstrap of
                Some launch \<Rightarrow> reserve_with_bootstrap E C lg request (unit_name E request) policy (Some (bl_binding launch))
              | None \<Rightarrow> reserve E C lg request (unit_name E request) policy) br) (\<lambda>newly_reserved br.
     if \<not> newly_reserved then relaunch_old E C B request policy br
     else launch_new E C B request policy bootstrap br)))))))))"

text \<open>\<^verbatim>\<open>handle_at_deadline\<close> and \<^verbatim>\<open>handle_with_bootstrap\<close>\<close>

definition handle ::
  "externals \<Rightarrow> uuid_bytes \<Rightarrow> ledger_codec \<Rightarrow> 'b systemd_backend \<Rightarrow> peer_os \<Rightarrow> (string \<Rightarrow> path_buf) \<Rightarrow> peer_credentials
   \<Rightarrow> broker_request \<Rightarrow> 'b broker \<Rightarrow> launch_receipt broker_result \<times> 'b broker" where
  "handle E U C B K path_of credentials request br =
     tryM (policy_component (br_policy br) (rq_component request)) br (\<lambda>_.
     handle_launch_at_deadline E U C B K path_of credentials request None br)"

definition handle_with_bootstrap ::
  "externals \<Rightarrow> uuid_bytes \<Rightarrow> ledger_codec \<Rightarrow> 'b systemd_backend \<Rightarrow> peer_os \<Rightarrow> (string \<Rightarrow> path_buf) \<Rightarrow> peer_credentials
   \<Rightarrow> broker_request \<Rightarrow> bootstrap_launch \<Rightarrow> 'b broker \<Rightarrow> launch_receipt broker_result \<times> 'b broker" where
  "handle_with_bootstrap E U C B K path_of credentials request bootstrap br =
     tryM (policy_component (br_policy br) (rq_component request)) br (\<lambda>_.
     handle_launch_at_deadline E U C B K path_of credentials request (Some bootstrap) br)"

section \<open>Inspect and stop\<close>

definition lifecycle_pending ::
  "externals \<Rightarrow> ledger_codec \<Rightarrow> 'b systemd_backend \<Rightarrow> lifecycle_operation \<Rightarrow> broker_request \<Rightarrow> launch_policy \<Rightarrow> 'b broker
   \<Rightarrow> lifecycle_receipt broker_result \<times> 'b broker" where
  "lifecycle_pending E C B operation request policy br =
     bindM (if operation = LifecycleStop then
              bindM (on_ledger (\<lambda>lg. request_pending_stop E C lg request policy) br) (\<lambda>_ br.
              tryM (pending_job_binding E (br_ledger br) request policy) br (\<lambda>found.
              case found of
                None \<Rightarrow> (Inr (), br)
              | Some job \<Rightarrow>
                  bindM (on_backend (bk_resolve_queued_job B job) br) (\<lambda>resolution br.
                  case resolution of
                    JobQueued \<Rightarrow> bindM (on_backend (bk_cancel_queued_job B job) br) (\<lambda>_ br. (Inr (), br))
                  | JobGone \<Rightarrow> (Inr (), br))))
            else (Inr (), br)) (\<lambda>_ br.
     (Inl (BConflict ''lifecycle request has an unresolved launch reservation; exact execution remains uncertain''), br))"

definition lifecycle_stopped ::
  "externals \<Rightarrow> 'b systemd_backend \<Rightarrow> lifecycle_operation \<Rightarrow> broker_request \<Rightarrow> launch_policy \<Rightarrow> launch_receipt \<Rightarrow> 'b broker
   \<Rightarrow> lifecycle_receipt broker_result \<times> 'b broker" where
  "lifecycle_stopped E B operation request policy persisted br =
     (let unit = unit_name E request in
      tryM (verify_receipt_identity persisted request unit policy) br (\<lambda>_.
      bindM (on_backend (bk_inspect B unit policy) br) (\<lambda>found br.
      case found of
        None \<Rightarrow>
          bindM (if operation = LifecycleStop then on_backend (bk_release_retired B persisted) br else (Inr (), br)) (\<lambda>_ br.
          (Inr \<lparr>ly_receipt = persisted, ly_state = LifecycleStopped, ly_duplicate = (operation = LifecycleStop)\<rparr>, br))
      | Some observation \<Rightarrow>
          tryM (observation_verify observation unit policy) br (\<lambda>_.
          tryM (ensure (same_process_binding persisted (receipt_from request observation False))
                  (BConflict ''terminal lifecycle unit identity was replaced'')) br (\<lambda>_.
          (Inl (BConflict ''terminal lifecycle unit was reactivated''), br))))))"

text \<open>The leader is gone: only the retained original containment proves that the unit has ended.\<close>

definition retire_absent ::
  "ledger_codec \<Rightarrow> 'b systemd_backend \<Rightarrow> broker_request \<Rightarrow> launch_policy \<Rightarrow> launch_receipt \<Rightarrow> bool \<Rightarrow> 'b broker
   \<Rightarrow> unit broker_result \<times> 'b broker" where
  "retire_absent C B request policy persisted stop_pending br =
     bindM (on_backend (bk_verify_retirement B persisted) br) (\<lambda>retired br.
     if retired then (Inr (), br)
     else
       bindM (on_backend (bk_require_retained_containment B persisted policy) br) (\<lambda>_ br.
       bindM (if stop_pending then (Inr (), br)
              else on_ledger (\<lambda>lg. begin_stop C lg request persisted) br) (\<lambda>_ br.
       bindM (on_backend (bk_stop_retained_containment B persisted) br) (\<lambda>_ br.
       bindM (on_backend (bk_verify_retirement B persisted) br) (\<lambda>retired br.
       tryM (ensure retired (BConflict ''original orphan containment retirement is unproven'')) br (\<lambda>_.
       (Inr (), br)))))))"

definition stop_absent ::
  "externals \<Rightarrow> ledger_codec \<Rightarrow> 'b systemd_backend \<Rightarrow> broker_request \<Rightarrow> launch_policy \<Rightarrow> launch_receipt \<Rightarrow> bool \<Rightarrow> 'b broker
   \<Rightarrow> lifecycle_receipt broker_result \<times> 'b broker" where
  "stop_absent E C B request policy persisted stop_pending br =
     bindM (retire_absent C B request policy persisted stop_pending br) (\<lambda>_ br.
     let stopped_receipt = persisted\<lparr>lc_duplicate := False\<rparr> in
     bindM (on_ledger (\<lambda>lg. begin_stop C lg request stopped_receipt) br) (\<lambda>_ br.
     bindM (on_ledger (\<lambda>lg. mark_stopped C lg request stopped_receipt) br) (\<lambda>_ br.
     bindM (on_backend (bk_release_retired B stopped_receipt) (active_unit_remove (unit_name E request) br)) (\<lambda>_ br.
     (Inr \<lparr>ly_receipt = stopped_receipt, ly_state = LifecycleStopped, ly_duplicate = False\<rparr>, br)))))"

text \<open>The confirmation loop; the deadline still lies ahead at its first \<open>polls\<close> looks at the clock.\<close>

fun confirm_stop ::
  "externals \<Rightarrow> ledger_codec \<Rightarrow> 'b systemd_backend \<Rightarrow> broker_request \<Rightarrow> launch_policy \<Rightarrow> launch_receipt \<Rightarrow> nat \<Rightarrow> 'b broker
   \<Rightarrow> lifecycle_receipt broker_result \<times> 'b broker" where
  "confirm_stop E C B request policy persisted polls br =
     bindM (on_backend (bk_inspect B (unit_name E request) policy) br) (\<lambda>found br.
     case found of
       None \<Rightarrow>
         bindM (on_backend (bk_verify_retirement B persisted) br) (\<lambda>retired br.
         tryM (ensure retired (BConflict ''original containment retirement is unproven'')) br (\<lambda>_.
         let stopped_receipt = persisted\<lparr>lc_duplicate := False\<rparr> in
         bindM (on_ledger (\<lambda>lg. mark_stopped C lg request stopped_receipt) br) (\<lambda>_ br.
         bindM (on_backend (bk_release_retired B stopped_receipt) (active_unit_remove (unit_name E request) br)) (\<lambda>_ br.
         (Inr \<lparr>ly_receipt = stopped_receipt, ly_state = LifecycleStopped, ly_duplicate = False\<rparr>, br)))))
     | Some observation \<Rightarrow>
         tryM (observation_verify observation (unit_name E request) policy) br (\<lambda>_.
         tryM (ensure (same_process_binding persisted (receipt_from request observation False))
                 (BConflict ''unit identity changed while exact stop was in flight'')) br (\<lambda>_.
         case polls of
           0 \<Rightarrow> (Inl (BUnavailable ''broker operation deadline expired''), br)
         | Suc polls \<Rightarrow> confirm_stop E C B request policy persisted polls br)))"

declare confirm_stop.simps [simp del]

definition lifecycle_live ::
  "externals \<Rightarrow> ledger_codec \<Rightarrow> 'b systemd_backend \<Rightarrow> lifecycle_operation \<Rightarrow> broker_request \<Rightarrow> launch_policy \<Rightarrow> launch_receipt
   \<Rightarrow> bool \<Rightarrow> nat \<Rightarrow> 'b broker \<Rightarrow> lifecycle_receipt broker_result \<times> 'b broker" where
  "lifecycle_live E C B operation request policy persisted stop_pending polls br =
     (let unit = unit_name E request in
      tryM (verify_receipt_identity persisted request unit policy) br (\<lambda>_.
      bindM (on_backend (bk_inspect B unit policy) br) (\<lambda>found br.
      case found of
        None \<Rightarrow>
          if operation = LifecycleStop then stop_absent E C B request policy persisted stop_pending br
          else (Inl (BConflict (if stop_pending then ''stop-pending lifecycle unit is inactive; absence is uncommitted''
                     else ''committed lifecycle unit is inactive or missing; ownership is uncertain'')), br)
      | Some observation \<Rightarrow>
          tryM (observation_verify observation unit policy) br (\<lambda>_.
          let observed = receipt_from request observation False in
          tryM (ensure (same_process_binding persisted observed)
                  (BConflict ''live lifecycle unit identity differs from its durable receipt'')) br (\<lambda>_.
          if operation = LifecycleInspect then
            tryM (ensure (\<not> stop_pending) (BConflict ''lifecycle stop is pending; active state is uncertain'')) br (\<lambda>_.
            (Inr \<lparr>ly_receipt = observed, ly_state = LifecycleActive, ly_duplicate = False\<rparr>, br))
          else
            bindM (on_backend (bk_require_local_containment B observation policy) br) (\<lambda>_ br.
            bindM (if stop_pending then (Inr (), br)
                   else on_ledger (\<lambda>lg. begin_stop C lg request observed) br) (\<lambda>_ br.
            tryM (active_capacity br unit) br (\<lambda>_.
            bindM (on_backend (bk_stop B unit observation) (active_unit_insert unit br)) (\<lambda>_ br.
            confirm_stop E C B request policy persisted polls br)))))))))"

definition lifecycle_at_deadline ::
  "externals \<Rightarrow> ledger_codec \<Rightarrow> 'b systemd_backend \<Rightarrow> peer_os \<Rightarrow> peer_credentials \<Rightarrow> lifecycle_operation \<Rightarrow> broker_request
   \<Rightarrow> nat \<Rightarrow> 'b broker \<Rightarrow> lifecycle_receipt broker_result \<times> 'b broker" where
  "lifecycle_at_deadline E C B K credentials operation request polls br =
     tryM (request_validate request) br (\<lambda>_.
     tryM (authenticate_peer E K credentials (bp_peer (br_policy br))) br (\<lambda>_.
     tryM (policy_component (br_policy br) (rq_component request)) br (\<lambda>policy.
     tryM (ensure_healthy (br_ledger br)) br (\<lambda>_.
     tryM (ledger_lifecycle_record (br_ledger br) request (unit_name E request) policy) br (\<lambda>found.
     case found of
       None \<Rightarrow> (Inl (BConflict ''lifecycle request has no durable launch reservation''), br)
     | Some RecPending \<Rightarrow> lifecycle_pending E C B operation request policy br
     | Some (RecStopped persisted) \<Rightarrow> lifecycle_stopped E B operation request policy persisted br
     | Some (RecCommitted persisted) \<Rightarrow> lifecycle_live E C B operation request policy persisted False polls br
     | Some (RecStopPending persisted) \<Rightarrow> lifecycle_live E C B operation request policy persisted True polls br)))))"

definition lifecycle ::
  "externals \<Rightarrow> ledger_codec \<Rightarrow> 'b systemd_backend \<Rightarrow> peer_os \<Rightarrow> peer_credentials \<Rightarrow> lifecycle_operation \<Rightarrow> broker_request
   \<Rightarrow> nat \<Rightarrow> 'b broker \<Rightarrow> lifecycle_receipt broker_result \<times> 'b broker" where
  "lifecycle E C B K credentials operation request polls br =
     tryM (policy_component (br_policy br) (rq_component request)) br (\<lambda>_.
     lifecycle_at_deadline E C B K credentials operation request polls br)"

end
