(* ===== verification/Broker_Safety.thy ===== *)
theory Broker_Safety
  imports Broker_Lifecycle
begin

text \<open>
  What holds over every run of the broker, with restarts from the journal: the journal replays to the
  records, a request is started at most once, a stop is sent only with the intent on record, and a record
  is terminal only after the backend has proved the retirement of its process. The effects are observed
  through a log that is kept beside an arbitrary backend.
\<close>

section \<open>An observed backend\<close>

datatype broker_event = Started broker_request | StopSent string | Retired launch_receipt

definition quiet_call :: "('b, 'a) backend_call \<Rightarrow> ('b \<times> broker_event list, 'a) backend_call" where
  "quiet_call call = (\<lambda>(b, log). case call b of (r, b') \<Rightarrow> (r, (b', log)))"

definition logged_call :: "broker_event \<Rightarrow> ('b, 'a) backend_call \<Rightarrow> ('b \<times> broker_event list, 'a) backend_call" where
  "logged_call event call = (\<lambda>(b, log). case call b of (r, b') \<Rightarrow> (r, (b', log @ [event])))"

definition proof_call :: "launch_receipt \<Rightarrow> ('b, bool) backend_call \<Rightarrow> ('b \<times> broker_event list, bool) backend_call" where
  "proof_call receipt call =
     (\<lambda>(b, log). case call b of (r, b') \<Rightarrow> (r, (b', if r = Inr True then log @ [Retired receipt] else log)))"

definition observed :: "'b systemd_backend \<Rightarrow> ('b \<times> broker_event list) systemd_backend" where
  "observed B =
     \<lparr>bk_start = (\<lambda>unit request policy bootstrap. logged_call (Started request) (bk_start B unit request policy bootstrap)),
      bk_inspect = (\<lambda>unit policy. quiet_call (bk_inspect B unit policy)),
      bk_retain_containment = (\<lambda>request expected policy. quiet_call (bk_retain_containment B request expected policy)),
      bk_require_containment = (\<lambda>expected policy. quiet_call (bk_require_containment B expected policy)),
      bk_require_local_containment = (\<lambda>expected policy. quiet_call (bk_require_local_containment B expected policy)),
      bk_verify_retirement = (\<lambda>receipt. proof_call receipt (bk_verify_retirement B receipt)),
      bk_require_retained_containment = (\<lambda>receipt policy. quiet_call (bk_require_retained_containment B receipt policy)),
      bk_stop_retained_containment =
        (\<lambda>receipt. logged_call (StopSent (lc_unit receipt)) (bk_stop_retained_containment B receipt)),
      bk_release_retired = (\<lambda>receipt. quiet_call (bk_release_retired B receipt)),
      bk_stop = (\<lambda>unit expected. logged_call (StopSent unit) (bk_stop B unit expected)),
      bk_queued_job_binding = (\<lambda>unit (b, log). bk_queued_job_binding B unit b),
      bk_take_queued_job_binding = (\<lambda>unit. quiet_call (bk_take_queued_job_binding B unit)),
      bk_resolve_queued_job = (\<lambda>job. quiet_call (bk_resolve_queued_job B job)),
      bk_cancel_queued_job = (\<lambda>job. quiet_call (bk_cancel_queued_job B job))\<rparr>"

lemma observed_simps [simp]:
  "bk_start (observed B) unit request policy bootstrap = logged_call (Started request) (bk_start B unit request policy bootstrap)"
  "bk_inspect (observed B) unit policy = quiet_call (bk_inspect B unit policy)"
  "bk_retain_containment (observed B) request expected policy = quiet_call (bk_retain_containment B request expected policy)"
  "bk_require_containment (observed B) expected policy = quiet_call (bk_require_containment B expected policy)"
  "bk_require_local_containment (observed B) expected policy = quiet_call (bk_require_local_containment B expected policy)"
  "bk_verify_retirement (observed B) receipt = proof_call receipt (bk_verify_retirement B receipt)"
  "bk_require_retained_containment (observed B) receipt policy = quiet_call (bk_require_retained_containment B receipt policy)"
  "bk_stop_retained_containment (observed B) receipt
     = logged_call (StopSent (lc_unit receipt)) (bk_stop_retained_containment B receipt)"
  "bk_release_retired (observed B) receipt = quiet_call (bk_release_retired B receipt)"
  "bk_stop (observed B) unit expected = logged_call (StopSent unit) (bk_stop B unit expected)"
  "bk_take_queued_job_binding (observed B) unit = quiet_call (bk_take_queued_job_binding B unit)"
  "bk_resolve_queued_job (observed B) job = quiet_call (bk_resolve_queued_job B job)"
  "bk_cancel_queued_job (observed B) job = quiet_call (bk_cancel_queued_job B job)"
  by (simp_all add: observed_def)

type_synonym 'b observed_broker = "('b \<times> broker_event list) broker"

definition events :: "'b observed_broker \<Rightarrow> broker_event list" where
  "events br = snd (br_backend br)"

lemma on_backend_quiet:
  assumes "on_backend (quiet_call call) br = (r, br')"
  shows "br_ledger br' = br_ledger br" "events br' = events br" "br_policy br' = br_policy br"
  using assms by (auto simp: on_backend_def quiet_call_def events_def split: prod.splits)

lemma on_backend_logged:
  assumes "on_backend (logged_call event call) br = (r, br')"
  shows "br_ledger br' = br_ledger br" "events br' = events br @ [event]" "br_policy br' = br_policy br"
  using assms by (auto simp: on_backend_def logged_call_def events_def split: prod.splits)

lemma on_backend_proof:
  assumes "on_backend (proof_call receipt call) br = (r, br')"
  shows "br_ledger br' = br_ledger br" "events br' = (if r = Inr True then events br @ [Retired receipt] else events br)"
    "br_policy br' = br_policy br"
  using assms by (auto simp: on_backend_def proof_call_def events_def split: prod.splits)

lemma on_ledger_frame:
  assumes "on_ledger op br = (r, br')"
  shows "op (br_ledger br) = (r, br_ledger br')" "events br' = events br" "br_policy br' = br_policy br"
  using assms by (auto simp: on_ledger_def events_def split: prod.splits)

lemma bookkeeping_frame [simp]:
  "br_ledger (active_unit_insert unit br) = br_ledger br" "events (active_unit_insert unit br) = events br"
  "br_ledger (active_unit_remove unit br) = br_ledger br" "events (active_unit_remove unit br) = events br"
  "br_ledger (cache_receipt request receipt br) = br_ledger br" "events (cache_receipt request receipt br) = events br"
  by (simp_all add: active_unit_insert_def active_unit_remove_def cache_receipt_def events_def)

section \<open>The invariant\<close>

fun started :: "broker_event list \<Rightarrow> broker_request list" where
  "started [] = []"
| "started (Started request # log) = request # started log"
| "started (_ # log) = started log"

lemma started_append [simp]: "started (xs @ ys) = started xs @ started ys"
  by (induction xs rule: started.induct) simp_all

text \<open>A terminal record has a proof of retirement of its process in the log.\<close>

definition proved :: "broker_event list \<Rightarrow> ledger_record \<Rightarrow> bool" where
  "proved log r \<longleftrightarrow> (lr_state r = LStopped \<longrightarrow>
     (\<exists>receipt own. Retired receipt \<in> set log \<and> lr_receipt r = Some own \<and> same_process_binding receipt own))"

definition events_inv :: "externals \<Rightarrow> ledger_codec \<Rightarrow> broker_ledger \<Rightarrow> broker_event list \<Rightarrow> bool" where
  "events_inv E C lg log \<longleftrightarrow> distinct (started log)
     \<and> set (started log) \<subseteq> dom (map_of (lg_records lg))
     \<and> (\<forall>unit. StopSent unit \<in> set log \<longrightarrow> stop_owned E C lg unit)
     \<and> all_records E C lg (proved log)"

definition broker_inv :: "bool \<Rightarrow> externals \<Rightarrow> ledger_codec \<Rightarrow> broker_request set \<Rightarrow> 'b observed_broker \<Rightarrow> bool" where
  "broker_inv torn E C R br \<longleftrightarrow> journal_inv torn E C R (br_ledger br) \<and> events_inv E C (br_ledger br) (events br)"

lemma broker_inv_frame:
  "broker_inv torn E C R br \<Longrightarrow> br_ledger br' = br_ledger br \<Longrightarrow> events br' = events br \<Longrightarrow> broker_inv torn E C R br'"
  by (simp add: broker_inv_def)

lemma proved_mono: "proved log r \<Longrightarrow> set log \<subseteq> set log' \<Longrightarrow> proved log' r"
  by (auto simp: proved_def)

lemma all_records_mono: "all_records E C lg P \<Longrightarrow> (\<And>r. P r \<Longrightarrow> Q r) \<Longrightarrow> all_records E C lg Q"
  by (auto simp: all_records_def)

lemma events_inv_stop:
  "events_inv E C lg log \<Longrightarrow> stop_owned E C lg unit \<Longrightarrow> events_inv E C lg (log @ [StopSent unit])"
  by (auto simp: events_inv_def elim!: all_records_mono intro: proved_mono)

lemma events_inv_retired: "events_inv E C lg log \<Longrightarrow> events_inv E C lg (log @ [Retired receipt])"
  by (auto simp: events_inv_def elim!: all_records_mono intro: proved_mono)

lemma events_inv_started:
  "events_inv E C lg log \<Longrightarrow> request \<notin> set (started log) \<Longrightarrow> map_of (lg_records lg) request \<noteq> None
   \<Longrightarrow> events_inv E C lg (log @ [Started request])"
  by (auto simp: events_inv_def elim!: all_records_mono intro: proved_mono)

section \<open>Each step keeps the invariant\<close>

text \<open>What the codec and the names of the units promise.\<close>

definition sound :: "bool \<Rightarrow> externals \<Rightarrow> ledger_codec \<Rightarrow> broker_request set \<Rightarrow> bool" where
  "sound torn E C R \<longleftrightarrow> codec_ok C \<and> (torn \<longrightarrow> codec_strict C) \<and> inj_on (unit_name E) R"

context journal_operation
begin

lemma keeps_broker:
  assumes "broker_inv torn E C R br" and "sound torn E C R" and "pre (br_ledger br)" and "\<And>r. adds r \<Longrightarrow> proved (events br) r"
  shows "broker_inv torn E C R (snd (on_ledger op br))"
proof -
  have inv: "journal_inv torn E C R (br_ledger br)" "events_inv E C (br_ledger br) (events br)"
      and sound: "codec_ok C" "torn \<longrightarrow> codec_strict C" "inj_on (unit_name E) R"
    using assms(1,2) by (simp_all add: broker_inv_def sound_def)
  note kept = keeps_journal [OF assms(3) inv(1) sound] keeps_stops [OF assms(3) inv(1) sound]
  have "events_inv E C (snd (op (br_ledger br))) (events br)"
    using inv(2) kept assms(4) unfolding events_inv_def by blast
  then show ?thesis
    using kept(1) by (cases "op (br_ledger br)") (simp add: broker_inv_def on_ledger_def events_def)
qed

end

lemma unstopped_proved: "lr_state r \<noteq> LStopped \<Longrightarrow> proved log r"
  by (simp add: proved_def)

lemma ledger_kept:
  assumes "broker_inv torn E C R br" and "sound torn E C R"
  shows "broker_inv torn E C R (snd (on_ledger (\<lambda>lg. begin_stop C lg request receipt) br))"
    and "broker_inv torn E C R (snd (on_ledger (\<lambda>lg. begin_failed_launch_cleanup E C lg request receipt policy) br))"
    and "broker_inv torn E C R (snd (on_ledger (\<lambda>lg. bind_job E C lg request policy job) br))"
    and "broker_inv torn E C R (snd (on_ledger (\<lambda>lg. request_pending_stop E C lg request policy) br))"
  by (rule begin_stop.keeps_broker failed_launch.keeps_broker bind_job.keeps_broker pending_stop.keeps_broker;
      simp add: assms unstopped_proved)+

lemma mark_stopped_kept:
  assumes "broker_inv torn E C R br" and "sound torn E C R" and "Retired receipt' \<in> set (events br)"
    and "same_process_binding receipt' receipt"
  shows "broker_inv torn E C R (snd (on_ledger (\<lambda>lg. mark_stopped C lg request receipt) br))"
  by (rule mark_stopped.keeps_broker [OF assms(1,2) TrueI]) (use assms(3,4) in \<open>auto simp: proved_def\<close>)

lemma quiet_kept: "broker_inv torn E C R br \<Longrightarrow> broker_inv torn E C R (snd (on_backend (quiet_call call) br))"
  by (auto simp: broker_inv_def on_backend_quiet [OF surjective_pairing])

lemma proof_kept: "broker_inv torn E C R br \<Longrightarrow> broker_inv torn E C R (snd (on_backend (proof_call receipt call) br))"
  by (auto simp: broker_inv_def on_backend_proof [OF surjective_pairing] events_inv_retired)

lemma stop_kept:
  "broker_inv torn E C R br \<Longrightarrow> stop_owned E C (br_ledger br) unit
   \<Longrightarrow> broker_inv torn E C R (snd (on_backend (logged_call (StopSent unit) call) br))"
  by (auto simp: broker_inv_def on_backend_logged [OF surjective_pairing] events_inv_stop)

lemma bookkeeping_kept [simp]:
  "broker_inv torn E C R (active_unit_insert unit br) = broker_inv torn E C R br"
  "broker_inv torn E C R (active_unit_remove unit br) = broker_inv torn E C R br"
  "broker_inv torn E C R (cache_receipt request receipt br) = broker_inv torn E C R br"
  by (simp_all add: broker_inv_def)

lemma bindM_kept:
  "broker_inv torn E C R (snd m) \<Longrightarrow> (\<And>x s. m = (Inr x, s) \<Longrightarrow> broker_inv torn E C R s \<Longrightarrow> broker_inv torn E C R (snd (f x s)))
   \<Longrightarrow> broker_inv torn E C R (snd (bindM m f))"
  by (cases m) (auto simp: bindM_def split: sum.splits)

lemma tryM_kept:
  "broker_inv torn E C R s \<Longrightarrow> (\<And>x. r = Inr x \<Longrightarrow> broker_inv torn E C R (snd (f x))) \<Longrightarrow> broker_inv torn E C R (snd (tryM r s f))"
  by (auto simp: tryM_def split: sum.splits)

lemma stop_owned_begun:
  assumes "broker_inv torn E C R br" and "\<not> lg_poisoned (br_ledger br)
      \<and> (\<exists>r. map_of (lg_records (br_ledger br)) request = Some r \<and> lr_state r = LStopPending)"
  shows "stop_owned E C (br_ledger br) (unit_name E request)"
  using assms stop_owned_pending [of torn E C R "br_ledger br" request] by (auto simp: broker_inv_def)

lemma same_process_binding_refl [simp]: "same_process_binding receipt (receipt\<lparr>lc_duplicate := d\<rparr>)" "same_process_binding receipt receipt"
  by (simp_all add: same_process_binding_def)

text \<open>What the calls before a stop and before a terminal record have established.\<close>

lemma begun_owned:
  "on_ledger (\<lambda>lg. begin_stop C lg request receipt) s = (Inr x, s') \<Longrightarrow> broker_inv torn E C R s'
   \<Longrightarrow> stop_owned E C (br_ledger s') (unit_name E request)"
  "on_ledger (\<lambda>lg. begin_failed_launch_cleanup E C lg request receipt policy) s = (Inr x, s') \<Longrightarrow> broker_inv torn E C R s'
   \<Longrightarrow> stop_owned E C (br_ledger s') (unit_name E request)"
  by (drule on_ledger_frame(1), rule stop_owned_begun, assumption,
      simp add: begin_stop_InrD begin_failed_launch_cleanup_InrD)+

lemma proof_logged:
  "on_backend (proof_call receipt call) s = (Inr retired, s') \<Longrightarrow> ensure retired e = Inr x \<Longrightarrow> Retired receipt \<in> set (events s')"
  using on_backend_proof(2) [of receipt call s "Inr retired" s'] by (auto simp: ensure_def split: if_splits)

lemma cleanup_failed_launch_kept:
  assumes inv: "broker_inv torn E C R br" "sound torn E C R" and unit: "uo_unit expected = unit_name E request"
  shows "broker_inv torn E C R (snd (cleanup_failed_launch E C (observed B) request expected br))"
  unfolding cleanup_failed_launch_def Let_def unit observed_simps
  by (intro tryM_kept bindM_kept quiet_kept proof_kept stop_kept ledger_kept inv
        mark_stopped_kept [OF _ inv(2) proof_logged same_process_binding_refl(2)])
     (simp_all, blast intro: begun_owned)

section \<open>Launch\<close>

text \<open>The reservation that a launch works under.\<close>

definition reserved :: "broker_ledger \<Rightarrow> broker_request \<Rightarrow> launch_policy \<Rightarrow> bool" where
  "reserved lg request policy \<longleftrightarrow>
     (\<exists>r. map_of (lg_records lg) request = Some r \<and> matches_policy (lr_identity r) policy
        \<and> (lr_state r = LPending \<longrightarrow> lr_cancel_requested r = None))"

lemma observation_receipt_of:
  "observation_verify observation (lr_unit r) policy = Inr x \<Longrightarrow> matches_policy (lr_identity r) policy
   \<Longrightarrow> receipt_of r (receipt_from (lr_request r) observation d)"
  by (auto simp: observation_verify_def receipt_of_def receipt_from_def matches_policy_def identity_from_policy_def)

lemma broker_inv_records: "broker_inv torn E C R br \<Longrightarrow> records_inv E R (lg_records (br_ledger br))"
  by (simp add: broker_inv_def journal_inv_def)

lemma commit_kept:
  assumes "broker_inv torn E C R br" and "sound torn E C R" and "reserved (br_ledger br) request policy"
    and "observation_verify observation (unit_name E request) policy = Inr x"
  shows "broker_inv torn E C R (snd (on_ledger (\<lambda>lg. commit_launch C lg request (receipt_from request observation d)) br))"
proof (rule commit_launch.keeps_broker [OF assms(1,2)])
  obtain r where r: "map_of (lg_records (br_ledger br)) request = Some r" "matches_policy (lr_identity r) policy"
      "lr_state r = LPending \<longrightarrow> lr_cancel_requested r = None"
    using assms(3) by (auto simp: reserved_def)
  note p = records_invD [OF broker_inv_records [OF assms(1)] r(1)]
  have "receipt_of r (receipt_from request observation d)"
    using observation_receipt_of [of observation r policy x d] assms(4) r(2) p(1) record_inv_unit [OF p(2)] by simp
  then show "committable (br_ledger br) request (receipt_from request observation d)"
    using r by (simp add: committable_def)
qed (simp add: unstopped_proved)

lemma reserve_kept:
  assumes "broker_inv torn E C R br" and "sound torn E C R" and "request_validate request = Inr ()" and "request \<in> R"
  shows "broker_inv torn E C R (snd (on_ledger (\<lambda>lg. reserve_with_bootstrap E C lg request (unit_name E request) policy bootstrap) br))"
  by (rule reserve.keeps_broker [OF assms(1,2)]) (simp_all add: assms(3,4) unstopped_proved)

lemma reserve_reserved:
  assumes "broker_inv torn E C R br"
    and "on_ledger (\<lambda>lg. reserve_with_bootstrap E C lg request (unit_name E request) policy bootstrap) br = (Inr new, br')"
  shows "reserved (br_ledger br') request policy"
    and "new \<Longrightarrow> request \<notin> set (started (events br'))"
proof -
  note op = on_ledger_frame [OF assms(2)]
  have sub: "set (started (events br)) \<subseteq> dom (map_of (lg_records (br_ledger br)))"
    using assms(1) by (simp add: broker_inv_def events_inv_def)
  show "reserved (br_ledger br') request policy"
  proof (cases new)
    case True
    then show ?thesis
      using reserve_new(2) [of E C "br_ledger br" request policy bootstrap "br_ledger br'"] op(1)
      by (simp add: reserved_def pending_record_def matches_policy_def)
  next
    case False
    then obtain r where r: "br_ledger br' = br_ledger br" "map_of (lg_records (br_ledger br)) request = Some r"
        "matches_policy (lr_identity r) policy" "lr_cancel_requested r \<noteq> Some True"
      using reserve_old [of E C "br_ledger br" request policy bootstrap "br_ledger br'"] op(1) by auto
    then show ?thesis
      using records_invD(2) [OF broker_inv_records [OF assms(1)] r(2)] by (auto simp: reserved_def record_inv_def)
  qed
  show "request \<notin> set (started (events br'))" if new
    using that reserve_new(1) [of E C "br_ledger br" request policy bootstrap "br_ledger br'"] op(1,2) sub by auto
qed

lemma relaunch_old_kept:
  assumes inv: "broker_inv torn E C R br" "sound torn E C R" and reserved: "reserved (br_ledger br) request policy"
  shows "broker_inv torn E C R (snd (relaunch_old E C (observed B) request policy br))"
proof -
  have same: "reserved (br_ledger s') request policy"
    if "on_backend (quiet_call call) br = (Inr x, s)" "on_backend (quiet_call call') s = (Inr x', s')"
    for call :: "('a, unit_observation option) backend_call" and call' :: "('a, unit) backend_call" and x s x' s'
    using reserved on_backend_quiet(1) [OF that(1)] on_backend_quiet(1) [OF that(2)] by simp
  show ?thesis
    unfolding relaunch_old_def Let_def observed_simps
    by (intro tryM_kept bindM_kept quiet_kept inv)
       (auto split: option.split intro!: tryM_kept bindM_kept quiet_kept commit_kept [OF _ inv(2) same])
qed

lemma bind_queued_job_kept:
  assumes inv: "broker_inv torn E C R br" "sound torn E C R"
  shows "broker_inv torn E C R (snd (bind_queued_job E C (observed B) request policy br))"
  unfolding bind_queued_job_def observed_simps
  by (auto split: option.split simp: inv intro!: tryM_kept bindM_kept quiet_kept ledger_kept)

lemma bind_queued_job_reserved:
  assumes inv: "broker_inv torn E C R br" and reserved: "reserved (br_ledger br) request policy"
    and bind: "bind_queued_job E C (observed B) request policy br = (Inr x, br')"
  shows "reserved (br_ledger br') request policy"
proof (cases "bk_queued_job_binding (observed B) (unit_name E request) (br_backend br)")
  case None
  then show ?thesis using bind reserved by (simp add: bind_queued_job_def)
next
  case (Some job)
  obtain r where r: "map_of (lg_records (br_ledger br)) request = Some r" "matches_policy (lr_identity r) policy"
      "lr_state r = LPending \<longrightarrow> lr_cancel_requested r = None"
    using reserved by (auto simp: reserved_def)
  obtain s where s: "on_ledger (\<lambda>lg. bind_job E C lg request policy job) br = (Inr (), s)" "br_ledger br' = br_ledger s"
    using bind Some on_backend_quiet(1)
    by (auto simp: bind_queued_job_def bindM_def tryM_def split: prod.splits sum.splits)
  have "map_of (lg_records (br_ledger s)) request = Some (r\<lparr>lr_job := Some job\<rparr>)"
    by (rule bind_job_InrD [OF on_ledger_frame(1) [OF s(1)] broker_inv_records [OF inv] r(1)])
  then show ?thesis using r s(2) by (simp add: reserved_def)
qed

lemma observation_unit: "observation_verify observation unit policy = Inr x \<Longrightarrow> uo_unit observation = unit"
  by (auto simp: observation_verify_def ensure_def split: if_splits)

text \<open>Acknowledging a started unit, with the cleanup of a launch that cannot be acknowledged.\<close>

lemma acknowledge_kept:
  assumes inv: "broker_inv torn E C R br" "sound torn E C R" and reserved: "reserved (br_ledger br) request policy"
    and verified: "observation_verify observation (unit_name E request) policy = Inr x"
  shows "broker_inv torn E C R (snd (case on_backend (quiet_call call) br of
        (Inl error, br) \<Rightarrow>
          (case cleanup_failed_launch E C (observed B) request observation br of
             (cleanup, br) \<Rightarrow> (Inl (cleanup_error error cleanup), br))
      | (Inr _, br) \<Rightarrow>
          (case on_ledger (\<lambda>lg. commit_launch C lg request (receipt_from request observation False)) br of
             (Inl error, br) \<Rightarrow>
               if lg_poisoned (br_ledger br) then (Inl error, br)
               else (case cleanup_failed_launch E C (observed B) request observation br of
                       (cleanup, br) \<Rightarrow> (Inl (cleanup_error error cleanup), br))
           | (Inr _, br) \<Rightarrow> (Inr (receipt_from request observation False),
               cache_receipt request (receipt_from request observation False) (active_unit_insert (unit_name E request) br)))))"
    (is "broker_inv torn E C R (snd ?m)")
proof -
  obtain r1 s1 where b: "on_backend (quiet_call call) br = (r1, s1)" by (cases "on_backend (quiet_call call) br")
  have inv1: "broker_inv torn E C R s1" using quiet_kept [OF inv(1), of call] b by simp
  have res1: "reserved (br_ledger s1) request policy" using reserved on_backend_quiet(1) [OF b] by simp
  have clean: "broker_inv torn E C R (snd (cleanup_failed_launch E C (observed B) request observation s))" if "broker_inv torn E C R s" for s
    by (rule cleanup_failed_launch_kept [OF that inv(2) observation_unit [OF verified]])
  obtain r2 s2 where l: "on_ledger (\<lambda>lg. commit_launch C lg request (receipt_from request observation False)) s1 = (r2, s2)"
    by (cases "on_ledger (\<lambda>lg. commit_launch C lg request (receipt_from request observation False)) s1")
  have inv2: "broker_inv torn E C R s2" using commit_kept [OF inv1 inv(2) res1 verified, of False] l by simp
  show ?thesis
    using clean [OF inv1] clean [OF inv2] inv2
    by (cases r1; cases r2; cases "cleanup_failed_launch E C (observed B) request observation s1";
        cases "cleanup_failed_launch E C (observed B) request observation s2") (simp_all add: b l)
qed

lemma launch_new_kept:
  assumes inv: "broker_inv torn E C R br" "sound torn E C R" and reserved: "reserved (br_ledger br) request policy"
    and new: "request \<notin> set (started (events br))"
  shows "broker_inv torn E C R (snd (launch_new E C (observed B) request policy bootstrap br))"
proof -
  let ?call = "logged_call (Started request) (bk_start B (unit_name E request) request policy bootstrap)"
  obtain r s where b: "on_backend ?call br = (r, s)" by (cases "on_backend ?call br")
  note frame = on_backend_logged [OF b]
  have inv1: "broker_inv torn E C R s"
    using inv(1) new reserved frame by (auto simp: broker_inv_def reserved_def intro!: events_inv_started)
  have res1: "reserved (br_ledger s) request policy" using reserved frame(1) by simp
  show ?thesis
    unfolding launch_new_def Let_def observed_simps b prod.case
    by (intro bindM_kept tryM_kept bind_queued_job_kept inv1 inv(2) acknowledge_kept)
       (assumption | rule bind_queued_job_reserved [OF inv1 res1])+
qed

lemma handle_launch_kept:
  assumes inv: "broker_inv torn E C R br" "sound torn E C R" and request: "request \<in> R"
  shows "broker_inv torn E C R (snd (handle_launch_at_deadline E U C (observed B) K path_of credentials request bootstrap br))"
proof -
  have op: "(\<lambda>lg. case bootstrap of
                Some launch \<Rightarrow> reserve_with_bootstrap E C lg request (unit_name E request) policy (Some (bl_binding launch))
              | None \<Rightarrow> reserve E C lg request (unit_name E request) policy)
      = (\<lambda>lg. reserve_with_bootstrap E C lg request (unit_name E request) policy (map_option bl_binding bootstrap))" for policy
    by (simp add: reserve_def fun_eq_iff split: option.split)
  have after: "broker_inv torn E C R (snd (if \<not> new then relaunch_old E C (observed B) request policy s'
      else launch_new E C (observed B) request policy bootstrap s'))"
    if "on_ledger (\<lambda>lg. reserve_with_bootstrap E C lg request (unit_name E request) policy (map_option bl_binding bootstrap)) s
        = (Inr new, s')" "broker_inv torn E C R s" "broker_inv torn E C R s'" for policy new s s'
    using reserve_reserved [OF that(2,1)] that(3)
    by (auto intro!: relaunch_old_kept launch_new_kept inv(2))
  show ?thesis
    unfolding handle_launch_at_deadline_def observed_simps op
    apply (intro tryM_kept inv(1))
    apply (rule bindM_kept)
     apply (auto intro!: bindM_kept tryM_kept quiet_kept inv(1)) [1]
    apply (rule bindM_kept)
     apply (rule reserve_kept; simp add: inv(2) request)
    apply (rule after; assumption)
    done
qed

section \<open>Inspect and stop\<close>

lemma lifecycle_pending_kept:
  assumes inv: "broker_inv torn E C R br" "sound torn E C R"
  shows "broker_inv torn E C R (snd (lifecycle_pending E C (observed B) operation request policy br))"
  unfolding lifecycle_pending_def observed_simps
  by (intro bindM_kept)
     (auto split: option.split queued_job_resolution.split simp: inv intro!: tryM_kept bindM_kept quiet_kept ledger_kept)

lemma lifecycle_stopped_kept:
  assumes inv: "broker_inv torn E C R br"
  shows "broker_inv torn E C R (snd (lifecycle_stopped E (observed B) operation request policy persisted br))"
  unfolding lifecycle_stopped_def Let_def observed_simps
  by (intro tryM_kept bindM_kept quiet_kept inv)
     (auto split: option.split intro!: tryM_kept bindM_kept quiet_kept)

text \<open>The stop of a request is on record in a healthy ledger.\<close>

definition stop_begun :: "broker_ledger \<Rightarrow> broker_request \<Rightarrow> bool" where
  "stop_begun lg request \<longleftrightarrow> \<not> lg_poisoned lg
     \<and> (\<exists>r. map_of (lg_records lg) request = Some r \<and> lr_state r = LStopPending)"

lemma stop_begun_owned:
  "broker_inv torn E C R br \<Longrightarrow> stop_begun (br_ledger br) request \<Longrightarrow> stop_owned E C (br_ledger br) (unit_name E request)"
  unfolding stop_begun_def by (rule stop_owned_begun)

lemma begin_stop_begun:
  fixes br :: "'b observed_broker"
  assumes "(if stop_pending then (Inr (), br) else on_ledger (\<lambda>lg. begin_stop C lg request receipt) br) = (Inr x, br')"
    and "stop_pending \<Longrightarrow> stop_begun (br_ledger br) request"
  shows "stop_begun (br_ledger br') request"
  using assms on_ledger_frame(1) [of "\<lambda>lg. begin_stop C lg request receipt" br "Inr x" br']
  by (auto simp: stop_begun_def dest: begin_stop_InrD split: if_splits)

lemma begin_stop_if_kept:
  "broker_inv torn E C R br \<Longrightarrow> sound torn E C R \<Longrightarrow>
   broker_inv torn E C R (snd (if stop_pending then (Inr (), br) else on_ledger (\<lambda>lg. begin_stop C lg request receipt) br))"
  by (simp add: ledger_kept)

lemma retire_absent_kept:
  assumes inv: "broker_inv torn E C R br" "sound torn E C R" and unit: "lc_unit persisted = unit_name E request"
    and begun: "stop_pending \<Longrightarrow> stop_begun (br_ledger br) request"
  shows "broker_inv torn E C R (snd (retire_absent C (observed B) request policy persisted stop_pending br))"
proof -
  have owned: "stop_owned E C (br_ledger s3) (unit_name E request)"
    if "on_backend (proof_call persisted call) br = (Inr x1, s1)" "on_backend (quiet_call call') s1 = (Inr x2, s2)"
      "(if stop_pending then (Inr (), s2) else on_ledger (\<lambda>lg. begin_stop C lg request persisted) s2) = (Inr x3, s3)"
      "broker_inv torn E C R s3"
    for call :: "('a, bool) backend_call" and call' :: "('a, unit) backend_call" and x1 s1 x2 s2 x3 s3
  proof (rule stop_begun_owned [OF that(4)])
    show "stop_begun (br_ledger s3) request"
      using begun on_backend_proof(1) [OF that(1)] on_backend_quiet(1) [OF that(2)] by (intro begin_stop_begun [OF that(3)]) simp
  qed
  show ?thesis
    unfolding retire_absent_def observed_simps unit
    apply (rule bindM_kept, rule proof_kept, rule inv)
    apply (split if_split, intro conjI impI)
     apply simp
    apply (rule bindM_kept, rule quiet_kept, assumption)
    apply (rule bindM_kept, rule begin_stop_if_kept, assumption, rule inv)
    apply (rule bindM_kept, rule stop_kept, assumption, rule owned, assumption+)
    apply (rule bindM_kept, rule proof_kept, assumption)
    apply (rule tryM_kept; simp)
    done
qed

lemma retire_absent_proved:
  assumes "retire_absent C (observed B) request policy persisted stop_pending br = (Inr x, br')"
  shows "Retired persisted \<in> set (events br')"
proof -
  obtain x1 s1 where s1: "on_backend (proof_call persisted (bk_verify_retirement B persisted)) br = (Inr x1, s1)"
    using assms by (auto simp: retire_absent_def bindM_def split: prod.splits sum.splits)
  show ?thesis
  proof (cases x1)
    case True
    then have "br' = s1" using assms s1 by (simp add: retire_absent_def)
    then show ?thesis using on_backend_proof(2) [OF s1] True by simp
  next
    case False
    then obtain s y where s: "on_backend (proof_call persisted (bk_verify_retirement B persisted)) s = (Inr y, br')"
        "ensure y (BConflict ''original orphan containment retirement is unproven'') = Inr ()"
      using assms s1
      by (auto simp: retire_absent_def bindM_def tryM_def split: prod.splits sum.splits simp del: ensure_Inr_iff)
    show ?thesis by (rule proof_logged [OF s])
  qed
qed

lemma stop_absent_kept:
  assumes inv: "broker_inv torn E C R br" "sound torn E C R" and unit: "lc_unit persisted = unit_name E request"
    and begun: "stop_pending \<Longrightarrow> stop_begun (br_ledger br) request"
  shows "broker_inv torn E C R (snd (stop_absent E C (observed B) request policy persisted stop_pending br))"
proof -
  have logged: "Retired persisted \<in> set (events s')"
    if "retire_absent C (observed B) request policy persisted stop_pending br = (Inr x, s)"
      "on_ledger (\<lambda>lg. begin_stop C lg request (persisted\<lparr>lc_duplicate := False\<rparr>)) s = (Inr y, s')" for x s y s'
    using retire_absent_proved [OF that(1)] on_ledger_frame(2) [OF that(2)] by simp
  show ?thesis
    unfolding stop_absent_def Let_def observed_simps
    apply (rule bindM_kept, rule retire_absent_kept [OF inv unit begun], assumption)
    apply (rule bindM_kept, rule ledger_kept, assumption, rule inv)
    apply (rule bindM_kept, rule mark_stopped_kept, assumption, rule inv, rule logged, assumption, assumption, simp)
    apply (rule bindM_kept, rule quiet_kept; simp)
    done
qed

lemma confirm_stop_kept:
  assumes "broker_inv torn E C R br" and sound: "sound torn E C R"
  shows "broker_inv torn E C R (snd (confirm_stop E C (observed B) request policy persisted polls br))"
  using assms(1)
proof (induction polls arbitrary: br rule: less_induct)
  case (less polls)
  show ?case
    apply (subst confirm_stop.simps, unfold observed_simps Let_def)
    apply (rule bindM_kept, rule quiet_kept, rule less.prems)
    apply (split option.split, intro conjI impI allI)
     apply (rule bindM_kept, rule proof_kept, assumption)
     apply (rule tryM_kept, assumption)
     apply (rule bindM_kept, rule mark_stopped_kept [OF _ sound proof_logged], assumption+, simp)
     apply (rule bindM_kept, rule quiet_kept; simp)
    apply (intro tryM_kept, assumption+)
    apply (simp add: less.IH split: nat.split)
    done
qed

lemma lifecycle_live_kept:
  assumes inv: "broker_inv torn E C R br" "sound torn E C R" and begun: "stop_pending \<Longrightarrow> stop_begun (br_ledger br) request"
  shows "broker_inv torn E C R (snd (lifecycle_live E C (observed B) operation request policy persisted stop_pending polls br))"
proof -
  have unit: "lc_unit persisted = unit_name E request"
    if "verify_receipt_identity persisted request (unit_name E request) policy = Inr x" for x
    using that by (auto simp: verify_receipt_identity_def ensure_def split: if_splits)
  have absent: "stop_pending \<Longrightarrow> stop_begun (br_ledger s1) request"
    if "on_backend (quiet_call call) br = (Inr x1, s1)"
    for call :: "('a, unit_observation option) backend_call" and x1 s1
    using begun on_backend_quiet(1) [OF that] by simp
  have owned: "stop_owned E C (br_ledger s3) (unit_name E request)"
    if "on_backend (quiet_call call) br = (Inr x1, s1)" "on_backend (quiet_call call') s1 = (Inr x2, s2)"
      "(if stop_pending then (Inr (), s2) else on_ledger (\<lambda>lg. begin_stop C lg request receipt) s2) = (Inr x3, s3)"
      "broker_inv torn E C R s3"
    for call :: "('a, unit_observation option) backend_call" and call' :: "('a, unit) backend_call" and x1 s1 x2 s2 x3 s3 receipt
    using absent [OF that(1)] on_backend_quiet(1) [OF that(2)]
    by (intro stop_begun_owned [OF that(4)] begin_stop_begun [OF that(3)]) simp
  show ?thesis
    unfolding lifecycle_live_def Let_def observed_simps
    apply (rule tryM_kept, rule inv)
    apply (rule bindM_kept, rule quiet_kept, rule inv)
    apply (split option.split, intro conjI impI allI)
     apply (simp add: stop_absent_kept [OF _ inv(2) unit] absent)
    apply (rule tryM_kept, assumption, rule tryM_kept, assumption)
    apply (split if_split, intro conjI impI)
     apply (rule tryM_kept; simp)
    apply (rule bindM_kept, rule quiet_kept, assumption)
    apply (rule bindM_kept, rule begin_stop_if_kept, assumption, rule inv)
    apply (rule tryM_kept, assumption)
    apply (rule bindM_kept, rule stop_kept, simp, simp, rule owned, assumption+)
    apply (rule confirm_stop_kept, assumption, rule inv)
    done
qed

lemma lifecycle_kept:
  assumes inv: "broker_inv torn E C R br" "sound torn E C R"
  shows "broker_inv torn E C R (snd (lifecycle_at_deadline E C (observed B) K credentials operation request polls br))"
proof -
  have begun: "stop_begun (br_ledger br) request"
    if "ensure_healthy (br_ledger br) = Inr x"
      "ledger_lifecycle_record (br_ledger br) request unit policy = Inr (Some (RecStopPending persisted))" for x unit policy persisted
    using that
    by (auto simp: stop_begun_def ensure_healthy_def ensure_def ledger_lifecycle_record_def guards
        split: if_splits option.splits ledger_state.splits elim!: bindE_InrE)
  show ?thesis
    unfolding lifecycle_at_deadline_def
    apply (intro tryM_kept inv)
    apply (simp split: option.split lifecycle_record.split)
    apply (auto intro!: lifecycle_pending_kept lifecycle_stopped_kept lifecycle_live_kept inv begun)
    done
qed

section \<open>Runs\<close>

text \<open>
  One launch, one inspect or stop, or a restart: the process ends, its backend starts over (\<open>reset\<close>), and
  a new process opens the journal that is on disk, possibly under another policy. A restart that cannot
  open the journal leaves no broker.
\<close>

datatype 'b broker_action =
    OpLaunch peer_os peer_credentials broker_request "bootstrap_launch option"
  | OpLifecycle peer_os peer_credentials lifecycle_operation broker_request nat
  | OpRestart broker_policy file_system "append_io list" "'b \<Rightarrow> 'b"

definition with_journal :: "file_system \<Rightarrow> path_buf \<Rightarrow> string \<Rightarrow> file_system" where
  "with_journal F path bytes = F\<lparr>fs_open := (fs_open F)(path := Inr (length bytes, Inr bytes))\<rparr>"

fun broker_op ::
  "externals \<Rightarrow> uuid_bytes \<Rightarrow> ledger_codec \<Rightarrow> 'b systemd_backend \<Rightarrow> (string \<Rightarrow> path_buf) \<Rightarrow> (string \<Rightarrow> bool) \<Rightarrow> 'b broker_action
   \<Rightarrow> 'b observed_broker \<Rightarrow> 'b observed_broker option" where
  "broker_op E U C B path_of not_found (OpLaunch K credentials request bootstrap) br =
     Some (snd (handle_launch_at_deadline E U C (observed B) K path_of credentials request bootstrap br))"
| "broker_op E U C B path_of not_found (OpLifecycle K credentials operation request polls) br =
     Some (snd (lifecycle_at_deadline E C (observed B) K credentials operation request polls br))"
| "broker_op E U C B path_of not_found (OpRestart policy F io reset) br =
     (case lg_path (br_ledger br) of
        None \<Rightarrow> None
      | Some path \<Rightarrow>
          (case ledger_open E C (with_journal F path (lg_file (br_ledger br))) not_found io path of
             Inl _ \<Rightarrow> None
           | Inr lg \<Rightarrow> Some (new_with_ledger policy (apfst reset (br_backend br)) lg)))"

fun broker_run ::
  "externals \<Rightarrow> uuid_bytes \<Rightarrow> ledger_codec \<Rightarrow> 'b systemd_backend \<Rightarrow> (string \<Rightarrow> path_buf) \<Rightarrow> (string \<Rightarrow> bool) \<Rightarrow> 'b broker_action list
   \<Rightarrow> 'b observed_broker \<Rightarrow> 'b observed_broker option" where
  "broker_run E U C B path_of not_found [] br = Some br"
| "broker_run E U C B path_of not_found (op # ops) br =
     Option.bind (broker_op E U C B path_of not_found op br) (broker_run E U C B path_of not_found ops)"

fun op_requests :: "'b broker_action \<Rightarrow> broker_request set" where
  "op_requests (OpLaunch _ _ request _) = {request}"
| "op_requests (OpLifecycle _ _ _ request _) = {request}"
| "op_requests (OpRestart _ _ _ _) = {}"

fun op_whole :: "'b broker_action \<Rightarrow> bool" where
  "op_whole (OpRestart _ _ io _) = list_all whole io"
| "op_whole _ = True"

text \<open>A broker with a newly initialized journal.\<close>

definition fresh_broker :: "broker_policy \<Rightarrow> 'b \<Rightarrow> path_buf \<Rightarrow> append_io list \<Rightarrow> 'b observed_broker" where
  "fresh_broker policy b path io =
     new_with_ledger policy (b, [])
       \<lparr>lg_path = Some path, lg_records = [], lg_poisoned = False, lg_file = [], lg_io = io\<rparr>"

lemma ledger_open_journal:
  assumes "ledger_open E C (with_journal F path bytes) not_found io path = Inr lg"
  shows "\<exists>records. parse_records E C bytes = Inr records
    \<and> lg = \<lparr>lg_path = Some path, lg_records = records, lg_poisoned = False, lg_file = bytes, lg_io = io\<rparr>"
proof -
  have read: "b = bytes" if "read_bounded_file (with_journal F path bytes) path maximum label = Inr b" for maximum label b
    using that by (auto simp: read_bounded_file_def with_journal_def guards map_err_def)
  show ?thesis
    using assms unfolding ledger_open_def by (auto simp: guards dest!: read)
qed

lemma ledger_init_fresh:
  assumes "ledger_init E C F not_found created synced directory_synced (with_journal F' path []) io path = Inr lg"
  shows "new_with_ledger policy (b, []) lg = fresh_broker policy b path io"
proof -
  have "ledger_open E C (with_journal F' path []) not_found io path = Inr lg"
    using assms unfolding ledger_init_def by (auto simp: guards)
  then show ?thesis
    using ledger_open_journal [of E C F' path "[]" not_found io lg]
    by (auto simp: fresh_broker_def parse_records_def parse_lines_Cons)
qed

text \<open>\<open>torn\<close> says whether the appends after the restart may be torn.\<close>

fun op_torn :: "bool \<Rightarrow> 'b broker_action \<Rightarrow> bool" where
  "op_torn torn (OpRestart _ _ io _) = (torn \<or> list_all whole io)"
| "op_torn torn _ = True"

lemma fresh_broker_inv: "torn \<or> list_all whole io \<Longrightarrow> broker_inv torn E C R (fresh_broker policy b path io)"
  by (simp add: fresh_broker_def new_with_ledger_def broker_inv_def events_def journal_inv_def events_inv_def durable_def
      intact_def ended_def replay_def units_ok_def all_records_def)

lemma restart_kept:
  assumes inv: "broker_inv torn E C R br" and op: "broker_op E U C B path_of not_found (OpRestart policy F io reset) br = Some br'"
    and io: "torn \<or> list_all whole io"
  shows "broker_inv torn E C R br'"
proof -
  obtain path lg where path: "lg_path (br_ledger br) = Some path"
      and opened: "ledger_open E C (with_journal F path (lg_file (br_ledger br))) not_found io path = Inr lg"
      and br': "br' = new_with_ledger policy (apfst reset (br_backend br)) lg"
    using op by (auto split: option.splits sum.splits)
  obtain records where parse: "parse_records E C (lg_file (br_ledger br)) = Inr records"
      and lg: "lg = \<lparr>lg_path = Some path, lg_records = records, lg_poisoned = False, lg_file = lg_file (br_ledger br), lg_io = io\<rparr>"
    using ledger_open_journal [OF opened] by blast
  have j: "journal_inv torn E C R (br_ledger br)" and e: "events_inv E C (br_ledger br) (events br)"
    using inv by (simp_all add: broker_inv_def)
  obtain units where rep: "replay E C (lg_file (br_ledger br)) = Inr (records, units)"
    using replay_parse_records [OF parse] by blast
  note same = journal_replay [OF j rep]
  have durable: "durable E C lg = records" "durable E C (br_ledger br) = records" by (simp_all add: durable_def lg rep)
  have "events br' = events br" "br_ledger br' = lg" by (simp_all add: br' new_with_ledger_def events_def)
  moreover have "journal_inv torn E C R lg"
    using j io same(1,4) rep unfolding journal_inv_def intact_def by (auto simp: lg)
  moreover have "events_inv E C lg (events br)"
    using e same(3) durable rep unfolding events_inv_def all_records_def stop_owned_def by (simp add: lg) blast
  ultimately show ?thesis by (simp add: broker_inv_def)
qed

lemma broker_op_kept:
  assumes inv: "broker_inv torn E C R br" "sound torn E C R" and op: "broker_op E U C B path_of not_found op br = Some br'"
    and R: "op_requests op \<subseteq> R" "op_torn torn op"
  shows "broker_inv torn E C R br'"
proof (cases op)
  case (OpLaunch K credentials request bootstrap)
  then show ?thesis using handle_launch_kept [OF inv, of request U B K path_of credentials bootstrap] op R by simp
next
  case (OpLifecycle K credentials operation request polls)
  then show ?thesis using lifecycle_kept [OF inv, of B K credentials operation request polls] op by simp
next
  case (OpRestart policy F io reset)
  then show ?thesis using restart_kept [OF inv(1) op [unfolded OpRestart]] R by simp
qed

lemma broker_run_kept:
  assumes "broker_inv torn E C R br" and "sound torn E C R" and "broker_run E U C B path_of not_found ops br = Some br'"
    and "\<Union> (op_requests ` set ops) \<subseteq> R" and "list_all (op_torn torn) ops"
  shows "broker_inv torn E C R br'"
  using assms
proof (induction ops arbitrary: br)
  case (Cons op ops)
  obtain s where s: "broker_op E U C B path_of not_found op br = Some s" "broker_run E U C B path_of not_found ops s = Some br'"
    using Cons.prems(3) by (auto simp: bind_eq_Some_conv)
  show ?case
    by (rule Cons.IH [OF broker_op_kept [OF Cons.prems(1,2) s(1)] Cons.prems(2) s(2)]) (use Cons.prems in auto)
qed simp

lemma op_torn_simps [simp]: "op_torn True op" "op_torn False op = op_whole op"
  by (cases op; simp)+

text \<open>What every run from a new journal keeps, and what a run with no torn append keeps.\<close>

lemma fresh_run_inv:
  assumes "codec_ok C" and "codec_strict C" and "inj_on (unit_name E) (\<Union> (op_requests ` set ops))"
    and "broker_run E U C B path_of not_found ops (fresh_broker policy b path io) = Some br"
  shows "broker_inv True E C (\<Union> (op_requests ` set ops)) br"
  by (rule broker_run_kept [OF fresh_broker_inv _ assms(4) subset_refl]) (simp_all add: sound_def assms(1-3) list_all_iff)

lemma fresh_run_whole:
  assumes "codec_ok C" and "inj_on (unit_name E) (\<Union> (op_requests ` set ops))" and "list_all whole io" and "list_all op_whole ops"
    and "broker_run E U C B path_of not_found ops (fresh_broker policy b path io) = Some br"
  shows "broker_inv False E C (\<Union> (op_requests ` set ops)) br"
  by (rule broker_run_kept [OF fresh_broker_inv _ assms(5) subset_refl])
     (use assms in \<open>simp_all add: sound_def list_all_iff\<close>)

end
