(* ===== verification/Broker_Properties.thy ===== *)
theory Broker_Properties
  imports Broker_Safety
begin

text \<open>
  The properties of the broker: what its journal, its launches and its stops guarantee over every run,
  and two ways in which a journal that the broker itself wrote can no longer be opened.
\<close>

section \<open>Appends that succeed\<close>

definition healthy :: "externals \<Rightarrow> ledger_codec \<Rightarrow> broker_request set \<Rightarrow> nat \<Rightarrow> broker_ledger \<Rightarrow> bool" where
  "healthy E C R n lg \<longleftrightarrow> journal_inv False E C R lg \<and> \<not> lg_poisoned lg \<and> lg_io lg = [] \<and> transitions (lg_file lg) = n
     \<and> length (lg_file lg) \<le> n * 4097"

definition short :: "ledger_codec \<Rightarrow> ledger_record \<Rightarrow> bool" where
  "short C r \<longleftrightarrow> (case lk_to_vec C r of Inl _ \<Rightarrow> False | Inr bytes \<Rightarrow> length bytes \<le> 4096)"

lemma healthy_persist:
  assumes h: "healthy E C R n lg" and step: "step_ok E R (lg_records lg) r" and s: "sound False E C R" and "short C r" and "n < 640"
    and "lr_request r = request"
  shows "\<exists>lg'. persist C lg request r = (Inr (), lg') \<and> healthy E C R (Suc n) lg' \<and> lg_records lg' = put_record r (lg_records lg)"
proof -
  obtain bytes where b: "lk_to_vec C r = Inr bytes" "length bytes \<le> 4096"
    using assms(4) by (auto simp: short_def split: sum.splits)
  obtain path where path: "lg_path lg = Some path" using h by (auto simp: healthy_def journal_inv_def)
  have size: "\<not> MAX_LEDGER_BYTES < length (lg_file lg) + (length bytes + 1)"
  proof -
    have "length (lg_file lg) + (length bytes + 1) \<le> 639 * 4097 + 4097"
      using h assms(5) b(2) by (simp add: healthy_def)
    then show ?thesis
      by (simp add: MAX_LEDGER_BYTES_def MAX_LEDGER_TRANSITIONS_def MAX_LEDGER_REQUESTS_def MAX_RECEIPTS_def MAX_FRAME_BYTES_def)
  qed
  let ?lg = "lg\<lparr>lg_io := [], lg_file := lg_file lg @ bytes @ [newline], lg_records := put_record r (lg_records lg)\<rparr>"
  have persist: "persist C lg request r = (Inr (), ?lg)"
    using h b path size assms(6)
    by (simp add: persist_def append_record_def healthy_def next_io_def MAX_FRAME_BYTES_def put_record_def Let_def)
  obtain units where inv: "complete (lg_file lg)" "replay E C (lg_file lg) = Inr (lg_records lg, units)"
      "units_ok E (lg_records lg) units" "records_inv E R (lg_records lg)"
    using h by (auto simp: healthy_def journal_inv_def intact_def)
  have "journal_inv False E C R ?lg"
    using persist_journal(1) [of False E C R lg r "Inr ()" ?lg] h step s persist assms(6) by (simp add: healthy_def sound_def)
  moreover have "transitions (lg_file lg @ bytes @ [newline]) = Suc n"
    using transitions_append [OF inv(1)] codec_okD [OF _ b(1)] s h by (simp add: sound_def healthy_def)
  ultimately have "healthy E C R (Suc n) ?lg" using h b(2) by (simp add: healthy_def)
  then show ?thesis using persist by (intro exI [of _ ?lg]) simp
qed

section \<open>One launch and its stop\<close>

text \<open>
  The transitions of a launch whose unit the manager starts under a job, and of its stop: the
  reservation, the job, the acknowledgement, the intent to stop and the terminal record.
\<close>

definition launch_cycle ::
  "externals \<Rightarrow> ledger_codec \<Rightarrow> launch_policy \<Rightarrow> (broker_request \<Rightarrow> job_binding) \<Rightarrow> (broker_request \<Rightarrow> launch_receipt)
   \<Rightarrow> broker_request \<Rightarrow> broker_ledger \<Rightarrow> unit broker_result \<times> broker_ledger" where
  "launch_cycle E C policy job receipt request lg =
     bindM (reserve E C lg request (unit_name E request) policy) (\<lambda>_ lg.
     bindM (bind_job E C lg request policy (job request)) (\<lambda>_ lg.
     bindM (commit_launch C lg request (receipt request)) (\<lambda>_ lg.
     bindM (begin_stop C lg request (receipt request)) (\<lambda>_ lg.
     mark_stopped C lg request (receipt request)))))"

fun launch_cycles ::
  "externals \<Rightarrow> ledger_codec \<Rightarrow> launch_policy \<Rightarrow> (broker_request \<Rightarrow> job_binding) \<Rightarrow> (broker_request \<Rightarrow> launch_receipt)
   \<Rightarrow> broker_request list \<Rightarrow> broker_ledger \<Rightarrow> unit broker_result \<times> broker_ledger" where
  "launch_cycles E C policy job receipt [] lg = (Inr (), lg)"
| "launch_cycles E C policy job receipt (request # requests) lg =
     bindM (launch_cycle E C policy job receipt request lg) (\<lambda>_ lg.
     launch_cycles E C policy job receipt requests lg)"

definition bound_record :: "externals \<Rightarrow> launch_policy \<Rightarrow> (broker_request \<Rightarrow> job_binding) \<Rightarrow> broker_request \<Rightarrow> ledger_record" where
  "bound_record E policy job request = (pending_record E request policy None)\<lparr>lr_job := Some (job request)\<rparr>"

definition settled_record ::
  "externals \<Rightarrow> launch_policy \<Rightarrow> (broker_request \<Rightarrow> job_binding) \<Rightarrow> (broker_request \<Rightarrow> launch_receipt) \<Rightarrow> ledger_state
   \<Rightarrow> broker_request \<Rightarrow> ledger_record" where
  "settled_record E policy job receipt st request =
     (bound_record E policy job request)\<lparr>lr_state := st, lr_receipt := Some (receipt request)\<rparr>"

text \<open>A request that can be launched: its records are short, its job and its receipt are the ones of its unit.\<close>

definition launchable ::
  "externals \<Rightarrow> ledger_codec \<Rightarrow> launch_policy \<Rightarrow> (broker_request \<Rightarrow> job_binding) \<Rightarrow> (broker_request \<Rightarrow> launch_receipt)
   \<Rightarrow> broker_request \<Rightarrow> bool" where
  "launchable E C policy job receipt request \<longleftrightarrow>
     request_validate request = Inr () \<and> job_validate_for_request E (job request) request = Inr ()
     \<and> verify_receipt_identity (receipt request) request (unit_name E request) policy = Inr ()
     \<and> short C (pending_record E request policy None) \<and> short C (bound_record E policy job request)
     \<and> list_all (\<lambda>st. short C (settled_record E policy job receipt st request)) [LCommitted, LStopPending, LStopped]"

lemma record_inv_settled:
  assumes "launchable E C policy job receipt request"
  shows "record_inv E (pending_record E request policy None)" and "record_inv E (bound_record E policy job request)"
    and "st \<noteq> LPending \<Longrightarrow> record_inv E (settled_record E policy job receipt st request)"
    and "receipt_of (settled_record E policy job receipt st request) (receipt request)"
proof -
  have l: "request_validate request = Inr ()" "job_validate_for_request E (job request) request = Inr ()"
      "verify_receipt_identity (receipt request) request (unit_name E request) policy = Inr ()"
    using assms by (simp_all add: launchable_def)
  show "record_inv E (pending_record E request policy None)"
    using l by (simp add: record_inv_def pending_record_def check_record_def bindE_Inr_iff)
  have check: "check_record E (bound_record E policy job request) = Inr ()"
    using l by (simp add: bound_record_def pending_record_def check_record_def bindE_Inr_iff)
  then show "record_inv E (bound_record E policy job request)"
    by (simp add: record_inv_def bound_record_def pending_record_def)
  show r: "receipt_of (settled_record E policy job receipt st request) (receipt request)"
    by (rule verify_receipt_of [of _ _ policy])
       (use l in \<open>simp_all add: settled_record_def bound_record_def pending_record_def matches_policy_def\<close>)
  have "check_record E (settled_record E policy job receipt st request) = Inr ()"
    using check check_record_cong [of "settled_record E policy job receipt st request" "bound_record E policy job request" E]
    by (simp add: settled_record_def)
  then show "record_inv E (settled_record E policy job receipt st request)" if "st \<noteq> LPending"
    using r that by (simp add: record_inv_def) (simp add: settled_record_def bound_record_def pending_record_def)
qed

lemmas record_shapes = settled_record_def bound_record_def pending_record_def

lemma step_ok_bound:
  assumes "launchable E C policy job receipt request" and "request \<in> R"
    and "map_of records request = Some (pending_record E request policy None)"
  shows "step_ok E R records (bound_record E policy job request)"
  using assms(2,3) record_inv_settled(2) [OF assms(1)]
  by (simp add: step_ok_def check_transition_def check_pending_step_def) (simp add: record_shapes check_transition_def check_pending_step_def)

lemma step_ok_settled:
  assumes l: "launchable E C policy job receipt request" and R: "request \<in> R" and inv: "records_inv E R records"
    and prev: "map_of records request = Some previous"
    and shape: "previous = bound_record E policy job request \<and> st = LCommitted
      \<or> (\<exists>st'. previous = settled_record E policy job receipt st' request \<and> successor_of st st')"
  shows "step_ok E R records (settled_record E policy job receipt st request)"
proof (rule step_ok_receipt [OF inv prev _ _ record_inv_settled(4) [OF l]])
  show "settled_record E policy job receipt st request = previous\<lparr>lr_state := st, lr_receipt := Some (receipt request)\<rparr>"
    using shape by (auto simp: settled_record_def)
  show "successor_of st (lr_state previous) \<or> st = LStopPending \<and> lr_state previous = LPending"
    using shape by (auto simp: record_shapes)
qed (use shape in \<open>auto simp: record_shapes\<close>)

text \<open>Each operation of the cycle persists the next record.\<close>

lemma cycle_operations:
  assumes l: "launchable E C policy job receipt request" and h: "\<not> lg_poisoned lg"
  shows "map_of (lg_records lg) request = None \<Longrightarrow> length (lg_records lg) < MAX_LEDGER_REQUESTS
      \<Longrightarrow> unresolved_records (lg_records lg) < MAX_ACTIVE_PROCESSES
      \<Longrightarrow> reserve E C lg request (unit_name E request) policy
        = bindM (persist C lg request (pending_record E request policy None)) (\<lambda>_ lg. (Inr True, lg))"
    and "map_of (lg_records lg) request = Some (pending_record E request policy None)
      \<Longrightarrow> bind_job E C lg request policy (job request) = persist C lg request (bound_record E policy job request)"
    and "map_of (lg_records lg) request = Some (bound_record E policy job request)
      \<Longrightarrow> commit_launch C lg request (receipt request) = persist C lg request (settled_record E policy job receipt LCommitted request)"
    and "map_of (lg_records lg) request = Some (settled_record E policy job receipt LCommitted request)
      \<Longrightarrow> begin_stop C lg request (receipt request) = persist C lg request (settled_record E policy job receipt LStopPending request)"
    and "map_of (lg_records lg) request = Some (settled_record E policy job receipt LStopPending request)
      \<Longrightarrow> mark_stopped C lg request (receipt request) = persist C lg request (settled_record E policy job receipt LStopped request)"
proof -
  have job: "job_validate_for_request E (job request) request = Inr ()" "jb_unit (job request) = unit_name E request"
    using l by (auto simp: launchable_def job_validate_for_request_def bindE_Inr_iff)
  have rc: "lc_unit (receipt request) = unit_name E request" "lc_request (receipt request) = request"
    using l by (auto simp: launchable_def verify_receipt_identity_def)
  note defs = record_shapes ensure_healthy_def ensure_def bindE_def ok_or_def matches_policy_def
  show "map_of (lg_records lg) request = None \<Longrightarrow> length (lg_records lg) < MAX_LEDGER_REQUESTS
      \<Longrightarrow> unresolved_records (lg_records lg) < MAX_ACTIVE_PROCESSES
      \<Longrightarrow> reserve E C lg request (unit_name E request) policy
        = bindM (persist C lg request (pending_record E request policy None)) (\<lambda>_ lg. (Inr True, lg))"
    using h by (simp add: reserve_def reserve_with_bootstrap_def defs)
  show "map_of (lg_records lg) request = Some (pending_record E request policy None)
      \<Longrightarrow> bind_job E C lg request policy (job request) = persist C lg request (bound_record E policy job request)"
    using h job by (simp add: bind_job_def defs)
  show "map_of (lg_records lg) request = Some (bound_record E policy job request)
      \<Longrightarrow> commit_launch C lg request (receipt request) = persist C lg request (settled_record E policy job receipt LCommitted request)"
    using h rc by (simp add: commit_launch_def defs)
  show "map_of (lg_records lg) request = Some (settled_record E policy job receipt LCommitted request)
      \<Longrightarrow> begin_stop C lg request (receipt request) = persist C lg request (settled_record E policy job receipt LStopPending request)"
    using h rc by (simp add: begin_stop_def defs)
  show "map_of (lg_records lg) request = Some (settled_record E policy job receipt LStopPending request)
      \<Longrightarrow> mark_stopped C lg request (receipt request) = persist C lg request (settled_record E policy job receipt LStopped request)"
    using h rc by (simp add: mark_stopped_def defs)
qed

lemma launch_cycle_appends:
  assumes l: "launchable E C policy job receipt request" and R: "request \<in> R" and s: "sound False E C R"
    and h: "healthy E C R n lg" and n: "n + 5 \<le> 640" and new: "map_of (lg_records lg) request = None"
    and room: "length (lg_records lg) < MAX_LEDGER_REQUESTS" "unresolved_records (lg_records lg) < MAX_ACTIVE_PROCESSES"
  shows "\<exists>lg'. launch_cycle E C policy job receipt request lg = (Inr (), lg') \<and> healthy E C R (n + 5) lg'
    \<and> map_of (lg_records lg') = (map_of (lg_records lg))(request \<mapsto> settled_record E policy job receipt LStopped request)"
proof -
  let ?p = "pending_record E request policy None" and ?b = "bound_record E policy job request"
    and ?s = "\<lambda>st. settled_record E policy job receipt st request"
  have req: "lr_request ?p = request" "lr_request ?b = request" "lr_request (?s st) = request" for st
    by (simp_all add: record_shapes)
  have inv: "records_inv E R (lg_records lg)" "\<not> lg_poisoned lg" if "healthy E C R n lg" for n lg
    using that by (simp_all add: healthy_def journal_inv_def)
  have short: "short C ?p" "short C ?b" "short C (?s LCommitted)" "short C (?s LStopPending)" "short C (?s LStopped)"
    using l by (simp_all add: launchable_def)
  have "step_ok E R (lg_records lg) ?p"
    using R new room(1) record_inv_settled(1) [OF l] by (simp add: step_ok_def req) (simp add: record_shapes check_transition_def)
  then obtain lg1 where lg1: "persist C lg request ?p = (Inr (), lg1)" "healthy E C R (Suc n) lg1"
      "lg_records lg1 = put_record ?p (lg_records lg)"
    using healthy_persist [OF h _ s short(1)] n req(1) by fastforce
  have "step_ok E R (lg_records lg1) ?b" using step_ok_bound [OF l R, of "lg_records lg1"] by (simp add: lg1(3) req)
  then obtain lg2 where lg2: "persist C lg1 request ?b = (Inr (), lg2)" "healthy E C R (Suc (Suc n)) lg2"
      "lg_records lg2 = put_record ?b (lg_records lg1)"
    using healthy_persist [OF lg1(2) _ s short(2)] n req(2) by fastforce
  have "step_ok E R (lg_records lg2) (?s LCommitted)"
    using step_ok_settled [OF l R inv(1) [OF lg2(2)], of ?b LCommitted] by (simp add: lg2(3) req)
  then obtain lg3 where lg3: "persist C lg2 request (?s LCommitted) = (Inr (), lg3)" "healthy E C R (Suc (Suc (Suc n))) lg3"
      "lg_records lg3 = put_record (?s LCommitted) (lg_records lg2)"
    using healthy_persist [OF lg2(2) _ s short(3)] n req(3) by fastforce
  have "step_ok E R (lg_records lg3) (?s LStopPending)"
    using step_ok_settled [OF l R inv(1) [OF lg3(2)], of "?s LCommitted" LStopPending] by (fastforce simp: lg3(3) req)
  then obtain lg4 where lg4: "persist C lg3 request (?s LStopPending) = (Inr (), lg4)" "healthy E C R (Suc (Suc (Suc (Suc n)))) lg4"
      "lg_records lg4 = put_record (?s LStopPending) (lg_records lg3)"
    using healthy_persist [OF lg3(2) _ s short(4)] n req(3) by fastforce
  have "step_ok E R (lg_records lg4) (?s LStopped)"
    using step_ok_settled [OF l R inv(1) [OF lg4(2)], of "?s LStopPending" LStopped] by (fastforce simp: lg4(3) req)
  then obtain lg5 where lg5: "persist C lg4 request (?s LStopped) = (Inr (), lg5)" "healthy E C R (n + 5) lg5"
      "lg_records lg5 = put_record (?s LStopped) (lg_records lg4)"
    using healthy_persist [OF lg4(2) _ s short(5)] n req(3) by (fastforce simp: numeral_eq_Suc)
  have "launch_cycle E C policy job receipt request lg = (Inr (), lg5)"
    using cycle_operations(1) [OF l inv(2) [OF h] new room] cycle_operations(2) [OF l inv(2) [OF lg1(2)]]
      cycle_operations(3) [OF l inv(2) [OF lg2(2)]] cycle_operations(4) [OF l inv(2) [OF lg3(2)]]
      cycle_operations(5) [OF l inv(2) [OF lg4(2)]] lg1 lg2 lg3 lg4 lg5(1)
    by (simp add: launch_cycle_def req)
  moreover have "map_of (lg_records lg5) = (map_of (lg_records lg))(request \<mapsto> ?s LStopped)"
    by (simp add: lg1(3) lg2(3) lg3(3) lg4(3) lg5(3) req)
  ultimately show ?thesis using lg5(2) by blast
qed

lemma unresolved_stopped:
  "btree records \<Longrightarrow> (\<And>k r. map_of records k = Some r \<Longrightarrow> lr_state r = LStopped) \<Longrightarrow> unresolved_records records = 0"
  by (auto simp: unresolved_records_def filter_empty_conv btree_lookup)

lemma length_dom: "btree m \<Longrightarrow> length m = card (dom (map_of m))"
  using distinct_card [of "map fst m"] by (simp add: btree_def strict_sorted_iff dom_map_of_conv_image_fst)

lemma launch_cycles_append:
  assumes "\<And>request. request \<in> set requests \<Longrightarrow> launchable E C policy job receipt request" and "set requests \<subseteq> R"
    and "sound False E C R" and "healthy E C R n lg" and "n + 5 * length requests \<le> 640" and "distinct requests"
    and "set requests \<inter> dom (map_of (lg_records lg)) = {}" and "length (lg_records lg) + length requests \<le> MAX_LEDGER_REQUESTS"
    and "\<And>k r. map_of (lg_records lg) k = Some r \<Longrightarrow> lr_state r = LStopped"
  shows "\<exists>lg'. launch_cycles E C policy job receipt requests lg = (Inr (), lg') \<and> healthy E C R (n + 5 * length requests) lg'"
  using assms
proof (induction requests arbitrary: n lg)
  case (Cons request requests)
  have tree: "btree (lg_records lg)" if "healthy E C R n lg" for n lg
    using that by (simp add: healthy_def journal_inv_def records_inv_def)
  have new: "map_of (lg_records lg) request = None" using Cons.prems(7) by (auto simp: domIff)
  have "unresolved_records (lg_records lg) = 0" using unresolved_stopped [OF tree [OF Cons.prems(4)] Cons.prems(9)] by simp
  then obtain lg1 where lg1: "launch_cycle E C policy job receipt request lg = (Inr (), lg1)" "healthy E C R (n + 5) lg1"
      "map_of (lg_records lg1) = (map_of (lg_records lg))(request \<mapsto> settled_record E policy job receipt LStopped request)"
    using launch_cycle_appends [of E C policy job receipt request R n lg] Cons.prems new
    by (auto simp: MAX_ACTIVE_PROCESSES_def)
  have "length (lg_records lg1) = Suc (length (lg_records lg))"
    using length_dom [OF tree [OF lg1(2)]] length_dom [OF tree [OF Cons.prems(4)]] new
    by (simp add: lg1(3) card_insert_if domIff finite_dom_map_of)
  then have "\<exists>lg'. launch_cycles E C policy job receipt requests lg1 = (Inr (), lg')
      \<and> healthy E C R ((n + 5) + 5 * length requests) lg'"
    using Cons.prems lg1(2,3)
    by (intro Cons.IH) (auto simp: settled_record_def split: if_splits)
  then show ?case using lg1(1) by (simp add: algebra_simps)
qed simp

definition fresh_ledger :: "path_buf \<Rightarrow> broker_ledger" where
  "fresh_ledger path = \<lparr>lg_path = Some path, lg_records = [], lg_poisoned = False, lg_file = [], lg_io = []\<rparr>"

lemma fresh_healthy: "healthy E C R 0 (fresh_ledger path)"
  by (simp add: healthy_def fresh_ledger_def journal_inv_def intact_def ended_def replay_def units_ok_def transitions_def)

text \<open>
  C21: the journal's reader accepts four transitions per request, but a launch under a manager's job and
  its stop write five. From a new journal, more than 102 launches, each acknowledged and stopped, all
  succeed and stay within the bound of 128 requests, and the journal they leave can no longer be
  opened.
\<close>

theorem journal_outgrows_reader:
  assumes "codec_ok C" and "inj_on (unit_name E) (set requests)" and "distinct requests"
    and "\<forall>request \<in> set requests. launchable E C policy job receipt request"
    and "102 < length requests" and "length requests \<le> MAX_LEDGER_REQUESTS"
  shows "\<exists>lg. launch_cycles E C policy job receipt requests (fresh_ledger path) = (Inr (), lg) \<and> \<not> lg_poisoned lg
    \<and> parse_records E C (lg_file lg) = Inl (BInvalid ''broker ledger transition count exceeds bound'')"
proof -
  have sound: "sound False E C (set requests)" using assms(1,2) by (simp add: sound_def)
  have "0 + 5 * length requests \<le> 640"
    using assms(6) by (simp add: MAX_LEDGER_REQUESTS_def MAX_RECEIPTS_def)
  then obtain lg where lg: "launch_cycles E C policy job receipt requests (fresh_ledger path) = (Inr (), lg)"
      "healthy E C (set requests) (0 + 5 * length requests) lg"
    using launch_cycles_append [OF _ subset_refl sound fresh_healthy _ assms(3), of policy job receipt path] assms(4,6)
    by (auto simp: fresh_ledger_def)
  then obtain records units where "replay E C (lg_file lg) = Inr (records, units)" "\<not> lg_poisoned lg"
      "transitions (lg_file lg) = 5 * length requests"
    by (auto simp: healthy_def journal_inv_def intact_def)
  then show ?thesis
    using parse_records_replay [of E C "lg_file lg" records units] assms(5) lg(1)
    by (auto simp: MAX_LEDGER_TRANSITIONS_def MAX_LEDGER_REQUESTS_def MAX_RECEIPTS_def)
qed

section \<open>Guarantees over every run\<close>

text \<open>What a journal opens to, and why a healthy one is refused.\<close>

lemma healthy_refusal:
  assumes "journal_inv torn E C R lg"
  shows "case parse_records E C (lg_file lg) of
      Inr records \<Rightarrow> records = lg_records lg \<or> lg_poisoned lg \<and> (\<exists>r. records = put_record r (lg_records lg))
    | Inl e \<Rightarrow> lg_poisoned lg
        \<or> e = BInvalid ''broker ledger transition count exceeds bound'' \<and> MAX_LEDGER_TRANSITIONS < transitions (lg_file lg)
        \<or> list_ex (bad_line C) (split_at newline (lg_file lg))"
proof (cases "parse_records E C (lg_file lg)")
  case (Inr records)
  then obtain units where "replay E C (lg_file lg) = Inr (records, units)" using replay_parse_records by blast
  then show ?thesis using journal_replay(2) [OF assms] Inr by auto
next
  case (Inl e)
  consider "broken C lg" | "intact E C R lg" using assms by (auto simp: journal_inv_def)
  then show ?thesis
  proof cases
    case 1
    then show ?thesis using Inl by (auto simp: broken_def jammed_def list_ex_iff dest: in_set_butlastD)
  next
    case 2
    then show ?thesis using Inl parse_records_replay by (fastforce simp: intact_def split: if_splits)
  qed
qed

text \<open>
  C8: the journal of the broker replays to its records. Over every run from a new journal of launches,
  inspections, stops and restarts, with any backend and with appends that succeed, are refused, or stop
  after any of their bytes, a journal that opens holds exactly the records in memory or, when the
  ledger is poisoned, those and one more. The journal of a healthy ledger is refused only because it holds
  more than 512 transitions or because one of its lines, torn by an append, is no record; when no
  append of the run was torn it opens exactly if it holds at most 512 transitions, and is otherwise refused
  for that bound.
\<close>

theorem journal_replays:
  assumes "codec_ok C" and "codec_strict C" and "inj_on (unit_name E) (\<Union> (op_requests ` set ops))"
    and "broker_run E U C B path_of not_found ops (fresh_broker policy b path io) = Some br"
  shows "(case parse_records E C (lg_file (br_ledger br)) of
      Inr records \<Rightarrow> records = lg_records (br_ledger br)
        \<or> lg_poisoned (br_ledger br) \<and> (\<exists>r. records = put_record r (lg_records (br_ledger br)))
    | Inl e \<Rightarrow> lg_poisoned (br_ledger br)
        \<or> e = BInvalid ''broker ledger transition count exceeds bound'' \<and> MAX_LEDGER_TRANSITIONS < transitions (lg_file (br_ledger br))
        \<or> list_ex (bad_line C) (split_at newline (lg_file (br_ledger br))))
    \<and> (list_all whole io \<and> list_all op_whole ops \<and> \<not> lg_poisoned (br_ledger br) \<longrightarrow>
        parse_records E C (lg_file (br_ledger br)) =
          (if transitions (lg_file (br_ledger br)) \<le> MAX_LEDGER_TRANSITIONS then Inr (lg_records (br_ledger br))
           else Inl (BInvalid ''broker ledger transition count exceeds bound'')))"
proof (intro conjI impI)
  have inv: "journal_inv True E C (\<Union> (op_requests ` set ops)) (br_ledger br)"
    using fresh_run_inv [OF assms] by (simp add: broker_inv_def)
  show "case parse_records E C (lg_file (br_ledger br)) of
      Inr records \<Rightarrow> records = lg_records (br_ledger br)
        \<or> lg_poisoned (br_ledger br) \<and> (\<exists>r. records = put_record r (lg_records (br_ledger br)))
    | Inl e \<Rightarrow> lg_poisoned (br_ledger br)
        \<or> e = BInvalid ''broker ledger transition count exceeds bound'' \<and> MAX_LEDGER_TRANSITIONS < transitions (lg_file (br_ledger br))
        \<or> list_ex (bad_line C) (split_at newline (lg_file (br_ledger br)))"
    by (rule healthy_refusal [OF inv])
next
  assume whole: "list_all whole io \<and> list_all op_whole ops \<and> \<not> lg_poisoned (br_ledger br)"
  then have "broker_inv False E C (\<Union> (op_requests ` set ops)) br"
    using fresh_run_whole [OF assms(1,3) _ _ assms(4)] by blast
  then obtain units where "replay E C (lg_file (br_ledger br)) = Inr (lg_records (br_ledger br), units)"
    using whole journal_inv_readable unfolding broker_inv_def by blast
  then show "parse_records E C (lg_file (br_ledger br)) =
      (if transitions (lg_file (br_ledger br)) \<le> MAX_LEDGER_TRANSITIONS then Inr (lg_records (br_ledger br))
       else Inl (BInvalid ''broker ledger transition count exceeds bound''))"
    by (rule parse_records_replay)
qed

text \<open>
  C3: a request is started at most once. Over every run from a new journal, restarts from the journal and
  appends torn at any byte included, the backend is never asked twice to start a unit for the same
  request, and each request it was asked to start has a record in memory and in the journal, if
  the journal opens at all.
\<close>

theorem started_at_most_once:
  assumes "codec_ok C" and "codec_strict C" and "inj_on (unit_name E) (\<Union> (op_requests ` set ops))"
    and "broker_run E U C B path_of not_found ops (fresh_broker policy b path io) = Some br"
  shows "distinct (started (events br)) \<and> set (started (events br)) \<subseteq> dom (map_of (lg_records (br_ledger br)))
    \<and> (case parse_records E C (lg_file (br_ledger br)) of
         Inl _ \<Rightarrow> True | Inr records \<Rightarrow> set (started (events br)) \<subseteq> dom (map_of records))"
proof -
  have inv: "broker_inv True E C (\<Union> (op_requests ` set ops)) br" by (rule fresh_run_inv [OF assms])
  then have "distinct (started (events br))" and sub: "set (started (events br)) \<subseteq> dom (map_of (lg_records (br_ledger br)))"
    unfolding broker_inv_def events_inv_def by blast+
  moreover have "set (started (events br)) \<subseteq> dom (map_of records)" if "parse_records E C (lg_file (br_ledger br)) = Inr records" for records
    using replay_parse_records [OF that] journal_replay(3) inv sub by (fastforce simp: broker_inv_def)
  ultimately show ?thesis by (auto split: sum.split)
qed

text \<open>
  C7: stops are owned and proved. Over every such run, torn appends included, each unit that the backend was
  asked to stop has a record of the stop in memory and in the journal, if the journal opens at all,
  and each terminal record in either is of a process whose retirement the backend has proved.
\<close>

theorem stops_owned_and_proved:
  assumes "codec_ok C" and "codec_strict C" and "inj_on (unit_name E) (\<Union> (op_requests ` set ops))"
    and "broker_run E U C B path_of not_found ops (fresh_broker policy b path io) = Some br"
    and "records = lg_records (br_ledger br) \<or> parse_records E C (lg_file (br_ledger br)) = Inr records"
  shows "(\<forall>unit. StopSent unit \<in> set (events br) \<longrightarrow> stop_owned_in records unit)
    \<and> (\<forall>request r. map_of records request = Some r \<longrightarrow> lr_state r = LStopped \<longrightarrow>
        (\<exists>receipt own. Retired receipt \<in> set (events br) \<and> lr_receipt r = Some own \<and> same_process_binding receipt own))"
proof -
  have inv: "events_inv E C (br_ledger br) (events br)"
    using fresh_run_inv [OF assms(1-4)] by (simp add: broker_inv_def)
  have "stop_owned_in records unit" if "stop_owned E C (br_ledger br) unit" for unit
    using assms(5) that replay_parse_records by (auto simp: stop_owned_def)
  moreover have "records = lg_records (br_ledger br) \<or> records = durable E C (br_ledger br)"
    using assms(5) by (auto simp: durable_def dest!: replay_parse_records)
  then have "proved (events br) r" if "map_of records request = Some r" for request r
    using inv that by (auto simp: events_inv_def all_records_def)
  ultimately show ?thesis using inv by (auto simp: events_inv_def proved_def)
qed

section \<open>A lost newline\<close>

lemma reserve_fresh:
  assumes "map_of (lg_records lg) request = None" and "\<not> lg_poisoned lg" and "length (lg_records lg) < MAX_ACTIVE_PROCESSES"
  shows "reserve E C lg request (unit_name E request) policy
    = bindM (persist C lg request (pending_record E request policy None)) (\<lambda>_ lg. (Inr True, lg))"
proof -
  have "unresolved_records (lg_records lg) \<le> length (lg_records lg)"
    by (simp add: unresolved_records_def)
  then show ?thesis
    using assms
    by (simp add: reserve_def reserve_with_bootstrap_def ensure_healthy_def ensure_def bindE_def pending_record_def
        MAX_ACTIVE_PROCESSES_def MAX_LEDGER_REQUESTS_def MAX_RECEIPTS_def)
qed

text \<open>
  C22: an append whose newline is lost breaks the journal one append later. When the record of a
  reservation is written but the write of its newline fails, the ledger is poisoned, and the journal
  opens with the record in it; the next append continues that unfinished line, and the journal is refused
  from then on, since its reader rejects two records on one line.
\<close>

theorem lost_newline_breaks_journal:
  assumes "codec_ok C" and "request_validate first = Inr ()" and "first \<noteq> second"
    and "lk_to_vec C (pending_record E first policy None) = Inr b1" and "length b1 \<le> MAX_FRAME_BYTES"
    and "lk_to_vec C (pending_record E second policy None) = Inr b2" and "length b2 \<le> MAX_FRAME_BYTES"
    and "decode_record C (b1 @ b2) = Inl e"
  shows "\<exists>lg1 lg2.
    reserve E C ((fresh_ledger path)\<lparr>lg_io := [AppendNoNewline 0 error]\<rparr>) first (unit_name E first) policy = (Inl (BIo error), lg1)
    \<and> lg_poisoned lg1
    \<and> parse_records E C (lg_file lg1) = Inr [(first, pending_record E first policy None)]
    \<and> reserve E C (lg1\<lparr>lg_records := [(first, pending_record E first policy None)], lg_poisoned := False\<rparr>)
        second (unit_name E second) policy = (Inr True, lg2)
    \<and> parse_records E C (lg_file lg2) = Inl e"
proof -
  let ?p = "pending_record E first policy None"
  have line: "b1 \<noteq> []" "newline \<notin> set b1" "decode_record C b1 = Inr ?p" "newline \<notin> set b2"
    using assms(1,4,6) by (auto simp: codec_ok_def)
  have size: "\<not> MAX_LEDGER_BYTES < length b1 + 1" "\<not> MAX_LEDGER_BYTES < length b1 + (length b2 + 1)"
    using assms(5,7) by (simp_all add: MAX_LEDGER_BYTES_def MAX_LEDGER_TRANSITIONS_def MAX_LEDGER_REQUESTS_def MAX_RECEIPTS_def
        MAX_FRAME_BYTES_def)
  let ?lg1 = "(fresh_ledger path)\<lparr>lg_io := [], lg_file := b1, lg_poisoned := True\<rparr>"
  have first: "reserve E C ((fresh_ledger path)\<lparr>lg_io := [AppendNoNewline 0 error]\<rparr>) first (unit_name E first) policy
      = (Inl (BIo error), ?lg1)"
    using assms(4,5) size(1)
    by (subst reserve_fresh)
       (simp_all add: fresh_ledger_def MAX_ACTIVE_PROCESSES_def persist_def append_record_def next_io_def Let_def)
  have "admit_record E [] [] ?p = Inr ()"
    using assms(2) by (simp add: admit_record_def check_record_def check_transition_def pending_record_def bindE_Inr_iff
        MAX_LEDGER_REQUESTS_def MAX_RECEIPTS_def)
  then have opened: "parse_records E C b1 = Inr [(first, ?p)]"
    using line
    by (simp add: parse_records_def split_at_free parse_lines_Cons bindE_def ensure_def pending_record_def
        MAX_LEDGER_TRANSITIONS_def MAX_LEDGER_REQUESTS_def MAX_RECEIPTS_def)
  let ?lg = "?lg1\<lparr>lg_records := [(first, ?p)], lg_poisoned := False\<rparr>"
  let ?lg2 = "?lg\<lparr>lg_file := b1 @ b2 @ [newline], lg_records := btree_insert second (pending_record E second policy None) [(first, ?p)]\<rparr>"
  have second: "reserve E C ?lg second (unit_name E second) policy = (Inr True, ?lg2)"
    using assms(3,6,7) size(2)
    by (subst reserve_fresh)
       (simp_all add: fresh_ledger_def MAX_ACTIVE_PROCESSES_def persist_def append_record_def next_io_def Let_def)
  have "split_at newline ((b1 @ b2) @ newline # []) = split_at newline (b1 @ b2) @ split_at newline []"
    by (rule split_at_append_sep)
  then have "parse_records E C (b1 @ b2 @ [newline]) = Inl e"
    using line assms(8)
    by (simp add: parse_records_def split_at_free parse_lines_Cons bindE_def ensure_def
        MAX_LEDGER_TRANSITIONS_def MAX_LEDGER_REQUESTS_def MAX_RECEIPTS_def)
  then show ?thesis using first opened second by (intro exI [of _ ?lg1] exI [of _ ?lg2]) (simp add: fresh_ledger_def)
qed

end
