(* ===== verification/Broker_Samples.thy ===== *)
theory Broker_Samples
  imports Broker_Properties
begin

text \<open>Concrete requests, a codec for their records and a backend, on which the properties of the broker apply.\<close>

section \<open>Requests and units\<close>

definition demo_E :: externals where
  "demo_E = externals_frames\<lparr>sha256 := \<lambda>bytes. [char_of (length bytes - 12)]\<rparr>"

definition demo_request :: "nat \<Rightarrow> broker_request" where
  "demo_request i = BrokerRequest Gateway ''i'' ''c'' (replicate (Suc i) (CHR ''a''))"

definition demo_requests :: "nat \<Rightarrow> broker_request list" where
  "demo_requests n = map demo_request [0..<n]"

lemma demo_unit: "unit_name demo_E (demo_request i) = ''ascension-watchdog-gateway-'' @ hex_byte (char_of (Suc i)) @ ''.service''"
  by (simp add: unit_name_def demo_E_def demo_request_def hex_digest_def hex_byte_def)

lemma hex_digit_inj: "hex_digit a = hex_digit b \<Longrightarrow> a < 16 \<Longrightarrow> b < 16 \<Longrightarrow> a = b"
  by (auto simp: hex_digit_def char_of_eq_iff take_bit_eq_mod mod_less split: if_splits)

lemma hex_byte_inj: "hex_byte (char_of a) = hex_byte (char_of b) \<Longrightarrow> a < 256 \<Longrightarrow> b < 256 \<Longrightarrow> a = (b :: nat)"
  by (auto simp: hex_byte_def byte_def dest!: hex_digit_inj) (metis div_mult_mod_eq)

lemma demo_inj: "n \<le> 128 \<Longrightarrow> inj_on (unit_name demo_E) (set (demo_requests n))"
  by (auto simp: inj_on_def demo_requests_def demo_unit dest!: hex_byte_inj)

lemma demo_request_inj [simp]: "demo_request i = demo_request j \<longleftrightarrow> i = j"
  by (auto simp: demo_request_def replicate_eq_replicate)

lemma demo_distinct: "distinct (demo_requests n)"
  by (simp add: demo_requests_def distinct_map inj_on_def)

lemma demo_valid: "i < 128 \<Longrightarrow> request_validate (demo_request i) = Inr ()"
  by (simp add: request_validate_def demo_request_def validate_identity_def MAX_IDENTITY_BYTES_def is_alphanumeric_def is_digit_def
      byte_def list_ex_iff bindE_def ensure_def)

section \<open>Policy, job and receipt\<close>

definition demo_policy :: launch_policy where
  "demo_policy =
     \<lparr>lp_executable = PathBuf True [NormalPart ''gateway''], lp_executable_sha256 = ''sha'', lp_arguments = [],
      lp_working_directory = PathBuf True [], lp_environment = [], lp_target_uid = 7, lp_target_gid = 7,
      lp_capabilities = \<lparr>cap_bounding_set = 0, cap_ambient_set = 0, cap_no_new_privileges = True\<rparr>,
      lp_cgroup = \<lparr>cg_tasks_max = 1, cg_memory_max_bytes = 1\<rparr>, lp_timeout = 1\<rparr>"

definition demo_job :: "broker_request \<Rightarrow> job_binding" where
  "demo_job request =
     \<lparr>jb_unit = unit_name demo_E request, jb_job_id = 1, jb_job_path = ''/org/freedesktop/systemd1/job/1''\<rparr>"

definition demo_observation :: "broker_request \<Rightarrow> unit_observation" where
  "demo_observation request =
     \<lparr>uo_unit = unit_name demo_E request, uo_pid = 1, uo_creation_token = ''t'', uo_executable = PathBuf True [NormalPart ''gateway''],
      uo_executable_sha256 = ''sha'', uo_uid = 7, uo_gid = 7, uo_capability_bounding_set = 0, uo_ambient_capabilities = 0,
      uo_no_new_privileges = True, uo_control_group = ''/'' @ unit_name demo_E request\<rparr>"

definition demo_receipt :: "broker_request \<Rightarrow> launch_receipt" where
  "demo_receipt request = receipt_from request (demo_observation request) False"

lemma ends_with_append [simp]: "ends_with s s"
  by (simp add: ends_with_def)

lemma demo_observed [simp]: "observation_verify (demo_observation request) (unit_name demo_E request) demo_policy = Inr ()"
  by (simp add: observation_verify_def demo_observation_def demo_policy_def)

lemma demo_receipt_verified [simp]:
  "verify_receipt_identity (demo_receipt request) request (unit_name demo_E request) demo_policy = Inr ()"
  by (simp add: verify_receipt_identity_def demo_receipt_def receipt_from_def demo_observation_def demo_policy_def)

lemma demo_job_valid: "i < 128 \<Longrightarrow> job_validate_for_request demo_E (demo_job (demo_request i)) (demo_request i) = Inr ()"
proof -
  have "parse_job_path ''/org/freedesktop/systemd1/job/1'' = Inr 1"
    by (simp add: parse_job_path_def MAX_JOB_PATH_BYTES_def contains_nul_def nul_def char_of_def strip_prefix_def
        SYSTEMD_JOB_PATH_PREFIX_def parse_u32_digits_def parse_digits_def digit_value_def is_digit_def byte_def
        ok_or_def bindE_def ensure_def)
  then show "i < 128 \<Longrightarrow> job_validate_for_request demo_E (demo_job (demo_request i)) (demo_request i) = Inr ()"
    by (simp add: job_validate_for_request_def demo_valid bindE_def job_validate_syntax_def demo_job_def demo_unit
        MAX_IDENTITY_BYTES_def ensure_def hex_byte_def)
qed

section \<open>The codec\<close>

text \<open>A record of the five stages of a sample request is its stage, its nonce and a closing brace.\<close>

definition demo_stages :: "broker_request \<Rightarrow> ledger_record list" where
  "demo_stages request =
     pending_record demo_E request demo_policy None # bound_record demo_E demo_policy demo_job request
     # map (\<lambda>st. settled_record demo_E demo_policy demo_job demo_receipt st request) [LCommitted, LStopPending, LStopped]"

definition demo_index :: "ledger_record \<Rightarrow> nat" where
  "demo_index r = length (takeWhile (\<lambda>x. x \<noteq> r) (demo_stages (lr_request r)))"

definition demo_digits :: string where
  "demo_digits = ''01234''"

definition demo_from_value :: "json \<Rightarrow> string + ledger_record" where
  "demo_from_value value =
     (case value of
        JString (c # nonce) \<Rightarrow>
          if nonce = [] \<or> last nonce \<noteq> CHR ''}'' then Inl ''end of input''
          else if set (butlast nonce) \<subseteq> {CHR ''a''}
          then Inr (demo_stages (BrokerRequest Gateway ''i'' ''c'' (butlast nonce)) ! length (takeWhile (\<lambda>d. d \<noteq> c) demo_digits))
          else Inl ''trailing characters''
      | _ \<Rightarrow> Inl ''expected a record'')"

definition demo_codec :: ledger_codec where
  "demo_codec =
     \<lparr>lk_from_slice = \<lambda>bytes. Inr (JString bytes), lk_from_value = demo_from_value,
      lk_to_vec = \<lambda>r.
        (let q = lr_request r; k = demo_index r in
         if k < 5 \<and> (\<exists>i < 128. q = demo_request i) then Inr (demo_digits ! k # rq_nonce q @ ''}'')
         else Inl ''unsupported record'')\<rparr>"

lemma demo_digit_index: "k < 5 \<Longrightarrow> length (takeWhile (\<lambda>d. d \<noteq> demo_digits ! k) demo_digits) = k"
proof -
  assume "k < 5"
  then have "k = 0 \<or> k = 1 \<or> k = 2 \<or> k = 3 \<or> k = 4" by linarith
  then show ?thesis by (elim disjE) (simp_all add: demo_digits_def)
qed

lemma demo_encoded:
  assumes "lk_to_vec demo_codec r = Inr bytes"
  obtains i where "demo_index r < 5" "lr_request r = demo_request i"
    "bytes = demo_digits ! demo_index r # replicate (Suc i) (CHR ''a'') @ ''}''"
  using assms by (auto simp: demo_codec_def Let_def demo_request_def split: if_splits)

lemma demo_decode:
  "decode_record demo_codec (c # nonce) =
     (if nonce = [] \<or> last nonce \<noteq> CHR ''}'' then Inl (BInvalid (''broker ledger record'' @ '' schema is invalid: '' @ ''end of input''))
      else if set (butlast nonce) \<subseteq> {CHR ''a''}
      then Inr (demo_stages (BrokerRequest Gateway ''i'' ''c'' (butlast nonce)) ! length (takeWhile (\<lambda>d. d \<noteq> c) demo_digits))
      else Inl (BInvalid (''broker ledger record'' @ '' schema is invalid: '' @ ''trailing characters'')))"
  by (simp add: decode_record_def parse_json_def demo_codec_def demo_from_value_def map_err_def bindE_def)

lemma demo_codec_ok: "codec_ok demo_codec"
proof -
  have "bytes \<noteq> [] \<and> newline \<notin> set bytes \<and> decode_record demo_codec bytes = Inr r" if enc: "lk_to_vec demo_codec r = Inr bytes" for r bytes
  proof -
    obtain i where i: "demo_index r < 5" "lr_request r = demo_request i"
        "bytes = demo_digits ! demo_index r # replicate (Suc i) (CHR ''a'') @ ''}''"
      by (rule demo_encoded [OF enc])
    have "demo_stages (lr_request r) ! demo_index r = r"
      using nth_length_takeWhile [of "\<lambda>x. x \<noteq> r" "demo_stages (lr_request r)"] i(1)
      by (simp add: demo_index_def demo_stages_def)
    then have "decode_record demo_codec bytes = Inr r"
      using i demo_digit_index [OF i(1)] by (simp add: demo_decode butlast_append demo_request_def set_replicate_conv_if)
    moreover have "newline \<notin> set bytes"
      using i nth_mem [of "demo_index r" demo_digits] by (auto simp: newline_def demo_digits_def)
    ultimately show ?thesis using i(3) by simp
  qed
  then show ?thesis unfolding codec_ok_def by blast
qed

lemma demo_codec_strict: "codec_strict demo_codec"
proof -
  have "\<exists>e. decode_record demo_codec (take n bytes) = Inl e"
    if enc: "lk_to_vec demo_codec r = Inr bytes" and n: "0 < n" "n < length bytes" for r bytes n
  proof -
    obtain i where "bytes = demo_digits ! demo_index r # replicate (Suc i) (CHR ''a'') @ ''}''"
      by (rule demo_encoded [OF enc])
    moreover from this have "take n bytes = demo_digits ! demo_index r # replicate (n - 1) (CHR ''a'')"
      using n by (cases n) (simp_all add: min_def del: replicate_Suc)
    ultimately show ?thesis by (auto simp: demo_decode last_replicate)
  qed
  moreover have "\<exists>e. decode_record demo_codec (bytes @ take n bytes') = Inl e"
    if enc: "lk_to_vec demo_codec r = Inr bytes" and enc': "lk_to_vec demo_codec r' = Inr bytes'" and n: "0 < n" for r bytes r' bytes' n
  proof -
    obtain i where i: "bytes = demo_digits ! demo_index r # replicate (Suc i) (CHR ''a'') @ ''}''"
      by (rule demo_encoded [OF enc])
    obtain x xs where x: "take n bytes' = x # xs"
      using demo_encoded [OF enc'] n by (metis list.exhaust list.distinct(1) take_eq_Nil2 less_numeral_extra(3))
    show ?thesis by (auto simp: i x demo_decode butlast_append)
  qed
  ultimately show ?thesis unfolding codec_strict_def by blast
qed

lemma demo_stage_request: "r \<in> set (demo_stages request) \<Longrightarrow> lr_request r = request"
  by (auto simp: demo_stages_def record_shapes)

lemma length_takeWhile_lt: "x \<in> set xs \<Longrightarrow> \<not> P x \<Longrightarrow> length (takeWhile P xs) < length xs"
  by (induction xs) auto

lemma demo_encode:
  assumes "r \<in> set (demo_stages (demo_request i))" and "i < 128"
  shows "lk_to_vec demo_codec r = Inr (demo_digits ! demo_index r # replicate (Suc i) (CHR ''a'') @ ''}'')"
proof -
  have req: "lr_request r = demo_request i" by (rule demo_stage_request [OF assms(1)])
  have "demo_index r < length (demo_stages (demo_request i))"
    unfolding demo_index_def req by (rule length_takeWhile_lt [OF assms(1)]) simp
  then show ?thesis using assms(2) by (auto simp: demo_codec_def Let_def req) (auto simp: demo_request_def demo_stages_def)
qed

lemma demo_launchable:
  assumes "i < 128"
  shows "launchable demo_E demo_codec demo_policy demo_job demo_receipt (demo_request i)"
proof -
  have "short demo_codec r" if "r \<in> set (demo_stages (demo_request i))" for r
    using demo_encode [OF that assms] assms by (simp add: short_def)
  then show ?thesis using assms by (simp add: launchable_def demo_valid demo_job_valid demo_stages_def)
qed

theorem journal_outgrows_reader_witness:
  "\<exists>lg. launch_cycles demo_E demo_codec demo_policy demo_job demo_receipt (demo_requests 103)
        (fresh_ledger (PathBuf True [NormalPart ''l''])) = (Inr (), lg) \<and> \<not> lg_poisoned lg
    \<and> parse_records demo_E demo_codec (lg_file lg) = Inl (BInvalid ''broker ledger transition count exceeds bound'')"
proof -
  have "\<forall>request \<in> set (demo_requests 103). launchable demo_E demo_codec demo_policy demo_job demo_receipt request"
    by (simp add: demo_requests_def demo_launchable)
  then show ?thesis
    using journal_outgrows_reader [OF demo_codec_ok demo_inj demo_distinct]
    by (simp add: demo_requests_def MAX_LEDGER_REQUESTS_def MAX_RECEIPTS_def)
qed

theorem lost_newline_breaks_journal_witness:
  "\<exists>lg1 lg2 e.
    reserve demo_E demo_codec ((fresh_ledger (PathBuf True [NormalPart ''l'']))\<lparr>lg_io := [AppendNoNewline 0 ''full'']\<rparr>)
        (demo_request 0) (unit_name demo_E (demo_request 0)) demo_policy = (Inl (BIo ''full''), lg1)
    \<and> lg_poisoned lg1
    \<and> parse_records demo_E demo_codec (lg_file lg1) = Inr [(demo_request 0, pending_record demo_E (demo_request 0) demo_policy None)]
    \<and> reserve demo_E demo_codec
        (lg1\<lparr>lg_records := [(demo_request 0, pending_record demo_E (demo_request 0) demo_policy None)], lg_poisoned := False\<rparr>)
        (demo_request 1) (unit_name demo_E (demo_request 1)) demo_policy = (Inr True, lg2)
    \<and> parse_records demo_E demo_codec (lg_file lg2) = Inl e"
proof -
  have stage: "pending_record demo_E (demo_request i) demo_policy None \<in> set (demo_stages (demo_request i))" for i
    by (simp add: demo_stages_def)
  have index: "demo_index (pending_record demo_E (demo_request i) demo_policy None) = 0" for i
    by (simp add: demo_index_def demo_stages_def) (simp add: pending_record_def)
  have b1: "lk_to_vec demo_codec (pending_record demo_E (demo_request 0) demo_policy None) = Inr ''0a}''"
    using demo_encode [OF stage, of 0] index [of 0] by (simp add: demo_digits_def)
  have b2: "lk_to_vec demo_codec (pending_record demo_E (demo_request 1) demo_policy None) = Inr ''0aa}''"
    using demo_encode [OF stage, of 1] index [of 1] by (simp add: demo_digits_def)
  have bad: "decode_record demo_codec (''0a}'' @ ''0aa}'') = Inl (BInvalid (''broker ledger record'' @ '' schema is invalid: '' @ ''trailing characters''))"
    by (simp add: demo_decode)
  show ?thesis
    using lost_newline_breaks_journal [OF demo_codec_ok demo_valid [of 0] _ b1 _ b2 _ bad, where path = "PathBuf True [NormalPart ''l'']" and error = "''full''"]
    by (simp add: MAX_FRAME_BYTES_def) blast
qed

section \<open>A run\<close>

text \<open>
  One launch, a restart, the same launch again and a stop. The backend is in one of four states: nothing
  started, started with its job still queued, running, and stopped.
\<close>

definition demo_path :: path_buf where
  "demo_path = PathBuf True [NormalPart ''l'']"

definition demo_broker_policy :: broker_policy where
  "demo_broker_policy =
     \<lparr>bp_peer = \<lparr>pp_uid = 5, pp_gid = 5, pp_executable = PathBuf True [NormalPart ''w''],
                 pp_executable_sha256 = hex_digest demo_E ''w''\<rparr>,
      bp_components = [(Gateway, demo_policy)]\<rparr>"

definition demo_K :: peer_os where
  "demo_K =
     \<lparr>po_expired = \<lambda>_. False, po_pidfd_open = \<lambda>_. Inr (), po_start_token = \<lambda>_ _. Inr ''1'',
      po_read_exe_link = \<lambda>_. Inr (PathBuf True [NormalPart ''w'']), po_open_exe = \<lambda>_. Inr (1, Inr ''w'')\<rparr>"

definition demo_credentials :: peer_credentials where
  "demo_credentials = \<lparr>pc_pid = 5, pc_uid = 5, pc_gid = 5\<rparr>"

definition demo_fs :: file_system where
  "demo_fs =
     \<lparr>fs_symlink_metadata = \<lambda>path. Inr \<lparr>md_kind = if path_parts path = [] then Directory else RegularFile, md_uid = 0, md_mode = 0\<rparr>,
      fs_open = \<lambda>_. Inl ''missing''\<rparr>"

definition demo_uuid_bytes :: uuid_bytes where
  "demo_uuid_bytes = \<lparr>uuid_from_bytes = \<lambda>_. sample_uuid, uuid_as_bytes = \<lambda>_. []\<rparr>"

definition demo_backend :: "nat systemd_backend" where
  "demo_backend =
     \<lparr>bk_start = \<lambda>unit request policy bootstrap s. (Inr (demo_observation request), 1),
      bk_inspect = \<lambda>unit policy s. (Inr (if s \<in> {1, 2} then Some (demo_observation (demo_request 0)) else None), s),
      bk_retain_containment = \<lambda>request expected policy s. (Inr (), s),
      bk_require_containment = \<lambda>expected policy s. (Inr (), s),
      bk_require_local_containment = \<lambda>expected policy s. (Inr (), s),
      bk_verify_retirement = \<lambda>receipt s. (Inr (s = 3), s),
      bk_require_retained_containment = \<lambda>receipt policy s. (Inr (), s),
      bk_stop_retained_containment = \<lambda>receipt s. (Inr (), 3),
      bk_release_retired = \<lambda>receipt s. (Inr (), s),
      bk_stop = \<lambda>unit expected s. (Inr (), 3),
      bk_queued_job_binding = \<lambda>unit s. if s = 1 then Some (demo_job (demo_request 0)) else None,
      bk_take_queued_job_binding = \<lambda>unit s. (Inr (demo_job (demo_request 0)), 2),
      bk_resolve_queued_job = \<lambda>job s. (Inr JobGone, s),
      bk_cancel_queued_job = \<lambda>job s. (Inr CancelAlreadyGone, s)\<rparr>"

definition demo_launch :: "nat broker_action" where
  "demo_launch = OpLaunch demo_K demo_credentials (demo_request 0) None"

definition demo_ops :: "nat broker_action list" where
  "demo_ops =
     [demo_launch, OpRestart demo_broker_policy demo_fs [] (\<lambda>s. s), demo_launch,
      OpLifecycle demo_K demo_credentials LifecycleStop (demo_request 0) 3]"

definition demo_start :: "nat observed_broker" where
  "demo_start = fresh_broker demo_broker_policy 0 demo_path []"

text \<open>The ledger after the first \<open>k\<close> + 1 transitions of the request.\<close>

definition demo_ledger :: "nat \<Rightarrow> broker_ledger" where
  "demo_ledger k =
     \<lparr>lg_path = Some demo_path, lg_records = [(demo_request 0, demo_stages (demo_request 0) ! k)], lg_poisoned = False,
      lg_file = concat (map (\<lambda>d. [d, CHR ''a'', CHR ''}'', newline]) (take (Suc k) demo_digits)), lg_io = []\<rparr>"

lemma demo_index_nth: "k < 5 \<Longrightarrow> demo_index (demo_stages request ! k) = k"
proof -
  assume "k < 5"
  then have "k = 0 \<or> k = 1 \<or> k = 2 \<or> k = 3 \<or> k = 4" by linarith
  then show ?thesis
    by (elim disjE) (simp_all add: demo_index_def demo_stages_def, simp_all add: record_shapes)
qed

lemma demo_persist:
  assumes "k < 5" and "lg_path lg = Some demo_path" and "lg_io lg = []"
    and "lg_file lg = concat (map (\<lambda>d. [d, CHR ''a'', CHR ''}'', newline]) (take k demo_digits))"
  shows "persist demo_codec lg (demo_request 0) (demo_stages (demo_request 0) ! k) =
    (Inr (), lg\<lparr>lg_io := [], lg_file := concat (map (\<lambda>d. [d, CHR ''a'', CHR ''}'', newline]) (take (Suc k) demo_digits)),
       lg_records := btree_insert (demo_request 0) (demo_stages (demo_request 0) ! k) (lg_records lg)\<rparr>)"
proof -
  have "demo_stages (demo_request 0) ! k \<in> set (demo_stages (demo_request 0))"
    using assms(1) by (intro nth_mem) (simp add: demo_stages_def)
  then have "lk_to_vec demo_codec (demo_stages (demo_request 0) ! k) = Inr [demo_digits ! k, CHR ''a'', CHR ''}'']"
    using demo_encode [of _ 0] demo_index_nth [OF assms(1)] by simp
  moreover have "length (concat (map (\<lambda>d. [d, CHR ''a'', CHR ''}'', newline]) (take k demo_digits))) \<le> 20"
    by (simp add: length_concat sum_list_triv comp_def demo_digits_def)
  moreover have "take (Suc k) demo_digits = take k demo_digits @ [demo_digits ! k]"
    by (rule take_Suc_conv_app_nth) (use assms(1) in \<open>simp add: demo_digits_def\<close>)
  ultimately show ?thesis
    using assms(2-4)
    by (simp add: persist_def append_record_def next_io_def Let_def MAX_FRAME_BYTES_def MAX_LEDGER_BYTES_def
        MAX_LEDGER_TRANSITIONS_def MAX_LEDGER_REQUESTS_def MAX_RECEIPTS_def)
qed

lemma demo_transitions:
  "reserve demo_E demo_codec (br_ledger demo_start) (demo_request 0) (unit_name demo_E (demo_request 0)) demo_policy
     = (Inr True, demo_ledger 0)"
  "bind_job demo_E demo_codec (demo_ledger 0) (demo_request 0) demo_policy (demo_job (demo_request 0)) = (Inr (), demo_ledger (Suc 0))"
  "commit_launch demo_codec (demo_ledger (Suc 0)) (demo_request 0) (demo_receipt (demo_request 0)) = (Inr (), demo_ledger 2)"
  "begin_stop demo_codec (demo_ledger 2) (demo_request 0) (demo_receipt (demo_request 0)) = (Inr (), demo_ledger 3)"
  "mark_stopped demo_codec (demo_ledger 3) (demo_request 0) (demo_receipt (demo_request 0)) = (Inr (), demo_ledger 4)"
proof -
  note l = demo_launchable [of 0, simplified]
  have stages: "demo_stages (demo_request 0) ! 0 = pending_record demo_E (demo_request 0) demo_policy None"
      "demo_stages (demo_request 0) ! 1 = bound_record demo_E demo_policy demo_job (demo_request 0)"
      "demo_stages (demo_request 0) ! 2 = settled_record demo_E demo_policy demo_job demo_receipt LCommitted (demo_request 0)"
      "demo_stages (demo_request 0) ! 3 = settled_record demo_E demo_policy demo_job demo_receipt LStopPending (demo_request 0)"
      "demo_stages (demo_request 0) ! 4 = settled_record demo_E demo_policy demo_job demo_receipt LStopped (demo_request 0)"
    by (simp_all add: demo_stages_def)
  have healthy: "\<not> lg_poisoned (demo_ledger k)" for k by (simp add: demo_ledger_def)
  have advance: "persist demo_codec (demo_ledger k) (demo_request 0) (demo_stages (demo_request 0) ! Suc k)
      = (Inr (), demo_ledger (Suc k))" if "k < 4" for k
    using demo_persist [of "Suc k" "demo_ledger k"] that by (simp add: demo_ledger_def)
  have "persist demo_codec (br_ledger demo_start) (demo_request 0) (demo_stages (demo_request 0) ! 0) = (Inr (), demo_ledger 0)"
    using demo_persist [of 0 "br_ledger demo_start"]
    by (simp add: demo_ledger_def demo_start_def fresh_broker_def new_with_ledger_def)
  then show "reserve demo_E demo_codec (br_ledger demo_start) (demo_request 0) (unit_name demo_E (demo_request 0)) demo_policy
     = (Inr True, demo_ledger 0)"
    using cycle_operations(1) [OF l, of "br_ledger demo_start"]
    by (simp add: stages demo_start_def fresh_broker_def new_with_ledger_def MAX_LEDGER_REQUESTS_def MAX_RECEIPTS_def
        MAX_ACTIVE_PROCESSES_def unresolved_records_def)
  show "bind_job demo_E demo_codec (demo_ledger 0) (demo_request 0) demo_policy (demo_job (demo_request 0)) = (Inr (), demo_ledger (Suc 0))"
    using cycle_operations(2) [OF l healthy, of 0] advance [of 0] stages by (simp add: demo_ledger_def)
  show "commit_launch demo_codec (demo_ledger (Suc 0)) (demo_request 0) (demo_receipt (demo_request 0)) = (Inr (), demo_ledger 2)"
    using cycle_operations(3) [OF l healthy, of 1] advance [of 1] stages by (simp add: demo_ledger_def numeral_2_eq_2)
  show "begin_stop demo_codec (demo_ledger 2) (demo_request 0) (demo_receipt (demo_request 0)) = (Inr (), demo_ledger 3)"
    using cycle_operations(4) [OF l healthy, of 2] advance [of 2] stages by (simp add: demo_ledger_def)
  show "mark_stopped demo_codec (demo_ledger 3) (demo_request 0) (demo_receipt (demo_request 0)) = (Inr (), demo_ledger 4)"
    using cycle_operations(5) [OF l healthy, of 3] advance [of 3] stages by (simp add: demo_ledger_def)
qed

lemma demo_checks [simp]:
  "authenticate_peer demo_E demo_K demo_credentials (bp_peer demo_broker_policy) = Inr ()"
  "policy_component demo_broker_policy (rq_component (demo_request i)) = Inr demo_policy"
  "launch_environment demo_E demo_uuid_bytes demo_policy request None = Inr []"
  by (simp_all add: authenticate_peer_def remaining_def demo_K_def demo_credentials_def demo_broker_policy_def
      hash_open_file_until_def MAX_HASH_BYTES_def map_err_def ensure_def bindE_def policy_component_def demo_request_def
      ok_or_def launch_environment_def demo_policy_def)

lemma demo_launched:
  "handle_launch_at_deadline demo_E demo_uuid_bytes demo_codec (observed demo_backend) demo_K path_of demo_credentials
     (demo_request 0) None demo_start
   = (Inr (demo_receipt (demo_request 0)),
      \<lparr>br_policy = demo_broker_policy, br_backend = (2, [Started (demo_request 0)]), br_ledger = demo_ledger 2,
       br_receipts = [(demo_request 0, demo_receipt (demo_request 0))], br_active_units = [unit_name demo_E (demo_request 0)]\<rparr>)"
proof -
  have start: "demo_start = \<lparr>br_policy = demo_broker_policy, br_backend = (0, []), br_ledger = br_ledger demo_start,
      br_receipts = [], br_active_units = []\<rparr>" "ensure_healthy (br_ledger demo_start) = Inr ()" "lg_records (br_ledger demo_start) = []"
    by (simp_all add: demo_start_def fresh_broker_def new_with_ledger_def ensure_healthy_def)
  show ?thesis
    apply (subst start(1))
    apply (simp add: handle_launch_at_deadline_def tryM_def demo_valid start(2,3) active_capacity_def ensure_def MAX_ACTIVE_PROCESSES_def
        ledger_contains_def on_backend_def on_ledger_def quiet_call_def logged_call_def demo_backend_def launch_new_def
        demo_transitions bind_queued_job_def observed_def Let_def demo_receipt_def [symmetric] cache_receipt_def
        active_unit_insert_def MAX_RECEIPTS_def insort_insert_key_def)
    done
qed

lemma demo_sound_ops:
  "inj_on (unit_name demo_E) (\<Union> (op_requests ` set demo_ops))" "list_all op_whole demo_ops"
  by (simp_all add: demo_ops_def demo_launch_def)

definition demo_running :: "bool \<Rightarrow> nat observed_broker" where
  "demo_running dup =
     \<lparr>br_policy = demo_broker_policy, br_backend = (2, [Started (demo_request 0)]), br_ledger = demo_ledger 2,
      br_receipts = [(demo_request 0, receipt_from (demo_request 0) (demo_observation (demo_request 0)) dup)],
      br_active_units = [unit_name demo_E (demo_request 0)]\<rparr>"

lemma demo_parsed:
  "parse_records demo_E demo_codec (lg_file (demo_ledger 2)) = Inr (lg_records (demo_ledger 2))"
proof -
  have "broker_run demo_E demo_uuid_bytes demo_codec demo_backend (\<lambda>_. demo_path) (\<lambda>_. True) [demo_launch]
      (fresh_broker demo_broker_policy 0 demo_path []) = Some (demo_running False)"
    using demo_launched [of "\<lambda>_. demo_path"]
    by (simp add: demo_launch_def demo_start_def demo_running_def demo_receipt_def)
  then have "broker_inv False demo_E demo_codec (\<Union> (op_requests ` set [demo_launch])) (demo_running False)"
    by (intro fresh_run_whole [OF demo_codec_ok]) (simp_all add: demo_launch_def)
  then obtain units where "replay demo_E demo_codec (lg_file (demo_ledger 2)) = Inr (lg_records (demo_ledger 2), units)"
    using journal_inv_readable [of demo_E demo_codec _ "demo_ledger 2"] by (auto simp: broker_inv_def demo_running_def demo_ledger_def)
  then show ?thesis
    by (simp add: parse_records_replay)
       (simp add: transitions_def demo_ledger_def demo_digits_def newline_def numeral_2_eq_2 MAX_LEDGER_TRANSITIONS_def
          MAX_LEDGER_REQUESTS_def MAX_RECEIPTS_def)
qed

lemma demo_restarted:
  "broker_op demo_E demo_uuid_bytes demo_codec demo_backend path_of not_found
     (OpRestart demo_broker_policy demo_fs [] (\<lambda>s. s)) (demo_running False)
   = Some (new_with_ledger demo_broker_policy (2, [Started (demo_request 0)]) (demo_ledger 2))"
proof -
  have "\<not> MAX_LEDGER_BYTES < length (lg_file (demo_ledger 2))"
    by (simp add: demo_ledger_def demo_digits_def numeral_2_eq_2 MAX_LEDGER_BYTES_def MAX_LEDGER_TRANSITIONS_def
        MAX_LEDGER_REQUESTS_def MAX_RECEIPTS_def MAX_FRAME_BYTES_def)
  then have "ledger_open demo_E demo_codec (with_journal demo_fs demo_path (lg_file (demo_ledger 2))) not_found [] demo_path
      = Inr (demo_ledger 2)"
    by (simp add: ledger_open_def validate_protected_ledger_path_def path_parent_def demo_path_def validate_protected_directory_def
        validate_protected_ancestors_def with_journal_def demo_fs_def mode_0600_def is_protected_owner_def read_bounded_file_def
        demo_parsed [unfolded demo_path_def] bindE_def ok_or_def ensure_def map_err_def)
       (simp add: demo_ledger_def demo_path_def)
  then show ?thesis by (simp add: demo_running_def) (simp add: demo_ledger_def)
qed

lemma demo_committed:
  "map_of (lg_records (demo_ledger 2)) (demo_request 0)
     = Some (settled_record demo_E demo_policy demo_job demo_receipt LCommitted (demo_request 0))"
  by (simp add: demo_ledger_def demo_stages_def)

lemma same_process_binding_dup [simp]: "same_process_binding (receipt_from request ob d) (receipt_from request ob d')"
  by (simp add: same_process_binding_def receipt_from_def)

lemma demo_repeated:
  "reserve demo_E demo_codec (demo_ledger 2) (demo_request 0) (unit_name demo_E (demo_request 0)) demo_policy
     = (Inr False, demo_ledger 2)"
  "commit_launch demo_codec (demo_ledger 2) (demo_request 0)
     (receipt_from (demo_request 0) (demo_observation (demo_request 0)) d) = (Inr (), demo_ledger 2)"
  "pending_cancel_requested demo_E (demo_ledger 2) (demo_request 0) demo_policy = Inr False"
  "ensure_healthy (demo_ledger 2) = Inr ()"
  "ledger_lifecycle_record (demo_ledger 2) (demo_request 0) (unit_name demo_E (demo_request 0)) demo_policy
     = Inr (Some (RecCommitted (demo_receipt (demo_request 0))))"
proof -
  show healthy: "ensure_healthy (demo_ledger 2) = Inr ()" by (simp add: ensure_healthy_def demo_ledger_def)
  have receipt: "lc_unit (receipt_from (demo_request 0) (demo_observation (demo_request 0)) d) = unit_name demo_E (demo_request 0)"
      "lc_request (receipt_from (demo_request 0) (demo_observation (demo_request 0)) d) = demo_request 0" for d
    by (simp_all add: receipt_from_def demo_observation_def)
  note defs = healthy bindE_def demo_committed ok_or_def ensure_def
  show "reserve demo_E demo_codec (demo_ledger 2) (demo_request 0) (unit_name demo_E (demo_request 0)) demo_policy
     = (Inr False, demo_ledger 2)"
    by (simp add: reserve_def reserve_with_bootstrap_def defs) (simp add: record_shapes matches_policy_def)
  show "commit_launch demo_codec (demo_ledger 2) (demo_request 0)
     (receipt_from (demo_request 0) (demo_observation (demo_request 0)) d) = (Inr (), demo_ledger 2)"
    by (simp add: commit_launch_def defs receipt) (simp add: record_shapes demo_receipt_def)
  show "pending_cancel_requested demo_E (demo_ledger 2) (demo_request 0) demo_policy = Inr False"
    by (simp add: pending_cancel_requested_def defs) (simp add: record_shapes)
  show "ledger_lifecycle_record (demo_ledger 2) (demo_request 0) (unit_name demo_E (demo_request 0)) demo_policy
     = Inr (Some (RecCommitted (demo_receipt (demo_request 0))))"
    by (simp add: ledger_lifecycle_record_def defs) (simp add: record_shapes matches_policy_def)
qed

lemma demo_relaunched:
  "handle_launch_at_deadline demo_E demo_uuid_bytes demo_codec (observed demo_backend) demo_K path_of demo_credentials
     (demo_request 0) None (new_with_ledger demo_broker_policy (2, [Started (demo_request 0)]) (demo_ledger 2))
   = (Inr (receipt_from (demo_request 0) (demo_observation (demo_request 0)) True), demo_running True)"
  by (simp add: handle_launch_at_deadline_def tryM_def demo_valid new_with_ledger_def demo_repeated active_capacity_def ensure_def
      MAX_ACTIVE_PROCESSES_def ledger_contains_def demo_committed on_backend_def on_ledger_def quiet_call_def demo_backend_def
      relaunch_old_def observed_def Let_def cache_receipt_def active_unit_insert_def MAX_RECEIPTS_def insort_insert_key_def
      demo_running_def)

definition demo_stopped :: "nat observed_broker" where
  "demo_stopped =
     (demo_running True)\<lparr>br_backend := (3, [Started (demo_request 0), StopSent (unit_name demo_E (demo_request 0)),
        Retired (demo_receipt (demo_request 0))]), br_ledger := demo_ledger 4, br_active_units := []\<rparr>"

lemma demo_stop:
  "lifecycle_at_deadline demo_E demo_codec (observed demo_backend) demo_K demo_credentials LifecycleStop (demo_request 0) 3
     (demo_running True)
   = (Inr \<lparr>ly_receipt = demo_receipt (demo_request 0), ly_state = LifecycleStopped, ly_duplicate = False\<rparr>, demo_stopped)"
proof -
  have dup: "(demo_receipt (demo_request 0))\<lparr>lc_duplicate := False\<rparr> = demo_receipt (demo_request 0)"
    by (simp add: demo_receipt_def receipt_from_def)
  show ?thesis
    by (simp add: lifecycle_at_deadline_def tryM_def demo_valid demo_running_def demo_repeated lifecycle_live_def active_capacity_def
        ensure_def MAX_ACTIVE_PROCESSES_def on_backend_def on_ledger_def quiet_call_def logged_call_def proof_call_def demo_backend_def
        observed_def Let_def active_unit_insert_def active_unit_remove_def insort_insert_key_def confirm_stop.simps
        demo_receipt_def [symmetric] demo_transitions demo_stopped_def dup)
qed

lemma demo_run:
  "broker_run demo_E demo_uuid_bytes demo_codec demo_backend (\<lambda>_. demo_path) (\<lambda>_. True) demo_ops
     (fresh_broker demo_broker_policy 0 demo_path []) = Some demo_stopped"
proof -
  have run: "broker_op demo_E demo_uuid_bytes demo_codec demo_backend (\<lambda>_. demo_path) (\<lambda>_. True) demo_launch
      (fresh_broker demo_broker_policy 0 demo_path []) = Some (demo_running False)"
    using demo_launched [of "\<lambda>_. demo_path"]
    by (simp add: demo_launch_def demo_start_def demo_running_def demo_receipt_def)
  show ?thesis
    unfolding demo_ops_def broker_run.simps(2) run bind.bind_lunit demo_restarted
    by (simp add: demo_launch_def demo_relaunched demo_stop)
qed

theorem journal_replays_witness:
  "broker_run demo_E demo_uuid_bytes demo_codec demo_backend (\<lambda>_. demo_path) (\<lambda>_. True) demo_ops
     (fresh_broker demo_broker_policy 0 demo_path []) = Some demo_stopped
   \<and> parse_records demo_E demo_codec (lg_file (br_ledger demo_stopped)) = Inr (lg_records (br_ledger demo_stopped))"
proof -
  have "\<not> lg_poisoned (br_ledger demo_stopped)" by (simp add: demo_stopped_def demo_ledger_def)
  moreover have "transitions (lg_file (br_ledger demo_stopped)) \<le> MAX_LEDGER_TRANSITIONS"
    by (simp add: demo_stopped_def transitions_def demo_ledger_def demo_digits_def newline_def MAX_LEDGER_TRANSITIONS_def
        MAX_LEDGER_REQUESTS_def MAX_RECEIPTS_def)
  ultimately show ?thesis
    using journal_replays [OF demo_codec_ok demo_codec_strict demo_sound_ops(1) demo_run] demo_sound_ops(2) demo_run by simp
qed

theorem started_at_most_once_witness:
  "started (events demo_stopped) = [demo_request 0] \<and> distinct (started (events demo_stopped))
   \<and> demo_request 0 \<in> dom (map_of (lg_records (br_ledger demo_stopped)))"
proof -
  have "started (events demo_stopped) = [demo_request 0]" by (simp add: demo_stopped_def events_def)
  then show ?thesis
    using started_at_most_once [OF demo_codec_ok demo_codec_strict demo_sound_ops(1) demo_run] by simp
qed

theorem stops_owned_and_proved_witness:
  "StopSent (unit_name demo_E (demo_request 0)) \<in> set (events demo_stopped)
   \<and> stop_owned_in (lg_records (br_ledger demo_stopped)) (unit_name demo_E (demo_request 0))"
proof -
  have "StopSent (unit_name demo_E (demo_request 0)) \<in> set (events demo_stopped)" by (simp add: demo_stopped_def events_def)
  then show ?thesis
    using stops_owned_and_proved [OF demo_codec_ok demo_codec_strict demo_sound_ops(1) demo_run disjI1 [OF refl]] by blast
qed

end
