(* ===== verification/Spec2Isabelle.thy ===== *)
theory Spec2Isabelle
  imports Supervisor_Policy Worker_Stranding Broker_Samples
begin

text \<open>
  The watchdog daemon supervises a gateway and a worker on one machine. Everything it must remember
  over a crash is in one SQLite database (the store); on Linux its children are started by a separate
  root-owned launch broker with a journal of its own. The parts below \<^verbatim>\<open>src/crates/watchdog/src\<close>
  that are modelled, and how they interact:

  \<^item> The restart policy (\<^verbatim>\<open>policy.rs\<close>) decides from an observation of a child and the durable mode
    whether to start, stop or hold it. It is pure.
  \<^item> The store (\<^verbatim>\<open>storage_*.rs\<close>) holds the desired mode and the audit log, the job queue with its
    attempts, the components with their restarts, the launch intents, the command ledger of the
    operator, and the handoff of jobs to the worker. Every operation is one transaction.
  \<^item> The operator's commands (\<^verbatim>\<open>storage_admin/\<close>, \<^verbatim>\<open>storage_retry_admin.rs\<close>,
    \<^verbatim>\<open>storage_quarantine_admin.rs\<close>, \<^verbatim>\<open>storage_backup_admin.rs\<close>) change the mode, submit, retry and
    quarantine work and take backups, each recorded once in the command ledger.
  \<^item> The worker handoff (\<^verbatim>\<open>storage_worker_*.rs\<close>) is the durable side of the protocol with the worker:
    claim, dispatch, admission, completion, acknowledgment.
  \<^item> The bootstrap frames (\<^verbatim>\<open>worker_bootstrap/\<close>, \<^verbatim>\<open>platform/gateway_health.rs\<close>) are what a child
    reads from its standard input.
  \<^item> The launch broker (\<^verbatim>\<open>platform/linux_broker/\<close>) starts, inspects and stops units for the daemon,
    idempotently by the nonce of the request, with a journal it replays when it starts.

  \<^bold>\<open>Theories\<close>

  \<^item> \<^verbatim>\<open>Watchdog_Prelude\<close>: machine words with Rust's saturating and checked arithmetic, text guards,
    results and their chaining (\<^const>\<open>bindE\<close> is the operator \<^verbatim>\<open>?\<close>), the error type of
    \<^verbatim>\<open>error.rs\<close>, JSON values, tables as lists of rows with the contract \<^verbatim>\<open>keyed_table\<close>, and the record
    of the external functions (SHA-256, JSON text, UUID text) that the definitions take as argument.
  \<^item> \<^verbatim>\<open>Supervisor_Policy\<close>: \<^verbatim>\<open>policy.rs\<close>. \<^const>\<open>decide\<close> is \<^verbatim>\<open>SupervisorPolicy::decide\<close>; the
    lemmas give the exact condition of a start, the bounds of the backoff, and the rate and the
    aging of \<^verbatim>\<open>RestartBudget\<close>.
  \<^item> \<^verbatim>\<open>Store_Types\<close>: one row record per table of the schema, the enumerations stored as text, the
    database as a record of tables, and transactions (\<^const>\<open>with_tx\<close>: an error leaves the
    database as it was).
  \<^item> \<^verbatim>\<open>Store_Metadata\<close>, \<^verbatim>\<open>Store_Jobs\<close>, \<^verbatim>\<open>Store_Components\<close>, \<^verbatim>\<open>Store_LaunchIntents\<close>: the
    operations of \<^verbatim>\<open>storage_metadata.rs\<close>, \<^verbatim>\<open>storage_jobs.rs\<close> with \<^verbatim>\<open>storage_queries.rs\<close>,
    \<^verbatim>\<open>storage_components.rs\<close> and \<^verbatim>\<open>storage_launch_intents.rs\<close>, under the names of the source. The lemmas
    give what each operation does on every branch, that recovery after a crash succeeds, and that the
    stored restart events refine the budget of the policy.
  \<^item> \<^verbatim>\<open>Job_Lifecycle\<close> and \<^verbatim>\<open>Handoff_Lifecycle\<close>: the abstract contracts. A queue moves by four
    transitions (\<^const>\<open>queue_step\<close>), a handoff table by two (\<^const>\<open>handoff_step\<close>); both have an
    invariant and a history that every sequence of transitions keeps. The locales \<^verbatim>\<open>job_operation\<close>,
    \<^verbatim>\<open>quiet_operation\<close>, \<^verbatim>\<open>intent_operation\<close>, \<^verbatim>\<open>ledger_operation\<close> and \<^verbatim>\<open>handoff_operation\<close> say
    what an operation of the store promises; each operation interprets one of them where it is defined.
  \<^item> \<^verbatim>\<open>Operator_Ledger\<close> and \<^verbatim>\<open>Operator_Backup\<close>: the command ledger with its four admissions, and the
    authenticated backup. The lemmas show replay without a second effect, the bounds with the reserve
    for a stop, what a retry and a quarantine may touch, and that a backup is acknowledged only with a
    verified snapshot.
  \<^item> \<^verbatim>\<open>Worker_Types\<close>, \<^verbatim>\<open>Worker_Rows\<close>, \<^verbatim>\<open>Worker_Handoff\<close>: binding and control of the worker, the
    bounded reading of a handoff with its job and attempt, and the operations of the protocol.
    \<^verbatim>\<open>Worker_Protocol\<close> has their properties, \<^verbatim>\<open>Worker_Recovery\<close> and \<^verbatim>\<open>Worker_Stranding\<close> what
    quarantine does to a handoff, \<^verbatim>\<open>Worker_Samples\<close> concrete runs.
  \<^item> \<^verbatim>\<open>System_Frames\<close> and \<^verbatim>\<open>Watchdog_System\<close>: every operation of the store as a value of
    \<^typ>\<open>system_op\<close>, what each leaves alone, and the invariant \<^const>\<open>system_inv\<close> and the history
    \<^const>\<open>system_kept\<close> over every sequence of operations, in any order and with any outcome
    (\<^const>\<open>run_ops\<close>). A crash between operations is the next operation of the sequence; a crash within
    one is a transaction that did not commit.
  \<^item> \<^verbatim>\<open>Bootstrap_Frames\<close>: encoder and strict decoder of the frames, with their round trip.
  \<^item> \<^verbatim>\<open>Broker_Protocol\<close>, \<^verbatim>\<open>Broker_Ledger\<close>, \<^verbatim>\<open>Broker_Lifecycle\<close>: requests, policy and peers
    (\<^verbatim>\<open>protocol.rs\<close>, \<^verbatim>\<open>peer.rs\<close>, \<^verbatim>\<open>bootstrap.rs\<close>), the journal with its decoder and its
    transitions (\<^verbatim>\<open>ledger_records.rs\<close>, \<^verbatim>\<open>ledger_store.rs\<close>), and the broker itself
    (\<^verbatim>\<open>broker.rs\<close>) over an arbitrary backend.
  \<^item> \<^verbatim>\<open>Broker_Journal\<close>, \<^verbatim>\<open>Broker_Operations\<close>, \<^verbatim>\<open>Broker_Safety\<close>, \<^verbatim>\<open>Broker_Properties\<close>,
    \<^verbatim>\<open>Broker_Samples\<close>: that the journal replays to the records in memory, the contract
    \<^verbatim>\<open>journal_operation\<close> of a ledger transition, what holds over every run with restarts and torn
    appends (\<^const>\<open>broker_run\<close>), the properties, and concrete runs.

  This theory holds the properties of the store as a whole.

  \<^bold>\<open>Conventions and bounds\<close>

  Operations return their result and the new state. Errors are values: \<^typ>\<open>watchdog_error + 'a\<close> in the
  store, \<^typ>\<open>broker_error + 'a\<close> in the broker. Rust's \<^verbatim>\<open>u32\<close> and \<^verbatim>\<open>u64\<close> are words, SQLite's
  integers are integers with the 64-bit range written out in the guards, and bytes are characters. The clock,
  the identifiers drawn by \<^verbatim>\<open>Uuid::new_v4\<close>, the answer of the owner lock, and the answers of the
  file system and of the kernel are arguments.

  Where the code is bounded, the model has the same bound: 257, 256 and 248 rows of the command ledger
  for a stop, a lifecycle command and another mutation, the audit log with its two reserves, 128 requests
  and 512 transitions of the broker journal. The one loop of the store that may not end,
  \<^verbatim>\<open>new_uuid4_distinct\<close>, reads its draws from a list and is shown to end as soon as the list holds
  five different values. The confirmation loop of a stop polls the backend a number of times that is an
  argument and stands for its deadline; the properties hold for every number.

  Assumptions on code outside the sources are hypotheses with a name: \<^const>\<open>codec_ok\<close> and
  \<^const>\<open>codec_strict\<close> for serde_json on a journal record (a record decodes back; one that is cut short or
  followed by the beginning of another does not), and \<^const>\<open>op_proof_readable\<close> for an ownership proof
  whose text can be parsed again. Concrete functions in the sample theories satisfy them.

  \<^bold>\<open>What is not modelled\<close>

  Code whose substance is calls of the operating system or of a library: opening, creating and migrating the
  database, its locks and the backup files (the backup takes their answers as a record), the endpoints and
  clients of the administration and of the worker with their wire formats, processes, cgroups, sockets and
  the systemd backend (the broker takes them as a record of functions), the Windows parts, the
  command line, configuration files, and the tools for releases and sources. The loop of the runtime that
  connects them is not modelled either; the decisions and the operations it calls are. In the broker, a deadline
  of a backend call or between the chunks of a hashed file is not modelled, and bytes that were appended to the
  journal stay there: losing them before they are synced is not modelled.
\<close>

section \<open>Properties across components\<close>

text \<open>
  C5: Every state of the store that its operations reach from a well-formed one is well formed, whatever
  operations run in whatever order, succeed or fail: identifiers are unique, at most one attempt is
  running or unknown, every attempt belongs to a job whose status fits it, at most one handoff is open
  and its columns fit its phase, at most one launch intent per component is unsettled, the command
  ledger is numbered and bounded, the audit log is bounded and the worker control sequence is a positive
  64-bit integer.
\<close>

theorem store_invariant:
  assumes "system_inv E s"
  shows "system_inv E (run_ops E ops s)"
  using run_ops_system [OF assms] by blast

theorem store_invariant_witness:
  "system_inv externals_worker (run_ops externals_worker
     [SetControl (sample_control 2) 9, ClaimHandoff sample_claim_witness 5 sample_ids, QuarantineJobs 7]
     (sample_worker_store [sample_worker_job] [] [] []))"
  by (rule store_invariant, rule sample_system_inv(1))

text \<open>
  C6: Nothing durable is lost. After any sequence of operations every job is still there with its payload,
  and unchanged if it was completed; every settled attempt is unchanged; every handoff is there with the
  same identity, and its terminal evidence is unchanged once recorded; the command ledger and the audit
  log only grow (a ledger row may at most get a new response text); the worker binding is immutable and
  the worker control is replaced only by one with a higher sequence.
\<close>

theorem history_durable:
  assumes "system_inv E s" and "s' = run_ops E ops s"
  shows "(\<forall>j \<in> set (jobs (conn s)). \<exists>j' \<in> set (jobs (conn s')). same_job j j' \<and> (j_status j = JCompleted \<longrightarrow> j' = j))
    \<and> (\<forall>a \<in> set (attempts (conn s)). \<exists>a' \<in> set (attempts (conn s')). same_attempt a a' \<and> (\<not> unresolved a \<longrightarrow> a' = a))
    \<and> (\<forall>h \<in> set (worker_handoffs (conn s)). \<exists>h' \<in> set (worker_handoffs (conn s')). same_handoff h h'
         \<and> (handoff_is_terminal (h_state h) \<longrightarrow> handoff_is_terminal (h_state h') \<and> same_evidence h h'))
    \<and> (\<exists>new. map frozen (operator_commands (conn s')) = map frozen (operator_commands (conn s)) @ new)
    \<and> (\<exists>new. audit_log (conn s') = audit_log (conn s) @ new)
    \<and> (\<forall>b. worker_bindings (conn s) = Some b \<longrightarrow> worker_bindings (conn s') = Some b)
    \<and> (\<forall>c. worker_control (conn s) = Some c \<longrightarrow>
         (\<exists>c'. worker_control (conn s') = Some c' \<and> (c' = c \<or> w_mode_sequence c < w_mode_sequence c')))"
proof -
  have kept: "system_kept s s'" using run_ops_system [OF assms(1)] assms(2) by simp
  then have "jobs_kept (jobs (conn s)) (jobs (conn s'))" "attempts_kept (attempts (conn s)) (attempts (conn s'))"
    by (simp_all add: system_kept_def history_kept_def queue_of_def)
  moreover have "handoffs_kept (worker_handoffs (conn s)) (worker_handoffs (conn s'))"
    using kept by (simp add: system_kept_def)
  moreover have "ledger_kept (conn s) (conn s')" "audit_extends (conn s) (conn s')" "authority_kept (conn s) (conn s')"
    using kept by (simp_all add: system_kept_def)
  ultimately show ?thesis
    unfolding jobs_kept_def attempts_kept_def handoffs_kept_def ledger_kept_def audit_extends_def authority_kept_def by blast
qed

theorem history_durable_witness:
  "\<exists>h' \<in> set (worker_handoffs (conn (run_ops externals_worker [QuarantineJobs 7, MarkAdmitted sample_tuple 8] sample_dispatched))).
     same_handoff (sample_phase HMayHaveBeenDispatched (Some 6) None 6) h'"
proof -
  have "sample_phase HMayHaveBeenDispatched (Some 6) None 6 \<in> set (worker_handoffs (conn sample_dispatched))" by simp
  with history_durable [OF sample_system_inv(3) refl, of "[QuarantineJobs 7, MarkAdmitted sample_tuple 8]"] show ?thesis by blast
qed

text \<open>
  C2: Work is dispatched at most once. Once the dispatch of a handoff has been recorded, no later call
  records a dispatch of that handoff, whatever operations (restarts, quarantines, retries, completions)
  ran in between; the call fails and changes nothing.
\<close>

theorem dispatched_once:
  assumes "system_inv E s"
    and "mark_worker_handoff_may_have_been_dispatched_at E s t now_ms = (Inr w, s1)"
    and "tu_handoff_id t' = tu_handoff_id t"
  shows "\<exists>e. mark_worker_handoff_may_have_been_dispatched_at E (run_ops E ops s1) t' later = (Inl e, run_ops E ops s1)"
proof -
  let ?s = "run_ops E ops s1"
  have inv: "system_inv E s1" using run_op_system(1) [OF assms(1), of "MarkDispatched t now_ms"] assms(2) by simp
  obtain h where h: "find (\<lambda>h. h_handoff_id h = tu_handoff_id t) (worker_handoffs (conn s1)) = Some h"
    "h_state h = HMayHaveBeenDispatched"
    by (rule dispatch_recorded [OF assms(2)])
  have "mark_dispatched_tx E (max_payload_bytes ?s) t' later (conn ?s) \<noteq> Inr (u, d')" for u d'
  proof
    assume "mark_dispatched_tx E (max_payload_bytes ?s) t' later (conn ?s) = Inr (u, d')"
    then obtain r where "find (\<lambda>h. h_handoff_id h = tu_handoff_id t) (worker_handoffs (conn ?s)) = Some r" "h_state r = HPrepared"
      using assms(3) by (auto elim: mark_dispatched_tx_cases)
    from run_ops_found(1) [OF inv h(1) this(1)] this(2) h(2) show False by simp
  qed
  then show ?thesis
    by (cases "mark_dispatched_tx E (max_payload_bytes ?s) t' later (conn ?s)")
       (auto simp: mark_worker_handoff_may_have_been_dispatched_at_def bindS_def with_tx_def)
qed

theorem dispatched_once_witness:
  "\<exists>w s1 e. mark_worker_handoff_may_have_been_dispatched_at externals_worker sample_prepared sample_tuple 6 = (Inr w, s1)
    \<and> mark_worker_handoff_may_have_been_dispatched_at externals_worker (run_ops externals_worker [QuarantineJobs 9] s1) sample_tuple 10
       = (Inl e, run_ops externals_worker [QuarantineJobs 9] s1)"
  using sample_dispatch_run dispatched_once [OF sample_system_inv(2) _ refl] by blast

text \<open>
  C1: A handoff has one outcome. After an accepted completion, whatever ran in between, every accepted
  completion of the same handoff is answered as already completed with the digest of the first one, and
  changes nothing.
\<close>

theorem one_outcome:
  assumes "system_inv E s"
    and "complete_worker_handoff_with_authority_at E s t receipt authority now_ms = (Inr c, s1)"
    and "complete_worker_handoff_with_authority_at E (run_ops E ops s1) t receipt' authority' later = (Inr c', s2)"
  shows "wcp_already_completed c' \<and> wcp_terminal_digest c' = wcp_terminal_digest c \<and> s2 = run_ops E ops s1"
proof -
  have inv: "system_inv E s1"
    using run_op_system(1) [OF assms(1), of "CompleteHandoff t receipt authority now_ms"] assms(2) by simp
  obtain h where h: "find (\<lambda>h. h_handoff_id h = tu_handoff_id t) (worker_handoffs (conn s1)) = Some h"
    "handoff_is_terminal (h_state h)" "h_terminal_digest h = Some (wcp_terminal_digest c)"
    by (rule completion_recorded [OF assms(2)]) simp
  obtain h2 where h2: "find (\<lambda>h. h_handoff_id h = tu_handoff_id t) (worker_handoffs (conn s2)) = Some h2"
    "h_terminal_digest h2 = Some (wcp_terminal_digest c')"
    and same: "\<forall>h. find (\<lambda>h. h_handoff_id h = tu_handoff_id t) (worker_handoffs (conn (run_ops E ops s1))) = Some h
      \<longrightarrow> handoff_is_terminal (h_state h) \<longrightarrow> wcp_already_completed c' \<and> s2 = run_ops E ops s1"
    by (rule completion_recorded [OF assms(3)]) simp
  obtain x where "x \<in> set (worker_handoffs (conn (run_ops E ops s1)))" "same_handoff h x"
    using run_ops_handoffs [OF inv] found_handoff [OF h(1)] by blast
  then have "find (\<lambda>h. h_handoff_id h = tu_handoff_id t) (worker_handoffs (conn (run_ops E ops s1))) \<noteq> None"
    using found_handoff [OF h(1)] by (auto simp: find_None_iff same_handoff_def)
  then obtain h1 where h1: "find (\<lambda>h. h_handoff_id h = tu_handoff_id t) (worker_handoffs (conn (run_ops E ops s1))) = Some h1"
    by blast
  from run_ops_found(2) [OF inv h(1) h1 h(2)] have t: "handoff_is_terminal (h_state h1)" "same_evidence h h1" by blast+
  with same h1 have "wcp_already_completed c'" "s2 = run_ops E ops s1" by blast+
  with t h h1 h2 show ?thesis by (simp add: same_evidence_def)
qed

theorem one_outcome_witness:
  "\<exists>c s1 c'. complete_worker_handoff_with_authority_at externals_worker sample_dispatched sample_tuple (sample_receipt TCompleted)
       OriginalIncarnation 8 = (Inr c, s1)
     \<and> complete_worker_handoff_with_authority_at externals_worker (run_ops externals_worker [] s1) sample_tuple (sample_receipt TCompleted)
       OriginalIncarnation 9 = (Inr c', s1) \<and> wcp_terminal_digest c' = wcp_terminal_digest c"
proof -
  obtain c au c' where "complete_worker_handoff_with_authority_at externals_worker sample_dispatched sample_tuple
      (sample_receipt TCompleted) OriginalIncarnation 8 = (Inr c, sample_settled TCompleted au)"
    "complete_worker_handoff_with_authority_at externals_worker (run_ops externals_worker [] (sample_settled TCompleted au)) sample_tuple
      (sample_receipt TCompleted) OriginalIncarnation 9 = (Inr c', sample_settled TCompleted au)"
    using sample_complete_run sample_complete_again by (fastforce simp: run_ops_def)
  with one_outcome [OF sample_system_inv(3) this] show ?thesis by blast
qed

text \<open>
  C4: One claim at a time, across both queues. If a job was claimed, a later claim (of a job or of a worker
  handoff) succeeds only when the attempt of the first one is recorded as completed or failed.
\<close>

theorem one_claim_at_a_time:
  assumes "system_inv E s"
    and "claim_next_job E s worker_id now_ms attempt_id = (Inr (Some c), s1)"
    and "(\<exists>w n a c' s2. claim_next_job E (run_ops E ops s1) w n a = (Inr (Some c'), s2))
         \<or> (\<exists>witness n ids h s2. claim_next_worker_handoff E (run_ops E ops s1) witness n ids = (Inr (Some h), s2))"
  shows "\<exists>a \<in> set (attempts (conn (run_ops E ops s1))). a_id a = attempt_id \<and> a_job_id a = jr_id (jc_job c)
     \<and> a_status a \<in> {ACompleted, AFailed}"
proof -
  have inv: "system_inv E s1" using run_op_system(1) [OF assms(1), of "ClaimJob worker_id now_ms attempt_id"] assms(2) by simp
  obtain a where a: "a \<in> set (attempts (conn s1))" "a_id a = attempt_id" "a_job_id a = jr_id (jc_job c)"
    by (rule claimed_attempt [OF assms(1,2)])
  show ?thesis by (rule claims_settle [OF inv a(1) assms(3)]) (use a in auto)
qed

theorem one_claim_at_a_time_witness:
  "\<exists>s1. \<exists>a \<in> set (attempts (conn (run_ops externals_sample [FailJob ''job'' ''attempt'' ''error'' (Some 7) 6] s1))).
     a_id a = ''attempt'' \<and> a_status a \<in> {ACompleted, AFailed}"
  using sample_reclaim_run one_claim_at_a_time [OF sample_queued_inv] by blast

text \<open>
  C31: A quarantine that is accepted for a running attempt records it as unknown and its job as quarantined with
  the operator's reason. From then on, whatever operations run, neither queue hands out work until
  that very attempt is recorded as completed or failed: a claim of a job or of a worker handoff that
  succeeds finds it settled.
\<close>

theorem quarantine_blocks_claims:
  assumes inv: "system_inv E s"
    and run: "admit_operator_quarantine E owner s ctx attempt_id reason response now_ms = (Inr (Accepted receipt), s')"
    and running: "\<exists>a \<in> set (attempts (conn s)). a_id a = attempt_id \<and> a_status a = ARunning"
  shows "(\<exists>a \<in> set (attempts (conn s')). a_id a = attempt_id \<and> a_status a = AUnknown
            \<and> (\<exists>j \<in> set (jobs (conn s')). j_id j = a_job_id a \<and> j_status j = JQuarantined \<and> j_last_error j = Some reason))
    \<and> (\<forall>ops. (\<exists>w n i c s2. claim_next_job E (run_ops E ops s') w n i = (Inr (Some c), s2))
          \<or> (\<exists>witness n ids h s2. claim_next_worker_handoff E (run_ops E ops s') witness n ids = (Inr (Some h), s2)) \<longrightarrow>
         (\<exists>a \<in> set (attempts (conn (run_ops E ops s'))). a_id a = attempt_id \<and> a_status a \<in> {ACompleted, AFailed}))"
proof -
  have inv': "system_inv E s'"
    using run_op_system(1) [OF inv, of "OperatorQuarantine owner ctx attempt_id reason response now_ms"] run by simp
  have "queue_inv E (queue_of (conn s))" using inv by (simp add: system_inv_def)
  note quarantined = quarantine_recorded [OF this run running]
  then obtain a where a: "a \<in> set (attempts (conn s'))" "a_id a = attempt_id" by blast
  show ?thesis
  proof (intro conjI allI impI)
    fix ops
    assume claims: "(\<exists>w n i c s2. claim_next_job E (run_ops E ops s') w n i = (Inr (Some c), s2))
          \<or> (\<exists>witness n ids h s2. claim_next_worker_handoff E (run_ops E ops s') witness n ids = (Inr (Some h), s2))"
    show "\<exists>a \<in> set (attempts (conn (run_ops E ops s'))). a_id a = attempt_id \<and> a_status a \<in> {ACompleted, AFailed}"
      by (rule claims_settle [OF inv' a(1) claims]) (use a(2) in auto)
  qed (rule quarantined)
qed

theorem quarantine_blocks_claims_witness:
  "\<exists>receipt s'. admit_operator_quarantine externals_sample (Inr ()) sample_running sample_context ''attempt'' ''why'' (JString ''ok'') 5
        = (Inr (Accepted receipt), s')
     \<and> (\<exists>a \<in> set (attempts (conn s')). a_id a = ''attempt'' \<and> a_status a = AUnknown)
     \<and> (\<forall>c s2. claim_next_job externals_sample (run_ops externals_sample [] s') ''worker'' 8 ''second'' \<noteq> (Inr (Some c), s2))"
proof -
  obtain receipt s' where run: "admit_operator_quarantine externals_sample (Inr ()) sample_running sample_context ''attempt'' ''why''
      (JString ''ok'') 5 = (Inr (Accepted receipt), s')"
    using sample_quarantine_run by blast
  have "\<exists>a \<in> set (attempts (conn sample_running)). a_id a = ''attempt'' \<and> a_status a = ARunning" by (simp add: sample_running_def)
  note blocked = quarantine_blocks_claims [OF sample_running_system run this]
  have "queue_inv externals_sample (queue_of (conn s'))" by (rule quarantine.keeps_queue_inv [OF sample_running_inv run])
  note ids = queue_inv_distinct(2) [OF this]
  from blocked obtain a where a: "a \<in> set (attempts (conn s'))" "a_id a = ''attempt''" "a_status a = AUnknown" by blast
  have "\<not> (\<exists>b \<in> set (attempts (conn s')). a_id b = ''attempt'' \<and> a_status b \<in> {ACompleted, AFailed})"
    using key_unique [OF ids a(1)] a(2,3) by fastforce
  then have settled: "\<not> (\<exists>b \<in> set (attempts (conn (run_ops externals_sample [] s'))). a_id b = ''attempt'' \<and> a_status b \<in> {ACompleted, AFailed})"
    by (simp add: run_ops_def)
  have "claim_next_job externals_sample (run_ops externals_sample [] s') ''worker'' 8 ''second'' \<noteq> (Inr (Some c), s2)" for c s2
    using conjunct2 [OF blocked, rule_format, of "[]"] settled by blast
  then show ?thesis using run a by blast
qed

text \<open>
  C39: Interrupted work is quarantined with the time of the wall clock as its finish. If that clock was set
  back before the attempt's start, the worker's handoff is stranded for good: after any further operations
  of the store every completion of it is refused, whatever receipt or authority is presented, the
  attempt is still unknown, and neither queue hands out any work.
\<close>

theorem clock_rollback_strands_handoff:
  assumes inv: "system_inv E s" and run: "quarantine_interrupted_jobs s now_ms = (Inr n, s')"
    and a: "a \<in> set (attempts (conn s))" "a_status a = ARunning"
    and rollback: "uint now_ms < a_started_at_ms a" "a_started_at_ms a \<le> i64_max"
    and h: "h \<in> set (worker_handoffs (conn s))" "h_attempt_id h = a_id a" "tu_handoff_id t = h_handoff_id h"
    and later: "s'' = run_ops E ops s'"
  shows "(\<exists>e. complete_worker_handoff_with_authority_at E s'' t receipt authority at_ms = (Inl e, s''))
    \<and> (\<exists>b \<in> set (attempts (conn s'')). a_id b = a_id a \<and> a_status b = AUnknown)
    \<and> (\<forall>found s2. claim_next_job E s'' worker_id at_ms new_id = (Inr found, s2) \<longrightarrow> found = None)
    \<and> (\<forall>found s2. claim_next_worker_handoff E s'' witness at_ms ids = (Inr found, s2) \<longrightarrow> found = None)"
proof -
  obtain b where b: "stranded s' (tu_handoff_id t) b" "a_id b = a_id a"
    by (rule rollback_strands [OF inv run a rollback h(1,2)]) (simp add: h(3))
  have inv': "system_inv E s'" using run_op_system(1) [OF inv, of "QuarantineJobs now_ms"] run by simp
  have st: "stranded s'' (tu_handoff_id t) b" unfolding later by (rule run_ops_stranded [OF inv' b(1)])
  then have mem: "b \<in> set (attempts (conn s''))" "a_status b = AUnknown" by (simp_all add: stranded_def)
  then have "\<not> (\<forall>x \<in> set (attempts (conn s'')). \<not> unresolved x)" by (auto simp: unresolved_def)
  then have "fst (claim_next_job E s'' worker_id at_ms new_id) \<noteq> Inr (Some c)"
    "fst (claim_next_worker_handoff E s'' witness at_ms ids) \<noteq> Inr (Some x)" for c x
    using claims_need_settled(1) [of E s'' worker_id at_ms new_id c] claims_need_settled(2) [of E s'' witness at_ms ids x]
    by (metis prod.collapse)+
  then have "\<forall>found s2. claim_next_job E s'' worker_id at_ms new_id = (Inr found, s2) \<longrightarrow> found = None"
    "\<forall>found s2. claim_next_worker_handoff E s'' witness at_ms ids = (Inr found, s2) \<longrightarrow> found = None"
    by (metis fst_conv option.exhaust)+
  moreover have "system_inv E s''" unfolding later using run_ops_system [OF inv'] by blast
  ultimately show ?thesis using stranded_completion [OF _ st] mem b(2) by blast
qed

theorem clock_rollback_strands_handoff_witness:
  "\<exists>n s' e. quarantine_interrupted_jobs sample_dispatched 2 = (Inr n, s')
     \<and> complete_worker_handoff_with_authority_at externals_worker (run_ops externals_worker [SetControl (sample_control 2) 9] s')
         sample_tuple (sample_receipt TCompleted) (CurrentRecovery (sample_control 1)) 10
       = (Inl e, run_ops externals_worker [SetControl (sample_control 2) 9] s')"
proof -
  obtain n s' where run: "quarantine_interrupted_jobs sample_dispatched 2 = (Inr n, s')" using sample_rollback_run by blast
  let ?h = "sample_phase HMayHaveBeenDispatched (Some 6) None 6"
  have a: "sample_attempt \<in> set (attempts (conn sample_dispatched))" "a_status sample_attempt = ARunning"
    "uint (2 :: u64) < a_started_at_ms sample_attempt" "a_started_at_ms sample_attempt \<le> i64_max"
    by (simp_all add: sample_attempt_def running_attempt_def i64_max_def)
  have h: "?h \<in> set (worker_handoffs (conn sample_dispatched))" by simp
  have ids: "h_attempt_id ?h = a_id sample_attempt" "tu_handoff_id sample_tuple = h_handoff_id ?h"
    by (simp_all add: sample_phase_def sample_handoff_def sample_ids_def)
  from clock_rollback_strands_handoff [OF sample_system_inv(3) run a h ids refl] run show ?thesis by blast
qed

end
